(* ===== verification/Prelude.thy ===== *)
theory Prelude
  imports Main "HOL-Library.Word"
begin

text \<open>
  The vocabulary every theory of the library shares: Go errors and outcomes, byte strings,
  the values a chain of functional options leaves behind, and the generic lemmas on lists
  and strings the components use.

  An \<^emph>\<open>outcome\<close> is what a Go call produces: a result with a nil error (\<open>Ret\<close>), a
  non-nil error (\<open>Err\<close>) or a run-time panic (\<open>Panic\<close>).  Error texts are kept up to their
  constant part: \<open>errors.New("t")\<close> and \<open>fmt.Errorf("t: ...", args)\<close> are \<open>Msg\<close>, and
  \<open>fmt.Errorf("t: %w", err)\<close> is \<open>Wrap\<close>, which keeps the wrapped error.
\<close>

named_theorems outcome_simps \<open>how outcomes are sequenced\<close>
named_theorems go_simps \<open>how stateful Go steps are sequenced\<close>

section \<open>Errors and outcomes\<close>

datatype goerr =
    Msg string
  | Wrap string goerr
  | Wrap2 goerr goerr
  | ProviderNotFoundError string
  | StatusError nat
  | ErrorTokenResponse string string string

text \<open>\<open>errors.Is(err, target)\<close> walks the tree of wrapped errors.\<close>

primrec errors_Is :: "goerr \<Rightarrow> goerr \<Rightarrow> bool" where
  "errors_Is (Msg s) t = (Msg s = t)"
| "errors_Is (Wrap s e) t = (Wrap s e = t \<or> errors_Is e t)"
| "errors_Is (Wrap2 a b) t = (Wrap2 a b = t \<or> errors_Is a t \<or> errors_Is b t)"
| "errors_Is (ProviderNotFoundError r) t = (ProviderNotFoundError r = t)"
| "errors_Is (StatusError n) t = (StatusError n = t)"
| "errors_Is (ErrorTokenResponse c d u) t = (ErrorTokenResponse c d u = t)"

datatype 'a outcome = Ret 'a | Err goerr | Panic string

primrec and_then :: "'a outcome \<Rightarrow> ('a \<Rightarrow> 'b outcome) \<Rightarrow> 'b outcome" where
  "and_then (Ret a) f = f a"
| "and_then (Err e) f = Err e"
| "and_then (Panic p) f = Panic p"

primrec wrap_outcome :: "string \<Rightarrow> 'a outcome \<Rightarrow> 'a outcome" where
  "wrap_outcome s (Ret a) = Ret a"
| "wrap_outcome s (Err e) = Err (Wrap s e)"
| "wrap_outcome s (Panic p) = Panic p"

definition is_panic :: "'a outcome \<Rightarrow> bool" where
  "is_panic x = (case x of Panic _ \<Rightarrow> True | _ \<Rightarrow> False)"

definition is_ret :: "'a outcome \<Rightarrow> bool" where
  "is_ret x = (case x of Ret _ \<Rightarrow> True | _ \<Rightarrow> False)"

lemma is_panic_simps [simp]:
  "is_panic (Panic p)" "\<not> is_panic (Ret a)" "\<not> is_panic (Err e)"
  by (simp_all add: is_panic_def)

lemma is_ret_simps [simp]:
  "is_ret (Ret a)" "\<not> is_ret (Err e)" "\<not> is_ret (Panic p)"
  by (simp_all add: is_ret_def)

lemma is_ret_iff: "is_ret x \<longleftrightarrow> (\<exists>a. x = Ret a)"
  by (cases x) auto

lemma and_then_Ret_iff [outcome_simps]:
  "and_then x f = Ret b \<longleftrightarrow> (\<exists>a. x = Ret a \<and> f a = Ret b)"
  by (cases x) auto

lemma wrap_outcome_Ret_iff [simp]: "wrap_outcome s x = Ret a \<longleftrightarrow> x = Ret a"
  by (cases x) auto

lemma is_panic_wrap_outcome [simp]: "is_panic (wrap_outcome s x) = is_panic x"
  by (cases x) auto

lemma and_then_not_panic:
  "\<not> is_panic x \<Longrightarrow> (\<And>a. x = Ret a \<Longrightarrow> \<not> is_panic (f a)) \<Longrightarrow> \<not> is_panic (and_then x f)"
  by (cases x) auto

section \<open>Sequencing stateful calls\<close>

text \<open>A stateful call takes the state to an outcome and a new state; after an error or a panic nothing
  more runs.\<close>

type_synonym ('s, 'a) step = "'s \<Rightarrow> 'a outcome \<times> 's"

definition go_lift :: "'a outcome \<Rightarrow> ('s, 'a) step" where
  "go_lift x w = (x, w)"

definition go_then :: "('s, 'a) step \<Rightarrow> ('a \<Rightarrow> ('s, 'b) step) \<Rightarrow> ('s, 'b) step" where
  "go_then m f w = (case m w of
       (Ret a, w') \<Rightarrow> f a w'
     | (Err e, w') \<Rightarrow> (Err e, w')
     | (Panic p, w') \<Rightarrow> (Panic p, w'))"

definition go_wrap :: "string \<Rightarrow> ('s, 'a) step \<Rightarrow> ('s, 'a) step" where
  "go_wrap s m w = (case m w of (x, w') \<Rightarrow> (wrap_outcome s x, w'))"

abbreviation go_ret :: "'a \<Rightarrow> ('s, 'a) step" where "go_ret a \<equiv> go_lift (Ret a)"
abbreviation go_err :: "goerr \<Rightarrow> ('s, 'a) step" where "go_err e \<equiv> go_lift (Err e)"
abbreviation go_panic :: "string \<Rightarrow> ('s, 'a) step" where "go_panic p \<equiv> go_lift (Panic p)"

lemma go_lift_apply [simp]: "go_lift x w = (x, w)"
  by (simp add: go_lift_def)

lemma go_lift_fun: "go_lift x = (\<lambda>w. (x, w))"
  by (simp add: fun_eq_iff)

lemma go_wrap_lift [simp]: "go_wrap s (go_lift x) = go_lift (wrap_outcome s x)"
  by (simp add: fun_eq_iff go_wrap_def)

lemma go_wrap_Pair [simp]: "go_wrap s (Pair x) = Pair (wrap_outcome s x)"
  by (simp add: fun_eq_iff go_wrap_def)

lemma go_then_lift [simp]:
  "go_then (go_lift (Ret a)) f = f a"
  "go_then (go_lift (Err e)) f = go_lift (Err e)"
  "go_then (go_lift (Panic p)) f = go_lift (Panic p)"
  by (simp_all add: go_then_def fun_eq_iff)

lemma go_then_step [go_simps]:
  "m w = (Ret a, w') \<Longrightarrow> go_then m f w = f a w'"
  "m w = (Err e, w') \<Longrightarrow> go_then m f w = (Err e, w')"
  "m w = (Panic p, w') \<Longrightarrow> go_then m f w = (Panic p, w')"
  by (simp_all add: go_then_def)

lemma go_then_Ret_iff [go_simps]:
  "go_then m f w = (Ret b, w2) \<longleftrightarrow> (\<exists>a w1. m w = (Ret a, w1) \<and> f a w1 = (Ret b, w2))"
  by (auto simp: go_then_def split: prod.splits outcome.splits)

lemma go_then_RetE:
  assumes "go_then m f w = (Ret b, w2)"
  obtains a w1 where "m w = (Ret a, w1)" "f a w1 = (Ret b, w2)"
  using assms by (auto simp: go_then_Ret_iff)

lemma go_wrap_Ret_iff [simp]: "go_wrap s m w = (Ret a, w') \<longleftrightarrow> m w = (Ret a, w')"
  by (auto simp: go_wrap_def split: prod.splits)

lemma go_wrap_step [go_simps]: "m w = (x, w') \<Longrightarrow> go_wrap s m w = (wrap_outcome s x, w')"
  by (simp add: go_wrap_def)

lemma go_then_assoc: "go_then (go_then m f) g = go_then m (\<lambda>a. go_then (f a) g)"
  by (auto simp: go_then_def fun_eq_iff split: prod.splits outcome.splits)

lemma go_then_no_panic:
  assumes "\<not> is_panic (fst (m w))"
    and "\<And>a w'. m w = (Ret a, w') \<Longrightarrow> \<not> is_panic (fst (f a w'))"
  shows "\<not> is_panic (fst (go_then m f w))"
  using assms by (auto simp: go_then_def split: prod.splits outcome.splits)

lemma go_then_panic_iff:
  "is_panic (fst (go_then m f w)) \<longleftrightarrow>
     is_panic (fst (m w)) \<or> (\<exists>a w'. m w = (Ret a, w') \<and> is_panic (fst (f a w')))"
  by (auto simp: go_then_def split: prod.splits outcome.splits)

lemma go_wrap_no_panic: "is_panic (fst (go_wrap s m w)) = is_panic (fst (m w))"
  by (auto simp: go_wrap_def split: prod.splits)

text \<open>A relation every run of a step respects between its first and last state.\<close>

definition stays :: "('s \<Rightarrow> 's \<Rightarrow> bool) \<Rightarrow> ('s, 'a) step \<Rightarrow> bool" where
  "stays R m \<longleftrightarrow> (\<forall>s. R s (snd (m s)))"

lemma staysD: "stays R m \<Longrightarrow> m s = (x, s') \<Longrightarrow> R s s'"
  unfolding stays_def by (metis snd_conv)

lemma stays_lift: "reflp R \<Longrightarrow> stays R (go_lift x)"
  by (simp add: stays_def reflp_def)

lemma stays_read: "reflp R \<Longrightarrow> stays R (\<lambda>s. (f s, s))"
  by (simp add: stays_def reflp_def)

lemma stays_wrap: "stays R m \<Longrightarrow> stays R (go_wrap e m)"
  unfolding stays_def go_wrap_def by (auto split: prod.splits) (metis snd_conv)

lemma stays_then:
  assumes "transp R" "stays R m" "\<And>a. stays R (f a)"
  shows "stays R (go_then m f)"
  unfolding stays_def
proof
  fix s
  obtain x s1 where m: "m s = (x, s1)" by fastforce
  with assms(2) have 1: "R s s1" by (rule staysD)
  show "R s (snd (go_then m f s))"
  proof (cases x)
    case (Ret a)
    have "R s1 (snd (f a s1))" using assms(3) by (simp add: stays_def)
    with 1 Ret m show ?thesis using assms(1) by (auto simp: go_then_def dest: transpD)
  qed (use 1 m in \<open>simp_all add: go_then_def\<close>)
qed

section \<open>Bytes and strings\<close>

text \<open>A Go string is a sequence of bytes; \<open>[]byte(s)\<close> and \<open>string(b)\<close> convert.\<close>

type_synonym bytes = "8 word list"

definition bytes_of :: "string \<Rightarrow> bytes" where
  "bytes_of s = map (\<lambda>c. word_of_nat (of_char c)) s"

definition string_of :: "bytes \<Rightarrow> string" where
  "string_of b = map (\<lambda>w. char_of (unat w)) b"

lemma unat_of_char_word: "unat (word_of_nat (of_char c) :: 8 word) = (of_char c :: nat)"
proof -
  have "(of_char c :: nat) < 256" by (rule nat_of_char_less_256)
  then show ?thesis by (simp add: unat_of_nat take_bit_eq_mod)
qed

lemma string_of_bytes_of [simp]: "string_of (bytes_of s) = s"
  by (simp add: string_of_def bytes_of_def comp_def unat_of_char_word)

lemma bytes_of_string_of [simp]: "bytes_of (string_of b) = b"
proof -
  have "word_of_nat (of_char (char_of (unat w) :: char)) = w" for w :: "8 word"
  proof -
    have "unat w < 256" using unsigned_less [of w, where ?'a = nat] by simp
    then have "(of_char (char_of (unat w) :: char) :: nat) = unat w" by simp
    then show ?thesis by (simp del: of_char_of)
  qed
  then show ?thesis by (simp add: bytes_of_def string_of_def comp_def)
qed

lemma length_bytes_of [simp]: "length (bytes_of s) = length s"
  by (simp add: bytes_of_def)

lemma bytes_of_append [simp]: "bytes_of (s @ t) = bytes_of s @ bytes_of t"
  by (simp add: bytes_of_def)

lemma bytes_of_inj [simp]: "bytes_of s = bytes_of t \<longleftrightarrow> s = t"
  by (metis string_of_bytes_of)

section \<open>String operations of the Go standard library\<close>

text \<open>\<open>strings.HasPrefix\<close> and \<open>strings.TrimSuffix\<close>.\<close>

definition HasPrefix :: "'a list \<Rightarrow> 'a list \<Rightarrow> bool" where
  "HasPrefix s p = (take (length p) s = p)"

definition TrimSuffix :: "'a list \<Rightarrow> 'a list \<Rightarrow> 'a list" where
  "TrimSuffix s t =
     (if length t \<le> length s \<and> drop (length s - length t) s = t
      then take (length s - length t) s else s)"

lemma HasPrefix_append [simp]: "HasPrefix (p @ s) p"
  by (simp add: HasPrefix_def)

lemma HasPrefix_iff: "HasPrefix s p \<longleftrightarrow> (\<exists>t. s = p @ t)"
  by (metis HasPrefix_def append_eq_conv_conj append_take_drop_id)

lemma TrimSuffix_append [simp]: "TrimSuffix (s @ t) t = s"
  by (simp add: TrimSuffix_def)

text \<open>\<open>strings.SplitN(s, sep, 2)\<close> for a non-empty separator: the text before the first
  occurrence of the separator and the text after it, if there is one.\<close>

fun cut :: "'a list \<Rightarrow> 'a list \<Rightarrow> ('a list \<times> 'a list) option" where
  "cut sep [] = (if sep = [] then Some ([], []) else None)"
| "cut sep (c # s) =
     (if HasPrefix (c # s) sep then Some ([], drop (length sep) (c # s))
      else map_option (\<lambda>(a, b). (c # a, b)) (cut sep s))"

lemma cut_Some: "cut sep s = Some (a, b) \<Longrightarrow> s = a @ sep @ b"
proof (induction sep s arbitrary: a b rule: cut.induct)
  case (1 sep)
  then show ?case by (auto split: if_splits)
next
  case (2 sep c s)
  then show ?case
    by (auto simp: HasPrefix_def split: if_splits) (metis append_take_drop_id)
qed

lemma cut_eq_None_iff:
  "sep \<noteq> [] \<Longrightarrow> cut sep s = None \<longleftrightarrow> (\<nexists>a b. s = a @ sep @ b)"
proof (induction sep s rule: cut.induct)
  case (1 sep)
  then show ?case by simp
next
  case (2 sep c s)
  show ?case
  proof (cases "HasPrefix (c # s) sep")
    case True
    then obtain t where "c # s = sep @ t" by (auto simp: HasPrefix_iff)
    then have "\<exists>a b. c # s = a @ sep @ b" by (metis append_Nil)
    with True show ?thesis by simp
  next
    case False
    then have "(\<exists>a b. c # s = a @ sep @ b) \<longleftrightarrow> (\<exists>a b. s = a @ sep @ b)"
      by (auto simp: HasPrefix_iff Cons_eq_append_conv)
    with False 2 show ?thesis by simp
  qed
qed

text \<open>\<open>strings.Split(s, sep)\<close> for a one-element separator.\<close>

fun split_on :: "'a \<Rightarrow> 'a list \<Rightarrow> 'a list list" where
  "split_on x [] = [[]]"
| "split_on x (c # s) =
     (if c = x then [] # split_on x s
      else (case split_on x s of [] \<Rightarrow> [[c]] | p # ps \<Rightarrow> (c # p) # ps))"

lemma split_on_nonempty [simp]: "split_on x s \<noteq> []"
  by (induction s) (auto split: list.splits)

lemma split_on_none [simp]: "x \<notin> set s \<Longrightarrow> split_on x s = [s]"
  by (induction s) auto

lemma split_on_append:
  "x \<notin> set s \<Longrightarrow> split_on x (s @ x # t) = s # split_on x t"
  by (induction s) (auto split: list.splits)

lemma split_on_append_all: "split_on x (s @ x # t) = split_on x s @ split_on x t"
  by (induction s) (auto split: list.splits)

lemma split_on_no_sep: "c \<in> set (split_on x s) \<Longrightarrow> x \<notin> set c"
  by (induction s arbitrary: c) (auto split: if_splits list.splits)

section \<open>What a chain of functional options leaves behind\<close>

text \<open>
  Every loop \<open>for _, opt := range opts { opt.ApplyX(&x); opt.ApplyY(&y) }\<close> updates
  independent variables; \<open>fold_pair\<close> and \<open>fold_triple\<close> split such a loop into one
  fold per variable.  \<open>last_set\<close> is the last value an option list sets.
\<close>

lemma fold_pair:
  "fold (\<lambda>x (a, b). (f x a, g x b)) xs (a, b) = (fold f xs a, fold g xs b)"
  by (induction xs arbitrary: a b) auto

lemma fold_triple:
  "fold (\<lambda>x (a, b, c). (f x a, g x b, h x c)) xs (a, b, c) = (fold f xs a, fold g xs b, fold h xs c)"
  by (induction xs arbitrary: a b c) auto

primrec last_set :: "('o \<Rightarrow> 'v option) \<Rightarrow> 'o list \<Rightarrow> 'v option" where
  "last_set f [] = None"
| "last_set f (x # xs) = (case last_set f xs of None \<Rightarrow> f x | Some v \<Rightarrow> Some v)"

lemma last_set_append:
  "last_set f (xs @ ys) = (case last_set f ys of None \<Rightarrow> last_set f xs | Some v \<Rightarrow> Some v)"
  by (induction xs) (auto split: option.splits)

lemma last_set_None_iff: "last_set f xs = None \<longleftrightarrow> (\<forall>x \<in> set xs. f x = None)"
  by (induction xs) (auto split: option.splits)

lemma last_set_Some_in: "last_set f xs = Some v \<Longrightarrow> \<exists>x \<in> set xs. f x = Some v"
  by (induction xs) (auto split: option.splits)

text \<open>
  The contract of an option's \<open>Apply\<close> method: it either leaves the variable alone or
  overwrites it with the value the option carries.
\<close>

locale setter_option =
  fixes apply_opt :: "'o \<Rightarrow> 'v \<Rightarrow> 'v"
    and carries :: "'o \<Rightarrow> 'v option"
  assumes apply_carries: "apply_opt opt v = (case carries opt of None \<Rightarrow> v | Some x \<Rightarrow> x)"
begin

lemma fold_last: "fold apply_opt opts v = (case last_set carries opts of None \<Rightarrow> v | Some x \<Rightarrow> x)"
  by (induction opts arbitrary: v) (auto simp: apply_carries split: option.splits)

lemma fold_unset: "(\<And>opt. opt \<in> set opts \<Longrightarrow> carries opt = None) \<Longrightarrow> fold apply_opt opts v = v"
  by (simp add: fold_last last_set_None_iff [THEN iffD2])

lemma fold_override: "carries opt = Some x \<Longrightarrow> fold apply_opt (opts @ [opt]) v = x"
  by (simp add: apply_carries)

lemma fold_idem: "fold apply_opt opts (fold apply_opt opts v) = fold apply_opt opts v"
  by (simp add: fold_last split: option.splits)

end

section \<open>Membership loops\<close>

text \<open>The loop \<open>for _, x := range xs { if p(x) { return x } }\<close>.\<close>

lemma find_Some_mem: "find p xs = Some x \<Longrightarrow> x \<in> set xs \<and> p x"
  by (auto simp: find_Some_iff in_set_conv_nth)

lemma find_distinct_map:
  "distinct (map k xs) \<Longrightarrow> x \<in> set xs \<Longrightarrow> find (\<lambda>y. k y = k x) xs = Some x"
  by (induction xs) (auto simp: rev_image_eqI)

end
