(* ===== verification/CryptoLib.thy ===== *)
theory CryptoLib
  imports Prelude
begin

text \<open>
  The cryptographic vocabulary of \<open>pkg/signature\<close>: hash identifiers (\<open>crypto.Hash\<close>), keys
  (\<open>crypto.PublicKey\<close>, \<open>crypto.PrivateKey\<close> and the concrete key types) and the primitives
  of Go's crypto packages.  The primitives are a parameter of the model, a record of functions
  of type \<open>crypto_lib\<close>; what the code relies on is stated by the named predicates
  \<open>hash_laws\<close>, \<open>ecdsa_laws\<close>, \<open>rsa_laws\<close> and \<open>ed25519_laws\<close>, which are the documented
  contracts of those packages.  \<open>ref_lib\<close> is a concrete function for every primitive that
  satisfies them all; witnesses evaluate on it.
\<close>

section \<open>Hash identifiers\<close>

type_synonym hash = nat

abbreviation NoHash :: hash where "NoHash \<equiv> 0"
abbreviation SHA1 :: hash where "SHA1 \<equiv> 3"
abbreviation SHA224 :: hash where "SHA224 \<equiv> 4"
abbreviation SHA256 :: hash where "SHA256 \<equiv> 5"
abbreviation SHA384 :: hash where "SHA384 \<equiv> 6"
abbreviation SHA512 :: hash where "SHA512 \<equiv> 7"

text \<open>\<open>crypto.Hash\<close> values run from 1 to \<open>maxHash - 1 = 19\<close>; these are their digest sizes.\<close>

definition digest_sizes :: "nat list" where
  "digest_sizes = [16, 16, 20, 28, 32, 48, 64, 36, 20, 28, 32, 48, 64, 28, 32, 32, 32, 48, 64]"

text \<open>\<open>Hash.Size\<close> panics on a value that is no hash.\<close>

definition hash_Size :: "hash \<Rightarrow> nat outcome" where
  "hash_Size h = (if 0 < h \<and> h < 20 then Ret (digest_sizes ! (h - 1))
                  else Panic ''crypto: Size of unknown hash function'')"

lemma hash_Size_known [simp]:
  "hash_Size SHA1 = Ret 20" "hash_Size SHA224 = Ret 28" "hash_Size SHA256 = Ret 32"
  "hash_Size SHA384 = Ret 48" "hash_Size SHA512 = Ret 64"
  by (simp_all add: hash_Size_def digest_sizes_def)

text \<open>\<open>crypto.SignerOpts\<close>: the code only ever asks it for its hash function.\<close>

datatype signer_opts = SignerOpts (HashFunc: hash)

section \<open>Keys\<close>

datatype curve = P224 | P256 | P384 | P521 | CustomCurve nat

record ecdsa_pub =
  ecdsa_Curve :: curve
  ecdsa_X :: int
  ecdsa_Y :: int

record ecdsa_priv =
  ecdsa_PublicKey :: ecdsa_pub
  ecdsa_D :: int

record rsa_pub =
  rsa_N :: nat
  rsa_E :: nat

record rsa_priv =
  rsa_PublicKey :: rsa_pub
  rsa_D :: nat

record PSSOptions =
  SaltLength :: int
  PSSHash :: hash

text \<open>\<open>big.Int.BitLen\<close> and \<open>rsa.PublicKey.Size\<close> (the modulus in bytes).\<close>

fun bit_len :: "nat \<Rightarrow> nat" where
  "bit_len n = (if n = 0 then 0 else Suc (bit_len (n div 2)))"

declare bit_len.simps [simp del]

definition rsa_Size :: "rsa_pub \<Rightarrow> nat" where
  "rsa_Size k = (bit_len (rsa_N k) + 7) div 8"

lemma bit_len_0 [simp]: "bit_len 0 = 0"
  by (simp add: bit_len.simps)

lemma bit_len_power [simp]: "bit_len (2 ^ k) = Suc k"
  by (induction k) (simp_all add: bit_len.simps)

lemma bit_len_le_iff: "bit_len n \<le> k \<longleftrightarrow> n < 2 ^ k"
proof (induction n arbitrary: k rule: bit_len.induct)
  case (1 n)
  show ?case
  proof (cases "n = 0")
    case False
    then show ?thesis
    proof (cases k)
      case 0
      with False show ?thesis by (simp add: bit_len.simps [of n])
    next
      case (Suc j)
      have "n div 2 < 2 ^ j \<longleftrightarrow> n < 2 ^ Suc j" by (simp add: div_less_iff_less_mult mult.commute)
      with False Suc 1 [OF False, of j] show ?thesis by (simp add: bit_len.simps [of n])
    qed
  qed simp
qed

text \<open>
  \<open>crypto.PublicKey\<close> and \<open>crypto.PrivateKey\<close> are empty interfaces.  A pointer type may hold
  nil (\<open>None\<close>), so may a slice type; \<open>Nil_public\<close> is the nil interface and \<open>Other_public\<close> a value
  of any other dynamic type.
\<close>

datatype public_key =
    Rsa_public "rsa_pub option"
  | Ecdsa_public "ecdsa_pub option"
  | Ed25519_public "bytes option"
  | Other_public nat
  | Nil_public

datatype private_key =
    Rsa_private "rsa_priv option"
  | Ecdsa_private "ecdsa_priv option"
  | Ed25519_private "bytes option"
  | Other_private nat
  | Nil_private

text \<open>
  \<open>ed25519.PrivateKey.Public\<close> copies \<open>priv[32:]\<close> into a 32-byte slice: the slice expression
  panics on a shorter key, and a key of the wrong length is padded with zeros or cut.
\<close>

definition ed25519_Public :: "bytes \<Rightarrow> bytes outcome" where
  "ed25519_Public priv =
     (if length priv < 32 then Panic ''slice bounds out of range''
      else Ret (take 32 (drop 32 priv @ replicate 32 0)))"

lemma ed25519_Public_length: "ed25519_Public priv = Ret p \<Longrightarrow> length p = 32"
  by (auto simp: ed25519_Public_def split: if_splits)

lemma ed25519_Public_64: "length priv = 64 \<Longrightarrow> ed25519_Public priv = Ret (drop 32 priv)"
  by (simp add: ed25519_Public_def)

section \<open>The crypto packages as a parameter\<close>

datatype rand = CryptoRand | UserRand nat

record crypto_lib =
  hash_linked :: "hash \<Rightarrow> bool"
  hash_sum :: "hash \<Rightarrow> bytes \<Rightarrow> bytes"
  ecdsa_SignASN1 :: "rand \<Rightarrow> ecdsa_priv \<Rightarrow> bytes \<Rightarrow> bytes outcome"
  ecdsa_VerifyASN1 :: "ecdsa_pub \<Rightarrow> bytes \<Rightarrow> bytes \<Rightarrow> bool"
  ecdsa_Verify :: "ecdsa_pub \<Rightarrow> bytes \<Rightarrow> nat \<Rightarrow> nat \<Rightarrow> bool"
  ecdsa_IsOnCurve :: "ecdsa_pub \<Rightarrow> bool"
  ecdsa_public_of :: "curve \<Rightarrow> int \<Rightarrow> ecdsa_pub option"
  asn1_Unmarshal_RS :: "bytes \<Rightarrow> (int \<times> int) option"
  rsa_SignPKCS1v15 :: "rand \<Rightarrow> rsa_priv \<Rightarrow> hash \<Rightarrow> bytes \<Rightarrow> bytes outcome"
  rsa_VerifyPKCS1v15 :: "rsa_pub \<Rightarrow> hash \<Rightarrow> bytes \<Rightarrow> bytes \<Rightarrow> unit outcome"
  rsa_SignPSS :: "rand \<Rightarrow> rsa_priv \<Rightarrow> hash \<Rightarrow> bytes \<Rightarrow> PSSOptions \<Rightarrow> bytes outcome"
  rsa_VerifyPSS :: "rsa_pub \<Rightarrow> hash \<Rightarrow> bytes \<Rightarrow> bytes \<Rightarrow> PSSOptions \<Rightarrow> unit outcome"
  ed25519_public_of :: "bytes \<Rightarrow> bytes"
  ed25519_Sign :: "bytes \<Rightarrow> bytes \<Rightarrow> bytes"
  ed25519_Verify :: "bytes \<Rightarrow> bytes \<Rightarrow> bytes \<Rightarrow> bool"
  ed25519ph_Sign :: "bytes \<Rightarrow> bytes \<Rightarrow> bytes outcome"
  ed25519ph_Verify :: "bytes \<Rightarrow> bytes \<Rightarrow> bytes \<Rightarrow> unit outcome"
  ecdsa_GenerateKey :: "curve \<Rightarrow> rand \<Rightarrow> ecdsa_priv outcome"
  rsa_GenerateKey :: "rand \<Rightarrow> nat \<Rightarrow> rsa_priv outcome"
  ed25519_GenerateKey :: "rand \<Rightarrow> bytes outcome"

text \<open>
  An ECDSA private key is a scalar together with a public point, and an Ed25519 private key a 32-byte
  seed followed by a public key.  The halves of a key the packages make belong together: the point is
  \<open>ecdsa_public_of\<close> of the scalar, the multiple of the base point (\<open>None\<close> for a scalar outside the range
  of private keys of the curve), the public key is \<open>ed25519_public_of\<close> of the seed.  A key put together
  by hand need not have this property, and a signature made with it need not verify.
\<close>

definition ecdsa_pair :: "crypto_lib \<Rightarrow> ecdsa_priv \<Rightarrow> bool" where
  "ecdsa_pair L k \<longleftrightarrow>
     ecdsa_public_of L (ecdsa_Curve (ecdsa_PublicKey k)) (ecdsa_D k) = Some (ecdsa_PublicKey k)"

definition ed25519_pair :: "crypto_lib \<Rightarrow> bytes \<Rightarrow> bool" where
  "ed25519_pair L k \<longleftrightarrow> length k = 64 \<and> ed25519_public_of L (take 32 k) = drop 32 k"

text \<open>
  Documented contracts.  A hash function that is linked into the binary produces digests of its
  declared size.  A signature made by an ECDSA or Ed25519 private key whose halves belong together
  verifies under its public key, over the same digest and hash, and the generators make such keys.
  An ECDSA signature is an ASN.1 sequence of two integers, and the empty string is not.  The RSA laws
  need no such condition: the package checks the result of every private-key operation against the
  public key before it returns it, so a key whose parts do not fit yields an error and no signature.
  \<open>PSSOptions.Hash\<close>, when it is not zero, overrides the hash argument of \<open>SignPSS\<close>, and \<open>VerifyPSS\<close> ignores
  it: a PSS signature verifies under the hash argument of the signing call only when the options
  leave it in force.  No RSA or Ed25519 signature is empty.
\<close>

definition hash_laws :: "crypto_lib \<Rightarrow> bool" where
  "hash_laws L \<longleftrightarrow> (\<forall>h m. hash_linked L h \<longrightarrow> hash_Size h = Ret (length (hash_sum L h m)))"

definition ecdsa_laws :: "crypto_lib \<Rightarrow> bool" where
  "ecdsa_laws L \<longleftrightarrow>
     asn1_Unmarshal_RS L [] = None \<and>
     (\<forall>r k d s. ecdsa_SignASN1 L r k d = Ret s \<longrightarrow> asn1_Unmarshal_RS L s \<noteq> None) \<and>
     (\<forall>r k d s. ecdsa_pair L k \<longrightarrow> ecdsa_SignASN1 L r k d = Ret s \<longrightarrow>
        ecdsa_VerifyASN1 L (ecdsa_PublicKey k) d s) \<and>
     (\<forall>c r k. ecdsa_GenerateKey L c r = Ret k \<longrightarrow> ecdsa_pair L k)"

definition rsa_laws :: "crypto_lib \<Rightarrow> bool" where
  "rsa_laws L \<longleftrightarrow>
     (\<forall>r k h d s. rsa_SignPKCS1v15 L r k h d = Ret s \<longrightarrow>
        rsa_VerifyPKCS1v15 L (rsa_PublicKey k) h d s = Ret ()) \<and>
     (\<forall>r k h d s o1 o2. rsa_SignPSS L r k h d o1 = Ret s \<longrightarrow> SaltLength o1 = SaltLength o2 \<longrightarrow>
        PSSHash o1 = NoHash \<or> PSSHash o1 = h \<longrightarrow> rsa_VerifyPSS L (rsa_PublicKey k) h d s o2 = Ret ()) \<and>
     (\<forall>p h d. rsa_VerifyPKCS1v15 L p h d [] \<noteq> Ret ()) \<and>
     (\<forall>p h d o1. rsa_VerifyPSS L p h d [] o1 \<noteq> Ret ())"

definition ed25519_laws :: "crypto_lib \<Rightarrow> bool" where
  "ed25519_laws L \<longleftrightarrow>
     (\<forall>k m. ed25519_pair L k \<longrightarrow> ed25519_Verify L (drop 32 k) m (ed25519_Sign L k m)) \<and>
     (\<forall>k d s. ed25519_pair L k \<longrightarrow> ed25519ph_Sign L k d = Ret s \<longrightarrow>
        ed25519ph_Verify L (drop 32 k) d s = Ret ()) \<and>
     (\<forall>p m. \<not> ed25519_Verify L p m []) \<and>
     (\<forall>p d. ed25519ph_Verify L p d [] \<noteq> Ret ()) \<and>
     (\<forall>r k. ed25519_GenerateKey L r = Ret k \<longrightarrow> ed25519_pair L k)"

definition lib_laws :: "crypto_lib \<Rightarrow> bool" where
  "lib_laws L \<longleftrightarrow> hash_laws L \<and> ecdsa_laws L \<and> rsa_laws L \<and> ed25519_laws L"

lemma lib_lawsD:
  assumes "lib_laws L"
  shows "hash_laws L" "ecdsa_laws L" "rsa_laws L" "ed25519_laws L"
  using assms by (auto simp: lib_laws_def)

text \<open>A concrete library: the digest of a message is its length in every byte, a signature
  carries the signed digest behind a tag byte, for PSS also the hash the padding was made with; the
  point of the scalar \<open>d\<close> is \<open>(d, d * d)\<close> and the public key of a seed the seed.\<close>

definition ref_lib :: crypto_lib where
  "ref_lib = \<lparr>
     hash_linked = (\<lambda>h. h \<in> {SHA1, SHA224, SHA256, SHA384, SHA512}),
     hash_sum = (\<lambda>h m. case hash_Size h of Ret n \<Rightarrow> replicate n (word_of_nat (length m)) | _ \<Rightarrow> []),
     ecdsa_SignASN1 = (\<lambda>r k d. Ret (0x30 # d)),
     ecdsa_VerifyASN1 = (\<lambda>p d s. s = 0x30 # d),
     ecdsa_Verify = (\<lambda>p d r s. r = s),
     ecdsa_IsOnCurve = (\<lambda>p. True),
     ecdsa_public_of = (\<lambda>c d. if 0 < d then Some \<lparr>ecdsa_Curve = c, ecdsa_X = d, ecdsa_Y = d * d\<rparr> else None),
     asn1_Unmarshal_RS = (\<lambda>s. case s of [] \<Rightarrow> None | b # _ \<Rightarrow> (if b = 0x30 then Some (1, 1) else None)),
     rsa_SignPKCS1v15 = (\<lambda>r k h d. Ret (1 # d)),
     rsa_VerifyPKCS1v15 = (\<lambda>p h d s. if s = 1 # d then Ret () else Err (Msg ''crypto/rsa: verification error'')),
     rsa_SignPSS = (\<lambda>r k h d o1. Ret (2 # word_of_nat (if PSSHash o1 = NoHash then h else PSSHash o1) # d)),
     rsa_VerifyPSS = (\<lambda>p h d s o1. if s = 2 # word_of_nat h # d then Ret () else Err (Msg ''crypto/rsa: verification error'')),
     ed25519_public_of = (\<lambda>seed. seed),
     ed25519_Sign = (\<lambda>k m. 3 # m),
     ed25519_Verify = (\<lambda>p m s. s = 3 # m),
     ed25519ph_Sign = (\<lambda>k d. if length k = 64 then Ret (4 # d) else Panic ''ed25519: bad private key length''),
     ed25519ph_Verify = (\<lambda>p d s. if s = 4 # d then Ret () else Err (Msg ''ed25519: invalid signature'')),
     ecdsa_GenerateKey = (\<lambda>c r. Ret \<lparr>ecdsa_PublicKey = \<lparr>ecdsa_Curve = c, ecdsa_X = 1, ecdsa_Y = 1\<rparr>, ecdsa_D = 1\<rparr>),
     rsa_GenerateKey = (\<lambda>r n. Ret \<lparr>rsa_PublicKey = \<lparr>rsa_N = 2 ^ (n - 1), rsa_E = 65537\<rparr>, rsa_D = 1\<rparr>),
     ed25519_GenerateKey = (\<lambda>r. Ret (replicate 64 7))\<rparr>"

lemma ref_lib_laws [simp]: "lib_laws ref_lib"
  by (auto simp: lib_laws_def hash_laws_def ecdsa_laws_def rsa_laws_def ed25519_laws_def
        ecdsa_pair_def ed25519_pair_def ref_lib_def split: if_splits)

end
