(* ===== verification/World.thy ===== *)
theory World
  imports CryptoLib
begin

text \<open>
  The mutable store the signature code works on; its calls are steps on that state.
  An \<open>io.Reader\<close> is a reference to a stream that reading consumes, so handing one reader to
  two calls gives the second call nothing; \<open>*rsa.PSSOptions\<close> and \<open>*string\<close> values are cells,
  so a call that writes through such a pointer is visible to every holder of it.
\<close>

text \<open>A stream: the bytes still to come, then end of file or the error reading ends with.\<close>

datatype stream = Stream bytes "goerr option"

record world =
  readers :: "nat \<Rightarrow> stream"
  fresh :: nat
  pss_cells :: "nat \<Rightarrow> PSSOptions"
  str_cells :: "nat \<Rightarrow> string"

type_synonym 'a go = "(world, 'a) step"

text \<open>An \<open>io.Reader\<close> interface value; \<open>None\<close> is nil.\<close>

type_synonym io_reader = "nat option"

section \<open>Readers\<close>

text \<open>\<open>bytes.NewReader(b)\<close>: a new stream holding \<open>b\<close>.\<close>

definition NewReader :: "bytes \<Rightarrow> io_reader go" where
  "NewReader b w =
     (Ret (Some (fresh w)), w\<lparr>readers := (readers w)(fresh w := Stream b None), fresh := Suc (fresh w)\<rparr>)"

text \<open>\<open>io.ReadAll(r)\<close>, and the read loop of \<open>io.Copy(hasher, r)\<close>: everything up to end of
  file, or the reader's error; a nil interface cannot be called.  Either way the stream is
  drained.\<close>

definition ReadAll :: "io_reader \<Rightarrow> bytes go" where
  "ReadAll r w = (case r of
       None \<Rightarrow> (Panic ''nil pointer dereference'', w)
     | Some i \<Rightarrow> (case readers w i of Stream b e \<Rightarrow>
         ((case e of None \<Rightarrow> Ret b | Some x \<Rightarrow> Err x),
          w\<lparr>readers := (readers w)(i := Stream [] e)\<rparr>)))"

text \<open>The reader \<open>r\<close> will deliver exactly \<open>b\<close>.\<close>

definition delivers :: "world \<Rightarrow> io_reader \<Rightarrow> bytes \<Rightarrow> bool" where
  "delivers w r b \<longleftrightarrow> (\<exists>i. r = Some i \<and> readers w i = Stream b None)"

definition drain :: "io_reader \<Rightarrow> world \<Rightarrow> world" where
  "drain r w = (case r of None \<Rightarrow> w | Some i \<Rightarrow>
     (case readers w i of Stream b e \<Rightarrow> w\<lparr>readers := (readers w)(i := Stream [] e)\<rparr>))"

lemma ReadAll_delivers: "delivers w r b \<Longrightarrow> ReadAll r w = (Ret b, drain r w)"
  by (auto simp: delivers_def ReadAll_def drain_def)

lemma ReadAll_Ret: "ReadAll r w = (Ret b, w') \<Longrightarrow> delivers w r b \<and> w' = drain r w"
  by (auto simp: ReadAll_def delivers_def drain_def split: option.splits stream.splits)

lemma ReadAll_Ret_iff [go_simps]: "ReadAll r w = (Ret b, w') \<longleftrightarrow> delivers w r b \<and> w' = drain r w"
  using ReadAll_delivers ReadAll_Ret by blast

lemma ReadAll_state: "snd (ReadAll r w) = drain r w"
  by (auto simp: ReadAll_def drain_def split: option.splits stream.splits)

lemma delivers_drain_same: "delivers w r b \<Longrightarrow> delivers (drain r w) r []"
  by (auto simp: delivers_def drain_def)

lemma delivers_drain_other [simp]: "r \<noteq> r' \<Longrightarrow> delivers (drain r' w) r b = delivers w r b"
  by (auto simp: delivers_def drain_def split: option.splits stream.splits)

lemma drain_fields [simp]:
  "pss_cells (drain r w) = pss_cells w" "str_cells (drain r w) = str_cells w"
  "fresh (drain r w) = fresh w"
  by (auto simp: drain_def split: option.splits stream.splits)

lemma ReadAll_no_panic: "r \<noteq> None \<Longrightarrow> \<not> is_panic (fst (ReadAll r w))"
  by (auto simp: ReadAll_def split: option.splits stream.splits)

lemma delivers_unique: "delivers w r b \<Longrightarrow> delivers w r b' \<Longrightarrow> b = b'"
  by (auto simp: delivers_def)

text \<open>A world with two literal readers, for witnesses.\<close>

definition two_readers :: "bytes \<Rightarrow> bytes \<Rightarrow> world" where
  "two_readers a b =
     \<lparr>readers = (\<lambda>i. if i = 0 then Stream a None else if i = 1 then Stream b None else Stream [] None),
      fresh = 2, pss_cells = (\<lambda>_. \<lparr>SaltLength = 0, PSSHash = 0\<rparr>), str_cells = (\<lambda>_. [])\<rparr>"

lemma two_readers_delivers [simp]:
  "delivers (two_readers a b) (Some 0) a" "delivers (two_readers a b) (Some (Suc 0)) b"
  by (simp_all add: delivers_def two_readers_def)

end
