(* ===== verification/Options.thy ===== *)
theory Options
  imports World
begin

text \<open>
  The functional options of \<open>pkg/signature/options\<close> and the option interfaces of
  \<open>pkg/signature/options.go\<close>.  Every option struct embeds \<open>NoOpOptionImpl\<close>, so it has all
  eleven \<open>Apply\<close> methods and overrides one of them: the options are one datatype with a
  constructor per struct, and each \<open>Apply\<close> method is one function whose default case is the
  no-op of \<open>noop.go\<close>.  All but \<open>ApplyRPCAuthOpts\<close>, which merges field by field, satisfy the
  \<open>setter_option\<close> contract.
\<close>

record go_context =
  ctx_deadline :: "int option"
  ctx_err :: "goerr option"
  ctx_priv :: "private_key option"

definition Background :: go_context where
  "Background = \<lparr>ctx_deadline = None, ctx_err = None, ctx_priv = None\<rparr>"

record rpc_auth_oidc =
  oidc_Path :: string
  oidc_Role :: string
  oidc_Token :: string

record rpc_auth =
  auth_Address :: string
  auth_Path :: string
  auth_Token :: string
  auth_OIDC :: rpc_auth_oidc

datatype sig_option =
    RequestContext go_context
  | RequestDigest bytes
  | RequestKeyVersion string
  | RequestKeyVersionUsed "nat option"
  | RequestHash hash
  | RequestED25519ph bool
  | RequestPSSOptions "nat option"
  | RequestRand rand
  | RequestRemoteVerification bool
  | RPCAuthOpts rpc_auth
  | RequestCryptoSignerOpts signer_opts

section \<open>Constructors\<close>

definition WithContext :: "go_context \<Rightarrow> sig_option" where
  "WithContext ctx = RequestContext ctx"

definition WithDigest :: "bytes \<Rightarrow> sig_option" where
  "WithDigest d = RequestDigest d"

definition WithKeyVersion :: "string \<Rightarrow> sig_option" where
  "WithKeyVersion v = RequestKeyVersion v"

definition ReturnKeyVersionUsed :: "nat option \<Rightarrow> sig_option" where
  "ReturnKeyVersionUsed p = RequestKeyVersionUsed p"

definition WithHash :: "hash \<Rightarrow> sig_option" where
  "WithHash h = RequestHash h"

definition WithED25519ph :: sig_option where
  "WithED25519ph = RequestED25519ph True"

definition WithRSAPSS :: "nat option \<Rightarrow> sig_option" where
  "WithRSAPSS p = RequestPSSOptions p"

definition WithRand :: "rand option \<Rightarrow> sig_option" where
  "WithRand r = RequestRand (case r of None \<Rightarrow> CryptoRand | Some x \<Rightarrow> x)"

definition WithRemoteVerification :: "bool \<Rightarrow> sig_option" where
  "WithRemoteVerification b = RequestRemoteVerification b"

definition WithRPCAuthOpts :: "rpc_auth \<Rightarrow> sig_option" where
  "WithRPCAuthOpts a = RPCAuthOpts a"

definition WithCryptoSignerOpts :: "signer_opts option \<Rightarrow> sig_option" where
  "WithCryptoSignerOpts o1 =
     RequestCryptoSignerOpts (case o1 of None \<Rightarrow> SignerOpts SHA256 | Some x \<Rightarrow> x)"

lemmas with_defs = WithContext_def WithDigest_def WithKeyVersion_def ReturnKeyVersionUsed_def
  WithHash_def WithED25519ph_def WithRSAPSS_def WithRand_def WithRemoteVerification_def
  WithRPCAuthOpts_def WithCryptoSignerOpts_def

section \<open>Apply methods\<close>

definition ApplyContext :: "sig_option \<Rightarrow> go_context \<Rightarrow> go_context" where
  "ApplyContext opt c = (case opt of RequestContext c' \<Rightarrow> c' | _ \<Rightarrow> c)"

definition ApplyDigest :: "sig_option \<Rightarrow> bytes \<Rightarrow> bytes" where
  "ApplyDigest opt d = (case opt of RequestDigest d' \<Rightarrow> d' | _ \<Rightarrow> d)"

definition ApplyKeyVersion :: "sig_option \<Rightarrow> string \<Rightarrow> string" where
  "ApplyKeyVersion opt v = (case opt of RequestKeyVersion v' \<Rightarrow> v' | _ \<Rightarrow> v)"

definition ApplyKeyVersionUsed :: "sig_option \<Rightarrow> nat option \<Rightarrow> nat option" where
  "ApplyKeyVersionUsed opt p = (case opt of RequestKeyVersionUsed p' \<Rightarrow> p' | _ \<Rightarrow> p)"

definition ApplyHash :: "sig_option \<Rightarrow> hash \<Rightarrow> hash" where
  "ApplyHash opt h = (case opt of RequestHash h' \<Rightarrow> h' | _ \<Rightarrow> h)"

definition ApplyED25519ph :: "sig_option \<Rightarrow> bool \<Rightarrow> bool" where
  "ApplyED25519ph opt b = (case opt of RequestED25519ph b' \<Rightarrow> b' | _ \<Rightarrow> b)"

definition ApplyRSAPSS :: "sig_option \<Rightarrow> nat option \<Rightarrow> nat option" where
  "ApplyRSAPSS opt p = (case opt of RequestPSSOptions p' \<Rightarrow> p' | _ \<Rightarrow> p)"

definition ApplyRand :: "sig_option \<Rightarrow> rand \<Rightarrow> rand" where
  "ApplyRand opt r = (case opt of RequestRand r' \<Rightarrow> r' | _ \<Rightarrow> r)"

definition ApplyRemoteVerification :: "sig_option \<Rightarrow> bool \<Rightarrow> bool" where
  "ApplyRemoteVerification opt b = (case opt of RequestRemoteVerification b' \<Rightarrow> b' | _ \<Rightarrow> b)"

definition ApplyCryptoSignerOpts :: "sig_option \<Rightarrow> signer_opts \<Rightarrow> signer_opts" where
  "ApplyCryptoSignerOpts opt s = (case opt of RequestCryptoSignerOpts s' \<Rightarrow> s' | _ \<Rightarrow> s)"

text \<open>\<open>ApplyRPCAuthOpts\<close> overwrites the fields the option gives a value for; the OIDC part is
  taken as a whole when it carries a token.\<close>

definition ApplyRPCAuthOpts :: "sig_option \<Rightarrow> rpc_auth \<Rightarrow> rpc_auth" where
  "ApplyRPCAuthOpts opt a = (case opt of
     RPCAuthOpts r \<Rightarrow>
       let a1 = (if auth_Address r \<noteq> [] then a\<lparr>auth_Address := auth_Address r\<rparr> else a);
           a2 = (if auth_Path r \<noteq> [] then a1\<lparr>auth_Path := auth_Path r\<rparr> else a1);
           a3 = (if auth_Token r \<noteq> [] then a2\<lparr>auth_Token := auth_Token r\<rparr> else a2)
       in (if oidc_Token (auth_OIDC r) \<noteq> [] then a3\<lparr>auth_OIDC := auth_OIDC r\<rparr> else a3)
   | _ \<Rightarrow> a)"

lemmas apply_defs = ApplyContext_def ApplyDigest_def ApplyKeyVersion_def ApplyKeyVersionUsed_def
  ApplyHash_def ApplyED25519ph_def ApplyRSAPSS_def ApplyRand_def ApplyRemoteVerification_def
  ApplyCryptoSignerOpts_def

section \<open>The setter contract of each method\<close>

definition set_context :: "sig_option \<Rightarrow> go_context option" where
  "set_context opt = (case opt of RequestContext c \<Rightarrow> Some c | _ \<Rightarrow> None)"

definition set_digest :: "sig_option \<Rightarrow> bytes option" where
  "set_digest opt = (case opt of RequestDigest d \<Rightarrow> Some d | _ \<Rightarrow> None)"

definition set_key_version :: "sig_option \<Rightarrow> string option" where
  "set_key_version opt = (case opt of RequestKeyVersion v \<Rightarrow> Some v | _ \<Rightarrow> None)"

definition set_key_version_used :: "sig_option \<Rightarrow> nat option option" where
  "set_key_version_used opt = (case opt of RequestKeyVersionUsed p \<Rightarrow> Some p | _ \<Rightarrow> None)"

definition set_hash :: "sig_option \<Rightarrow> hash option" where
  "set_hash opt = (case opt of RequestHash h \<Rightarrow> Some h | _ \<Rightarrow> None)"

definition set_ed25519ph :: "sig_option \<Rightarrow> bool option" where
  "set_ed25519ph opt = (case opt of RequestED25519ph b \<Rightarrow> Some b | _ \<Rightarrow> None)"

definition set_pss :: "sig_option \<Rightarrow> nat option option" where
  "set_pss opt = (case opt of RequestPSSOptions p \<Rightarrow> Some p | _ \<Rightarrow> None)"

definition set_rand :: "sig_option \<Rightarrow> rand option" where
  "set_rand opt = (case opt of RequestRand r \<Rightarrow> Some r | _ \<Rightarrow> None)"

definition set_remote :: "sig_option \<Rightarrow> bool option" where
  "set_remote opt = (case opt of RequestRemoteVerification b \<Rightarrow> Some b | _ \<Rightarrow> None)"

definition set_signer_opts :: "sig_option \<Rightarrow> signer_opts option" where
  "set_signer_opts opt = (case opt of RequestCryptoSignerOpts s \<Rightarrow> Some s | _ \<Rightarrow> None)"

lemmas set_defs = set_context_def set_digest_def set_key_version_def set_key_version_used_def
  set_hash_def set_ed25519ph_def set_pss_def set_rand_def set_remote_def set_signer_opts_def

interpretation ctx_opt: setter_option ApplyContext set_context
  by unfold_locales (simp add: ApplyContext_def set_context_def split: sig_option.split)

interpretation digest_opt: setter_option ApplyDigest set_digest
  by unfold_locales (simp add: ApplyDigest_def set_digest_def split: sig_option.split)

interpretation keyversion_opt: setter_option ApplyKeyVersion set_key_version
  by unfold_locales (simp add: ApplyKeyVersion_def set_key_version_def split: sig_option.split)

interpretation keyversionused_opt: setter_option ApplyKeyVersionUsed set_key_version_used
  by unfold_locales (simp add: ApplyKeyVersionUsed_def set_key_version_used_def split: sig_option.split)

interpretation hash_opt: setter_option ApplyHash set_hash
  by unfold_locales (simp add: ApplyHash_def set_hash_def split: sig_option.split)

interpretation ed25519ph_opt: setter_option ApplyED25519ph set_ed25519ph
  by unfold_locales (simp add: ApplyED25519ph_def set_ed25519ph_def split: sig_option.split)

interpretation pss_opt: setter_option ApplyRSAPSS set_pss
  by unfold_locales (simp add: ApplyRSAPSS_def set_pss_def split: sig_option.split)

interpretation rand_opt: setter_option ApplyRand set_rand
  by unfold_locales (simp add: ApplyRand_def set_rand_def split: sig_option.split)

interpretation remote_opt: setter_option ApplyRemoteVerification set_remote
  by unfold_locales (simp add: ApplyRemoteVerification_def set_remote_def split: sig_option.split)

interpretation signeropts_opt: setter_option ApplyCryptoSignerOpts set_signer_opts
  by unfold_locales (simp add: ApplyCryptoSignerOpts_def set_signer_opts_def split: sig_option.split)

section \<open>Merging RPC credentials\<close>

text \<open>Applying RPC credentials never erases what is already there, and the OIDC triple is
  replaced only as a whole.\<close>

lemma ApplyRPCAuthOpts_fields:
  assumes "opt = RPCAuthOpts r"
  shows "auth_Address (ApplyRPCAuthOpts opt a) = (if auth_Address r = [] then auth_Address a else auth_Address r)"
    and "auth_Path (ApplyRPCAuthOpts opt a) = (if auth_Path r = [] then auth_Path a else auth_Path r)"
    and "auth_Token (ApplyRPCAuthOpts opt a) = (if auth_Token r = [] then auth_Token a else auth_Token r)"
    and "auth_OIDC (ApplyRPCAuthOpts opt a) = (if oidc_Token (auth_OIDC r) = [] then auth_OIDC a else auth_OIDC r)"
  using assms by (simp_all add: ApplyRPCAuthOpts_def Let_def)

lemma ApplyRPCAuthOpts_other: "(\<And>r. opt \<noteq> RPCAuthOpts r) \<Longrightarrow> ApplyRPCAuthOpts opt a = a"
  by (cases opt) (auto simp: ApplyRPCAuthOpts_def)

lemma ApplyRPCAuthOpts_idem:
  "ApplyRPCAuthOpts opt (ApplyRPCAuthOpts opt a) = ApplyRPCAuthOpts opt a"
  by (cases opt) (auto simp: ApplyRPCAuthOpts_def Let_def)

lemma fold_RPCAuthOpts_keeps:
  "auth_Address a \<noteq> [] \<Longrightarrow> auth_Address (fold ApplyRPCAuthOpts opts a) \<noteq> []"
  "auth_Token a \<noteq> [] \<Longrightarrow> auth_Token (fold ApplyRPCAuthOpts opts a) \<noteq> []"
proof -
  have step: "(auth_Address a \<noteq> [] \<longrightarrow> auth_Address (ApplyRPCAuthOpts opt a) \<noteq> []) \<and>
     (auth_Token a \<noteq> [] \<longrightarrow> auth_Token (ApplyRPCAuthOpts opt a) \<noteq> [])" for opt a
    by (cases opt) (auto simp: ApplyRPCAuthOpts_def Let_def)
  show "auth_Address a \<noteq> [] \<Longrightarrow> auth_Address (fold ApplyRPCAuthOpts opts a) \<noteq> []"
    using step by (induction opts arbitrary: a) auto
  show "auth_Token a \<noteq> [] \<Longrightarrow> auth_Token (fold ApplyRPCAuthOpts opts a) \<noteq> []"
    using step by (induction opts arbitrary: a) auto
qed

end
