(* ===== verification/Message.thy ===== *)
theory Message
  imports Options
begin

text \<open>
  \<open>pkg/signature/message.go\<close>: the digest of a message, or the digest the caller supplied,
  together with the hash it was made with.  \<open>msg_options\<close> is the loop over the options all
  signers and verifiers share.
\<close>

definition isSupportedAlg :: "hash \<Rightarrow> hash list option \<Rightarrow> bool" where
  "isSupportedAlg alg supported =
     (case supported of None \<Rightarrow> True | Some hs \<Rightarrow> find (\<lambda>h. alg = h) hs \<noteq> None)"

lemma isSupportedAlg_iff [simp]:
  "isSupportedAlg alg (Some hs) \<longleftrightarrow> alg \<in> set hs" "isSupportedAlg alg None"
  by (auto simp: isSupportedAlg_def find_None_iff)

definition msg_options :: "hash \<Rightarrow> sig_option list \<Rightarrow> bytes \<times> signer_opts" where
  "msg_options defaultHash opts =
     fold (\<lambda>opt (d, s). (ApplyDigest opt d, ApplyCryptoSignerOpts opt s)) opts ([], SignerOpts defaultHash)"

definition hashMessage :: "crypto_lib \<Rightarrow> io_reader \<Rightarrow> hash \<Rightarrow> bytes go" where
  "hashMessage L raw h =
     (if raw = None then go_err (Msg ''message cannot be nil'')
      else if h = NoHash then ReadAll raw
      else if \<not> hash_linked L h then go_panic ''crypto: requested hash function is unavailable''
      else go_then (go_wrap ''hashing message'' (ReadAll raw)) (\<lambda>m. go_ret (hash_sum L h m)))"

definition ComputeDigestForSigning ::
  "crypto_lib \<Rightarrow> io_reader \<Rightarrow> hash \<Rightarrow> hash list option \<Rightarrow> sig_option list \<Rightarrow> (bytes \<times> hash) go" where
  "ComputeDigestForSigning L raw defaultHash supported opts =
     (let (digest, signerOpts) = msg_options defaultHash opts;
          hashedWith = HashFunc signerOpts
      in if \<not> isSupportedAlg hashedWith supported then go_err (Msg ''unsupported hash algorithm'')
         else if digest \<noteq> [] then
           (if hashedWith \<noteq> NoHash
            then go_then (go_lift (hash_Size hashedWith)) (\<lambda>n.
              if length digest \<noteq> n
              then go_err (Msg ''unexpected length of digest for hash function specified'')
              else go_ret (digest, hashedWith))
            else go_ret (digest, hashedWith))
         else go_then (hashMessage L raw hashedWith) (\<lambda>d. go_ret (d, hashedWith)))"

definition ComputeDigestForVerifying ::
  "crypto_lib \<Rightarrow> io_reader \<Rightarrow> hash \<Rightarrow> hash list option \<Rightarrow> sig_option list \<Rightarrow> (bytes \<times> hash) go" where
  "ComputeDigestForVerifying L raw defaultHash supported opts =
     (let (digest, signerOpts) = msg_options defaultHash opts;
          hashedWith = HashFunc signerOpts
      in if \<not> isSupportedAlg hashedWith supported then go_err (Msg ''unsupported hash algorithm'')
         else if digest \<noteq> [] then
           (if hashedWith \<noteq> NoHash
            then go_then (go_lift (hash_Size hashedWith)) (\<lambda>n.
              if length digest \<noteq> n
              then go_err (Msg ''unexpected length of digest for hash function specified'')
              else go_ret (digest, hashedWith))
            else go_ret (digest, hashedWith))
         else go_then (hashMessage L raw hashedWith) (\<lambda>d. go_ret (d, hashedWith)))"

definition selectRandFromOpts :: "sig_option list \<Rightarrow> rand" where
  "selectRandFromOpts opts = fold ApplyRand opts CryptoRand"

section \<open>The options loop\<close>

lemma msg_options_eq:
  "msg_options h opts =
     (case last_set set_digest opts of None \<Rightarrow> [] | Some d \<Rightarrow> d,
      case last_set set_signer_opts opts of None \<Rightarrow> SignerOpts h | Some s \<Rightarrow> s)"
  by (simp add: msg_options_def fold_pair digest_opt.fold_last signeropts_opt.fold_last)

lemma msg_options_Nil [simp]: "msg_options h [] = ([], SignerOpts h)"
  by (simp add: msg_options_def)

section \<open>Digests\<close>

lemma hashMessage_Ret:
  assumes "hashMessage L raw h w = (Ret d, w')"
  shows "\<exists>m. delivers w raw m \<and> w' = drain raw w \<and> (if h = NoHash then d = m else hash_linked L h \<and> d = hash_sum L h m)"
  using assms by (auto simp: hashMessage_def go_simps split: if_splits)

lemma hashMessage_delivers:
  assumes "delivers w raw m" "h = NoHash \<or> hash_linked L h"
  shows "hashMessage L raw h w = (Ret (if h = NoHash then m else hash_sum L h m), drain raw w)"
  using assms by (auto simp: hashMessage_def delivers_def ReadAll_delivers go_simps
      intro!: go_then_step go_wrap_step)

text \<open>The two functions are the same computation.\<close>

lemma ComputeDigest_same: "ComputeDigestForVerifying = ComputeDigestForSigning"
  by (simp add: fun_eq_iff ComputeDigestForVerifying_def ComputeDigestForSigning_def)

lemma ComputeDigest_Ret:
  assumes "ComputeDigestForSigning L raw dh supp opts w = (Ret (d, h), w')"
  shows "isSupportedAlg h supp \<and> h = HashFunc (snd (msg_options dh opts)) \<and>
     (if fst (msg_options dh opts) \<noteq> []
      then d = fst (msg_options dh opts) \<and> w' = w \<and> (h \<noteq> NoHash \<longrightarrow> hash_Size h = Ret (length d))
      else (\<exists>m. delivers w raw m \<and> w' = drain raw w \<and>
              (if h = NoHash then d = m else hash_linked L h \<and> d = hash_sum L h m)))"
  using assms
  by (auto simp: ComputeDigestForSigning_def go_simps Let_def go_lift_def
      dest!: hashMessage_Ret split: if_splits prod.splits)

text \<open>A digest, however obtained, is one a supported hash can have produced.\<close>

lemma ComputeDigest_size:
  assumes "hash_laws L" "ComputeDigestForSigning L raw dh supp opts w = (Ret (d, h), w')" "h \<noteq> NoHash"
  shows "hash_Size h = Ret (length d)"
  using ComputeDigest_Ret [OF assms(2)] assms(1,3) by (auto simp: hash_laws_def split: if_splits)

text \<open>Given the hash that is in force, the digest does not depend on the list of supported hashes.\<close>

lemma ComputeDigest_supported_mono:
  assumes "ComputeDigestForSigning L raw dh supp opts w = (Ret (d, h), w')"
    and "isSupportedAlg h supp'" and "msg_options dh' opts' = msg_options dh opts"
  shows "ComputeDigestForSigning L raw dh' supp' opts' w = (Ret (d, h), w')"
  using assms
  by (auto simp: ComputeDigestForSigning_def go_simps Let_def go_lift_def
      split: if_splits prod.splits)

lemma ComputeDigest_no_panic:
  assumes "\<And>hs h. supp = Some hs \<Longrightarrow> h \<in> set hs \<Longrightarrow> h = NoHash \<or> (hash_linked L h \<and> 0 < h \<and> h < 20)"
    and "supp \<noteq> None"
  shows "\<not> is_panic (fst (ComputeDigestForSigning L raw dh supp opts w))"
proof -
  obtain hs where hs: "supp = Some hs" using assms(2) by auto
  have H: "\<not> is_panic (fst (hashMessage L raw h w))" if "h \<in> set hs" for h
    using assms(1) [OF hs that]
    by (auto simp: hashMessage_def ReadAll_no_panic go_wrap_no_panic go_then_panic_iff)
  have S: "\<not> is_panic (hash_Size h)" if "h \<in> set hs" "h \<noteq> NoHash" for h
    using assms(1) [OF hs that(1)] that(2) by (auto simp: hash_Size_def)
  show ?thesis
    using H S by (auto simp: ComputeDigestForSigning_def hs Let_def go_then_panic_iff split: prod.splits)
qed

end
