(* ===== verification/Signing.thy ===== *)
theory Signing
  imports Message
begin

text \<open>
  The interfaces \<open>signature.Signer\<close> and \<open>signature.Verifier\<close> (\<open>signer.go\<close>, \<open>verifier.go\<close>) as
  contracts.  \<open>verifier_contract\<close> is what every verifier promises whatever its keys: it consumes
  the signature it is given, and it rejects an empty or missing one.  \<open>signature_scheme\<close> extends
  it with a signer: what the signer makes, the verifier of the same key pair accepts.  Each of the
  five key algorithms interprets both, and so does the dispatch over them.
\<close>

text \<open>Both sides are given the same message, or both none (the digest comes from an option).\<close>

definition same_input :: "world \<Rightarrow> io_reader \<Rightarrow> world \<Rightarrow> io_reader \<Rightarrow> bool" where
  "same_input w r w2 rm \<longleftrightarrow> (\<exists>m. delivers w r m \<and> delivers w2 rm m) \<or> (r = None \<and> rm = None)"

text \<open>The two option lists leave the same digest and the same signer options behind.\<close>

definition same_msg_options :: "sig_option list \<Rightarrow> sig_option list \<Rightarrow> bool" where
  "same_msg_options opts opts' \<longleftrightarrow> (\<forall>h. msg_options h opts = msg_options h opts')"

text \<open>No salt length was changed in between.\<close>

definition salt_stable :: "world \<Rightarrow> world \<Rightarrow> bool" where
  "salt_stable w w2 \<longleftrightarrow> (\<forall>a. SaltLength (pss_cells w a) = SaltLength (pss_cells w2 a))"

lemma same_msg_options_eq: "same_msg_options opts opts' \<Longrightarrow> msg_options h opts = msg_options h opts'"
  by (simp add: same_msg_options_def)

lemma same_msg_options_refl [simp]: "same_msg_options opts opts"
  by (simp add: same_msg_options_def)

lemma salt_stable_refl [simp]: "salt_stable w w"
  by (simp add: salt_stable_def)

lemma salt_stable_drain [simp]: "salt_stable w (drain r w)" "salt_stable (drain r w) w"
  by (simp_all add: salt_stable_def)

text \<open>
  The digest step of a verification repeats the one of the signature when both sides see the same
  message, and touches nothing but the message reader.
\<close>

definition same_but_reader :: "io_reader \<Rightarrow> world \<Rightarrow> world \<Rightarrow> bool" where
  "same_but_reader rm w w' \<longleftrightarrow> w' = w \<or> w' = drain rm w"

lemma same_but_reader_delivers [simp]:
  "same_but_reader rm w w' \<Longrightarrow> rs \<noteq> rm \<Longrightarrow> delivers w' rs b = delivers w rs b"
  by (auto simp: same_but_reader_def)

lemma same_but_reader_pss: "same_but_reader rm w w' \<Longrightarrow> pss_cells w' = pss_cells w"
  by (auto simp: same_but_reader_def)

lemma ComputeDigest_world:
  "ComputeDigestForSigning L rm dh supp opts w = (Ret x, w') \<Longrightarrow> same_but_reader rm w w'"
  using ComputeDigest_Ret [of L rm dh supp opts w "fst x" "snd x" w']
  by (auto simp: same_but_reader_def split: if_splits)

lemma ComputeDigest_repeat:
  assumes "ComputeDigestForSigning L r dh supp opts w = (Ret (d, h), w1)"
    and "same_input w r w2 rm" "same_msg_options opts opts'"
    and "\<And>h. isSupportedAlg h supp \<Longrightarrow> isSupportedAlg h supp'"
  obtains w3 where "ComputeDigestForSigning L rm dh supp' opts' w2 = (Ret (d, h), w3)"
    "same_but_reader rm w2 w3"
proof -
  note R = ComputeDigest_Ret [OF assms(1)] and eq = same_msg_options_eq [OF assms(3), of dh]
  have "\<exists>w3. ComputeDigestForSigning L rm dh supp' opts' w2 = (Ret (d, h), w3) \<and> same_but_reader rm w2 w3"
  proof (cases "fst (msg_options dh opts) = []")
    case True
    with R obtain m where m: "delivers w r m" "if h = NoHash then d = m else hash_linked L h \<and> d = hash_sum L h m"
      by auto
    with assms(2) have "delivers w2 rm m" by (auto simp: same_input_def delivers_def)
    then have "hashMessage L rm h w2 = (Ret d, drain rm w2)"
      using m(2) by (subst hashMessage_delivers) (auto split: if_splits)
    with True R assms(4) eq show ?thesis
      by (auto simp: ComputeDigestForSigning_def Let_def same_but_reader_def go_simps split: prod.splits)
  next
    case False
    with R assms(4) eq show ?thesis
      by (auto simp: ComputeDigestForSigning_def Let_def same_but_reader_def go_simps split: prod.splits)
  qed
  with that show thesis by blast
qed

text \<open>Without options the digest is that of the message, so it cannot fail on a linked hash.\<close>

lemma ComputeDigest_plain:
  assumes "delivers w rm m" "isSupportedAlg h supp" "h = NoHash \<or> hash_linked L h"
  shows "ComputeDigestForSigning L rm h supp [] w =
    (Ret (if h = NoHash then m else hash_sum L h m, h), drain rm w)"
  using assms by (simp add: ComputeDigestForSigning_def hashMessage_delivers go_simps)

section \<open>Contracts\<close>

locale verifier_contract =
  fixes wf_verifier :: "crypto_lib \<Rightarrow> 'vf \<Rightarrow> bool"
    and verify :: "crypto_lib \<Rightarrow> 'vf \<Rightarrow> io_reader \<Rightarrow> io_reader \<Rightarrow> sig_option list \<Rightarrow> unit go"
  assumes drains: "wf_verifier L vf \<Longrightarrow> delivers w rs sg \<Longrightarrow> delivers w rm m \<Longrightarrow> rs \<noteq> rm \<Longrightarrow>
      delivers (snd (verify L vf rs rm [] w)) rs []"
    and rejects_empty: "wf_verifier L vf \<Longrightarrow> delivers w rs [] \<Longrightarrow> rs \<noteq> rm \<Longrightarrow>
      fst (verify L vf rs rm opts w) \<noteq> Ret ()"
    and rejects_nil: "wf_verifier L vf \<Longrightarrow> fst (verify L vf None rm opts w) \<noteq> Ret ()"
begin

text \<open>Trying again with the readers a first attempt has used never succeeds, not even with
  another verifier.\<close>

lemma retry_fails:
  assumes "wf_verifier L vf" "wf_verifier L vf'" "delivers w rs sg" "delivers w rm m" "rs \<noteq> rm"
  shows "fst (verify L vf' rs rm opts (snd (verify L vf rs rm [] w))) \<noteq> Ret ()"
  using rejects_empty [OF assms(2) drains [OF assms(1,3,4,5)] assms(5)] .

lemma accepts_only_nonempty:
  assumes "wf_verifier L vf" "verify L vf rs rm opts w = (Ret (), w')" "delivers w rs sg" "rs \<noteq> rm"
  shows "sg \<noteq> []"
proof
  assume "sg = []"
  with assms(3) have "delivers w rs []" by simp
  from rejects_empty [OF assms(1) this assms(4), of opts] assms(2) show False by simp
qed

end

locale signature_scheme = verifier_contract wf_verifier verify
  for wf_verifier :: "crypto_lib \<Rightarrow> 'vf \<Rightarrow> bool"
    and verify :: "crypto_lib \<Rightarrow> 'vf \<Rightarrow> io_reader \<Rightarrow> io_reader \<Rightarrow> sig_option list \<Rightarrow> unit go" +
  fixes key_pair :: "crypto_lib \<Rightarrow> 'sg \<Rightarrow> 'vf \<Rightarrow> bool"
    and sign :: "crypto_lib \<Rightarrow> 'sg \<Rightarrow> io_reader \<Rightarrow> sig_option list \<Rightarrow> bytes go"
  assumes pair_wf: "key_pair L sg vf \<Longrightarrow> wf_verifier L vf"
    and accepts: "key_pair L sg vf \<Longrightarrow> sign L sg r opts w = (Ret s, w1) \<Longrightarrow> same_input w r w2 rm \<Longrightarrow>
      delivers w2 rs s \<Longrightarrow> rs \<noteq> rm \<Longrightarrow> same_msg_options opts opts' \<Longrightarrow> salt_stable w w2 \<Longrightarrow>
      fst (verify L vf rs rm opts' w2) = Ret ()"
    and keeps_salts: "sign L sg r opts w = (Ret s, w1) \<Longrightarrow> salt_stable w w1"
begin

text \<open>A message signed through one literal reader is accepted through two literal readers of the
  signature and the message, made in the world signing left.\<close>

definition sign_bytes :: "crypto_lib \<Rightarrow> 'sg \<Rightarrow> bytes \<Rightarrow> sig_option list \<Rightarrow> bytes go" where
  "sign_bytes L sg m opts = go_then (NewReader m) (\<lambda>r. sign L sg r opts)"

definition verify_bytes :: "crypto_lib \<Rightarrow> 'vf \<Rightarrow> bytes \<Rightarrow> bytes \<Rightarrow> sig_option list \<Rightarrow> unit go" where
  "verify_bytes L vf s m opts =
     go_then (NewReader s) (\<lambda>rs. go_then (NewReader m) (\<lambda>rm. verify L vf rs rm opts))"

lemma sign_bytes_accepted:
  assumes "key_pair L sg vf" "sign_bytes L sg m opts w = (Ret s, w1)" "same_msg_options opts opts'"
    and "salt_stable w1 w2"
  shows "fst (verify_bytes L vf s m opts' w2) = Ret ()"
proof -
  define wr where "wr = snd (NewReader m w)"
  have "NewReader m w = (Ret (Some (fresh w)), wr)" by (simp add: wr_def NewReader_def)
  with assms(2) have sg: "sign L sg (Some (fresh w)) opts wr = (Ret s, w1)"
    by (simp add: sign_bytes_def go_then_step)
  define w3 where "w3 = snd (NewReader m (snd (NewReader s w2)))"
  have v: "verify_bytes L vf s m opts' w2 = verify L vf (Some (fresh w2)) (Some (Suc (fresh w2))) opts' w3"
    by (simp add: verify_bytes_def NewReader_def go_then_def w3_def)
  have "same_input wr (Some (fresh w)) w3 (Some (Suc (fresh w2)))"
    "delivers w3 (Some (fresh w2)) s" "salt_stable wr w3"
    using assms(4) keeps_salts [OF sg]
    by (auto simp: same_input_def delivers_def wr_def w3_def NewReader_def salt_stable_def)
  from accepts [OF assms(1) sg this(1,2) _ assms(3) this(3)] v show ?thesis by simp
qed

end

section \<open>Verifiers and signers that hash first\<close>

text \<open>
  All five algorithms have the same shape: compute the digest, read the signature, and check it
  with a function of the key.  A verifier of that shape meets the verifier contract; together with
  a signer whose signatures the check accepts it meets the scheme contract.  \<open>use_opts\<close> is the
  part of the options the algorithm looks at.
\<close>

locale digest_verifier =
  fixes wf_verifier :: "crypto_lib \<Rightarrow> 'vf \<Rightarrow> bool"
    and verify :: "crypto_lib \<Rightarrow> 'vf \<Rightarrow> io_reader \<Rightarrow> io_reader \<Rightarrow> sig_option list \<Rightarrow> unit go"
    and hash_of :: "'vf \<Rightarrow> hash"
    and supported :: "hash list"
    and use_opts :: "sig_option list \<Rightarrow> sig_option list"
    and check :: "crypto_lib \<Rightarrow> 'vf \<Rightarrow> world \<Rightarrow> bytes \<Rightarrow> hash \<Rightarrow> bytes \<Rightarrow> unit outcome"
  assumes verify_unfold: "wf_verifier L vf \<Longrightarrow> rs \<noteq> None \<Longrightarrow> verify L vf rs rm opts =
      go_then (ComputeDigestForSigning L rm (hash_of vf) (Some supported) (use_opts opts)) (\<lambda>(d, h).
        go_then (go_wrap ''reading signature'' (ReadAll rs)) (\<lambda>sg w. (check L vf w d h sg, w)))"
    and nil_signature: "wf_verifier L vf \<Longrightarrow> fst (verify L vf None rm opts w) \<noteq> Ret ()"
    and check_empty: "wf_verifier L vf \<Longrightarrow> check L vf w d h [] \<noteq> Ret ()"
    and default_hash: "wf_verifier L vf \<Longrightarrow> hash_of vf \<in> set supported"
      "wf_verifier L vf \<Longrightarrow> hash_of vf = NoHash \<or> hash_linked L (hash_of vf)"
    and use_none: "use_opts [] = []"
begin

lemma verify_reads:
  assumes "wf_verifier L vf" "delivers w1 rs sg"
    and "ComputeDigestForSigning L rm (hash_of vf) (Some supported) (use_opts opts) w = (Ret (d, h), w1)"
  shows "verify L vf rs rm opts w = (check L vf (drain rs w1) d h sg, drain rs w1)"
proof -
  have "rs \<noteq> None" using assms(2) by (auto simp: delivers_def)
  with verify_unfold [OF assms(1) this] assms(2,3) show ?thesis
    by (simp add: go_then_def go_wrap_def ReadAll_delivers)
qed

lemma verify_RetD:
  assumes "wf_verifier L vf" "verify L vf rs rm opts w = (Ret (), w')"
  obtains d h w1 sg where
    "ComputeDigestForSigning L rm (hash_of vf) (Some supported) (use_opts opts) w = (Ret (d, h), w1)"
    "delivers w1 rs sg" "check L vf (drain rs w1) d h sg = Ret ()" "w' = drain rs w1"
proof -
  have "rs \<noteq> None" using nil_signature [OF assms(1)] assms(2) by (metis fst_conv)
  with verify_unfold [OF assms(1) this] assms(2) that show thesis by (auto simp: go_simps)
qed

end

sublocale digest_verifier \<subseteq> verifier_contract wf_verifier verify
proof unfold_locales
  fix L vf w rs sg rm m
  assume a: "wf_verifier L vf" "delivers w rs sg" "delivers w rm m" "rs \<noteq> rm"
  have c: "ComputeDigestForSigning L rm (hash_of vf) (Some supported) (use_opts []) w =
      (Ret (if hash_of vf = NoHash then m else hash_sum L (hash_of vf) m, hash_of vf), drain rm w)"
    using ComputeDigest_plain [OF a(3) _ default_hash(2) [OF a(1)]] default_hash(1) [OF a(1)]
    by (simp add: use_none)
  have "delivers (drain rm w) rs sg" using a by simp
  from verify_reads [OF a(1) this c] delivers_drain_same [OF this]
  show "delivers (snd (verify L vf rs rm [] w)) rs []" by simp
next
  fix L vf w rs rm opts
  assume a: "wf_verifier L vf" "delivers w rs []" "rs \<noteq> rm"
  show "fst (verify L vf rs rm opts w) \<noteq> Ret ()"
  proof
    assume "fst (verify L vf rs rm opts w) = Ret ()"
    then have "verify L vf rs rm opts w = (Ret (), snd (verify L vf rs rm opts w))"
      by (simp add: prod_eq_iff)
    from verify_RetD [OF a(1) this] obtain d h w1 sg where
      c: "ComputeDigestForSigning L rm (hash_of vf) (Some supported) (use_opts opts) w = (Ret (d, h), w1)"
        "delivers w1 rs sg" "check L vf (drain rs w1) d h sg = Ret ()" .
    have "delivers w1 rs []" using a ComputeDigest_world [OF c(1)] by simp
    with c(2) have "sg = []" by (rule delivers_unique)
    with c(3) check_empty [OF a(1)] show False by simp
  qed
qed (simp add: nil_signature)

locale digest_scheme = digest_verifier wf_verifier verify hash_of supported use_opts check
  for wf_verifier :: "crypto_lib \<Rightarrow> 'vf \<Rightarrow> bool"
    and verify :: "crypto_lib \<Rightarrow> 'vf \<Rightarrow> io_reader \<Rightarrow> io_reader \<Rightarrow> sig_option list \<Rightarrow> unit go"
    and hash_of :: "'vf \<Rightarrow> hash"
    and supported :: "hash list"
    and use_opts :: "sig_option list \<Rightarrow> sig_option list"
    and check :: "crypto_lib \<Rightarrow> 'vf \<Rightarrow> world \<Rightarrow> bytes \<Rightarrow> hash \<Rightarrow> bytes \<Rightarrow> unit outcome" +
  fixes key_pair :: "crypto_lib \<Rightarrow> 'sg \<Rightarrow> 'vf \<Rightarrow> bool"
    and sign :: "crypto_lib \<Rightarrow> 'sg \<Rightarrow> io_reader \<Rightarrow> sig_option list \<Rightarrow> bytes go"
    and sign_supported :: "hash list"
    and sign_hash :: "'sg \<Rightarrow> hash"
    and makes :: "crypto_lib \<Rightarrow> 'sg \<Rightarrow> world \<Rightarrow> bytes \<Rightarrow> hash \<Rightarrow> bytes \<Rightarrow> bool"
  assumes pair_wf_verifier: "key_pair L sg vf \<Longrightarrow> wf_verifier L vf"
    and same_hash: "key_pair L sg vf \<Longrightarrow> sign_hash sg = hash_of vf"
    and sign_subset: "set sign_supported \<subseteq> set supported"
    and use_same: "same_msg_options opts opts' \<Longrightarrow> same_msg_options (use_opts opts) (use_opts opts')"
    and sign_RetD: "sign L sg r opts w = (Ret s, w1) \<Longrightarrow>
      \<exists>d h w0. ComputeDigestForSigning L r (sign_hash sg) (Some sign_supported) (use_opts opts) w = (Ret (d, h), w0) \<and>
        salt_stable w0 w1 \<and> makes L sg w0 d h s"
    and made_checks: "key_pair L sg vf \<Longrightarrow> makes L sg w d h s \<Longrightarrow> salt_stable w w2 \<Longrightarrow> check L vf w2 d h s = Ret ()"

sublocale digest_scheme \<subseteq> signature_scheme wf_verifier verify key_pair sign
proof unfold_locales
  fix L sg vf r opts w s w1 w2 rm rs opts'
  assume a: "key_pair L sg vf" "sign L sg r opts w = (Ret s, w1)" "same_input w r w2 rm"
    "delivers w2 rs s" "rs \<noteq> rm" "same_msg_options opts opts'" "salt_stable w w2"
  from sign_RetD [OF a(2)] obtain d h w0 where
    d: "ComputeDigestForSigning L r (hash_of vf) (Some sign_supported) (use_opts opts) w = (Ret (d, h), w0)"
      "makes L sg w0 d h s"
    by (auto simp: same_hash [OF a(1)])
  from ComputeDigest_repeat [OF d(1) a(3) use_same [OF a(6)], of "Some supported"] sign_subset
  obtain w3 where w3: "ComputeDigestForSigning L rm (hash_of vf) (Some supported) (use_opts opts') w2 = (Ret (d, h), w3)"
    "same_but_reader rm w2 w3" by auto
  have "delivers w3 rs s" using a(4,5) w3(2) by simp
  moreover have "salt_stable w0 (drain rs w3)"
    using a(7) same_but_reader_pss [OF w3(2)] same_but_reader_pss [OF ComputeDigest_world [OF d(1)]]
    by (simp add: salt_stable_def)
  ultimately show "fst (verify L vf rs rm opts' w2) = Ret ()"
    using verify_reads [OF pair_wf_verifier [OF a(1)] _ w3(1)] made_checks [OF a(1) d(2)] by simp
next
  fix L sg r opts w s w1
  assume "sign L sg r opts w = (Ret s, w1)"
  from sign_RetD [OF this] show "salt_stable w w1"
    by (auto simp: salt_stable_def dest!: ComputeDigest_world same_but_reader_pss)
qed (rule pair_wf_verifier)

end
