(* ===== verification/BigInt.thy ===== *)
theory BigInt
  imports Prelude
begin

text \<open>
  The two conversions of \<open>math/big\<close> the signature code uses: \<open>Int.SetBytes\<close> reads a big-endian
  byte string, \<open>Int.Bytes\<close> writes the shortest one, without leading zero bytes.
\<close>

definition SetBytes :: "bytes \<Rightarrow> nat" where
  "SetBytes bs = foldl (\<lambda>n b. 256 * n + unat b) 0 bs"

fun nat_Bytes :: "nat \<Rightarrow> bytes" where
  "nat_Bytes n = (if n = 0 then [] else nat_Bytes (n div 256) @ [word_of_nat (n mod 256)])"

declare nat_Bytes.simps [simp del]

lemma nat_Bytes_0 [simp]: "nat_Bytes 0 = []"
  by (simp add: nat_Bytes.simps)

lemma SetBytes_Nil [simp]: "SetBytes [] = 0"
  by (simp add: SetBytes_def)

lemma SetBytes_snoc [simp]: "SetBytes (bs @ [b]) = 256 * SetBytes bs + unat b"
  by (simp add: SetBytes_def)

lemma unat_byte_less: "unat (b :: 8 word) < 256"
  using unsigned_less [of b, where ?'a = nat] by simp

lemma unat_byte_of_nat: "n < 256 \<Longrightarrow> unat (word_of_nat n :: 8 word) = n"
  by (simp add: unat_of_nat take_bit_eq_mod)

text \<open>Reading back what \<open>Bytes\<close> wrote.\<close>

lemma SetBytes_nat_Bytes [simp]: "SetBytes (nat_Bytes n) = n"
proof (induction n rule: nat_Bytes.induct)
  case (1 n)
  then show ?case by (cases "n = 0") (simp_all add: nat_Bytes.simps [of n] unat_byte_of_nat)
qed

lemma nat_Bytes_step: "0 < n \<or> b \<noteq> 0 \<Longrightarrow> nat_Bytes (256 * n + unat (b :: 8 word)) = nat_Bytes n @ [b]"
proof -
  assume a: "0 < n \<or> b \<noteq> 0"
  have "256 * n + unat b \<noteq> 0" using a by (auto simp: unat_eq_0)
  moreover have "(256 * n + unat b) div 256 = n" "(256 * n + unat b) mod 256 = unat b"
    using unat_byte_less [of b] by auto
  ultimately show ?thesis by (subst nat_Bytes.simps) simp
qed

lemma SetBytes_eq_0_iff: "SetBytes bs = 0 \<longleftrightarrow> (\<forall>b \<in> set bs. b = 0)"
  by (induction bs rule: rev_induct) (auto simp: unat_eq_0)

text \<open>Writing back what was read drops the leading zero bytes, and nothing else.\<close>

lemma nat_Bytes_SetBytes: "nat_Bytes (SetBytes bs) = dropWhile (\<lambda>b. b = 0) bs"
proof (induction bs rule: rev_induct)
  case (snoc b bs)
  show ?case
  proof (cases "SetBytes bs = 0")
    case True
    then have z: "\<forall>x \<in> set bs. x = 0" by (simp add: SetBytes_eq_0_iff)
    then have "dropWhile (\<lambda>b. b = 0) (bs @ [b]) = dropWhile (\<lambda>b. b = 0) [b]"
      by (auto simp: dropWhile_append)
    with True show ?thesis using nat_Bytes_step [of 0 b] by auto
  next
    case False
    then have "\<not> (\<forall>x \<in> set bs. x = 0)" by (simp add: SetBytes_eq_0_iff)
    then have "dropWhile (\<lambda>b. b = 0) (bs @ [b]) = dropWhile (\<lambda>b. b = 0) bs @ [b]"
      by (auto simp: dropWhile_append1)
    with False snoc show ?thesis using nat_Bytes_step [of "SetBytes bs" b] by simp
  qed
qed simp

lemma length_dropWhile_eq_iff: "dropWhile p xs = xs \<longleftrightarrow> length (dropWhile p xs) = length xs"
  by (metis append_eq_append_conv append_self_conv2 takeWhile_dropWhile_id)

lemma nat_Bytes_SetBytes_id: "nat_Bytes (SetBytes bs) = bs \<longleftrightarrow> bs = [] \<or> hd bs \<noteq> 0"
  by (simp add: nat_Bytes_SetBytes dropWhile_eq_self_iff)

lemma length_nat_Bytes_SetBytes: "length (nat_Bytes (SetBytes bs)) \<le> length bs"
  by (simp add: nat_Bytes_SetBytes length_dropWhile_le)

end
