(* ===== verification/SignerECDSA.thy ===== *)
theory SignerECDSA
  imports Signing BigInt
begin

text \<open>
  \<open>pkg/signature/ecdsa.go\<close>: the ECDSA signer, verifier and their combination.  Verification
  accepts ASN.1 signatures and, when the bytes do not parse as such, the fixed-width encoding of
  IEEE P1363 (the two halves are \<open>r\<close> and \<open>s\<close>).
\<close>

definition ecdsaSupportedHashFuncs :: "hash list" where
  "ecdsaSupportedHashFuncs = [SHA256, SHA512, SHA384, SHA224]"

definition ecdsaSupportedVerifyHashFuncs :: "hash list" where
  "ecdsaSupportedVerifyHashFuncs = [SHA256, SHA512, SHA384, SHA224, SHA1]"

record ECDSASigner =
  es_hashFunc :: hash
  es_priv :: "ecdsa_priv option"

record ECDSAVerifier =
  ev_publicKey :: "ecdsa_pub option"
  ev_hashFunc :: hash

record ECDSASignerVerifier =
  esv_signer :: ECDSASigner
  esv_verifier :: ECDSAVerifier

section \<open>Signer\<close>

definition LoadECDSASigner :: "ecdsa_priv option \<Rightarrow> hash \<Rightarrow> ECDSASigner outcome" where
  "LoadECDSASigner priv hf =
     (if priv = None then Err (Msg ''invalid ECDSA private key specified'')
      else if \<not> isSupportedAlg hf (Some ecdsaSupportedHashFuncs)
      then Err (Msg ''invalid hash function specified'')
      else Ret \<lparr>es_hashFunc = hf, es_priv = priv\<rparr>)"

definition ECDSASigner_SignMessage ::
  "crypto_lib \<Rightarrow> ECDSASigner \<Rightarrow> io_reader \<Rightarrow> sig_option list \<Rightarrow> bytes go" where
  "ECDSASigner_SignMessage L e message opts =
     go_then (ComputeDigestForSigning L message (es_hashFunc e) (Some ecdsaSupportedHashFuncs) opts)
       (\<lambda>(digest, _).
         let rand = selectRandFromOpts opts
         in (case es_priv e of
               None \<Rightarrow> go_panic ''nil pointer dereference''
             | Some k \<Rightarrow> go_lift (ecdsa_SignASN1 L rand k digest)))"

definition ECDSASigner_Public :: "ECDSASigner \<Rightarrow> public_key" where
  "ECDSASigner_Public e =
     (case es_priv e of None \<Rightarrow> Nil_public | Some k \<Rightarrow> Ecdsa_public (Some (ecdsa_PublicKey k)))"

definition ECDSASigner_PublicKey :: "ECDSASigner \<Rightarrow> sig_option list \<Rightarrow> public_key outcome" where
  "ECDSASigner_PublicKey e opts = Ret (ECDSASigner_Public e)"

definition ECDSASigner_Sign ::
  "crypto_lib \<Rightarrow> ECDSASigner \<Rightarrow> rand option \<Rightarrow> bytes \<Rightarrow> signer_opts option \<Rightarrow> bytes go" where
  "ECDSASigner_Sign L e rand digest opts =
     (let ecdsaOpts = [WithDigest digest, WithRand rand];
          ecdsaOpts' = (if opts \<noteq> None then ecdsaOpts @ [WithCryptoSignerOpts opts] else ecdsaOpts)
      in ECDSASigner_SignMessage L e None ecdsaOpts')"

section \<open>Verifier\<close>

definition LoadECDSAVerifier :: "ecdsa_pub option \<Rightarrow> hash \<Rightarrow> ECDSAVerifier outcome" where
  "LoadECDSAVerifier pub hf =
     (if pub = None then Err (Msg ''invalid ECDSA public key specified'')
      else if \<not> isSupportedAlg hf (Some ecdsaSupportedHashFuncs)
      then Err (Msg ''invalid hash function specified'')
      else Ret \<lparr>ev_publicKey = pub, ev_hashFunc = hf\<rparr>)"

definition ECDSAVerifier_PublicKey :: "ECDSAVerifier \<Rightarrow> sig_option list \<Rightarrow> public_key outcome" where
  "ECDSAVerifier_PublicKey e opts = Ret (Ecdsa_public (ev_publicKey e))"

text \<open>The check of the signature bytes against a digest, after both have been read.\<close>

definition ecdsa_check :: "crypto_lib \<Rightarrow> ecdsa_pub \<Rightarrow> bytes \<Rightarrow> bytes \<Rightarrow> unit outcome" where
  "ecdsa_check L pub digest sigBytes =
     (if \<not> ecdsa_IsOnCurve L pub then Err (Msg ''invalid ECDSA public key'')
      else (case asn1_Unmarshal_RS L sigBytes of
          Some _ \<Rightarrow>
            if \<not> ecdsa_VerifyASN1 L pub digest sigBytes
            then Err (Msg ''invalid signature when validating ASN.1 encoded signature'')
            else Ret ()
        | None \<Rightarrow>
            if length sigBytes = 0 \<or> 132 < length sigBytes \<or> length sigBytes mod 2 \<noteq> 0
            then Err (Msg ''ecdsa: Invalid IEEE_P1363 encoded bytes'')
            else
              let r = SetBytes (take (length sigBytes div 2) sigBytes);
                  s = SetBytes (drop (length sigBytes div 2) sigBytes)
              in if \<not> ecdsa_Verify L pub digest r s
                 then Err (Msg ''invalid signature when validating IEEE_P1363 encoded signature'')
                 else Ret ()))"

definition ECDSAVerifier_VerifySignature ::
  "crypto_lib \<Rightarrow> ECDSAVerifier \<Rightarrow> io_reader \<Rightarrow> io_reader \<Rightarrow> sig_option list \<Rightarrow> unit go" where
  "ECDSAVerifier_VerifySignature L e signature message opts =
     (case ev_publicKey e of
        None \<Rightarrow> go_err (Msg ''no public key set for ECDSAVerifier'')
      | Some pub \<Rightarrow>
          go_then (ComputeDigestForVerifying L message (ev_hashFunc e)
                     (Some ecdsaSupportedVerifyHashFuncs) opts) (\<lambda>(digest, _).
            if signature = None then go_err (Msg ''nil signature passed to VerifySignature'')
            else go_then (go_wrap ''reading signature'' (ReadAll signature)) (\<lambda>sigBytes.
              go_lift (ecdsa_check L pub digest sigBytes))))"

section \<open>Signer and verifier combined\<close>

definition LoadECDSASignerVerifier :: "ecdsa_priv option \<Rightarrow> hash \<Rightarrow> ECDSASignerVerifier outcome" where
  "LoadECDSASignerVerifier priv hf =
     and_then (wrap_outcome ''initializing signer'' (LoadECDSASigner priv hf)) (\<lambda>signer.
     and_then (wrap_outcome ''initializing verifier''
         (LoadECDSAVerifier (map_option ecdsa_PublicKey priv) hf)) (\<lambda>verifier.
     Ret \<lparr>esv_signer = signer, esv_verifier = verifier\<rparr>))"

definition NewECDSASignerVerifier ::
  "crypto_lib \<Rightarrow> curve \<Rightarrow> rand \<Rightarrow> hash \<Rightarrow> (ECDSASignerVerifier \<times> ecdsa_priv) outcome" where
  "NewECDSASignerVerifier L c rand hashFunc =
     and_then (ecdsa_GenerateKey L c rand) (\<lambda>priv.
     and_then (LoadECDSASignerVerifier (Some priv) hashFunc) (\<lambda>sv. Ret (sv, priv)))"

definition NewDefaultECDSASignerVerifier :: "crypto_lib \<Rightarrow> (ECDSASignerVerifier \<times> ecdsa_priv) outcome" where
  "NewDefaultECDSASignerVerifier L = NewECDSASignerVerifier L P256 CryptoRand SHA256"

definition ECDSASignerVerifier_PublicKey :: "ECDSASignerVerifier \<Rightarrow> sig_option list \<Rightarrow> public_key outcome" where
  "ECDSASignerVerifier_PublicKey e opts = Ret (Ecdsa_public (ev_publicKey (esv_verifier e)))"

section \<open>Contracts\<close>

definition wf_ecdsa_verifier :: "crypto_lib \<Rightarrow> ECDSAVerifier \<Rightarrow> bool" where
  "wf_ecdsa_verifier L e \<longleftrightarrow> lib_laws L \<and> ev_publicKey e \<noteq> None \<and>
     ev_hashFunc e \<in> set ecdsaSupportedHashFuncs \<and> hash_linked L (ev_hashFunc e)"

definition ecdsa_key_pair :: "crypto_lib \<Rightarrow> ECDSASigner \<Rightarrow> ECDSAVerifier \<Rightarrow> bool" where
  "ecdsa_key_pair L sg vf \<longleftrightarrow> wf_ecdsa_verifier L vf \<and> es_hashFunc sg = ev_hashFunc vf \<and>
     (\<exists>k. es_priv sg = Some k \<and> ev_publicKey vf = Some (ecdsa_PublicKey k) \<and>
       ecdsa_IsOnCurve L (ecdsa_PublicKey k) \<and> ecdsa_pair L k)"

lemma ecdsa_check_empty: "ecdsa_laws L \<Longrightarrow> ecdsa_check L pub d [] \<noteq> Ret ()"
  by (simp add: ecdsa_check_def ecdsa_laws_def)

interpretation ecdsa: digest_scheme wf_ecdsa_verifier ECDSAVerifier_VerifySignature ev_hashFunc
  ecdsaSupportedVerifyHashFuncs "\<lambda>opts. opts" "\<lambda>L vf w d h sg. ecdsa_check L (the (ev_publicKey vf)) d sg"
  ecdsa_key_pair ECDSASigner_SignMessage ecdsaSupportedHashFuncs es_hashFunc
  "\<lambda>L sg w d h s. \<exists>r k. es_priv sg = Some k \<and> ecdsa_SignASN1 L r k d = Ret s"
proof unfold_locales
  fix L vf rs rm opts
  assume "wf_ecdsa_verifier L vf" "rs \<noteq> (None :: io_reader)"
  then show "ECDSAVerifier_VerifySignature L vf rs rm opts =
      go_then (ComputeDigestForSigning L rm (ev_hashFunc vf) (Some ecdsaSupportedVerifyHashFuncs) opts) (\<lambda>(d, h).
        go_then (go_wrap ''reading signature'' (ReadAll rs)) (\<lambda>sg w. (ecdsa_check L (the (ev_publicKey vf)) d sg, w)))"
    by (auto simp: wf_ecdsa_verifier_def ECDSAVerifier_VerifySignature_def ComputeDigest_same go_lift_fun)
next
  fix L sg r opts w s w1
  assume "ECDSASigner_SignMessage L sg r opts w = (Ret s, w1)"
  then show "\<exists>d h w0. ComputeDigestForSigning L r (es_hashFunc sg) (Some ecdsaSupportedHashFuncs) opts w = (Ret (d, h), w0) \<and>
      salt_stable w0 w1 \<and> (\<exists>r k. es_priv sg = Some k \<and> ecdsa_SignASN1 L r k d = Ret s)"
    by (force simp: ECDSASigner_SignMessage_def go_simps Let_def split: option.splits)
next
  fix L sg vf d s
  assume "ecdsa_key_pair L sg vf" "\<exists>r k. es_priv sg = Some k \<and> ecdsa_SignASN1 L r k d = Ret s"
  then show "ecdsa_check L (the (ev_publicKey vf)) d s = Ret ()"
    by (fastforce simp: ecdsa_check_def ecdsa_key_pair_def wf_ecdsa_verifier_def lib_laws_def ecdsa_laws_def)
qed (auto simp: wf_ecdsa_verifier_def ecdsa_check_empty lib_laws_def ecdsa_key_pair_def
  ecdsaSupportedHashFuncs_def ecdsaSupportedVerifyHashFuncs_def ECDSAVerifier_VerifySignature_def
  go_then_def split: option.splits prod.splits outcome.splits)

end
