(* ===== verification/SignerRSA.thy ===== *)
theory SignerRSA
  imports Signing
begin

text \<open>
  \<open>pkg/signature/rsapss.go\<close> and \<open>pkg/signature/rsapkcs1v15.go\<close>: the two RSA schemes.  A PSS
  signer keeps the pointer to the caller's \<open>rsa.PSSOptions\<close> and writes the hash in force through it
  on every signature; the model keeps the pointer and the write.
\<close>

definition rsaSupportedHashFuncs :: "hash list" where
  "rsaSupportedHashFuncs = [SHA256, SHA384, SHA512]"

definition rsaSupportedVerifyHashFuncs :: "hash list" where
  "rsaSupportedVerifyHashFuncs = [SHA1, SHA256, SHA384, SHA512]"

text \<open>\<open>rsa.PSSSaltLengthAuto\<close>.\<close>

definition PSSSaltLengthAuto :: int where
  "PSSSaltLengthAuto = 0"

section \<open>RSA-PSS\<close>

record RSAPSSSigner =
  ps_hashFunc :: hash
  ps_priv :: "rsa_priv option"
  ps_pssOpts :: "nat option"

record RSAPSSVerifier =
  pv_publicKey :: "rsa_pub option"
  pv_hashFunc :: hash
  pv_pssOpts :: "nat option"

record RSAPSSSignerVerifier =
  psv_signer :: RSAPSSSigner
  psv_verifier :: RSAPSSVerifier

definition LoadRSAPSSSigner :: "rsa_priv option \<Rightarrow> hash \<Rightarrow> nat option \<Rightarrow> RSAPSSSigner outcome" where
  "LoadRSAPSSSigner priv hf opts =
     (if priv = None then Err (Msg ''invalid RSA private key specified'')
      else if \<not> isSupportedAlg hf (Some rsaSupportedHashFuncs)
      then Err (Msg ''invalid hash function specified'')
      else Ret \<lparr>ps_hashFunc = hf, ps_priv = priv, ps_pssOpts = opts\<rparr>)"

text \<open>\<open>pssOpts.Hash = hf\<close> and the options value \<open>rsa.SignPSS\<close> is then called with: a fresh struct
  when the pointer is nil, the shared cell otherwise.\<close>

definition set_pss_hash :: "nat option \<Rightarrow> hash \<Rightarrow> PSSOptions go" where
  "set_pss_hash p hf w = (case p of
       None \<Rightarrow> (Ret \<lparr>SaltLength = PSSSaltLengthAuto, PSSHash = hf\<rparr>, w)
     | Some a \<Rightarrow>
         let o1 = (pss_cells w a)\<lparr>PSSHash := hf\<rparr>
         in (Ret o1, w\<lparr>pss_cells := (pss_cells w)(a := o1)\<rparr>))"

definition RSAPSSSigner_SignMessage ::
  "crypto_lib \<Rightarrow> RSAPSSSigner \<Rightarrow> io_reader \<Rightarrow> sig_option list \<Rightarrow> bytes go" where
  "RSAPSSSigner_SignMessage L r message opts =
     go_then (ComputeDigestForSigning L message (ps_hashFunc r) (Some rsaSupportedHashFuncs) opts)
       (\<lambda>(digest, hf).
         let rand = selectRandFromOpts opts
         in go_then (set_pss_hash (ps_pssOpts r) hf) (\<lambda>pssOpts.
              case ps_priv r of
                None \<Rightarrow> go_panic ''nil pointer dereference''
              | Some k \<Rightarrow> go_lift (rsa_SignPSS L rand k hf digest pssOpts)))"

definition RSAPSSSigner_Public :: "RSAPSSSigner \<Rightarrow> public_key" where
  "RSAPSSSigner_Public r =
     (case ps_priv r of None \<Rightarrow> Nil_public | Some k \<Rightarrow> Rsa_public (Some (rsa_PublicKey k)))"

definition RSAPSSSigner_PublicKey :: "RSAPSSSigner \<Rightarrow> sig_option list \<Rightarrow> public_key outcome" where
  "RSAPSSSigner_PublicKey r opts = Ret (RSAPSSSigner_Public r)"

definition RSAPSSSigner_Sign ::
  "crypto_lib \<Rightarrow> RSAPSSSigner \<Rightarrow> rand option \<Rightarrow> bytes \<Rightarrow> signer_opts option \<Rightarrow> bytes go" where
  "RSAPSSSigner_Sign L r rand digest opts =
     (let rsaOpts = [WithDigest digest, WithRand rand];
          rsaOpts' = (if opts \<noteq> None then rsaOpts @ [WithCryptoSignerOpts opts] else rsaOpts)
      in RSAPSSSigner_SignMessage L r None rsaOpts')"

definition LoadRSAPSSVerifier :: "rsa_pub option \<Rightarrow> hash \<Rightarrow> nat option \<Rightarrow> RSAPSSVerifier outcome" where
  "LoadRSAPSSVerifier pub hashFunc opts =
     (if pub = None then Err (Msg ''invalid RSA public key specified'')
      else if \<not> isSupportedAlg hashFunc (Some rsaSupportedHashFuncs)
      then Err (Msg ''invalid hash function specified'')
      else Ret \<lparr>pv_publicKey = pub, pv_hashFunc = hashFunc, pv_pssOpts = opts\<rparr>)"

definition RSAPSSVerifier_PublicKey :: "RSAPSSVerifier \<Rightarrow> sig_option list \<Rightarrow> public_key outcome" where
  "RSAPSSVerifier_PublicKey r opts = Ret (Rsa_public (pv_publicKey r))"

definition pss_in_force :: "nat option \<Rightarrow> world \<Rightarrow> PSSOptions" where
  "pss_in_force p w = (case p of
       None \<Rightarrow> \<lparr>SaltLength = PSSSaltLengthAuto, PSSHash = NoHash\<rparr>
     | Some a \<Rightarrow> pss_cells w a)"

definition RSAPSSVerifier_VerifySignature ::
  "crypto_lib \<Rightarrow> RSAPSSVerifier \<Rightarrow> io_reader \<Rightarrow> io_reader \<Rightarrow> sig_option list \<Rightarrow> unit go" where
  "RSAPSSVerifier_VerifySignature L r signature message opts =
     go_then (ComputeDigestForVerifying L message (pv_hashFunc r) (Some rsaSupportedVerifyHashFuncs) opts)
       (\<lambda>(digest, hf).
         if signature = None then go_err (Msg ''nil signature passed to VerifySignature'')
         else go_then (go_wrap ''reading signature'' (ReadAll signature)) (\<lambda>sigBytes w.
           let pssOpts = pss_in_force (pv_pssOpts r) w
           in (case pv_publicKey r of
                 None \<Rightarrow> (Panic ''nil pointer dereference'', w)
               | Some pub \<Rightarrow> (rsa_VerifyPSS L pub hf digest sigBytes pssOpts, w))))"

definition LoadRSAPSSSignerVerifier ::
  "rsa_priv option \<Rightarrow> hash \<Rightarrow> nat option \<Rightarrow> RSAPSSSignerVerifier outcome" where
  "LoadRSAPSSSignerVerifier priv hf opts =
     and_then (wrap_outcome ''initializing signer'' (LoadRSAPSSSigner priv hf opts)) (\<lambda>signer.
     and_then (wrap_outcome ''initializing verifier''
         (LoadRSAPSSVerifier (map_option rsa_PublicKey priv) hf opts)) (\<lambda>verifier.
     Ret \<lparr>psv_signer = signer, psv_verifier = verifier\<rparr>))"

text \<open>\<open>&rsa.PSSOptions{Hash: hashFunc}\<close>: a new cell.\<close>

definition NewPSSOptions :: "PSSOptions \<Rightarrow> nat go" where
  "NewPSSOptions o1 w =
     (Ret (fresh w), w\<lparr>pss_cells := (pss_cells w)(fresh w := o1), fresh := Suc (fresh w)\<rparr>)"

definition NewRSAPSSSignerVerifier ::
  "crypto_lib \<Rightarrow> rand \<Rightarrow> nat \<Rightarrow> hash \<Rightarrow> (RSAPSSSignerVerifier \<times> rsa_priv) go" where
  "NewRSAPSSSignerVerifier L rand bits hashFunc =
     go_then (go_lift (rsa_GenerateKey L rand bits)) (\<lambda>priv.
     go_then (NewPSSOptions \<lparr>SaltLength = PSSSaltLengthAuto, PSSHash = hashFunc\<rparr>) (\<lambda>p.
     go_then (go_lift (LoadRSAPSSSignerVerifier (Some priv) hashFunc (Some p))) (\<lambda>sv.
     go_ret (sv, priv))))"

definition NewDefaultRSAPSSSignerVerifier :: "crypto_lib \<Rightarrow> (RSAPSSSignerVerifier \<times> rsa_priv) go" where
  "NewDefaultRSAPSSSignerVerifier L = NewRSAPSSSignerVerifier L CryptoRand 2048 SHA256"

definition RSAPSSSignerVerifier_PublicKey ::
  "RSAPSSSignerVerifier \<Rightarrow> sig_option list \<Rightarrow> public_key outcome" where
  "RSAPSSSignerVerifier_PublicKey r opts = Ret (Rsa_public (pv_publicKey (psv_verifier r)))"

section \<open>RSA PKCS #1 v1.5\<close>

record RSAPKCS1v15Signer =
  ks_hashFunc :: hash
  ks_priv :: "rsa_priv option"

record RSAPKCS1v15Verifier =
  kv_publicKey :: "rsa_pub option"
  kv_hashFunc :: hash

record RSAPKCS1v15SignerVerifier =
  ksv_signer :: RSAPKCS1v15Signer
  ksv_verifier :: RSAPKCS1v15Verifier

definition LoadRSAPKCS1v15Signer :: "rsa_priv option \<Rightarrow> hash \<Rightarrow> RSAPKCS1v15Signer outcome" where
  "LoadRSAPKCS1v15Signer priv hf =
     (if priv = None then Err (Msg ''invalid RSA private key specified'')
      else if \<not> isSupportedAlg hf (Some rsaSupportedHashFuncs)
      then Err (Msg ''invalid hash function specified'')
      else Ret \<lparr>ks_hashFunc = hf, ks_priv = priv\<rparr>)"

definition RSAPKCS1v15Signer_SignMessage ::
  "crypto_lib \<Rightarrow> RSAPKCS1v15Signer \<Rightarrow> io_reader \<Rightarrow> sig_option list \<Rightarrow> bytes go" where
  "RSAPKCS1v15Signer_SignMessage L r message opts =
     go_then (ComputeDigestForSigning L message (ks_hashFunc r) (Some rsaSupportedHashFuncs) opts)
       (\<lambda>(digest, hf).
         let rand = selectRandFromOpts opts
         in (case ks_priv r of
               None \<Rightarrow> go_panic ''nil pointer dereference''
             | Some k \<Rightarrow> go_lift (rsa_SignPKCS1v15 L rand k hf digest)))"

definition RSAPKCS1v15Signer_Public :: "RSAPKCS1v15Signer \<Rightarrow> public_key" where
  "RSAPKCS1v15Signer_Public r =
     (case ks_priv r of None \<Rightarrow> Nil_public | Some k \<Rightarrow> Rsa_public (Some (rsa_PublicKey k)))"

definition RSAPKCS1v15Signer_PublicKey :: "RSAPKCS1v15Signer \<Rightarrow> sig_option list \<Rightarrow> public_key outcome" where
  "RSAPKCS1v15Signer_PublicKey r opts = Ret (RSAPKCS1v15Signer_Public r)"

definition RSAPKCS1v15Signer_Sign ::
  "crypto_lib \<Rightarrow> RSAPKCS1v15Signer \<Rightarrow> rand option \<Rightarrow> bytes \<Rightarrow> signer_opts option \<Rightarrow> bytes go" where
  "RSAPKCS1v15Signer_Sign L r rand digest opts =
     (let rsaOpts = [WithDigest digest, WithRand rand];
          rsaOpts' = (if opts \<noteq> None then rsaOpts @ [WithCryptoSignerOpts opts] else rsaOpts)
      in RSAPKCS1v15Signer_SignMessage L r None rsaOpts')"

definition LoadRSAPKCS1v15Verifier :: "rsa_pub option \<Rightarrow> hash \<Rightarrow> RSAPKCS1v15Verifier outcome" where
  "LoadRSAPKCS1v15Verifier pub hashFunc =
     (if pub = None then Err (Msg ''invalid RSA public key specified'')
      else if \<not> isSupportedAlg hashFunc (Some rsaSupportedHashFuncs)
      then Err (Msg ''invalid hash function specified'')
      else Ret \<lparr>kv_publicKey = pub, kv_hashFunc = hashFunc\<rparr>)"

definition RSAPKCS1v15Verifier_PublicKey :: "RSAPKCS1v15Verifier \<Rightarrow> sig_option list \<Rightarrow> public_key outcome" where
  "RSAPKCS1v15Verifier_PublicKey r opts = Ret (Rsa_public (kv_publicKey r))"

definition RSAPKCS1v15Verifier_VerifySignature ::
  "crypto_lib \<Rightarrow> RSAPKCS1v15Verifier \<Rightarrow> io_reader \<Rightarrow> io_reader \<Rightarrow> sig_option list \<Rightarrow> unit go" where
  "RSAPKCS1v15Verifier_VerifySignature L r signature message opts =
     go_then (ComputeDigestForVerifying L message (kv_hashFunc r) (Some rsaSupportedVerifyHashFuncs) opts)
       (\<lambda>(digest, hf).
         if signature = None then go_err (Msg ''nil signature passed to VerifySignature'')
         else go_then (go_wrap ''reading signature'' (ReadAll signature)) (\<lambda>sigBytes.
           case kv_publicKey r of
             None \<Rightarrow> go_panic ''nil pointer dereference''
           | Some pub \<Rightarrow> go_lift (rsa_VerifyPKCS1v15 L pub hf digest sigBytes)))"

definition LoadRSAPKCS1v15SignerVerifier :: "rsa_priv option \<Rightarrow> hash \<Rightarrow> RSAPKCS1v15SignerVerifier outcome" where
  "LoadRSAPKCS1v15SignerVerifier priv hf =
     and_then (wrap_outcome ''initializing signer'' (LoadRSAPKCS1v15Signer priv hf)) (\<lambda>signer.
     and_then (wrap_outcome ''initializing verifier''
         (LoadRSAPKCS1v15Verifier (map_option rsa_PublicKey priv) hf)) (\<lambda>verifier.
     Ret \<lparr>ksv_signer = signer, ksv_verifier = verifier\<rparr>))"

definition NewRSAPKCS1v15SignerVerifier ::
  "crypto_lib \<Rightarrow> rand \<Rightarrow> nat \<Rightarrow> hash \<Rightarrow> (RSAPKCS1v15SignerVerifier \<times> rsa_priv) outcome" where
  "NewRSAPKCS1v15SignerVerifier L rand bits hashFunc =
     and_then (rsa_GenerateKey L rand bits) (\<lambda>priv.
     and_then (LoadRSAPKCS1v15SignerVerifier (Some priv) hashFunc) (\<lambda>sv. Ret (sv, priv)))"

definition NewDefaultRSAPKCS1v15SignerVerifier ::
  "crypto_lib \<Rightarrow> (RSAPKCS1v15SignerVerifier \<times> rsa_priv) outcome" where
  "NewDefaultRSAPKCS1v15SignerVerifier L = NewRSAPKCS1v15SignerVerifier L CryptoRand 2048 SHA256"

definition RSAPKCS1v15SignerVerifier_PublicKey ::
  "RSAPKCS1v15SignerVerifier \<Rightarrow> sig_option list \<Rightarrow> public_key outcome" where
  "RSAPKCS1v15SignerVerifier_PublicKey r opts = Ret (Rsa_public (kv_publicKey (ksv_verifier r)))"

section \<open>Contracts\<close>

definition wf_rsapss_verifier :: "crypto_lib \<Rightarrow> RSAPSSVerifier \<Rightarrow> bool" where
  "wf_rsapss_verifier L e \<longleftrightarrow> lib_laws L \<and> pv_publicKey e \<noteq> None \<and>
     pv_hashFunc e \<in> set rsaSupportedHashFuncs \<and> hash_linked L (pv_hashFunc e)"

definition rsapss_key_pair :: "crypto_lib \<Rightarrow> RSAPSSSigner \<Rightarrow> RSAPSSVerifier \<Rightarrow> bool" where
  "rsapss_key_pair L sg vf \<longleftrightarrow> wf_rsapss_verifier L vf \<and> ps_hashFunc sg = pv_hashFunc vf \<and>
     ps_pssOpts sg = pv_pssOpts vf \<and> map_option rsa_PublicKey (ps_priv sg) = pv_publicKey vf"

definition wf_rsapkcs_verifier :: "crypto_lib \<Rightarrow> RSAPKCS1v15Verifier \<Rightarrow> bool" where
  "wf_rsapkcs_verifier L e \<longleftrightarrow> lib_laws L \<and> kv_publicKey e \<noteq> None \<and>
     kv_hashFunc e \<in> set rsaSupportedHashFuncs \<and> hash_linked L (kv_hashFunc e)"

definition rsapkcs_key_pair :: "crypto_lib \<Rightarrow> RSAPKCS1v15Signer \<Rightarrow> RSAPKCS1v15Verifier \<Rightarrow> bool" where
  "rsapkcs_key_pair L sg vf \<longleftrightarrow> wf_rsapkcs_verifier L vf \<and> ks_hashFunc sg = kv_hashFunc vf \<and>
     map_option rsa_PublicKey (ks_priv sg) = kv_publicKey vf"

lemma set_pss_hash_Ret:
  assumes "set_pss_hash p h w = (Ret o1, w1)"
  shows "salt_stable w w1" "SaltLength o1 = SaltLength (pss_in_force p w)" "PSSHash o1 = h"
  using assms by (auto simp: set_pss_hash_def salt_stable_def pss_in_force_def Let_def split: option.splits)

lemma pss_in_force_stable:
  "salt_stable w w2 \<Longrightarrow> SaltLength (pss_in_force p w) = SaltLength (pss_in_force p w2)"
  by (auto simp: salt_stable_def pss_in_force_def split: option.splits)

interpretation rsapss: digest_scheme wf_rsapss_verifier RSAPSSVerifier_VerifySignature pv_hashFunc
  rsaSupportedVerifyHashFuncs "\<lambda>opts. opts"
  "\<lambda>L vf w d h sg. rsa_VerifyPSS L (the (pv_publicKey vf)) h d sg (pss_in_force (pv_pssOpts vf) w)"
  rsapss_key_pair RSAPSSSigner_SignMessage rsaSupportedHashFuncs ps_hashFunc
  "\<lambda>L sg w d h s. \<exists>r k o1. ps_priv sg = Some k \<and> rsa_SignPSS L r k h d o1 = Ret s \<and> PSSHash o1 = h \<and>
     SaltLength o1 = SaltLength (pss_in_force (ps_pssOpts sg) w)"
proof unfold_locales
  fix L vf rs rm opts
  assume "wf_rsapss_verifier L vf" "rs \<noteq> (None :: io_reader)"
  then show "RSAPSSVerifier_VerifySignature L vf rs rm opts =
      go_then (ComputeDigestForSigning L rm (pv_hashFunc vf) (Some rsaSupportedVerifyHashFuncs) opts) (\<lambda>(d, h).
        go_then (go_wrap ''reading signature'' (ReadAll rs)) (\<lambda>sg w.
          (rsa_VerifyPSS L (the (pv_publicKey vf)) h d sg (pss_in_force (pv_pssOpts vf) w), w)))"
    by (auto simp: wf_rsapss_verifier_def RSAPSSVerifier_VerifySignature_def ComputeDigest_same Let_def)
next
  fix L sg r opts w s w1
  assume "RSAPSSSigner_SignMessage L sg r opts w = (Ret s, w1)"
  then show "\<exists>d h w0. ComputeDigestForSigning L r (ps_hashFunc sg) (Some rsaSupportedHashFuncs) opts w = (Ret (d, h), w0) \<and>
      salt_stable w0 w1 \<and> (\<exists>r k o1. ps_priv sg = Some k \<and> rsa_SignPSS L r k h d o1 = Ret s \<and> PSSHash o1 = h \<and>
        SaltLength o1 = SaltLength (pss_in_force (ps_pssOpts sg) w0))"
    by (force simp: RSAPSSSigner_SignMessage_def go_simps Let_def split: option.splits dest: set_pss_hash_Ret)
next
  fix L sg vf w d h s w2
  assume a: "rsapss_key_pair L sg vf" "salt_stable w w2"
    "\<exists>r k o1. ps_priv sg = Some k \<and> rsa_SignPSS L r k h d o1 = Ret s \<and> PSSHash o1 = h \<and>
      SaltLength o1 = SaltLength (pss_in_force (ps_pssOpts sg) w)"
  from a(3) obtain r k o1 where k: "ps_priv sg = Some k" "rsa_SignPSS L r k h d o1 = Ret s" "PSSHash o1 = h"
    "SaltLength o1 = SaltLength (pss_in_force (ps_pssOpts sg) w2)"
    using pss_in_force_stable [OF a(2)] by auto
  have "rsa_laws L" "pv_publicKey vf = Some (rsa_PublicKey k)" "ps_pssOpts sg = pv_pssOpts vf"
    using a(1) k(1) by (auto simp: rsapss_key_pair_def wf_rsapss_verifier_def lib_laws_def)
  with k show "rsa_VerifyPSS L (the (pv_publicKey vf)) h d s (pss_in_force (pv_pssOpts vf) w2) = Ret ()"
    by (auto simp: rsa_laws_def)
qed (auto simp: wf_rsapss_verifier_def lib_laws_def rsapss_key_pair_def rsa_laws_def
  rsaSupportedHashFuncs_def rsaSupportedVerifyHashFuncs_def RSAPSSVerifier_VerifySignature_def
  go_then_def split: option.splits prod.splits outcome.splits)

interpretation rsapkcs: digest_scheme wf_rsapkcs_verifier RSAPKCS1v15Verifier_VerifySignature kv_hashFunc
  rsaSupportedVerifyHashFuncs "\<lambda>opts. opts"
  "\<lambda>L vf w d h sg. rsa_VerifyPKCS1v15 L (the (kv_publicKey vf)) h d sg"
  rsapkcs_key_pair RSAPKCS1v15Signer_SignMessage rsaSupportedHashFuncs ks_hashFunc
  "\<lambda>L sg w d h s. \<exists>r k. ks_priv sg = Some k \<and> rsa_SignPKCS1v15 L r k h d = Ret s"
proof unfold_locales
  fix L vf rs rm opts
  assume "wf_rsapkcs_verifier L vf" "rs \<noteq> (None :: io_reader)"
  then show "RSAPKCS1v15Verifier_VerifySignature L vf rs rm opts =
      go_then (ComputeDigestForSigning L rm (kv_hashFunc vf) (Some rsaSupportedVerifyHashFuncs) opts) (\<lambda>(d, h).
        go_then (go_wrap ''reading signature'' (ReadAll rs)) (\<lambda>sg w.
          (rsa_VerifyPKCS1v15 L (the (kv_publicKey vf)) h d sg, w)))"
    by (auto simp: wf_rsapkcs_verifier_def RSAPKCS1v15Verifier_VerifySignature_def ComputeDigest_same go_lift_fun)
next
  fix L sg r opts w s w1
  assume "RSAPKCS1v15Signer_SignMessage L sg r opts w = (Ret s, w1)"
  then show "\<exists>d h w0. ComputeDigestForSigning L r (ks_hashFunc sg) (Some rsaSupportedHashFuncs) opts w = (Ret (d, h), w0) \<and>
      salt_stable w0 w1 \<and> (\<exists>r k. ks_priv sg = Some k \<and> rsa_SignPKCS1v15 L r k h d = Ret s)"
    by (force simp: RSAPKCS1v15Signer_SignMessage_def go_simps Let_def split: option.splits)
qed (auto simp: wf_rsapkcs_verifier_def lib_laws_def rsapkcs_key_pair_def rsa_laws_def
  rsaSupportedHashFuncs_def rsaSupportedVerifyHashFuncs_def RSAPKCS1v15Verifier_VerifySignature_def
  go_then_def split: option.splits prod.splits outcome.splits)

end
