(* ===== verification/SignerEd25519.thy ===== *)
theory SignerEd25519
  imports Signing
begin

text \<open>
  \<open>pkg/signature/ed25519.go\<close> and \<open>pkg/signature/ed25519ph.go\<close>: pure Ed25519, which signs the
  message itself and takes no options, and the pre-hashed variant over a SHA-512 digest.  Keys are
  byte slices, \<open>None\<close> when nil; the primitives panic on keys of the wrong length.
\<close>

definition ed25519SupportedHashFuncs :: "hash list" where
  "ed25519SupportedHashFuncs = [NoHash]"

definition ed25519phSupportedHashFuncs :: "hash list" where
  "ed25519phSupportedHashFuncs = [SHA512]"

text \<open>A nil slice has length 0.\<close>

definition key_bytes :: "bytes option \<Rightarrow> bytes" where
  "key_bytes b = (case b of None \<Rightarrow> [] | Some x \<Rightarrow> x)"

lemma key_bytes_simps [simp]: "key_bytes None = []" "key_bytes (Some x) = x"
  by (simp_all add: key_bytes_def)

text \<open>The calls into \<open>crypto/ed25519\<close>, with the panics its documentation states.\<close>

definition call_ed25519_Sign :: "crypto_lib \<Rightarrow> bytes \<Rightarrow> bytes \<Rightarrow> bytes outcome" where
  "call_ed25519_Sign L priv m =
     (if length priv \<noteq> 64 then Panic ''ed25519: bad private key length'' else Ret (ed25519_Sign L priv m))"

definition call_ed25519_Verify :: "crypto_lib \<Rightarrow> bytes \<Rightarrow> bytes \<Rightarrow> bytes \<Rightarrow> bool outcome" where
  "call_ed25519_Verify L pub m s =
     (if length pub \<noteq> 32 then Panic ''ed25519: bad public key length'' else Ret (ed25519_Verify L pub m s))"

definition call_ed25519ph_Verify :: "crypto_lib \<Rightarrow> bytes \<Rightarrow> bytes \<Rightarrow> bytes \<Rightarrow> unit outcome" where
  "call_ed25519ph_Verify L pub d s =
     (if length pub \<noteq> 32 then Panic ''ed25519: bad public key length'' else ed25519ph_Verify L pub d s)"

section \<open>Ed25519\<close>

record ED25519Signer =
  ds_priv :: "bytes option"

record ED25519Verifier =
  dv_publicKey :: "bytes option"

record ED25519SignerVerifier =
  dsv_signer :: ED25519Signer
  dsv_verifier :: ED25519Verifier

definition LoadED25519Signer :: "bytes option \<Rightarrow> ED25519Signer outcome" where
  "LoadED25519Signer priv =
     (if priv = None then Err (Msg ''invalid ED25519 private key specified'')
      else if length (key_bytes priv) \<noteq> 64 then Err (Msg ''invalid size for ED25519 key'')
      else Ret \<lparr>ds_priv = priv\<rparr>)"

definition ED25519Signer_SignMessage ::
  "crypto_lib \<Rightarrow> ED25519Signer \<Rightarrow> io_reader \<Rightarrow> sig_option list \<Rightarrow> bytes go" where
  "ED25519Signer_SignMessage L e message opts =
     go_then (ComputeDigestForSigning L message NoHash (Some ed25519SupportedHashFuncs) [])
       (\<lambda>(messageBytes, _). go_lift (call_ed25519_Sign L (key_bytes (ds_priv e)) messageBytes))"

definition ED25519Signer_Public :: "ED25519Signer \<Rightarrow> public_key outcome" where
  "ED25519Signer_Public e = (case ds_priv e of
       None \<Rightarrow> Ret Nil_public
     | Some p \<Rightarrow> and_then (ed25519_Public p) (\<lambda>pub. Ret (Ed25519_public (Some pub))))"

definition ED25519Signer_PublicKey :: "ED25519Signer \<Rightarrow> sig_option list \<Rightarrow> public_key outcome" where
  "ED25519Signer_PublicKey e opts = ED25519Signer_Public e"

definition ED25519Signer_Sign ::
  "crypto_lib \<Rightarrow> ED25519Signer \<Rightarrow> rand option \<Rightarrow> bytes option \<Rightarrow> signer_opts option \<Rightarrow> bytes go" where
  "ED25519Signer_Sign L e rand message opts = (case message of
       None \<Rightarrow> go_err (Msg ''message must not be nil'')
     | Some m \<Rightarrow> go_then (NewReader m) (\<lambda>r. ED25519Signer_SignMessage L e r []))"

definition LoadED25519Verifier :: "bytes option \<Rightarrow> ED25519Verifier outcome" where
  "LoadED25519Verifier pub =
     (if pub = None then Err (Msg ''invalid ED25519 public key specified'')
      else Ret \<lparr>dv_publicKey = pub\<rparr>)"

definition ED25519Verifier_PublicKey :: "ED25519Verifier \<Rightarrow> sig_option list \<Rightarrow> public_key outcome" where
  "ED25519Verifier_PublicKey e opts = Ret (Ed25519_public (dv_publicKey e))"

definition ED25519Verifier_VerifySignature ::
  "crypto_lib \<Rightarrow> ED25519Verifier \<Rightarrow> io_reader \<Rightarrow> io_reader \<Rightarrow> sig_option list \<Rightarrow> unit go" where
  "ED25519Verifier_VerifySignature L e signature message opts =
     go_then (ComputeDigestForVerifying L message NoHash (Some ed25519SupportedHashFuncs) [])
       (\<lambda>(messageBytes, _).
         if signature = None then go_err (Msg ''nil signature passed to VerifySignature'')
         else go_then (go_wrap ''reading signature'' (ReadAll signature)) (\<lambda>sigBytes.
           go_then (go_lift (call_ed25519_Verify L (key_bytes (dv_publicKey e)) messageBytes sigBytes)) (\<lambda>ok.
             if \<not> ok then go_err (Msg ''failed to verify signature'') else go_ret ())))"

definition LoadED25519SignerVerifier :: "bytes option \<Rightarrow> ED25519SignerVerifier outcome" where
  "LoadED25519SignerVerifier priv =
     and_then (wrap_outcome ''initializing signer'' (LoadED25519Signer priv)) (\<lambda>signer.
     and_then (ed25519_Public (key_bytes priv)) (\<lambda>pub.
     and_then (wrap_outcome ''initializing verifier'' (LoadED25519Verifier (Some pub))) (\<lambda>verifier.
     Ret \<lparr>dsv_signer = signer, dsv_verifier = verifier\<rparr>)))"

definition NewED25519SignerVerifier :: "crypto_lib \<Rightarrow> rand \<Rightarrow> (ED25519SignerVerifier \<times> bytes) outcome" where
  "NewED25519SignerVerifier L rand =
     and_then (ed25519_GenerateKey L rand) (\<lambda>priv.
     and_then (LoadED25519SignerVerifier (Some priv)) (\<lambda>sv. Ret (sv, priv)))"

definition NewDefaultED25519SignerVerifier :: "crypto_lib \<Rightarrow> (ED25519SignerVerifier \<times> bytes) outcome" where
  "NewDefaultED25519SignerVerifier L = NewED25519SignerVerifier L CryptoRand"

definition ED25519SignerVerifier_PublicKey ::
  "ED25519SignerVerifier \<Rightarrow> sig_option list \<Rightarrow> public_key outcome" where
  "ED25519SignerVerifier_PublicKey e opts = Ret (Ed25519_public (dv_publicKey (dsv_verifier e)))"

section \<open>Ed25519ph\<close>

record ED25519phSigner =
  hs_priv :: "bytes option"

record ED25519phVerifier =
  hv_publicKey :: "bytes option"

record ED25519phSignerVerifier =
  hsv_signer :: ED25519phSigner
  hsv_verifier :: ED25519phVerifier

text \<open>Unlike its pure counterpart this loader does not look at the length of the key.\<close>

definition LoadED25519phSigner :: "bytes option \<Rightarrow> ED25519phSigner outcome" where
  "LoadED25519phSigner priv =
     (if priv = None then Err (Msg ''invalid ED25519 private key specified'')
      else Ret \<lparr>hs_priv = priv\<rparr>)"

definition ToED25519SignerVerifier :: "ED25519phSignerVerifier \<Rightarrow> ED25519SignerVerifier outcome" where
  "ToED25519SignerVerifier e = LoadED25519SignerVerifier (hs_priv (hsv_signer e))"

definition ED25519phSigner_SignMessage ::
  "crypto_lib \<Rightarrow> ED25519phSigner \<Rightarrow> io_reader \<Rightarrow> sig_option list \<Rightarrow> bytes go" where
  "ED25519phSigner_SignMessage L e message opts =
     go_then (ComputeDigestForSigning L message SHA512 (Some ed25519phSupportedHashFuncs) opts)
       (\<lambda>(digest, _). go_lift (ed25519ph_Sign L (key_bytes (hs_priv e)) digest))"

definition ED25519phSigner_Public :: "ED25519phSigner \<Rightarrow> public_key outcome" where
  "ED25519phSigner_Public e = (case hs_priv e of
       None \<Rightarrow> Ret Nil_public
     | Some p \<Rightarrow> and_then (ed25519_Public p) (\<lambda>pub. Ret (Ed25519_public (Some pub))))"

definition ED25519phSigner_PublicKey :: "ED25519phSigner \<Rightarrow> sig_option list \<Rightarrow> public_key outcome" where
  "ED25519phSigner_PublicKey e opts = ED25519phSigner_Public e"

definition ED25519phSigner_Sign ::
  "crypto_lib \<Rightarrow> ED25519phSigner \<Rightarrow> rand option \<Rightarrow> bytes \<Rightarrow> signer_opts option \<Rightarrow> bytes go" where
  "ED25519phSigner_Sign L e rand digest opts = ED25519phSigner_SignMessage L e None [WithDigest digest]"

definition LoadED25519phVerifier :: "bytes option \<Rightarrow> ED25519phVerifier outcome" where
  "LoadED25519phVerifier pub =
     (if pub = None then Err (Msg ''invalid ED25519 public key specified'')
      else Ret \<lparr>hv_publicKey = pub\<rparr>)"

definition ED25519phVerifier_PublicKey :: "ED25519phVerifier \<Rightarrow> sig_option list \<Rightarrow> public_key outcome" where
  "ED25519phVerifier_PublicKey e opts = Ret (Ed25519_public (hv_publicKey e))"

definition ED25519phVerifier_VerifySignature ::
  "crypto_lib \<Rightarrow> ED25519phVerifier \<Rightarrow> io_reader \<Rightarrow> io_reader \<Rightarrow> sig_option list \<Rightarrow> unit go" where
  "ED25519phVerifier_VerifySignature L e signature message opts =
     (if signature = None then go_err (Msg ''nil signature passed to VerifySignature'')
      else go_then (ComputeDigestForVerifying L message SHA512 (Some ed25519phSupportedHashFuncs) opts)
       (\<lambda>(digest, _).
         go_then (go_wrap ''reading signature'' (ReadAll signature)) (\<lambda>sigBytes.
           go_wrap ''failed to verify signature''
             (go_lift (call_ed25519ph_Verify L (key_bytes (hv_publicKey e)) digest sigBytes)))))"

definition LoadED25519phSignerVerifier :: "bytes option \<Rightarrow> ED25519phSignerVerifier outcome" where
  "LoadED25519phSignerVerifier priv =
     and_then (wrap_outcome ''initializing signer'' (LoadED25519phSigner priv)) (\<lambda>signer.
     and_then (ed25519_Public (key_bytes priv)) (\<lambda>pub.
     and_then (wrap_outcome ''initializing verifier'' (LoadED25519phVerifier (Some pub))) (\<lambda>verifier.
     Ret \<lparr>hsv_signer = signer, hsv_verifier = verifier\<rparr>)))"

definition NewED25519phSignerVerifier :: "crypto_lib \<Rightarrow> rand \<Rightarrow> (ED25519phSignerVerifier \<times> bytes) outcome" where
  "NewED25519phSignerVerifier L rand =
     and_then (ed25519_GenerateKey L rand) (\<lambda>priv.
     and_then (LoadED25519phSignerVerifier (Some priv)) (\<lambda>sv. Ret (sv, priv)))"

definition NewDefaultED25519phSignerVerifier :: "crypto_lib \<Rightarrow> (ED25519phSignerVerifier \<times> bytes) outcome" where
  "NewDefaultED25519phSignerVerifier L = NewED25519phSignerVerifier L CryptoRand"

definition ED25519phSignerVerifier_PublicKey ::
  "ED25519phSignerVerifier \<Rightarrow> sig_option list \<Rightarrow> public_key outcome" where
  "ED25519phSignerVerifier_PublicKey e opts = Ret (Ed25519_public (hv_publicKey (hsv_verifier e)))"

section \<open>Contracts\<close>

definition wf_ed25519_verifier :: "crypto_lib \<Rightarrow> ED25519Verifier \<Rightarrow> bool" where
  "wf_ed25519_verifier L e \<longleftrightarrow> lib_laws L \<and> length (key_bytes (dv_publicKey e)) = 32"

definition ed25519_key_pair :: "crypto_lib \<Rightarrow> ED25519Signer \<Rightarrow> ED25519Verifier \<Rightarrow> bool" where
  "ed25519_key_pair L sg vf \<longleftrightarrow> wf_ed25519_verifier L vf \<and> ed25519_pair L (key_bytes (ds_priv sg)) \<and>
     key_bytes (dv_publicKey vf) = drop 32 (key_bytes (ds_priv sg))"

definition wf_ed25519ph_verifier :: "crypto_lib \<Rightarrow> ED25519phVerifier \<Rightarrow> bool" where
  "wf_ed25519ph_verifier L e \<longleftrightarrow> lib_laws L \<and> hash_linked L SHA512 \<and> length (key_bytes (hv_publicKey e)) = 32"

definition ed25519ph_key_pair :: "crypto_lib \<Rightarrow> ED25519phSigner \<Rightarrow> ED25519phVerifier \<Rightarrow> bool" where
  "ed25519ph_key_pair L sg vf \<longleftrightarrow> wf_ed25519ph_verifier L vf \<and> ed25519_pair L (key_bytes (hs_priv sg)) \<and>
     key_bytes (hv_publicKey vf) = drop 32 (key_bytes (hs_priv sg))"

interpretation ed25519: digest_scheme wf_ed25519_verifier ED25519Verifier_VerifySignature "\<lambda>_. NoHash"
  ed25519SupportedHashFuncs "\<lambda>_. []"
  "\<lambda>L vf w d h sg. if ed25519_Verify L (key_bytes (dv_publicKey vf)) d sg then Ret () else Err (Msg ''failed to verify signature'')"
  ed25519_key_pair ED25519Signer_SignMessage ed25519SupportedHashFuncs "\<lambda>_. NoHash"
  "\<lambda>L sg w d h s. length (key_bytes (ds_priv sg)) = 64 \<and> s = ed25519_Sign L (key_bytes (ds_priv sg)) d"
proof unfold_locales
  fix L vf rs rm opts
  assume "wf_ed25519_verifier L vf" "rs \<noteq> (None :: io_reader)"
  then show "ED25519Verifier_VerifySignature L vf rs rm opts =
      go_then (ComputeDigestForSigning L rm NoHash (Some ed25519SupportedHashFuncs) []) (\<lambda>(d, h).
        go_then (go_wrap ''reading signature'' (ReadAll rs)) (\<lambda>sg w.
          (if ed25519_Verify L (key_bytes (dv_publicKey vf)) d sg then Ret () else Err (Msg ''failed to verify signature''), w)))"
    by (simp add: wf_ed25519_verifier_def ED25519Verifier_VerifySignature_def ComputeDigest_same
        call_ed25519_Verify_def go_lift_fun if_distrib cong: if_cong)
       (auto simp: go_lift_fun go_then_def fun_eq_iff split: prod.splits outcome.splits)
next
  fix L sg r opts w s w1
  assume "ED25519Signer_SignMessage L sg r opts w = (Ret s, w1)"
  then show "\<exists>d h w0. ComputeDigestForSigning L r NoHash (Some ed25519SupportedHashFuncs) [] w = (Ret (d, h), w0) \<and>
      salt_stable w0 w1 \<and> (length (key_bytes (ds_priv sg)) = 64 \<and> s = ed25519_Sign L (key_bytes (ds_priv sg)) d)"
    by (auto simp: ED25519Signer_SignMessage_def call_ed25519_Sign_def go_simps split: if_splits)
qed (auto simp: wf_ed25519_verifier_def lib_laws_def ed25519_key_pair_def ed25519_laws_def
  ed25519SupportedHashFuncs_def ED25519Verifier_VerifySignature_def
  go_then_def split: option.splits prod.splits outcome.splits)

interpretation ed25519ph: digest_scheme wf_ed25519ph_verifier ED25519phVerifier_VerifySignature "\<lambda>_. SHA512"
  ed25519phSupportedHashFuncs "\<lambda>opts. opts"
  "\<lambda>L vf w d h sg. wrap_outcome ''failed to verify signature'' (ed25519ph_Verify L (key_bytes (hv_publicKey vf)) d sg)"
  ed25519ph_key_pair ED25519phSigner_SignMessage ed25519phSupportedHashFuncs "\<lambda>_. SHA512"
  "\<lambda>L sg w d h s. ed25519ph_Sign L (key_bytes (hs_priv sg)) d = Ret s"
proof unfold_locales
  fix L vf rs rm opts
  assume "wf_ed25519ph_verifier L vf" "rs \<noteq> (None :: io_reader)"
  then show "ED25519phVerifier_VerifySignature L vf rs rm opts =
      go_then (ComputeDigestForSigning L rm SHA512 (Some ed25519phSupportedHashFuncs) opts) (\<lambda>(d, h).
        go_then (go_wrap ''reading signature'' (ReadAll rs)) (\<lambda>sg w.
          (wrap_outcome ''failed to verify signature'' (ed25519ph_Verify L (key_bytes (hv_publicKey vf)) d sg), w)))"
    by (auto simp: wf_ed25519ph_verifier_def ED25519phVerifier_VerifySignature_def ComputeDigest_same
        call_ed25519ph_Verify_def go_lift_fun)
next
  fix L sg r opts w s w1
  assume "ED25519phSigner_SignMessage L sg r opts w = (Ret s, w1)"
  then show "\<exists>d h w0. ComputeDigestForSigning L r SHA512 (Some ed25519phSupportedHashFuncs) opts w = (Ret (d, h), w0) \<and>
      salt_stable w0 w1 \<and> ed25519ph_Sign L (key_bytes (hs_priv sg)) d = Ret s"
    by (auto simp: ED25519phSigner_SignMessage_def go_simps)
qed (auto simp: wf_ed25519ph_verifier_def lib_laws_def ed25519ph_key_pair_def ed25519_laws_def
  ed25519phSupportedHashFuncs_def ED25519phVerifier_VerifySignature_def)

text \<open>A signer and verifier loaded together from a key whose halves belong together form a key pair.\<close>

lemma LoadED25519SignerVerifier_pair:
  assumes "LoadED25519SignerVerifier priv = Ret sv" "lib_laws L" "ed25519_pair L (key_bytes priv)"
  shows "ed25519_key_pair L (dsv_signer sv) (dsv_verifier sv)"
  using assms ed25519_Public_64
  by (auto simp: LoadED25519SignerVerifier_def LoadED25519Signer_def LoadED25519Verifier_def
      ed25519_key_pair_def wf_ed25519_verifier_def ed25519_pair_def outcome_simps split: if_splits)

end
