(* ===== verification/AlgorithmRegistry.thy ===== *)
theory AlgorithmRegistry
  imports Options
begin

text \<open>
  \<open>pkg/signature/algorithm_registry.go\<close>: the table of supported signature algorithms, the
  checks of a key and a hash against an entry, the permitted-algorithm configuration, the
  command-line flags of the algorithms, and the default algorithm of a public key.  The enum
  values come from the protobuf-specs package; only their identity matters here.
\<close>

section \<open>Data\<close>

datatype PublicKeyDetails =
    PUBLIC_KEY_DETAILS_UNSPECIFIED
  | PKIX_RSA_PKCS1V15_2048_SHA256
  | PKIX_RSA_PKCS1V15_3072_SHA256
  | PKIX_RSA_PKCS1V15_4096_SHA256
  | PKIX_RSA_PSS_2048_SHA256
  | PKIX_RSA_PSS_3072_SHA256
  | PKIX_RSA_PSS_4096_SHA256
  | PKIX_ECDSA_P256_SHA_256
  | PKIX_ECDSA_P384_SHA_384
  | PKIX_ECDSA_P384_SHA_256
  | PKIX_ECDSA_P521_SHA_512
  | PKIX_ECDSA_P521_SHA_256
  | PKIX_ED25519
  | PKIX_ED25519_PH
  | OtherPublicKeyDetails nat

datatype HashAlgorithm = HASH_ALGORITHM_UNSPECIFIED | SHA2_256 | SHA2_384 | SHA2_512

datatype PublicKeyType = RSA | ECDSA | ED25519 | OtherKeyType nat

datatype extra_params = NoParams | RSAKeySize nat | ECCurve curve

record AlgorithmDetails =
  knownAlgorithm :: PublicKeyDetails
  keyType :: PublicKeyType
  hashType :: hash
  protoHashType :: HashAlgorithm
  extraKeyParams :: extra_params
  flagValue :: string

definition GetSignatureAlgorithm :: "AlgorithmDetails \<Rightarrow> PublicKeyDetails" where
  "GetSignatureAlgorithm a = knownAlgorithm a"

definition GetKeyType :: "AlgorithmDetails \<Rightarrow> PublicKeyType" where
  "GetKeyType a = keyType a"

definition GetHashType :: "AlgorithmDetails \<Rightarrow> hash" where
  "GetHashType a = hashType a"

definition GetProtoHashType :: "AlgorithmDetails \<Rightarrow> HashAlgorithm" where
  "GetProtoHashType a = protoHashType a"

section \<open>Checking a key against an entry\<close>

definition GetRSAKeySize :: "AlgorithmDetails \<Rightarrow> nat outcome" where
  "GetRSAKeySize a =
     (if keyType a \<noteq> RSA then Err (Msg ''unable to retrieve RSA key size for key type'')
      else (case extraKeyParams a of
          RSAKeySize n \<Rightarrow> Ret n
        | _ \<Rightarrow> Err (Msg ''unable to retrieve key size for RSA, malformed algorithm details?'')))"

definition GetECDSACurve :: "AlgorithmDetails \<Rightarrow> curve outcome" where
  "GetECDSACurve a =
     (if keyType a \<noteq> ECDSA then Err (Msg ''unable to retrieve ECDSA curve for key type'')
      else (case extraKeyParams a of
          ECCurve c \<Rightarrow> Ret c
        | _ \<Rightarrow> Err (Msg ''unable to retrieve curve for ECDSA, malformed algorithm details?'')))"

definition checkKey :: "AlgorithmDetails \<Rightarrow> public_key \<Rightarrow> bool outcome" where
  "checkKey a pubKey = (case keyType a of
     RSA \<Rightarrow> (case pubKey of
         Rsa_public rsaKey \<Rightarrow> and_then (GetRSAKeySize a) (\<lambda>keySize.
           (case rsaKey of None \<Rightarrow> Panic ''nil pointer dereference''
             | Some k \<Rightarrow> Ret (rsa_Size k * 8 = keySize)))
       | _ \<Rightarrow> Ret False)
   | ECDSA \<Rightarrow> (case pubKey of
         Ecdsa_public ecdsaKey \<Rightarrow> and_then (GetECDSACurve a) (\<lambda>curve.
           (case ecdsaKey of None \<Rightarrow> Panic ''nil pointer dereference''
             | Some k \<Rightarrow> Ret (ecdsa_Curve k = curve)))
       | _ \<Rightarrow> Ret False)
   | ED25519 \<Rightarrow> (case pubKey of Ed25519_public _ \<Rightarrow> Ret True | _ \<Rightarrow> Ret False)
   | OtherKeyType _ \<Rightarrow> Err (Msg ''unrecognized key type''))"

definition checkHash :: "AlgorithmDetails \<Rightarrow> hash \<Rightarrow> bool" where
  "checkHash a h = (hashType a = h)"

section \<open>The table\<close>

definition details :: "PublicKeyDetails \<Rightarrow> PublicKeyType \<Rightarrow> hash \<Rightarrow> HashAlgorithm \<Rightarrow> extra_params \<Rightarrow> string
    \<Rightarrow> AlgorithmDetails" where
  "details k t h p x f = \<lparr>knownAlgorithm = k, keyType = t, hashType = h, protoHashType = p,
     extraKeyParams = x, flagValue = f\<rparr>"

definition supportedAlgorithms :: "AlgorithmDetails list" where
  "supportedAlgorithms = [
     details PKIX_RSA_PKCS1V15_2048_SHA256 RSA SHA256 SHA2_256 (RSAKeySize 2048) ''rsa-sign-pkcs1-2048-sha256'',
     details PKIX_RSA_PKCS1V15_3072_SHA256 RSA SHA256 SHA2_256 (RSAKeySize 3072) ''rsa-sign-pkcs1-3072-sha256'',
     details PKIX_RSA_PKCS1V15_4096_SHA256 RSA SHA256 SHA2_256 (RSAKeySize 4096) ''rsa-sign-pkcs1-4096-sha256'',
     details PKIX_RSA_PSS_2048_SHA256 RSA SHA256 SHA2_256 (RSAKeySize 2048) ''rsa-sign-pss-2048-sha256'',
     details PKIX_RSA_PSS_3072_SHA256 RSA SHA256 SHA2_256 (RSAKeySize 3072) ''rsa-sign-pss-3072-sha256'',
     details PKIX_RSA_PSS_4096_SHA256 RSA SHA256 SHA2_256 (RSAKeySize 4096) ''rsa-sign-pss-4092-sha256'',
     details PKIX_ECDSA_P256_SHA_256 ECDSA SHA256 SHA2_256 (ECCurve P256) ''ecdsa-sha2-256-nistp256'',
     details PKIX_ECDSA_P384_SHA_384 ECDSA SHA384 SHA2_384 (ECCurve P384) ''ecdsa-sha2-384-nistp384'',
     details PKIX_ECDSA_P384_SHA_256 ECDSA SHA256 SHA2_256 (ECCurve P384) ''ecdsa-sha2-256-nistp384'',
     details PKIX_ECDSA_P521_SHA_512 ECDSA SHA512 SHA2_512 (ECCurve P521) ''ecdsa-sha2-512-nistp521'',
     details PKIX_ECDSA_P521_SHA_256 ECDSA SHA256 SHA2_256 (ECCurve P521) ''ecdsa-sha2-256-nistp521'',
     details PKIX_ED25519 ED25519 NoHash HASH_ALGORITHM_UNSPECIFIED NoParams ''ed25519'',
     details PKIX_ED25519_PH ED25519 SHA512 SHA2_512 NoParams ''ed25519-ph'']"

definition GetAlgorithmDetails :: "PublicKeyDetails \<Rightarrow> AlgorithmDetails outcome" where
  "GetAlgorithmDetails known =
     (case find (\<lambda>d. knownAlgorithm d = known) supportedAlgorithms of
        Some d \<Rightarrow> Ret d
      | None \<Rightarrow> Err (Msg ''could not find algorithm details for known signature algorithm''))"

record AlgorithmRegistryConfig =
  permittedAlgorithms :: "AlgorithmDetails list"

fun collect_details :: "AlgorithmDetails list \<Rightarrow> PublicKeyDetails list \<Rightarrow> AlgorithmDetails list outcome" where
  "collect_details acc [] = Ret acc"
| "collect_details acc (a # as) = and_then (GetAlgorithmDetails a) (\<lambda>d. collect_details (acc @ [d]) as)"

definition NewAlgorithmRegistryConfig :: "PublicKeyDetails list \<Rightarrow> AlgorithmRegistryConfig outcome" where
  "NewAlgorithmRegistryConfig algorithmConfig =
     and_then (collect_details [] algorithmConfig) (\<lambda>ds. Ret \<lparr>permittedAlgorithms = ds\<rparr>)"

fun permitted_loop :: "AlgorithmDetails list \<Rightarrow> public_key \<Rightarrow> hash \<Rightarrow> bool outcome" where
  "permitted_loop [] key h = Ret False"
| "permitted_loop (a # as) key h =
     and_then (checkKey a key) (\<lambda>keyMatch.
       if keyMatch \<and> checkHash a h then Ret True else permitted_loop as key h)"

definition IsAlgorithmPermitted :: "AlgorithmRegistryConfig \<Rightarrow> public_key \<Rightarrow> hash \<Rightarrow> bool outcome" where
  "IsAlgorithmPermitted config key h = permitted_loop (permittedAlgorithms config) key h"

section \<open>Flags\<close>

definition FormatSignatureAlgorithmFlag :: "PublicKeyDetails \<Rightarrow> string outcome" where
  "FormatSignatureAlgorithmFlag algorithm =
     (case find (\<lambda>a. knownAlgorithm a = algorithm) supportedAlgorithms of
        Some a \<Rightarrow> Ret (flagValue a)
      | None \<Rightarrow> Err (Msg ''could not find matching flag for signature algorithm''))"

definition ParseSignatureAlgorithmFlag :: "string \<Rightarrow> PublicKeyDetails outcome" where
  "ParseSignatureAlgorithmFlag flag =
     (case find (\<lambda>a. flagValue a = flag) supportedAlgorithms of
        Some a \<Rightarrow> Ret (knownAlgorithm a)
      | None \<Rightarrow> Err (Msg ''could not find matching signature algorithm for flag''))"

section \<open>Defaults\<close>

definition load_flags :: "sig_option list \<Rightarrow> bool \<times> nat option" where
  "load_flags opts = fold (\<lambda>o1 (ph, pss). (ApplyED25519ph o1 ph, ApplyRSAPSS o1 pss)) opts (False, None)"

definition unsupported_key :: "PublicKeyDetails outcome" where
  "unsupported_key = Err (Msg ''unsupported public key type'')"

definition GetDefaultPublicKeyDetails :: "public_key \<Rightarrow> sig_option list \<Rightarrow> PublicKeyDetails outcome" where
  "GetDefaultPublicKeyDetails publicKey opts =
     (let (useED25519ph, rsaPSSOptions) = load_flags opts in
      case publicKey of
        Rsa_public None \<Rightarrow> Panic ''nil pointer dereference''
      | Rsa_public (Some pk) \<Rightarrow>
          (if rsaPSSOptions \<noteq> None then
             (if rsa_Size pk * 8 = 2048 then Ret PKIX_RSA_PSS_2048_SHA256
              else if rsa_Size pk * 8 = 3072 then Ret PKIX_RSA_PSS_3072_SHA256
              else if rsa_Size pk * 8 = 4096 then Ret PKIX_RSA_PSS_4096_SHA256
              else unsupported_key)
           else
             (if rsa_Size pk * 8 = 2048 then Ret PKIX_RSA_PKCS1V15_2048_SHA256
              else if rsa_Size pk * 8 = 3072 then Ret PKIX_RSA_PKCS1V15_3072_SHA256
              else if rsa_Size pk * 8 = 4096 then Ret PKIX_RSA_PKCS1V15_4096_SHA256
              else unsupported_key))
      | Ecdsa_public None \<Rightarrow> Panic ''nil pointer dereference''
      | Ecdsa_public (Some pk) \<Rightarrow>
          (if ecdsa_Curve pk = P256 then Ret PKIX_ECDSA_P256_SHA_256
           else if ecdsa_Curve pk = P384 then Ret PKIX_ECDSA_P384_SHA_384
           else if ecdsa_Curve pk = P521 then Ret PKIX_ECDSA_P521_SHA_512
           else unsupported_key)
      | Ed25519_public _ \<Rightarrow> (if useED25519ph then Ret PKIX_ED25519_PH else Ret PKIX_ED25519)
      | _ \<Rightarrow> unsupported_key)"

definition GetDefaultAlgorithmDetails :: "public_key \<Rightarrow> sig_option list \<Rightarrow> AlgorithmDetails outcome" where
  "GetDefaultAlgorithmDetails publicKey opts =
     and_then (GetDefaultPublicKeyDetails publicKey opts) GetAlgorithmDetails"

section \<open>The table is well formed\<close>

text \<open>Each entry carries the parameter its key type needs, and its two hash fields name the
  same function.\<close>

definition proto_of_hash :: "hash \<Rightarrow> HashAlgorithm" where
  "proto_of_hash h = (if h = SHA256 then SHA2_256 else if h = SHA384 then SHA2_384
     else if h = SHA512 then SHA2_512 else HASH_ALGORITHM_UNSPECIFIED)"

definition wf_details :: "AlgorithmDetails \<Rightarrow> bool" where
  "wf_details a \<longleftrightarrow> protoHashType a = proto_of_hash (hashType a) \<and>
     (case keyType a of
        RSA \<Rightarrow> (\<exists>n. extraKeyParams a = RSAKeySize n)
      | ECDSA \<Rightarrow> (\<exists>c. extraKeyParams a = ECCurve c)
      | ED25519 \<Rightarrow> extraKeyParams a = NoParams
      | OtherKeyType _ \<Rightarrow> False)"

lemma supported_wf: "a \<in> set supportedAlgorithms \<Longrightarrow> wf_details a"
  by (auto simp: supportedAlgorithms_def details_def wf_details_def proto_of_hash_def)

lemma distinct_algorithms: "distinct (map knownAlgorithm supportedAlgorithms)"
  by (simp add: supportedAlgorithms_def details_def)

lemma distinct_flags: "distinct (map flagValue supportedAlgorithms)"
  by (simp add: supportedAlgorithms_def details_def)

lemma GetAlgorithmDetails_iff:
  "GetAlgorithmDetails k = Ret d \<longleftrightarrow> d \<in> set supportedAlgorithms \<and> knownAlgorithm d = k"
  using find_Some_mem find_distinct_map [OF distinct_algorithms]
  by (force simp: GetAlgorithmDetails_def split: option.splits)

lemma GetAlgorithmDetails_error:
  "\<not> is_panic (GetAlgorithmDetails k)"
  "k \<notin> knownAlgorithm ` set supportedAlgorithms \<Longrightarrow> \<exists>e. GetAlgorithmDetails k = Err e"
  by (auto simp: GetAlgorithmDetails_def find_Some_iff split: option.splits)

lemma Format_iff:
  "FormatSignatureAlgorithmFlag k = Ret f \<longleftrightarrow>
     (\<exists>d \<in> set supportedAlgorithms. knownAlgorithm d = k \<and> flagValue d = f)"
  using find_Some_mem find_distinct_map [OF distinct_algorithms]
  by (force simp: FormatSignatureAlgorithmFlag_def split: option.splits)

lemma Parse_iff:
  "ParseSignatureAlgorithmFlag f = Ret k \<longleftrightarrow>
     (\<exists>d \<in> set supportedAlgorithms. flagValue d = f \<and> knownAlgorithm d = k)"
  using find_Some_mem find_distinct_map [OF distinct_flags]
  by (force simp: ParseSignatureAlgorithmFlag_def split: option.splits)

section \<open>Checks on well-formed entries\<close>

text \<open>What an entry accepts, without the error branches.\<close>

definition key_matches :: "AlgorithmDetails \<Rightarrow> public_key \<Rightarrow> bool" where
  "key_matches a key = (case (keyType a, extraKeyParams a, key) of
     (RSA, RSAKeySize n, Rsa_public (Some k)) \<Rightarrow> rsa_Size k * 8 = n
   | (ECDSA, ECCurve c, Ecdsa_public (Some k)) \<Rightarrow> ecdsa_Curve k = c
   | (ED25519, _, Ed25519_public _) \<Rightarrow> True
   | _ \<Rightarrow> False)"

definition usable_key :: "public_key \<Rightarrow> bool" where
  "usable_key key \<longleftrightarrow> key \<noteq> Rsa_public None \<and> key \<noteq> Ecdsa_public None"

lemma checkKey_wf:
  assumes "wf_details a" "usable_key key"
  shows "checkKey a key = Ret (key_matches a key)"
  using assms
  by (auto simp: wf_details_def usable_key_def checkKey_def key_matches_def GetRSAKeySize_def
      GetECDSACurve_def split: PublicKeyType.splits public_key.splits option.splits extra_params.splits)

lemma permitted_loop_wf:
  assumes "\<And>a. a \<in> set as \<Longrightarrow> wf_details a" "usable_key key"
  shows "permitted_loop as key h = Ret (\<exists>a \<in> set as. key_matches a key \<and> hashType a = h)"
  using assms(1) by (induction as) (auto simp: checkKey_wf [OF _ assms(2)] checkHash_def)

lemma collect_details_iff:
  "collect_details acc ks = Ret ds \<longleftrightarrow>
     (\<exists>es. ds = acc @ es \<and> map knownAlgorithm es = ks \<and> set es \<subseteq> set supportedAlgorithms)"
proof (induction ks arbitrary: acc ds)
  case Nil
  then show ?case by auto
next
  case (Cons k ks)
  have "collect_details acc (k # ks) = Ret ds \<longleftrightarrow>
      (\<exists>d. d \<in> set supportedAlgorithms \<and> knownAlgorithm d = k \<and> collect_details (acc @ [d]) ks = Ret ds)"
    by (auto simp: and_then_Ret_iff GetAlgorithmDetails_iff)
  also have "\<dots> \<longleftrightarrow> (\<exists>d es. d \<in> set supportedAlgorithms \<and> knownAlgorithm d = k \<and> ds = acc @ d # es \<and>
      map knownAlgorithm es = ks \<and> set es \<subseteq> set supportedAlgorithms)"
    by (auto simp: Cons.IH)
  also have "\<dots> \<longleftrightarrow> (\<exists>es. ds = acc @ es \<and> map knownAlgorithm es = k # ks \<and> set es \<subseteq> set supportedAlgorithms)"
    by (auto simp: map_eq_Cons_conv)
  finally show ?case .
qed

lemma collect_details_total:
  "set ks \<subseteq> knownAlgorithm ` set supportedAlgorithms \<Longrightarrow> \<exists>ds. collect_details acc ks = Ret ds"
proof (induction ks arbitrary: acc)
  case (Cons k ks)
  then obtain d where "GetAlgorithmDetails k = Ret d" by (auto simp: GetAlgorithmDetails_iff)
  then show ?case using Cons by auto
qed simp

section \<open>Defaults\<close>

lemma load_flags_eq:
  "load_flags opts =
     (case last_set set_ed25519ph opts of None \<Rightarrow> False | Some b \<Rightarrow> b,
      case last_set set_pss opts of None \<Rightarrow> None | Some p \<Rightarrow> p)"
  by (simp add: load_flags_def fold_pair ed25519ph_opt.fold_last pss_opt.fold_last)

lemmas GetDefault_simps = GetDefaultAlgorithmDetails_def GetDefaultPublicKeyDetails_def
  GetAlgorithmDetails_def supportedAlgorithms_def details_def unsupported_key_def

text \<open>The entries of the algorithms that are some key's default.\<close>

lemma default_entries:
  assumes "GetAlgorithmDetails k = Ret d"
  shows "k \<in> {PKIX_RSA_PKCS1V15_2048_SHA256, PKIX_RSA_PSS_2048_SHA256} \<Longrightarrow>
      keyType d = RSA \<and> extraKeyParams d = RSAKeySize 2048 \<and> hashType d = SHA256"
    and "k \<in> {PKIX_RSA_PKCS1V15_3072_SHA256, PKIX_RSA_PSS_3072_SHA256} \<Longrightarrow>
      keyType d = RSA \<and> extraKeyParams d = RSAKeySize 3072 \<and> hashType d = SHA256"
    and "k \<in> {PKIX_RSA_PKCS1V15_4096_SHA256, PKIX_RSA_PSS_4096_SHA256} \<Longrightarrow>
      keyType d = RSA \<and> extraKeyParams d = RSAKeySize 4096 \<and> hashType d = SHA256"
    and "k = PKIX_ECDSA_P256_SHA_256 \<Longrightarrow> keyType d = ECDSA \<and> extraKeyParams d = ECCurve P256 \<and> hashType d = SHA256"
    and "k = PKIX_ECDSA_P384_SHA_384 \<Longrightarrow> keyType d = ECDSA \<and> extraKeyParams d = ECCurve P384 \<and> hashType d = SHA384"
    and "k = PKIX_ECDSA_P521_SHA_512 \<Longrightarrow> keyType d = ECDSA \<and> extraKeyParams d = ECCurve P521 \<and> hashType d = SHA512"
    and "k = PKIX_ED25519 \<Longrightarrow> keyType d = ED25519 \<and> hashType d = NoHash"
    and "k = PKIX_ED25519_PH \<Longrightarrow> keyType d = ED25519 \<and> hashType d = SHA512"
  using assms by (auto simp: GetAlgorithmDetails_def supportedAlgorithms_def details_def)

text \<open>RSA keys are recognised by the size of the modulus in bytes: the sizes accepted are
  exactly the moduli of 2041 to 2048, 3065 to 3072 and 4089 to 4096 bits.\<close>

lemma rsa_Size_iff: "rsa_Size k = Suc n \<longleftrightarrow> 8 * n < bit_len (rsa_N k) \<and> bit_len (rsa_N k) \<le> 8 * Suc n"
  by (auto simp: rsa_Size_def)

section \<open>Properties\<close>

text \<open>The flag of an algorithm and the algorithm of a flag are inverse to each other:
  \<open>ParseSignatureAlgorithmFlag\<close> returns an algorithm for a flag exactly when
  \<open>FormatSignatureAlgorithmFlag\<close> prints that flag for it, so no two algorithms share a flag and
  every other flag and algorithm is rejected on both sides.\<close>

theorem flag_roundtrip:
  "FormatSignatureAlgorithmFlag k = Ret f \<longleftrightarrow> ParseSignatureAlgorithmFlag f = Ret k"
  by (auto simp: Format_iff Parse_iff)

text \<open>C20: a registry configuration permits a key and a hash exactly when one of the algorithms it
  was built from matches both, and the check on a non-nil key never fails: the branches
  the source calls unreachable are.\<close>

theorem registry_permits_iff:
  assumes "NewAlgorithmRegistryConfig ks = Ret config" "usable_key key"
  shows "IsAlgorithmPermitted config key h =
    Ret (\<exists>a \<in> set supportedAlgorithms. knownAlgorithm a \<in> set ks \<and> key_matches a key \<and> hashType a = h)"
proof -
  from assms(1) obtain ds where ds: "config = \<lparr>permittedAlgorithms = ds\<rparr>"
      "map knownAlgorithm ds = ks" "set ds \<subseteq> set supportedAlgorithms"
    by (auto simp: NewAlgorithmRegistryConfig_def and_then_Ret_iff collect_details_iff)
  have "a \<in> set ds" if "a \<in> set supportedAlgorithms" "knownAlgorithm a \<in> set ks" for a
  proof -
    from that(2) ds(2) obtain b where b: "b \<in> set ds" "knownAlgorithm b = knownAlgorithm a" by auto
    with ds(3) that(1) have "a = b"
      using distinct_algorithms by (auto simp: distinct_map dest: inj_onD)
    with b show ?thesis by simp
  qed
  then have "set ds = {a \<in> set supportedAlgorithms. knownAlgorithm a \<in> set ks}"
    using ds(2,3) by auto
  moreover have "permitted_loop ds key h = Ret (\<exists>a \<in> set ds. key_matches a key \<and> hashType a = h)"
    using ds(3) supported_wf by (intro permitted_loop_wf [OF _ assms(2)]) auto
  ultimately show ?thesis
    by (simp add: IsAlgorithmPermitted_def ds(1)) blast
qed

theorem registry_permits_iff_witness:
  "IsAlgorithmPermitted
     \<lparr>permittedAlgorithms = [details PKIX_ED25519 ED25519 NoHash HASH_ALGORITHM_UNSPECIFIED NoParams ''ed25519'']\<rparr>
     (Ed25519_public (Some [])) NoHash = Ret True"
proof -
  have "NewAlgorithmRegistryConfig [PKIX_ED25519] =
      Ret \<lparr>permittedAlgorithms = [details PKIX_ED25519 ED25519 NoHash HASH_ALGORITHM_UNSPECIFIED NoParams ''ed25519'']\<rparr>"
    by (simp add: NewAlgorithmRegistryConfig_def GetAlgorithmDetails_def supportedAlgorithms_def details_def)
  from registry_permits_iff [OF this, of "Ed25519_public (Some [])" NoHash] show ?thesis
    by (simp add: usable_key_def supportedAlgorithms_def details_def key_matches_def)
qed

text \<open>C27: whatever options are given, the default algorithm of a key is a supported algorithm whose
  own check accepts that key.\<close>

theorem default_details_accept_key:
  assumes "GetDefaultAlgorithmDetails key opts = Ret d"
  shows "d \<in> set supportedAlgorithms \<and> checkKey d key = Ret True"
proof -
  from assms obtain k where k: "GetDefaultPublicKeyDetails key opts = Ret k" "GetAlgorithmDetails k = Ret d"
    by (auto simp: GetDefaultAlgorithmDetails_def and_then_Ret_iff)
  then have "d \<in> set supportedAlgorithms" "knownAlgorithm d = k" by (auto simp: GetAlgorithmDetails_iff)
  moreover have "usable_key key" "key_matches d key"
    using k(1) default_entries [OF k(2)]
    by (auto simp: GetDefaultPublicKeyDetails_def unsupported_key_def usable_key_def key_matches_def
        split: public_key.splits option.splits if_splits prod.splits)
  ultimately show ?thesis by (simp add: checkKey_wf supported_wf)
qed

theorem default_details_accept_key_witness:
  "checkKey (details PKIX_ECDSA_P384_SHA_384 ECDSA SHA384 SHA2_384 (ECCurve P384) ''ecdsa-sha2-384-nistp384'')
     (Ecdsa_public (Some \<lparr>ecdsa_Curve = P384, ecdsa_X = 0, ecdsa_Y = 0\<rparr>)) = Ret True"
proof -
  have "GetDefaultAlgorithmDetails (Ecdsa_public (Some \<lparr>ecdsa_Curve = P384, ecdsa_X = 0, ecdsa_Y = 0\<rparr>)) [] =
      Ret (details PKIX_ECDSA_P384_SHA_384 ECDSA SHA384 SHA2_384 (ECCurve P384) ''ecdsa-sha2-384-nistp384'')"
    by (simp add: GetDefault_simps load_flags_def)
  from default_details_accept_key [OF this] show ?thesis by simp
qed

text \<open>An RSA key has a default algorithm exactly when its modulus has 2041 to 2048, 3065 to 3072
  or 4089 to 4096 bits, because the size is rounded up to whole bytes; whether PSS options are
  given decides only the padding.\<close>

theorem rsa_default_bounds:
  "(\<exists>d. GetDefaultPublicKeyDetails (Rsa_public (Some k)) opts = Ret d) \<longleftrightarrow>
     (\<exists>n \<in> {2048, 3072, 4096}. n - 8 < bit_len (rsa_N k) \<and> bit_len (rsa_N k) \<le> n)"
proof -
  have sizes: "rsa_Size k * 8 = 2048 \<longleftrightarrow> 2040 < bit_len (rsa_N k) \<and> bit_len (rsa_N k) \<le> 2048"
    "rsa_Size k * 8 = 3072 \<longleftrightarrow> 3064 < bit_len (rsa_N k) \<and> bit_len (rsa_N k) \<le> 3072"
    "rsa_Size k * 8 = 4096 \<longleftrightarrow> 4088 < bit_len (rsa_N k) \<and> bit_len (rsa_N k) \<le> 4096"
    using rsa_Size_iff [of k 255] rsa_Size_iff [of k 383] rsa_Size_iff [of k 511] by auto
  have "(\<exists>d. GetDefaultPublicKeyDetails (Rsa_public (Some k)) opts = Ret d) \<longleftrightarrow>
      rsa_Size k * 8 = 2048 \<or> rsa_Size k * 8 = 3072 \<or> rsa_Size k * 8 = 4096"
    by (cases "load_flags opts") (simp add: GetDefaultPublicKeyDetails_def unsupported_key_def)
  then show ?thesis by (simp add: sizes)
qed

end
