(* ===== verification/Pki.thy ===== *)
theory Pki
  imports CryptoLib
begin

text \<open>
  The encodings \<open>pkg/cryptoutils\<close> is built on, as a parameter of the model: PEM armour, the DER
  parsers and printers of \<open>crypto/x509\<close>, the password encryption of
  \<open>go-securesystemslib/encrypted\<close> and the key policy of \<open>boulder/goodkey\<close>.  \<open>pem_laws\<close> and
  \<open>der_laws\<close> state what their documentation promises; \<open>ref_pki\<close> satisfies both.
\<close>

record pem_block =
  pem_Type :: string
  pem_Bytes :: bytes

text \<open>\<open>pkix.Extension\<close>; an object identifier is its components.\<close>

record pkix_Extension =
  ext_Id :: "nat list"
  ext_Critical :: bool
  ext_Value :: bytes

text \<open>An X.509 certificate: its encoding and the fields the code looks at; times are in
  nanoseconds since the epoch.\<close>

record certificate =
  cert_Raw :: bytes
  RawSubject :: bytes
  RawIssuer :: bytes
  NotBefore :: int
  NotAfter :: int
  DNSNames :: "string list"
  EmailAddresses :: "string list"
  IPAddresses :: "string list"
  URIs :: "string list"
  Extensions :: "pkix_Extension list"

record pki =
  pem_Decode :: "bytes \<Rightarrow> (pem_block \<times> bytes) option"
  pem_EncodeToMemory :: "pem_block \<Rightarrow> bytes"
  ParsePKCS8PrivateKey :: "bytes \<Rightarrow> private_key outcome"
  ParsePKCS1PrivateKey :: "bytes \<Rightarrow> private_key outcome"
  ParseECPrivateKey :: "bytes \<Rightarrow> private_key outcome"
  MarshalPKCS8PrivateKey :: "private_key \<Rightarrow> bytes outcome"
  ParsePKIXPublicKey :: "bytes \<Rightarrow> public_key outcome"
  ParsePKCS1PublicKey :: "bytes \<Rightarrow> public_key outcome"
  MarshalPKIXPublicKey :: "public_key \<Rightarrow> bytes outcome"
  ParseCertificate :: "bytes \<Rightarrow> certificate outcome"
  ParseCertificateRequest :: "bytes \<Rightarrow> bytes outcome"
  spki_bits :: "bytes \<Rightarrow> bytes outcome"
  encrypted_Encrypt :: "bytes \<Rightarrow> bytes \<Rightarrow> bytes outcome"
  encrypted_Decrypt :: "bytes \<Rightarrow> bytes \<Rightarrow> bytes outcome"
  goodkey_GoodKey :: "public_key \<Rightarrow> unit outcome"
  rand_Int :: "nat \<Rightarrow> nat outcome"

section \<open>The block types in use\<close>

definition PrivateKeyPEMType :: string where "PrivateKeyPEMType = ''PRIVATE KEY''"
definition ECPrivateKeyPEMType :: string where "ECPrivateKeyPEMType = ''EC PRIVATE KEY''"
definition PKCS1PrivateKeyPEMType :: string where "PKCS1PrivateKeyPEMType = ''RSA PRIVATE KEY''"
definition encryptedCosignPrivateKeyPEMType :: string where
  "encryptedCosignPrivateKeyPEMType = ''ENCRYPTED COSIGN PRIVATE KEY''"
definition EncryptedSigstorePrivateKeyPEMType :: string where
  "EncryptedSigstorePrivateKeyPEMType = ''ENCRYPTED SIGSTORE PRIVATE KEY''"
definition PublicKeyPEMType :: string where "PublicKeyPEMType = ''PUBLIC KEY''"
definition PKCS1PublicKeyPEMType :: string where "PKCS1PublicKeyPEMType = ''RSA PUBLIC KEY''"
definition CertificatePEMType :: string where "CertificatePEMType = ''CERTIFICATE''"

lemmas pem_type_defs = PrivateKeyPEMType_def ECPrivateKeyPEMType_def PKCS1PrivateKeyPEMType_def
  encryptedCosignPrivateKeyPEMType_def EncryptedSigstorePrivateKeyPEMType_def PublicKeyPEMType_def
  PKCS1PublicKeyPEMType_def CertificatePEMType_def

definition emitted_types :: "string list" where
  "emitted_types = [PrivateKeyPEMType, EncryptedSigstorePrivateKeyPEMType, PublicKeyPEMType, CertificatePEMType]"

section \<open>What the encodings promise\<close>

text \<open>
  A block is encoded between a line of dashes and a line of dashes; decoding finds it again and
  returns what follows its last line, whose newline may be missing at the end of the input.
  Decoding always consumes something.
\<close>

definition pem_laws :: "pki \<Rightarrow> bool" where
  "pem_laws P \<longleftrightarrow>
     (\<forall>t b rest. t \<in> set emitted_types \<longrightarrow>
        pem_Decode P (pem_EncodeToMemory P \<lparr>pem_Type = t, pem_Bytes = b\<rparr> @ rest) =
          Some (\<lparr>pem_Type = t, pem_Bytes = b\<rparr>, rest)) \<and>
     (\<forall>t b. t \<in> set emitted_types \<longrightarrow>
        pem_Decode P (butlast (pem_EncodeToMemory P \<lparr>pem_Type = t, pem_Bytes = b\<rparr>)) =
          Some (\<lparr>pem_Type = t, pem_Bytes = b\<rparr>, [])) \<and>
     (\<forall>t b. t \<in> set emitted_types \<longrightarrow>
        (\<exists>x. pem_EncodeToMemory P \<lparr>pem_Type = t, pem_Bytes = b\<rparr> = 0x2D # x @ [0x2D, 0x0A])) \<and>
     (\<forall>s b rest. pem_Decode P s = Some (b, rest) \<longrightarrow> length rest < length s)"

text \<open>
  The PKCS#8 and PKIX printers are inverted by the parsers, decryption with the password inverts
  encryption, a parsed certificate remembers its encoding and so parses to itself, and
  \<open>rand.Int\<close> returns a number below its bound.
\<close>

definition der_laws :: "pki \<Rightarrow> bool" where
  "der_laws P \<longleftrightarrow>
     (\<forall>k d. MarshalPKCS8PrivateKey P k = Ret d \<longrightarrow> ParsePKCS8PrivateKey P d = Ret k) \<and>
     (\<forall>k d. MarshalPKIXPublicKey P k = Ret d \<longrightarrow> ParsePKIXPublicKey P d = Ret k) \<and>
     (\<forall>d p e. encrypted_Encrypt P d p = Ret e \<longrightarrow> encrypted_Decrypt P e p = Ret d) \<and>
     (\<forall>d c. ParseCertificate P d = Ret c \<longrightarrow> cert_Raw c = d) \<and>
     (\<forall>n r. rand_Int P n = Ret r \<longrightarrow> r < n)"

section \<open>A reference instance\<close>

text \<open>The armour of the reference instance: a dash, a tag for the type, the length of the
  bytes in unary, the bytes, a dash and a newline.\<close>

definition ref_encode :: "pem_block \<Rightarrow> bytes" where
  "ref_encode b = 0x2D # map (\<lambda>c. word_of_nat (of_char c)) (pem_Type b) @ [0] @
     replicate (length (pem_Bytes b)) 1 @ [0] @ pem_Bytes b @ [0x2D, 0x0A]"

definition ref_decode :: "bytes \<Rightarrow> (pem_block \<times> bytes) option" where
  "ref_decode s = (case s of [] \<Rightarrow> None | c # s1 \<Rightarrow>
     let t = takeWhile (\<lambda>b. b \<noteq> 0) s1;
         s2 = drop 1 (dropWhile (\<lambda>b. b \<noteq> 0) s1);
         n = length (takeWhile (\<lambda>b. b = 1) s2);
         s3 = drop (n + 1) s2
     in Some (\<lparr>pem_Type = string_of t, pem_Bytes = take n s3\<rparr>, drop (n + 2) s3))"

definition ref_cert :: "bytes \<Rightarrow> certificate" where
  "ref_cert b = \<lparr>cert_Raw = b, RawSubject = b, RawIssuer = b, NotBefore = 0, NotAfter = 10, DNSNames = [], EmailAddresses = [],
     IPAddresses = [], URIs = [], Extensions = []\<rparr>"

definition ref_pki :: pki where
  "ref_pki = \<lparr>
     pem_Decode = ref_decode,
     pem_EncodeToMemory = ref_encode,
     ParsePKCS8PrivateKey = (\<lambda>d. case d of b # k \<Rightarrow> if b = 8 then Ret (Ed25519_private (Some k)) else Err (Msg ''pkcs8'') | [] \<Rightarrow> Err (Msg ''pkcs8'')),
     ParsePKCS1PrivateKey = (\<lambda>d. Err (Msg ''pkcs1'')),
     ParseECPrivateKey = (\<lambda>d. Err (Msg ''sec1'')),
     MarshalPKCS8PrivateKey = (\<lambda>k. case k of Ed25519_private (Some b) \<Rightarrow> Ret (8 # b) | _ \<Rightarrow> Err (Msg ''pkcs8'')),
     ParsePKIXPublicKey = (\<lambda>d. case d of b # k \<Rightarrow> if b = 9 then Ret (Ed25519_public (Some k)) else Err (Msg ''pkix'') | [] \<Rightarrow> Err (Msg ''pkix'')),
     ParsePKCS1PublicKey = (\<lambda>d. Err (Msg ''pkcs1'')),
     MarshalPKIXPublicKey = (\<lambda>k. case k of Ed25519_public (Some b) \<Rightarrow> Ret (9 # b) | _ \<Rightarrow> Err (Msg ''pkix'')),
     ParseCertificate = (\<lambda>d. if d = [] then Err (Msg ''certificate'') else Ret (ref_cert d)),
     ParseCertificateRequest = (\<lambda>d. Ret d),
     spki_bits = (\<lambda>d. Ret d),
     encrypted_Encrypt = (\<lambda>d p. Ret (p @ d)),
     encrypted_Decrypt = (\<lambda>e p. if take (length p) e = p then Ret (drop (length p) e) else Err (Msg ''decryption failed'')),
     goodkey_GoodKey = (\<lambda>k. Ret ()),
     rand_Int = (\<lambda>n. if n = 0 then Panic ''crypto/rand: argument to Int is <= 0'' else Ret (n div 2))\<rparr>"

lemma ref_pki_simps:
  "MarshalPKCS8PrivateKey ref_pki (Ed25519_private (Some k)) = Ret (8 # k)"
  "ParsePKCS8PrivateKey ref_pki (8 # k) = Ret (Ed25519_private (Some k))"
  "MarshalPKIXPublicKey ref_pki (Ed25519_public (Some k)) = Ret (9 # k)"
  "encrypted_Encrypt ref_pki d p = Ret (p @ d)"
  by (simp_all add: ref_pki_def)

lemma emitted_no_zero: "t \<in> set emitted_types \<Longrightarrow> 0 \<notin> set (bytes_of t)"
  by (auto simp: emitted_types_def pem_type_defs bytes_of_def)

lemma before_zero:
  "0 \<notin> set x \<Longrightarrow> takeWhile (\<lambda>b. b \<noteq> 0) (x @ (0 :: 8 word) # y) = x"
  "0 \<notin> set x \<Longrightarrow> dropWhile (\<lambda>b. b \<noteq> 0) (x @ (0 :: 8 word) # y) = 0 # y"
  by (induction x) auto

lemma unary_length: "takeWhile (\<lambda>b. b = 1) (replicate n 1 @ (0 :: 8 word) # y) = replicate n 1"
  by (induction n) auto

lemma ref_encode_eq: "ref_encode b = 0x2D # bytes_of (pem_Type b) @ 0 #
    replicate (length (pem_Bytes b)) 1 @ 0 # pem_Bytes b @ [0x2D, 0x0A]"
  by (simp add: ref_encode_def bytes_of_def)

lemma ref_decode_encode:
  assumes "0 \<notin> set (bytes_of t)"
  shows "ref_decode (0x2D # bytes_of t @ 0 # replicate (length b) 1 @ 0 # b @ x) =
    Some (\<lparr>pem_Type = t, pem_Bytes = b\<rparr>, drop 2 x)"
  using assms by (simp add: ref_decode_def Let_def before_zero unary_length drop_Cons')

lemma ref_decode_shorter: "ref_decode s = Some (b, rest) \<Longrightarrow> length rest < length s"
proof (cases s)
  case (Cons c s1)
  assume "ref_decode s = Some (b, rest)"
  with Cons have "\<exists>n. rest = drop n (drop 1 (dropWhile (\<lambda>b. b \<noteq> 0) s1))"
    by (auto simp: ref_decode_def Let_def)
  then have "length rest \<le> length (dropWhile (\<lambda>b. b \<noteq> 0) s1)" by auto
  also have "\<dots> \<le> length s1" by (rule length_dropWhile_le)
  finally show ?thesis using Cons by simp
qed (simp add: ref_decode_def)

lemma ref_pki_pem_laws [simp]: "pem_laws ref_pki"
proof -
  have "ref_decode (ref_encode \<lparr>pem_Type = t, pem_Bytes = b\<rparr> @ rest) =
      Some (\<lparr>pem_Type = t, pem_Bytes = b\<rparr>, rest)"
    if "t \<in> set emitted_types" for t b rest
    using ref_decode_encode [OF emitted_no_zero [OF that], of b "[0x2D, 0x0A] @ rest"]
    by (simp add: ref_encode_eq)
  moreover have "ref_decode (butlast (ref_encode \<lparr>pem_Type = t, pem_Bytes = b\<rparr>)) =
      Some (\<lparr>pem_Type = t, pem_Bytes = b\<rparr>, [])"
    if "t \<in> set emitted_types" for t b
    using ref_decode_encode [OF emitted_no_zero [OF that], of b "[0x2D]"]
    by (simp add: ref_encode_eq butlast_append)
  moreover have "\<exists>x. ref_encode \<lparr>pem_Type = t, pem_Bytes = b\<rparr> = 0x2D # x @ [0x2D, 0x0A]" for t b
    using ref_encode_def by force
  ultimately show ?thesis
    using ref_decode_shorter by (auto simp: pem_laws_def ref_pki_def)
qed

lemma ref_pki_der_laws [simp]: "der_laws ref_pki"
  by (auto simp: der_laws_def ref_pki_def ref_cert_def split: private_key.splits public_key.splits
      option.splits if_splits)

end
