(* ===== verification/CryptoUtils.thy ===== *)
theory CryptoUtils
  imports Pki World
begin

text \<open>
  \<open>pkg/cryptoutils\<close>: PEM and DER encodings of keys (\<open>privatekey.go\<close>, \<open>publickey.go\<close>), lists of
  certificates (\<open>certificate.go\<close>) and the reading of passwords (\<open>password.go\<close>).  The loops over PEM
  blocks are partial functions of the input; that they return is a theorem about decoders that
  consume what they decode.
\<close>

section \<open>PEM and keys\<close>

definition PEMEncode :: "pki \<Rightarrow> string \<Rightarrow> bytes \<Rightarrow> bytes" where
  "PEMEncode P typeStr b = pem_EncodeToMemory P \<lparr>pem_Type = typeStr, pem_Bytes = b\<rparr>"

text \<open>A \<open>PassFunc\<close> may be nil; the password it returns may be nil too.\<close>

type_synonym pass_func = "(bool \<Rightarrow> bytes option outcome) option"

text \<open>Calling a nil function value.\<close>

definition call_pf :: "pass_func \<Rightarrow> bool \<Rightarrow> bytes option outcome" where
  "call_pf pf confirm = (case pf of None \<Rightarrow> Panic ''nil pointer dereference'' | Some f \<Rightarrow> f confirm)"

definition MarshalPublicKeyToDER :: "pki \<Rightarrow> public_key \<Rightarrow> bytes outcome" where
  "MarshalPublicKeyToDER P pub =
     (if pub = Nil_public then Err (Msg ''empty key'') else MarshalPKIXPublicKey P pub)"

definition MarshalPublicKeyToPEM :: "pki \<Rightarrow> public_key \<Rightarrow> bytes outcome" where
  "MarshalPublicKeyToPEM P pub =
     and_then (MarshalPublicKeyToDER P pub) (\<lambda>derBytes. Ret (PEMEncode P PublicKeyPEMType derBytes))"

definition UnmarshalPEMToPublicKey :: "pki \<Rightarrow> bytes \<Rightarrow> public_key outcome" where
  "UnmarshalPEMToPublicKey P pemBytes = (case pem_Decode P pemBytes of
       None \<Rightarrow> Err (Msg ''PEM decoding failed'')
     | Some (derBytes, _) \<Rightarrow>
         if pem_Type derBytes = PublicKeyPEMType then ParsePKIXPublicKey P (pem_Bytes derBytes)
         else if pem_Type derBytes = PKCS1PublicKeyPEMType then ParsePKCS1PublicKey P (pem_Bytes derBytes)
         else Err (Msg ''unknown Public key PEM file type''))"

definition MarshalPrivateKeyToDER :: "pki \<Rightarrow> private_key \<Rightarrow> bytes outcome" where
  "MarshalPrivateKeyToDER P priv =
     (if priv = Nil_private then Err (Msg ''empty key'') else MarshalPKCS8PrivateKey P priv)"

definition MarshalPrivateKeyToPEM :: "pki \<Rightarrow> private_key \<Rightarrow> bytes outcome" where
  "MarshalPrivateKeyToPEM P priv =
     and_then (MarshalPrivateKeyToDER P priv) (\<lambda>derBytes. Ret (PEMEncode P PrivateKeyPEMType derBytes))"

definition MarshalPrivateKeyToEncryptedDER :: "pki \<Rightarrow> private_key \<Rightarrow> pass_func \<Rightarrow> bytes outcome" where
  "MarshalPrivateKeyToEncryptedDER P priv pf =
     and_then (MarshalPrivateKeyToDER P priv) (\<lambda>derKey.
     and_then (call_pf pf True) (\<lambda>password.
       case password of
         None \<Rightarrow> Err (Msg ''password was nil'')
       | Some pw \<Rightarrow> encrypted_Encrypt P derKey pw))"

definition pemEncodeKeyPair :: "pki \<Rightarrow> private_key \<Rightarrow> public_key \<Rightarrow> pass_func \<Rightarrow> (bytes \<times> bytes) outcome" where
  "pemEncodeKeyPair P priv pub pf =
     and_then (MarshalPublicKeyToPEM P pub) (\<lambda>pubPEM.
     and_then (MarshalPrivateKeyToDER P priv) (\<lambda>derBytes.
       case pf of
         None \<Rightarrow> Ret (PEMEncode P PrivateKeyPEMType derBytes, pubPEM)
       | Some f \<Rightarrow> and_then (f True) (\<lambda>password.
           case password of
             None \<Rightarrow> Ret (PEMEncode P PrivateKeyPEMType derBytes, pubPEM)
           | Some pw \<Rightarrow> and_then (encrypted_Encrypt P derBytes pw) (\<lambda>enc.
               Ret (PEMEncode P EncryptedSigstorePrivateKeyPEMType enc, pubPEM)))))"

definition GeneratePEMEncodedECDSAKeyPair ::
  "crypto_lib \<Rightarrow> pki \<Rightarrow> curve \<Rightarrow> pass_func \<Rightarrow> (bytes \<times> bytes) outcome" where
  "GeneratePEMEncodedECDSAKeyPair L P c pf =
     and_then (ecdsa_GenerateKey L c CryptoRand) (\<lambda>priv.
       pemEncodeKeyPair P (Ecdsa_private (Some priv)) (Ecdsa_public (Some (ecdsa_PublicKey priv))) pf)"

definition GeneratePEMEncodedRSAKeyPair ::
  "crypto_lib \<Rightarrow> pki \<Rightarrow> nat \<Rightarrow> pass_func \<Rightarrow> (bytes \<times> bytes) outcome" where
  "GeneratePEMEncodedRSAKeyPair L P keyLengthBits pf =
     and_then (rsa_GenerateKey L CryptoRand keyLengthBits) (\<lambda>priv.
       pemEncodeKeyPair P (Rsa_private (Some priv)) (Rsa_public (Some (rsa_PublicKey priv))) pf)"

definition UnmarshalPEMToPrivateKey :: "pki \<Rightarrow> bytes \<Rightarrow> pass_func \<Rightarrow> private_key outcome" where
  "UnmarshalPEMToPrivateKey P pemBytes pf = (case pem_Decode P pemBytes of
       None \<Rightarrow> Err (Msg ''PEM decoding failed'')
     | Some (derBlock, _) \<Rightarrow>
         if pem_Type derBlock = PrivateKeyPEMType then ParsePKCS8PrivateKey P (pem_Bytes derBlock)
         else if pem_Type derBlock = PKCS1PrivateKeyPEMType then ParsePKCS1PrivateKey P (pem_Bytes derBlock)
         else if pem_Type derBlock = ECPrivateKeyPEMType then ParseECPrivateKey P (pem_Bytes derBlock)
         else if pem_Type derBlock = EncryptedSigstorePrivateKeyPEMType \<or>
                 pem_Type derBlock = encryptedCosignPrivateKeyPEMType
         then (case pf of
             None \<Rightarrow> ParsePKCS8PrivateKey P (pem_Bytes derBlock)
           | Some f \<Rightarrow> and_then (f False) (\<lambda>password.
               case password of
                 None \<Rightarrow> ParsePKCS8PrivateKey P (pem_Bytes derBlock)
               | Some pw \<Rightarrow> and_then (encrypted_Decrypt P (pem_Bytes derBlock) pw) (ParsePKCS8PrivateKey P)))
         else Err (Msg ''unknown private key PEM file type''))"

section \<open>Comparing and validating public keys\<close>

definition SKID :: "crypto_lib \<Rightarrow> pki \<Rightarrow> public_key \<Rightarrow> bytes outcome" where
  "SKID L P pub =
     and_then (MarshalPKIXPublicKey P pub) (\<lambda>derPubBytes.
     and_then (spki_bits P derPubBytes) (\<lambda>spki. Ret (hash_sum L SHA1 spki)))"

text \<open>\<open>hex.EncodeToString\<close>.\<close>

definition hex_digit :: "nat \<Rightarrow> char" where
  "hex_digit n = ''0123456789abcdef'' ! n"

definition hex_EncodeToString :: "bytes \<Rightarrow> string" where
  "hex_EncodeToString b = concat (map (\<lambda>x. [hex_digit (unat x div 16), hex_digit (unat x mod 16)]) b)"

definition genErrMsg :: "crypto_lib \<Rightarrow> pki \<Rightarrow> public_key \<Rightarrow> public_key \<Rightarrow> string \<Rightarrow> string outcome" where
  "genErrMsg L P first second keyType =
     (let msg = keyType @ '' public keys are not equal''
      in case SKID L P first of
           Panic p \<Rightarrow> Panic p
         | Err e \<Rightarrow> Ret msg
         | Ret firstSKID \<Rightarrow> (case SKID L P second of
               Panic p \<Rightarrow> Panic p
             | Err e \<Rightarrow> Ret msg
             | Ret secondSKID \<Rightarrow> Ret (msg @ '' ('' @ hex_EncodeToString firstSKID @ '', '' @
                 hex_EncodeToString secondSKID @ '')'')))"

text \<open>The \<open>Equal\<close> methods of the three key types: keys of another type are different, a nil
  pointer on either side is dereferenced.\<close>

definition Equal :: "public_key \<Rightarrow> public_key \<Rightarrow> bool outcome" where
  "Equal pub second = (case (pub, second) of
       (Rsa_public k, Rsa_public k2) \<Rightarrow>
         if k = None \<or> k2 = None then Panic ''nil pointer dereference'' else Ret (k = k2)
     | (Ecdsa_public k, Ecdsa_public k2) \<Rightarrow>
         if k = None \<or> k2 = None then Panic ''nil pointer dereference'' else Ret (k = k2)
     | (Ed25519_public k, Ed25519_public k2) \<Rightarrow>
         Ret ((case k of None \<Rightarrow> [] | Some b \<Rightarrow> b) = (case k2 of None \<Rightarrow> [] | Some b \<Rightarrow> b))
     | _ \<Rightarrow> Ret False)"

definition EqualKeys :: "crypto_lib \<Rightarrow> pki \<Rightarrow> public_key \<Rightarrow> public_key \<Rightarrow> unit outcome" where
  "EqualKeys L P first second =
     (let different = (\<lambda>keyType. and_then (Equal first second) (\<lambda>eq.
            if \<not> eq then and_then (genErrMsg L P first second keyType) (\<lambda>m. Err (Msg m)) else Ret ()))
      in case first of
           Rsa_public _ \<Rightarrow> different ''rsa''
         | Ecdsa_public _ \<Rightarrow> different ''ecdsa''
         | Ed25519_public _ \<Rightarrow> different ''ed25519''
         | _ \<Rightarrow> Err (Msg ''unsupported key type''))"

definition validateEd25519Key :: "bytes option \<Rightarrow> unit outcome" where
  "validateEd25519Key pk = Ret ()"

definition ValidatePubKey :: "pki \<Rightarrow> public_key \<Rightarrow> unit outcome" where
  "ValidatePubKey P pub = (case pub of
       Rsa_public _ \<Rightarrow> goodkey_GoodKey P pub
     | Ecdsa_public _ \<Rightarrow> goodkey_GoodKey P pub
     | Ed25519_public pk \<Rightarrow> validateEd25519Key pk
     | _ \<Rightarrow> Err (Msg ''unsupported public key type''))"

section \<open>Certificates\<close>

text \<open>\<open>bytes.TrimSpace\<close>: the UTF-8 encodings of the white space runes (\<open>unicode.IsSpace\<close>).\<close>

definition spaces :: "bytes list" where
  "spaces = [[0x09], [0x0A], [0x0B], [0x0C], [0x0D], [0x20], [0xC2, 0x85], [0xC2, 0xA0], [0xE1, 0x9A, 0x80],
     [0xE2, 0x80, 0x80], [0xE2, 0x80, 0x81], [0xE2, 0x80, 0x82], [0xE2, 0x80, 0x83], [0xE2, 0x80, 0x84],
     [0xE2, 0x80, 0x85], [0xE2, 0x80, 0x86], [0xE2, 0x80, 0x87], [0xE2, 0x80, 0x88], [0xE2, 0x80, 0x89],
     [0xE2, 0x80, 0x8A], [0xE2, 0x80, 0xA8], [0xE2, 0x80, 0xA9], [0xE2, 0x80, 0xAF], [0xE2, 0x81, 0x9F],
     [0xE3, 0x80, 0x80]]"

function trim_left :: "bytes list \<Rightarrow> bytes \<Rightarrow> bytes" where
  "trim_left ss b = (case find (\<lambda>s. s \<noteq> [] \<and> HasPrefix b s) ss of
       None \<Rightarrow> b
     | Some s \<Rightarrow> trim_left ss (drop (length s) b))"
  by pat_completeness auto
termination
  by (relation "measure (length \<circ> snd)")
    (auto dest!: find_Some_mem simp: HasPrefix_iff)

declare trim_left.simps [simp del]

definition trim_right :: "bytes list \<Rightarrow> bytes \<Rightarrow> bytes" where
  "trim_right ss b = rev (trim_left (map rev ss) (rev b))"

definition TrimSpace :: "bytes \<Rightarrow> bytes" where
  "TrimSpace b = trim_right spaces (trim_left spaces b)"

definition MarshalCertificateToPEM :: "pki \<Rightarrow> certificate option \<Rightarrow> bytes outcome" where
  "MarshalCertificateToPEM P cert = (case cert of
       None \<Rightarrow> Err (Msg ''nil certificate provided'')
     | Some c \<Rightarrow> Ret (PEMEncode P CertificatePEMType (cert_Raw c)))"

text \<open>The loop appends to \<open>buf\<close>.\<close>

fun marshal_certs :: "pki \<Rightarrow> certificate option list \<Rightarrow> bytes \<Rightarrow> bytes outcome" where
  "marshal_certs P [] buf = Ret buf"
| "marshal_certs P (cert # certs) buf =
     and_then (MarshalCertificateToPEM P cert) (\<lambda>pemBytes. marshal_certs P certs (buf @ pemBytes))"

definition MarshalCertificatesToPEM :: "pki \<Rightarrow> certificate option list \<Rightarrow> bytes outcome" where
  "MarshalCertificatesToPEM P certs = marshal_certs P certs []"

text \<open>The loop of \<open>UnmarshalCertificatesFromPEM\<close>; \<open>None\<close> is a loop that never ends.\<close>

partial_function (option) unmarshal_certs ::
  "pki \<Rightarrow> bytes \<Rightarrow> certificate list \<Rightarrow> certificate list outcome option" where
  "unmarshal_certs P remaining result =
     (if length remaining > 0 then
        (case pem_Decode P remaining of
           None \<Rightarrow> Some (Err (Msg ''error during PEM decoding''))
         | Some (certDer, remaining') \<Rightarrow> (case ParseCertificate P (pem_Bytes certDer) of
               Err e \<Rightarrow> Some (Err e)
             | Panic p \<Rightarrow> Some (Panic p)
             | Ret cert \<Rightarrow> unmarshal_certs P remaining' (result @ [cert])))
      else Some (Ret result))"

definition UnmarshalCertificatesFromPEM :: "pki \<Rightarrow> bytes \<Rightarrow> certificate list outcome option" where
  "UnmarshalCertificatesFromPEM P pemBytes = unmarshal_certs P (TrimSpace pemBytes) []"

text \<open>The loop with a limit counts the blocks; a negative limit is never reached.\<close>

partial_function (option) unmarshal_certs_limited ::
  "pki \<Rightarrow> int \<Rightarrow> bytes \<Rightarrow> int \<Rightarrow> certificate list \<Rightarrow> certificate list outcome option" where
  "unmarshal_certs_limited P iterations remaining count result =
     (if length remaining > 0 then
        (if count = iterations then Some (Err (Msg ''too many certificates specified in PEM block''))
         else (case pem_Decode P remaining of
           None \<Rightarrow> Some (Err (Msg ''error during PEM decoding''))
         | Some (certDer, remaining') \<Rightarrow> (case ParseCertificate P (pem_Bytes certDer) of
               Err e \<Rightarrow> Some (Err e)
             | Panic p \<Rightarrow> Some (Panic p)
             | Ret cert \<Rightarrow> unmarshal_certs_limited P iterations remaining' (count + 1) (result @ [cert]))))
      else Some (Ret result))"

definition UnmarshalCertificatesFromPEMLimited ::
  "pki \<Rightarrow> bytes \<Rightarrow> int \<Rightarrow> certificate list outcome option" where
  "UnmarshalCertificatesFromPEMLimited P pemBytes iterations =
     unmarshal_certs_limited P iterations (TrimSpace pemBytes) 0 []"

definition LoadCertificatesFromPEM :: "pki \<Rightarrow> io_reader \<Rightarrow> world \<Rightarrow> certificate list outcome option \<times> world" where
  "LoadCertificatesFromPEM P pem w = (case ReadAll pem w of
       (Ret fileBytes, w') \<Rightarrow> (UnmarshalCertificatesFromPEM P fileBytes, w')
     | (Err e, w') \<Rightarrow> (Some (Err e), w')
     | (Panic p, w') \<Rightarrow> (Some (Panic p), w'))"

definition CheckExpiration :: "certificate option \<Rightarrow> int \<Rightarrow> unit outcome" where
  "CheckExpiration cert epoch = (case cert of
       None \<Rightarrow> Err (Msg ''certificate is nil'')
     | Some c \<Rightarrow>
         if NotAfter c < epoch then Err (Msg ''certificate expiration time is before'')
         else if NotBefore c > epoch then Err (Msg ''certificate issued time is before'')
         else Ret ())"

text \<open>A decoded block always has contents, which are not nil even if they are empty, so the test for nil
  contents is the test for a block.\<close>

definition ParseCSR :: "pki \<Rightarrow> bytes \<Rightarrow> bytes outcome" where
  "ParseCSR P csr = (case pem_Decode P csr of
       None \<Rightarrow> Err (Msg ''no CSR found while decoding'')
     | Some (derBlock, _) \<Rightarrow>
         let acceptedHeaders = [''CERTIFICATE REQUEST'', ''NEW CERTIFICATE REQUEST''];
             correctType = fold (\<lambda>v ok. if pem_Type derBlock = v then True else ok) acceptedHeaders False
         in if \<not> correctType then Err (Msg ''DER type is not of any type for CSR'')
            else ParseCertificateRequest P (pem_Bytes derBlock))"

definition GenerateSerialNumber :: "pki \<Rightarrow> nat outcome" where
  "GenerateSerialNumber P = (case rand_Int P (2 ^ 159) of
       Ret serial \<Rightarrow> Ret serial
     | Err _ \<Rightarrow> Err (Msg ''error generating serial number'')
     | Panic p \<Rightarrow> Panic p)"

section \<open>Passwords\<close>

text \<open>The process: its environment variable, whether standard input is a terminal, the lines a
  user will type at it, and the bytes still to come through a pipe.\<close>

record console =
  env_COSIGN_PASSWORD :: "string option"
  stdin_is_terminal :: bool
  typed_lines :: "bytes outcome list"
  piped :: bytes

datatype password_source = FromEnv string | FromTerminal | FromPipe

definition readPasswordFn :: "console \<Rightarrow> password_source" where
  "readPasswordFn c = (case env_COSIGN_PASSWORD c of
       Some pw \<Rightarrow> FromEnv pw
     | None \<Rightarrow> if stdin_is_terminal c then FromTerminal else FromPipe)"

text \<open>One call of the function \<open>readPasswordFn\<close> returned.\<close>

definition read_password :: "password_source \<Rightarrow> console \<Rightarrow> bytes outcome \<times> console" where
  "read_password src c = (case src of
       FromEnv pw \<Rightarrow> (Ret (bytes_of pw), c)
     | FromTerminal \<Rightarrow> (case typed_lines c of
           [] \<Rightarrow> (Err (Msg ''EOF''), c)
         | l # ls \<Rightarrow> (l, c\<lparr>typed_lines := ls\<rparr>))
     | FromPipe \<Rightarrow> (Ret (piped c), c\<lparr>piped := []\<rparr>))"

definition StaticPasswordFunc :: "bytes option \<Rightarrow> bool \<Rightarrow> bytes option outcome" where
  "StaticPasswordFunc pw confirm = Ret pw"

definition SkipPassword :: "bool \<Rightarrow> bytes option outcome" where
  "SkipPassword confirm = Ret None"

definition GetPasswordFromStdIn :: "bool \<Rightarrow> console \<Rightarrow> bytes outcome \<times> console" where
  "GetPasswordFromStdIn confirm c =
     (let src = readPasswordFn c
      in case read_password src c of
           (Ret pw1, c1) \<Rightarrow>
             if \<not> confirm then (Ret pw1, c1)
             else (case read_password src c1 of
                 (Ret pw2, c2) \<Rightarrow>
                   if pw1 \<noteq> pw2 then (Err (Msg ''passwords do not match''), c2) else (Ret pw1, c2)
               | (Err e, c2) \<Rightarrow> (Err e, c2)
               | (Panic p, c2) \<Rightarrow> (Panic p, c2))
         | (Err e, c1) \<Rightarrow> (Err e, c1)
         | (Panic p, c1) \<Rightarrow> (Panic p, c1))"

section \<open>White space\<close>

lemma trim_left_stop: "find (\<lambda>s. s \<noteq> [] \<and> HasPrefix b s) ss = None \<Longrightarrow> trim_left ss b = b"
  by (simp add: trim_left.simps)

lemma TrimSpace_armour:
  assumes "b = 0x2D # x @ [0x2D, 0x0A]"
  shows "TrimSpace b = butlast b"
proof -
  have l: "trim_left spaces b = b"
    by (rule trim_left_stop) (simp add: assms spaces_def HasPrefix_def)
  have 1: "trim_left (map rev spaces) (0x0A # 0x2D # y) = trim_left (map rev spaces) (0x2D # y)" for y
    by (subst trim_left.simps) (simp add: spaces_def HasPrefix_def)
  have 2: "trim_left (map rev spaces) (0x2D # y) = 0x2D # y" for y
    by (rule trim_left_stop) (simp add: spaces_def HasPrefix_def)
  show ?thesis
    unfolding TrimSpace_def l trim_right_def by (simp add: assms 1 2 butlast_append)
qed

lemma TrimSpace_Nil [simp]: "TrimSpace [] = []"
  by (simp add: TrimSpace_def trim_right_def trim_left_stop spaces_def HasPrefix_def)

section \<open>The loops over certificates\<close>

lemmas emitted_simps = emitted_types_def pem_type_defs

lemma pem_lawsD:
  assumes "pem_laws P" "t \<in> set emitted_types"
  shows "pem_Decode P (PEMEncode P t b @ rest) = Some (\<lparr>pem_Type = t, pem_Bytes = b\<rparr>, rest)"
    and "pem_Decode P (PEMEncode P t b) = Some (\<lparr>pem_Type = t, pem_Bytes = b\<rparr>, [])"
    and "pem_Decode P (butlast (PEMEncode P t b)) = Some (\<lparr>pem_Type = t, pem_Bytes = b\<rparr>, [])"
    and "\<exists>x. PEMEncode P t b = 0x2D # x @ [0x2D, 0x0A]"
proof -
  show *: "pem_Decode P (PEMEncode P t b @ rest) = Some (\<lparr>pem_Type = t, pem_Bytes = b\<rparr>, rest)" for rest
    using assms by (simp add: pem_laws_def PEMEncode_def)
  show "pem_Decode P (PEMEncode P t b) = Some (\<lparr>pem_Type = t, pem_Bytes = b\<rparr>, [])"
    using * [of "[]"] by simp
qed (use assms in \<open>auto simp: pem_laws_def PEMEncode_def\<close>)

lemma CertificatePEMType_emitted [simp]: "CertificatePEMType \<in> set emitted_types"
  and PublicKeyPEMType_emitted [simp]: "PublicKeyPEMType \<in> set emitted_types"
  and PrivateKeyPEMType_emitted [simp]: "PrivateKeyPEMType \<in> set emitted_types"
  and EncryptedSigstorePrivateKeyPEMType_emitted [simp]: "EncryptedSigstorePrivateKeyPEMType \<in> set emitted_types"
  by (simp_all add: emitted_types_def)

lemma sigstore_type_differs:
  "EncryptedSigstorePrivateKeyPEMType \<noteq> PrivateKeyPEMType"
  "EncryptedSigstorePrivateKeyPEMType \<noteq> PKCS1PrivateKeyPEMType"
  "EncryptedSigstorePrivateKeyPEMType \<noteq> ECPrivateKeyPEMType"
  by (simp_all add: pem_type_defs)

definition cert_armour :: "pki \<Rightarrow> certificate \<Rightarrow> bytes" where
  "cert_armour P c = PEMEncode P CertificatePEMType (cert_Raw c)"

lemma cert_armour_decode:
  assumes "pem_laws P"
  shows "pem_Decode P (cert_armour P c @ rest) = Some (\<lparr>pem_Type = CertificatePEMType, pem_Bytes = cert_Raw c\<rparr>, rest)"
    "pem_Decode P (butlast (cert_armour P c)) = Some (\<lparr>pem_Type = CertificatePEMType, pem_Bytes = cert_Raw c\<rparr>, [])"
    "\<exists>x. cert_armour P c = 0x2D # x @ [0x2D, 0x0A]"
  using pem_lawsD [OF assms CertificatePEMType_emitted] by (simp_all add: cert_armour_def)

lemma cert_armour_nonempty:
  assumes "pem_laws P"
  shows "cert_armour P c \<noteq> []" "butlast (cert_armour P c) \<noteq> []" "Suc 0 < length (cert_armour P c)"
  using cert_armour_decode(3) [OF assms, of c] by auto

lemma marshal_certs_eq: "marshal_certs P (map Some cs) buf = Ret (buf @ concat (map (cert_armour P) cs))"
  by (induction cs arbitrary: buf) (simp_all add: MarshalCertificateToPEM_def cert_armour_def)

lemma TrimSpace_certs:
  assumes "pem_laws P"
  shows "TrimSpace (concat (map (cert_armour P) (cs @ [c]))) =
    concat (map (cert_armour P) cs) @ butlast (cert_armour P c)"
proof -
  have "\<exists>x. concat (map (cert_armour P) (cs @ [c])) = 0x2D # x @ [0x2D, 0x0A]"
  proof (cases cs)
    case Nil
    then show ?thesis using cert_armour_decode(3) [OF assms, of c] by simp
  next
    case (Cons d ds)
    obtain x y where "cert_armour P d = 0x2D # x" "cert_armour P c = y @ [0x2D, 0x0A]"
      using cert_armour_decode(3) [OF assms] by (metis append_Cons)
    then show ?thesis using Cons by auto
  qed
  then have "TrimSpace (concat (map (cert_armour P) (cs @ [c]))) = butlast (concat (map (cert_armour P) (cs @ [c])))"
    by (blast intro: TrimSpace_armour)
  then show ?thesis using cert_armour_nonempty(1) [OF assms] by (simp add: butlast_append)
qed

definition parses :: "pki \<Rightarrow> certificate \<Rightarrow> bool" where
  "parses P c \<longleftrightarrow> ParseCertificate P (cert_Raw c) = Ret c"

lemma unmarshal_certs_armour:
  assumes "pem_laws P" "\<And>d. d \<in> set (cs @ [c]) \<Longrightarrow> parses P d"
  shows "unmarshal_certs P (concat (map (cert_armour P) cs) @ butlast (cert_armour P c)) res = Some (Ret (res @ cs @ [c]))"
  using assms(2)
proof (induction cs arbitrary: res)
  case Nil
  then show ?case
    using cert_armour_decode(2) [OF assms(1)] cert_armour_nonempty [OF assms(1)]
    by (simp add: unmarshal_certs.simps [of _ "butlast _"] unmarshal_certs.simps [of _ "[]"] parses_def)
next
  case (Cons d ds)
  then show ?case
    using cert_armour_decode(1) [OF assms(1)] cert_armour_nonempty [OF assms(1)]
    by (subst unmarshal_certs.simps) (simp add: parses_def)
qed

lemma unmarshal_limited_armour:
  assumes "pem_laws P" "\<And>d. d \<in> set (cs @ [c]) \<Longrightarrow> parses P d"
  shows "unmarshal_certs_limited P n (concat (map (cert_armour P) cs) @ butlast (cert_armour P c)) k res =
    Some (if k \<le> n \<and> n \<le> k + int (length cs) then Err (Msg ''too many certificates specified in PEM block'')
          else Ret (res @ cs @ [c]))"
  using assms(2)
proof (induction cs arbitrary: res k)
  case Nil
  then show ?case
    using cert_armour_decode(2) [OF assms(1)] cert_armour_nonempty [OF assms(1)]
    by (simp add: unmarshal_certs_limited.simps [of _ _ "butlast _"] unmarshal_certs_limited.simps [of _ _ "[]"] parses_def)
next
  case (Cons d ds)
  have "unmarshal_certs_limited P n (concat (map (cert_armour P) ds) @ butlast (cert_armour P c)) (k + 1) (res @ [d]) =
    Some (if k + 1 \<le> n \<and> n \<le> k + 1 + int (length ds) then Err (Msg ''too many certificates specified in PEM block'')
          else Ret ((res @ [d]) @ ds @ [c]))"
    using Cons by simp
  then show ?case
    using cert_armour_decode(1) [OF assms(1)] cert_armour_nonempty [OF assms(1)] Cons.prems
    by (subst unmarshal_certs_limited.simps) (auto simp: parses_def)
qed

lemma unmarshal_certs_returns:
  assumes "pem_laws P"
  shows "\<exists>r. unmarshal_certs P b res = Some r"
proof (induction b arbitrary: res rule: length_induct)
  case (1 b)
  have "pem_Decode P b = Some (d, rest) \<Longrightarrow> length rest < length b" for d rest
    using assms by (simp add: pem_laws_def)
  with 1 show ?case
    by (subst unmarshal_certs.simps) (fastforce split: option.splits prod.splits outcome.splits)
qed

text \<open>Counting can only turn a result into an error.\<close>

lemma unmarshal_limited_cases:
  assumes "pem_laws P"
  shows "unmarshal_certs_limited P n b k res = unmarshal_certs P b res \<or>
    unmarshal_certs_limited P n b k res = Some (Err (Msg ''too many certificates specified in PEM block''))"
proof (induction b arbitrary: res k rule: length_induct)
  case (1 b)
  have "pem_Decode P b = Some (d, rest) \<Longrightarrow> length rest < length b" for d rest
    using assms by (simp add: pem_laws_def)
  with 1 show ?case
    by (auto simp: unmarshal_certs.simps [of P b res] unmarshal_certs_limited.simps [of P n b k res]
        split: option.split prod.split outcome.split)
qed

section \<open>Properties\<close>

text \<open>C25: what \<open>pemEncodeKeyPair\<close> writes, the two unmarshallers read back: the private key, whether or
  not a password function encrypted it, and the public key, provided the password
  function gives the same answer when it asks for confirmation and when it does not.\<close>

theorem key_pair_pem_roundtrip:
  assumes "pem_laws P" "der_laws P" "pemEncodeKeyPair P priv pub pf = Ret (privPEM, pubPEM)"
    and "\<And>f. pf = Some f \<Longrightarrow> f True = f False"
  shows "UnmarshalPEMToPrivateKey P privPEM pf = Ret priv \<and> UnmarshalPEMToPublicKey P pubPEM = Ret pub"
proof
  from assms(3) obtain d where d: "MarshalPKIXPublicKey P pub = Ret d" "pubPEM = PEMEncode P PublicKeyPEMType d"
    by (auto simp: pemEncodeKeyPair_def MarshalPublicKeyToPEM_def MarshalPublicKeyToDER_def outcome_simps
        split: if_splits option.splits)
  then show "UnmarshalPEMToPublicKey P pubPEM = Ret pub"
    using pem_lawsD(2) [OF assms(1) PublicKeyPEMType_emitted] assms(2)
    by (simp add: UnmarshalPEMToPublicKey_def der_laws_def)
  from assms(3) obtain e where e: "MarshalPKCS8PrivateKey P priv = Ret e"
    by (auto simp: pemEncodeKeyPair_def MarshalPrivateKeyToDER_def outcome_simps split: if_splits option.splits)
  then have p: "ParsePKCS8PrivateKey P e = Ret priv" using assms(2) by (simp add: der_laws_def)
  consider (plain) "privPEM = PEMEncode P PrivateKeyPEMType e"
    | (encrypted) f pw c where "pf = Some f" "f True = Ret (Some pw)" "encrypted_Encrypt P e pw = Ret c"
        "privPEM = PEMEncode P EncryptedSigstorePrivateKeyPEMType c"
    using assms(3) e
    by (auto simp: pemEncodeKeyPair_def MarshalPrivateKeyToDER_def outcome_simps split: if_splits option.splits)
  then show "UnmarshalPEMToPrivateKey P privPEM pf = Ret priv"
  proof cases
    case plain
    then show ?thesis
      using pem_lawsD(2) [OF assms(1) PrivateKeyPEMType_emitted] p by (simp add: UnmarshalPEMToPrivateKey_def)
  next
    case encrypted
    then have "f False = Ret (Some pw)" "encrypted_Decrypt P c pw = Ret e"
      using assms(2) assms(4) [of f] by (auto simp: der_laws_def)
    then show ?thesis
      using encrypted(1,4) pem_lawsD(2) [OF assms(1) EncryptedSigstorePrivateKeyPEMType_emitted] p
      by (simp add: UnmarshalPEMToPrivateKey_def sigstore_type_differs)
  qed
qed

theorem key_pair_pem_roundtrip_witness:
  "UnmarshalPEMToPrivateKey ref_pki (PEMEncode ref_pki EncryptedSigstorePrivateKeyPEMType [1, 8, 5])
     (Some (StaticPasswordFunc (Some [1]))) = Ret (Ed25519_private (Some [5])) \<and>
   UnmarshalPEMToPublicKey ref_pki (PEMEncode ref_pki PublicKeyPEMType [9, 6]) = Ret (Ed25519_public (Some [6]))"
  by (rule key_pair_pem_roundtrip)
    (auto simp: pemEncodeKeyPair_def StaticPasswordFunc_def MarshalPublicKeyToPEM_def MarshalPublicKeyToDER_def
      MarshalPrivateKeyToDER_def ref_pki_simps)

text \<open>C16: a list of certificates survives the trip through PEM in order, and reading it back with a
  limit gives the same list unless the limit is a number below its length, which is
  reported as too many certificates.\<close>

theorem certificates_pem_roundtrip:
  assumes "pem_laws P" "\<And>c. c \<in> set cs \<Longrightarrow> parses P c"
    and "MarshalCertificatesToPEM P (map Some cs) = Ret b"
  shows "UnmarshalCertificatesFromPEM P b = Some (Ret cs) \<and>
    UnmarshalCertificatesFromPEMLimited P b n =
      Some (if 0 \<le> n \<and> n < int (length cs) then Err (Msg ''too many certificates specified in PEM block'') else Ret cs)"
proof (cases cs rule: rev_cases)
  case Nil
  with assms(3) have "b = []" by (simp add: MarshalCertificatesToPEM_def)
  with Nil show ?thesis
    by (simp add: UnmarshalCertificatesFromPEM_def UnmarshalCertificatesFromPEMLimited_def
        unmarshal_certs.simps unmarshal_certs_limited.simps)
next
  case (snoc ds c)
  from assms(3) have "b = concat (map (cert_armour P) (ds @ [c]))"
    unfolding snoc MarshalCertificatesToPEM_def marshal_certs_eq by simp
  then have t: "TrimSpace b = concat (map (cert_armour P) ds) @ butlast (cert_armour P c)"
    by (simp only: TrimSpace_certs [OF assms(1)])
  have "d \<in> set (ds @ [c]) \<Longrightarrow> parses P d" for d using assms(2) snoc by auto
  then show ?thesis
    unfolding UnmarshalCertificatesFromPEM_def UnmarshalCertificatesFromPEMLimited_def t
    using unmarshal_certs_armour [OF assms(1)] unmarshal_limited_armour [OF assms(1)]
    by (simp add: snoc)
qed

theorem certificates_pem_roundtrip_witness:
  "UnmarshalCertificatesFromPEM ref_pki (cert_armour ref_pki (ref_cert [7]) @ cert_armour ref_pki (ref_cert [8])) =
     Some (Ret [ref_cert [7], ref_cert [8]]) \<and>
   UnmarshalCertificatesFromPEMLimited ref_pki (cert_armour ref_pki (ref_cert [7]) @ cert_armour ref_pki (ref_cert [8])) 1 =
     Some (Err (Msg ''too many certificates specified in PEM block''))"
proof -
  have "parses ref_pki c" if "c \<in> set [ref_cert [7], ref_cert [8]]" for c
    using that by (auto simp: parses_def ref_pki_def ref_cert_def)
  moreover have "MarshalCertificatesToPEM ref_pki (map Some [ref_cert [7], ref_cert [8]]) =
      Ret (cert_armour ref_pki (ref_cert [7]) @ cert_armour ref_pki (ref_cert [8]))"
    unfolding MarshalCertificatesToPEM_def marshal_certs_eq by simp
  ultimately show ?thesis
    using certificates_pem_roundtrip [OF ref_pki_pem_laws, of "[ref_cert [7], ref_cert [8]]" _ 1] by simp
qed

text \<open>C26: reading certificates terminates on every input, because decoding a block consumes some of
  it; the limited version returns what the unlimited one does or stops with too many certificates.\<close>

theorem unmarshal_certificates_returns:
  assumes "pem_laws P"
  shows "\<exists>r. UnmarshalCertificatesFromPEM P b = Some r \<and>
    (UnmarshalCertificatesFromPEMLimited P b n = Some r \<or>
     UnmarshalCertificatesFromPEMLimited P b n = Some (Err (Msg ''too many certificates specified in PEM block'')))"
  using unmarshal_certs_returns [OF assms] unmarshal_limited_cases [OF assms]
  unfolding UnmarshalCertificatesFromPEM_def UnmarshalCertificatesFromPEMLimited_def by metis

theorem unmarshal_certificates_returns_witness:
  "\<exists>r. UnmarshalCertificatesFromPEM ref_pki [1, 2, 3] = Some r \<and>
    (UnmarshalCertificatesFromPEMLimited ref_pki [1, 2, 3] 10 = Some r \<or>
     UnmarshalCertificatesFromPEMLimited ref_pki [1, 2, 3] 10 = Some (Err (Msg ''too many certificates specified in PEM block'')))"
  by (rule unmarshal_certificates_returns) simp

text \<open>\<open>CheckExpiration\<close> accepts exactly the instants of the closed validity interval of a
  certificate, both end points included.\<close>

theorem CheckExpiration_iff:
  "CheckExpiration cert epoch = Ret () \<longleftrightarrow> (\<exists>c. cert = Some c \<and> NotBefore c \<le> epoch \<and> epoch \<le> NotAfter c)"
  by (auto simp: CheckExpiration_def split: option.splits)

text \<open>A password that has to be confirmed cannot come through a pipe: the first read takes all of
  standard input, so the confirmation reads nothing and every non-empty password is
  reported as a mismatch.\<close>

theorem piped_password_confirm:
  "GetPasswordFromStdIn True
     \<lparr>env_COSIGN_PASSWORD = None, stdin_is_terminal = False, typed_lines = ls, piped = pw\<rparr> =
   (if pw = [] then Ret [] else Err (Msg ''passwords do not match''),
    \<lparr>env_COSIGN_PASSWORD = None, stdin_is_terminal = False, typed_lines = ls, piped = []\<rparr>)"
  by (simp add: GetPasswordFromStdIn_def readPasswordFn_def read_password_def)

end
