(* ===== verification/Paths.thy ===== *)
theory Paths
  imports Prelude
begin

text \<open>
  The slash-separated path functions of Go's \<open>path\<close> package, which on Unix are also those of
  \<open>path/filepath\<close>: \<open>Clean\<close>, \<open>Join\<close> and \<open>Dir\<close>.  Cleaning processes the components from left to right;
  the accumulator holds those kept so far, the last one first.
\<close>

fun clean_step :: "bool \<Rightarrow> string list \<Rightarrow> string list \<Rightarrow> string list" where
  "clean_step rooted acc [] = rev acc"
| "clean_step rooted acc (c # cs) =
     (if c = [] \<or> c = ''.'' then clean_step rooted acc cs
      else if c = ''..'' then
        (if acc \<noteq> [] \<and> hd acc \<noteq> ''..'' then clean_step rooted (tl acc) cs
         else if rooted then clean_step rooted acc cs
         else clean_step rooted (c # acc) cs)
      else clean_step rooted (c # acc) cs)"

fun join_slash :: "string list \<Rightarrow> string" where
  "join_slash [] = []"
| "join_slash [c] = c"
| "join_slash (c # cs) = c @ ''/'' @ join_slash cs"

definition path_Clean :: "string \<Rightarrow> string" where
  "path_Clean p =
     (if p = [] then ''.''
      else
        let rooted = (hd p = CHR ''/'');
            cs = clean_step rooted [] (split_on CHR ''/'' p)
        in if rooted then ''/'' @ join_slash cs else if cs = [] then ''.'' else join_slash cs)"

text \<open>\<open>Join\<close> skips empty elements at the front; joining nothing gives the empty string.\<close>

definition path_Join :: "string list \<Rightarrow> string" where
  "path_Join elems =
     (let es = dropWhile (\<lambda>e. e = []) elems
      in if es = [] then [] else path_Clean (join_slash es))"

text \<open>\<open>Dir\<close>: everything up to the last slash, cleaned.\<close>

definition path_Dir :: "string \<Rightarrow> string" where
  "path_Dir p = path_Clean (rev (dropWhile (\<lambda>c. c \<noteq> CHR ''/'') (rev p)))"

end
