(* ===== verification/Loaders.thy ===== *)
theory Loaders
  imports SignerECDSA SignerRSA SignerEd25519 AlgorithmRegistry CryptoUtils Paths
begin

text \<open>
  \<open>pkg/signature/signer.go\<close>, \<open>verifier.go\<close>, \<open>signerverifier.go\<close> and \<open>util.go\<close>: the loaders that
  pick a scheme from the dynamic type of a key and the load options.  The values behind the
  interfaces \<open>Signer\<close>, \<open>Verifier\<close> and \<open>SignerVerifier\<close> are datatypes with a constructor per
  concrete type, and their methods dispatch on it.
\<close>

datatype any_signer =
    Pss_signer RSAPSSSigner
  | Pkcs_signer RSAPKCS1v15Signer
  | Ecdsa_signer ECDSASigner
  | Ed25519_signer ED25519Signer
  | Ed25519ph_signer ED25519phSigner

datatype any_verifier =
    Pss_verifier RSAPSSVerifier
  | Pkcs_verifier RSAPKCS1v15Verifier
  | Ecdsa_verifier ECDSAVerifier
  | Ed25519_verifier ED25519Verifier
  | Ed25519ph_verifier ED25519phVerifier

datatype any_signer_verifier =
    Pss_sv RSAPSSSignerVerifier
  | Pkcs_sv RSAPKCS1v15SignerVerifier
  | Ecdsa_sv ECDSASignerVerifier
  | Ed25519_sv ED25519SignerVerifier
  | Ed25519ph_sv ED25519phSignerVerifier

section \<open>Methods of the interfaces\<close>

definition SignMessage :: "crypto_lib \<Rightarrow> any_signer \<Rightarrow> io_reader \<Rightarrow> sig_option list \<Rightarrow> bytes go" where
  "SignMessage L s message opts = (case s of
       Pss_signer x \<Rightarrow> RSAPSSSigner_SignMessage L x message opts
     | Pkcs_signer x \<Rightarrow> RSAPKCS1v15Signer_SignMessage L x message opts
     | Ecdsa_signer x \<Rightarrow> ECDSASigner_SignMessage L x message opts
     | Ed25519_signer x \<Rightarrow> ED25519Signer_SignMessage L x message opts
     | Ed25519ph_signer x \<Rightarrow> ED25519phSigner_SignMessage L x message opts)"

definition VerifySignature ::
  "crypto_lib \<Rightarrow> any_verifier \<Rightarrow> io_reader \<Rightarrow> io_reader \<Rightarrow> sig_option list \<Rightarrow> unit go" where
  "VerifySignature L v signature message opts = (case v of
       Pss_verifier x \<Rightarrow> RSAPSSVerifier_VerifySignature L x signature message opts
     | Pkcs_verifier x \<Rightarrow> RSAPKCS1v15Verifier_VerifySignature L x signature message opts
     | Ecdsa_verifier x \<Rightarrow> ECDSAVerifier_VerifySignature L x signature message opts
     | Ed25519_verifier x \<Rightarrow> ED25519Verifier_VerifySignature L x signature message opts
     | Ed25519ph_verifier x \<Rightarrow> ED25519phVerifier_VerifySignature L x signature message opts)"

definition Verifier_PublicKey :: "any_verifier \<Rightarrow> sig_option list \<Rightarrow> public_key outcome" where
  "Verifier_PublicKey v opts = (case v of
       Pss_verifier x \<Rightarrow> RSAPSSVerifier_PublicKey x opts
     | Pkcs_verifier x \<Rightarrow> RSAPKCS1v15Verifier_PublicKey x opts
     | Ecdsa_verifier x \<Rightarrow> ECDSAVerifier_PublicKey x opts
     | Ed25519_verifier x \<Rightarrow> ED25519Verifier_PublicKey x opts
     | Ed25519ph_verifier x \<Rightarrow> ED25519phVerifier_PublicKey x opts)"

definition Signer_PublicKey :: "any_signer \<Rightarrow> sig_option list \<Rightarrow> public_key outcome" where
  "Signer_PublicKey s opts = (case s of
       Pss_signer x \<Rightarrow> RSAPSSSigner_PublicKey x opts
     | Pkcs_signer x \<Rightarrow> RSAPKCS1v15Signer_PublicKey x opts
     | Ecdsa_signer x \<Rightarrow> ECDSASigner_PublicKey x opts
     | Ed25519_signer x \<Rightarrow> ED25519Signer_PublicKey x opts
     | Ed25519ph_signer x \<Rightarrow> ED25519phSigner_PublicKey x opts)"

text \<open>The two halves embedded in a combined value.\<close>

definition sv_signer :: "any_signer_verifier \<Rightarrow> any_signer" where
  "sv_signer sv = (case sv of
       Pss_sv x \<Rightarrow> Pss_signer (psv_signer x)
     | Pkcs_sv x \<Rightarrow> Pkcs_signer (ksv_signer x)
     | Ecdsa_sv x \<Rightarrow> Ecdsa_signer (esv_signer x)
     | Ed25519_sv x \<Rightarrow> Ed25519_signer (dsv_signer x)
     | Ed25519ph_sv x \<Rightarrow> Ed25519ph_signer (hsv_signer x))"

definition sv_verifier :: "any_signer_verifier \<Rightarrow> any_verifier" where
  "sv_verifier sv = (case sv of
       Pss_sv x \<Rightarrow> Pss_verifier (psv_verifier x)
     | Pkcs_sv x \<Rightarrow> Pkcs_verifier (ksv_verifier x)
     | Ecdsa_sv x \<Rightarrow> Ecdsa_verifier (esv_verifier x)
     | Ed25519_sv x \<Rightarrow> Ed25519_verifier (dsv_verifier x)
     | Ed25519ph_sv x \<Rightarrow> Ed25519ph_verifier (hsv_verifier x))"

definition SV_PublicKey :: "any_signer_verifier \<Rightarrow> sig_option list \<Rightarrow> public_key outcome" where
  "SV_PublicKey sv opts = (case sv of
       Pss_sv x \<Rightarrow> RSAPSSSignerVerifier_PublicKey x opts
     | Pkcs_sv x \<Rightarrow> RSAPKCS1v15SignerVerifier_PublicKey x opts
     | Ecdsa_sv x \<Rightarrow> ECDSASignerVerifier_PublicKey x opts
     | Ed25519_sv x \<Rightarrow> ED25519SignerVerifier_PublicKey x opts
     | Ed25519ph_sv x \<Rightarrow> ED25519phSignerVerifier_PublicKey x opts)"

section \<open>Loading with options\<close>

text \<open>The loop all three loaders start with.\<close>

definition load_options :: "sig_option list \<Rightarrow> bool \<times> hash \<times> nat option" where
  "load_options opts =
     fold (\<lambda>o1 (ph, h, pss). (ApplyED25519ph o1 ph, ApplyHash o1 h, ApplyRSAPSS o1 pss)) opts (False, SHA256, None)"

definition LoadSignerWithOpts :: "private_key \<Rightarrow> sig_option list \<Rightarrow> any_signer outcome" where
  "LoadSignerWithOpts privateKey opts =
     (let (useED25519ph, hashFunc, rsaPSSOptions) = load_options opts in
      case privateKey of
        Rsa_private pk \<Rightarrow>
          (if rsaPSSOptions \<noteq> None
           then and_then (LoadRSAPSSSigner pk hashFunc rsaPSSOptions) (\<lambda>s. Ret (Pss_signer s))
           else and_then (LoadRSAPKCS1v15Signer pk hashFunc) (\<lambda>s. Ret (Pkcs_signer s)))
      | Ecdsa_private pk \<Rightarrow> and_then (LoadECDSASigner pk hashFunc) (\<lambda>s. Ret (Ecdsa_signer s))
      | Ed25519_private pk \<Rightarrow>
          (if useED25519ph then and_then (LoadED25519phSigner pk) (\<lambda>s. Ret (Ed25519ph_signer s))
           else and_then (LoadED25519Signer pk) (\<lambda>s. Ret (Ed25519_signer s)))
      | _ \<Rightarrow> Err (Msg ''unsupported public key type''))"

definition LoadSigner :: "private_key \<Rightarrow> hash \<Rightarrow> any_signer outcome" where
  "LoadSigner privateKey hashFunc = LoadSignerWithOpts privateKey [WithHash hashFunc]"

definition LoadVerifierWithOpts :: "public_key \<Rightarrow> sig_option list \<Rightarrow> any_verifier outcome" where
  "LoadVerifierWithOpts publicKey opts =
     (let (useED25519ph, hashFunc, rsaPSSOptions) = load_options opts in
      case publicKey of
        Rsa_public pk \<Rightarrow>
          (if rsaPSSOptions \<noteq> None
           then and_then (LoadRSAPSSVerifier pk hashFunc rsaPSSOptions) (\<lambda>s. Ret (Pss_verifier s))
           else and_then (LoadRSAPKCS1v15Verifier pk hashFunc) (\<lambda>s. Ret (Pkcs_verifier s)))
      | Ecdsa_public pk \<Rightarrow> and_then (LoadECDSAVerifier pk hashFunc) (\<lambda>s. Ret (Ecdsa_verifier s))
      | Ed25519_public pk \<Rightarrow>
          (if useED25519ph then and_then (LoadED25519phVerifier pk) (\<lambda>s. Ret (Ed25519ph_verifier s))
           else and_then (LoadED25519Verifier pk) (\<lambda>s. Ret (Ed25519_verifier s)))
      | _ \<Rightarrow> Err (Msg ''unsupported public key type''))"

definition LoadVerifier :: "public_key \<Rightarrow> hash \<Rightarrow> any_verifier outcome" where
  "LoadVerifier publicKey hashFunc = LoadVerifierWithOpts publicKey [WithHash hashFunc]"

definition LoadSignerVerifierWithOpts :: "private_key \<Rightarrow> sig_option list \<Rightarrow> any_signer_verifier outcome" where
  "LoadSignerVerifierWithOpts privateKey opts =
     (let (useED25519ph, hashFunc, rsaPSSOptions) = load_options opts in
      case privateKey of
        Rsa_private pk \<Rightarrow>
          (if rsaPSSOptions \<noteq> None
           then and_then (LoadRSAPSSSignerVerifier pk hashFunc rsaPSSOptions) (\<lambda>s. Ret (Pss_sv s))
           else and_then (LoadRSAPKCS1v15SignerVerifier pk hashFunc) (\<lambda>s. Ret (Pkcs_sv s)))
      | Ecdsa_private pk \<Rightarrow> and_then (LoadECDSASignerVerifier pk hashFunc) (\<lambda>s. Ret (Ecdsa_sv s))
      | Ed25519_private pk \<Rightarrow>
          (if useED25519ph then and_then (LoadED25519phSignerVerifier pk) (\<lambda>s. Ret (Ed25519ph_sv s))
           else and_then (LoadED25519SignerVerifier pk) (\<lambda>s. Ret (Ed25519_sv s)))
      | _ \<Rightarrow> Err (Msg ''unsupported public key type''))"

definition LoadSignerVerifier :: "private_key \<Rightarrow> hash \<Rightarrow> any_signer_verifier outcome" where
  "LoadSignerVerifier privateKey hashFunc = LoadSignerVerifierWithOpts privateKey [WithHash hashFunc]"

text \<open>A verifier that also takes SHA-1, outside the hashes the loaders accept.\<close>

definition LoadUnsafeVerifier :: "public_key \<Rightarrow> any_verifier outcome" where
  "LoadUnsafeVerifier publicKey = (case publicKey of
       Rsa_public pk \<Rightarrow>
         (if pk = None then Err (Msg ''invalid RSA public key specified'')
          else Ret (Pkcs_verifier \<lparr>kv_publicKey = pk, kv_hashFunc = SHA1\<rparr>))
     | Ecdsa_public pk \<Rightarrow>
         (if pk = None then Err (Msg ''invalid ECDSA public key specified'')
          else Ret (Ecdsa_verifier \<lparr>ev_publicKey = pk, ev_hashFunc = SHA1\<rparr>))
     | Ed25519_public pk \<Rightarrow> and_then (LoadED25519Verifier pk) (\<lambda>s. Ret (Ed25519_verifier s))
     | _ \<Rightarrow> Err (Msg ''unsupported public key type''))"

section \<open>Loading from algorithm details\<close>

definition GetOptsFromAlgorithmDetails :: "AlgorithmDetails \<Rightarrow> sig_option list \<Rightarrow> sig_option list" where
  "GetOptsFromAlgorithmDetails algorithmDetails opts =
     fold (\<lambda>opt res.
       let useED25519ph = ApplyED25519ph opt False;
           rsaPSSOptions = ApplyRSAPSS opt None
       in if useED25519ph \<or> rsaPSSOptions \<noteq> None then res @ [opt] else res)
     opts [WithHash (hashType algorithmDetails)]"

definition LoadSignerFromAlgorithmDetails ::
  "private_key \<Rightarrow> AlgorithmDetails \<Rightarrow> sig_option list \<Rightarrow> any_signer outcome" where
  "LoadSignerFromAlgorithmDetails privateKey algorithmDetails opts =
     LoadSignerWithOpts privateKey (GetOptsFromAlgorithmDetails algorithmDetails opts)"

definition LoadVerifierFromAlgorithmDetails ::
  "public_key \<Rightarrow> AlgorithmDetails \<Rightarrow> sig_option list \<Rightarrow> any_verifier outcome" where
  "LoadVerifierFromAlgorithmDetails publicKey algorithmDetails opts =
     LoadVerifierWithOpts publicKey (GetOptsFromAlgorithmDetails algorithmDetails opts)"

definition LoadSignerVerifierFromAlgorithmDetails ::
  "private_key \<Rightarrow> AlgorithmDetails \<Rightarrow> sig_option list \<Rightarrow> any_signer_verifier outcome" where
  "LoadSignerVerifierFromAlgorithmDetails privateKey algorithmDetails opts =
     LoadSignerVerifierWithOpts privateKey (GetOptsFromAlgorithmDetails algorithmDetails opts)"

text \<open>The \<open>crypto.Signer\<close> behind a private key, if it is one, and its public key; the method of a nil
  RSA or ECDSA pointer dereferences it.\<close>

definition crypto_Signer_Public :: "private_key \<Rightarrow> public_key outcome option" where
  "crypto_Signer_Public privateKey = (case privateKey of
       Rsa_private k \<Rightarrow> Some (case k of None \<Rightarrow> Panic ''nil pointer dereference''
                                | Some p \<Rightarrow> Ret (Rsa_public (Some (rsa_PublicKey p))))
     | Ecdsa_private k \<Rightarrow> Some (case k of None \<Rightarrow> Panic ''nil pointer dereference''
                                | Some p \<Rightarrow> Ret (Ecdsa_public (Some (ecdsa_PublicKey p))))
     | Ed25519_private k \<Rightarrow> Some (and_then (ed25519_Public (key_bytes k)) (\<lambda>p. Ret (Ed25519_public (Some p))))
     | _ \<Rightarrow> None)"

definition LoadDefaultSigner :: "private_key \<Rightarrow> sig_option list \<Rightarrow> any_signer outcome" where
  "LoadDefaultSigner privateKey opts = (case crypto_Signer_Public privateKey of
       None \<Rightarrow> Err (Msg ''private key does not implement signature.Signer'')
     | Some p \<Rightarrow> and_then p (\<lambda>pub.
         and_then (GetDefaultAlgorithmDetails pub opts) (\<lambda>algorithmDetails.
         LoadSignerFromAlgorithmDetails privateKey algorithmDetails opts)))"

definition LoadDefaultVerifier :: "public_key \<Rightarrow> sig_option list \<Rightarrow> any_verifier outcome" where
  "LoadDefaultVerifier publicKey opts =
     and_then (GetDefaultAlgorithmDetails publicKey opts) (\<lambda>algorithmDetails.
     LoadVerifierFromAlgorithmDetails publicKey algorithmDetails opts)"

definition LoadDefaultSignerVerifier :: "private_key \<Rightarrow> sig_option list \<Rightarrow> any_signer_verifier outcome" where
  "LoadDefaultSignerVerifier privateKey opts = (case crypto_Signer_Public privateKey of
       None \<Rightarrow> Err (Msg ''private key does not implement signature.Signer'')
     | Some p \<Rightarrow> and_then p (\<lambda>pub.
         and_then (GetDefaultAlgorithmDetails pub opts) (\<lambda>algorithmDetails.
         LoadSignerVerifierFromAlgorithmDetails privateKey algorithmDetails opts)))"

section \<open>Loading from PEM files\<close>

text \<open>\<open>os.ReadFile\<close> is a parameter: the contents of a path or the error of reading it.\<close>

type_synonym read_file = "string \<Rightarrow> bytes outcome"

definition LoadSignerFromPEMFile ::
  "pki \<Rightarrow> read_file \<Rightarrow> string \<Rightarrow> hash \<Rightarrow> pass_func \<Rightarrow> any_signer outcome" where
  "LoadSignerFromPEMFile P fs path hashFunc pf =
     and_then (fs (path_Clean path)) (\<lambda>fileBytes.
     and_then (UnmarshalPEMToPrivateKey P fileBytes pf) (\<lambda>priv. LoadSigner priv hashFunc))"

definition LoadSignerFromPEMFileWithOpts ::
  "pki \<Rightarrow> read_file \<Rightarrow> string \<Rightarrow> pass_func \<Rightarrow> sig_option list \<Rightarrow> any_signer outcome" where
  "LoadSignerFromPEMFileWithOpts P fs path pf opts =
     and_then (fs (path_Clean path)) (\<lambda>fileBytes.
     and_then (UnmarshalPEMToPrivateKey P fileBytes pf) (\<lambda>priv. LoadSignerWithOpts priv opts))"

definition LoadVerifierFromPEMFile :: "pki \<Rightarrow> read_file \<Rightarrow> string \<Rightarrow> hash \<Rightarrow> any_verifier outcome" where
  "LoadVerifierFromPEMFile P fs path hashFunc =
     and_then (fs (path_Clean path)) (\<lambda>fileBytes.
     and_then (UnmarshalPEMToPublicKey P fileBytes) (\<lambda>pubKey. LoadVerifier pubKey hashFunc))"

definition LoadVerifierFromPEMFileWithOpts ::
  "pki \<Rightarrow> read_file \<Rightarrow> string \<Rightarrow> sig_option list \<Rightarrow> any_verifier outcome" where
  "LoadVerifierFromPEMFileWithOpts P fs path opts =
     and_then (fs (path_Clean path)) (\<lambda>fileBytes.
     and_then (UnmarshalPEMToPublicKey P fileBytes) (\<lambda>pubKey. LoadVerifierWithOpts pubKey opts))"

definition LoadSignerVerifierFromPEMFile ::
  "pki \<Rightarrow> read_file \<Rightarrow> string \<Rightarrow> hash \<Rightarrow> pass_func \<Rightarrow> any_signer_verifier outcome" where
  "LoadSignerVerifierFromPEMFile P fs path hashFunc pf =
     and_then (fs (path_Clean path)) (\<lambda>fileBytes.
     and_then (UnmarshalPEMToPrivateKey P fileBytes pf) (\<lambda>priv. LoadSignerVerifier priv hashFunc))"

definition LoadSignerVerifierFromPEMFileWithOpts ::
  "pki \<Rightarrow> read_file \<Rightarrow> string \<Rightarrow> pass_func \<Rightarrow> sig_option list \<Rightarrow> any_signer_verifier outcome" where
  "LoadSignerVerifierFromPEMFileWithOpts P fs path pf opts =
     and_then (fs (path_Clean path)) (\<lambda>fileBytes.
     and_then (UnmarshalPEMToPrivateKey P fileBytes pf) (\<lambda>priv. LoadSignerVerifierWithOpts priv opts))"

section \<open>The contracts of the dispatching methods\<close>

definition wf_any_verifier :: "crypto_lib \<Rightarrow> any_verifier \<Rightarrow> bool" where
  "wf_any_verifier L v = (case v of
       Pss_verifier x \<Rightarrow> wf_rsapss_verifier L x
     | Pkcs_verifier x \<Rightarrow> wf_rsapkcs_verifier L x
     | Ecdsa_verifier x \<Rightarrow> wf_ecdsa_verifier L x
     | Ed25519_verifier x \<Rightarrow> wf_ed25519_verifier L x
     | Ed25519ph_verifier x \<Rightarrow> wf_ed25519ph_verifier L x)"

definition any_key_pair :: "crypto_lib \<Rightarrow> any_signer \<Rightarrow> any_verifier \<Rightarrow> bool" where
  "any_key_pair L s v = (case (s, v) of
       (Pss_signer x, Pss_verifier y) \<Rightarrow> rsapss_key_pair L x y
     | (Pkcs_signer x, Pkcs_verifier y) \<Rightarrow> rsapkcs_key_pair L x y
     | (Ecdsa_signer x, Ecdsa_verifier y) \<Rightarrow> ecdsa_key_pair L x y
     | (Ed25519_signer x, Ed25519_verifier y) \<Rightarrow> ed25519_key_pair L x y
     | (Ed25519ph_signer x, Ed25519ph_verifier y) \<Rightarrow> ed25519ph_key_pair L x y
     | _ \<Rightarrow> False)"

lemma any_key_pair_cases:
  assumes "any_key_pair L s v"
  obtains (pss) x y where "s = Pss_signer x" "v = Pss_verifier y" "rsapss_key_pair L x y"
    | (pkcs) x y where "s = Pkcs_signer x" "v = Pkcs_verifier y" "rsapkcs_key_pair L x y"
    | (ecdsa) x y where "s = Ecdsa_signer x" "v = Ecdsa_verifier y" "ecdsa_key_pair L x y"
    | (ed) x y where "s = Ed25519_signer x" "v = Ed25519_verifier y" "ed25519_key_pair L x y"
    | (edph) x y where "s = Ed25519ph_signer x" "v = Ed25519ph_verifier y" "ed25519ph_key_pair L x y"
  using assms by (cases s; cases v) (auto simp: any_key_pair_def)

interpretation any: signature_scheme wf_any_verifier VerifySignature any_key_pair SignMessage
proof unfold_locales
  fix L vf w rs sg rm m
  assume "wf_any_verifier L vf" "delivers w rs sg" "delivers w rm m" "rs \<noteq> rm"
  then show "delivers (snd (VerifySignature L vf rs rm [] w)) rs []"
    by (cases vf) (auto simp: wf_any_verifier_def VerifySignature_def
        intro: rsapss.drains rsapkcs.drains ecdsa.drains ed25519.drains ed25519ph.drains)
next
  fix L vf w rs rm opts
  assume "wf_any_verifier L vf" "delivers w rs []" "rs \<noteq> rm"
  then show "fst (VerifySignature L vf rs rm opts w) \<noteq> Ret ()"
    using rsapss.rejects_empty rsapkcs.rejects_empty ecdsa.rejects_empty ed25519.rejects_empty
      ed25519ph.rejects_empty
    by (cases vf) (simp_all add: wf_any_verifier_def VerifySignature_def)
next
  fix L vf w rm opts
  assume "wf_any_verifier L vf"
  then show "fst (VerifySignature L vf None rm opts w) \<noteq> Ret ()"
    using rsapss.rejects_nil rsapkcs.rejects_nil ecdsa.rejects_nil ed25519.rejects_nil ed25519ph.rejects_nil
    by (cases vf) (simp_all add: wf_any_verifier_def VerifySignature_def)
next
  fix L sg vf
  assume "any_key_pair L sg vf"
  then show "wf_any_verifier L vf"
    by (cases rule: any_key_pair_cases) (simp_all add: wf_any_verifier_def rsapss.pair_wf rsapkcs.pair_wf
      ecdsa.pair_wf ed25519.pair_wf ed25519ph.pair_wf)
next
  fix L sg vf r opts w s w1 w2 rm rs opts'
  assume a: "any_key_pair L sg vf" "SignMessage L sg r opts w = (Ret s, w1)" "same_input w r w2 rm"
    "delivers w2 rs s" "rs \<noteq> rm" "same_msg_options opts opts'" "salt_stable w w2"
  from a(1) show "fst (VerifySignature L vf rs rm opts' w2) = Ret ()"
  proof (cases rule: any_key_pair_cases)
    case pss
    then show ?thesis using rsapss.accepts [OF pss(3) _ a(3-)] a(2) by (simp add: VerifySignature_def SignMessage_def)
  next
    case pkcs
    then show ?thesis using rsapkcs.accepts [OF pkcs(3) _ a(3-)] a(2) by (simp add: VerifySignature_def SignMessage_def)
  next
    case ecdsa
    then show ?thesis using ecdsa.accepts [OF ecdsa(3) _ a(3-)] a(2) by (simp add: VerifySignature_def SignMessage_def)
  next
    case ed
    then show ?thesis using ed25519.accepts [OF ed(3) _ a(3-)] a(2) by (simp add: VerifySignature_def SignMessage_def)
  next
    case edph
    then show ?thesis using ed25519ph.accepts [OF edph(3) _ a(3-)] a(2) by (simp add: VerifySignature_def SignMessage_def)
  qed
next
  fix L sg r opts w s w1
  assume "SignMessage L sg r opts w = (Ret s, w1)"
  then show "salt_stable w w1"
    by (cases sg) (auto simp: SignMessage_def intro: rsapss.keeps_salts rsapkcs.keeps_salts
        ecdsa.keeps_salts ed25519.keeps_salts ed25519ph.keeps_salts)
qed

text \<open>\<open>signer.go\<close> imports the packages that link the SHA-2 family in; \<open>good_private\<close> and
  \<open>good_public\<close> are keys the primitives can work with: an ECDSA key on its curve, a private key whose
  public half belongs to its private half.\<close>

definition hashes_linked :: "crypto_lib \<Rightarrow> bool" where
  "hashes_linked L \<longleftrightarrow> hash_linked L SHA224 \<and> hash_linked L SHA256 \<and> hash_linked L SHA384 \<and> hash_linked L SHA512"

definition good_public :: "public_key \<Rightarrow> bool" where
  "good_public k = (case k of Ed25519_public b \<Rightarrow> length (key_bytes b) = 32 | _ \<Rightarrow> True)"

definition good_private :: "crypto_lib \<Rightarrow> private_key \<Rightarrow> bool" where
  "good_private L k = (case k of
       Ecdsa_private (Some p) \<Rightarrow> ecdsa_IsOnCurve L (ecdsa_PublicKey p) \<and> ecdsa_pair L p
     | Ed25519_private b \<Rightarrow> ed25519_pair L (key_bytes b)
     | _ \<Rightarrow> True)"

lemma hashes_linkedD:
  "hashes_linked L \<Longrightarrow> h \<in> set ecdsaSupportedHashFuncs \<Longrightarrow> hash_linked L h"
  "hashes_linked L \<Longrightarrow> h \<in> set rsaSupportedHashFuncs \<Longrightarrow> hash_linked L h"
  by (auto simp: hashes_linked_def ecdsaSupportedHashFuncs_def rsaSupportedHashFuncs_def)

lemmas load_defs = LoadRSAPSSSigner_def LoadRSAPSSVerifier_def LoadRSAPSSSignerVerifier_def
  LoadRSAPKCS1v15Signer_def LoadRSAPKCS1v15Verifier_def LoadRSAPKCS1v15SignerVerifier_def
  LoadECDSASigner_def LoadECDSAVerifier_def LoadECDSASignerVerifier_def
  LoadED25519Signer_def LoadED25519Verifier_def LoadED25519SignerVerifier_def
  LoadED25519phSigner_def LoadED25519phVerifier_def LoadED25519phSignerVerifier_def

lemma LoadVerifierWithOpts_wf:
  assumes "lib_laws L" "hashes_linked L" "good_public key" "LoadVerifierWithOpts key opts = Ret v"
  shows "wf_any_verifier L v"
  using assms hashes_linkedD [OF assms(2)]
  by (cases "load_options opts")
     (auto simp: LoadVerifierWithOpts_def load_defs outcome_simps wf_any_verifier_def good_public_def
      wf_rsapss_verifier_def wf_rsapkcs_verifier_def wf_ecdsa_verifier_def wf_ed25519_verifier_def
      wf_ed25519ph_verifier_def hashes_linked_def split: public_key.splits if_splits)

text \<open>Loading both halves together is loading each of them, the verifier from the public half.\<close>

lemma LoadSignerVerifier_split:
  "(LoadSignerVerifierWithOpts key opts = Ret sv) \<longleftrightarrow>
     LoadSignerWithOpts key opts = Ret (sv_signer sv) \<and>
     (\<exists>pub. crypto_Signer_Public key = Some (Ret pub) \<and> LoadVerifierWithOpts pub opts = Ret (sv_verifier sv))"
proof (cases "load_options opts")
  case (fields ph h pss)
  show ?thesis
    by (cases key; cases sv)
       (auto simp: LoadSignerVerifierWithOpts_def LoadSignerWithOpts_def LoadVerifierWithOpts_def fields
        load_defs outcome_simps crypto_Signer_Public_def sv_signer_def sv_verifier_def split: option.splits)
qed

lemma LoadSignerVerifier_pair:
  assumes "lib_laws L" "hashes_linked L" "good_private L key" "LoadSignerVerifierWithOpts key opts = Ret sv"
  shows "any_key_pair L (sv_signer sv) (sv_verifier sv)"
  using assms hashes_linkedD [OF assms(2)] ed25519_Public_64
  by (cases "load_options opts")
     (auto simp: LoadSignerVerifierWithOpts_def load_defs outcome_simps any_key_pair_def good_private_def
      sv_signer_def sv_verifier_def rsapss_key_pair_def rsapkcs_key_pair_def ecdsa_key_pair_def
      ed25519_key_pair_def ed25519ph_key_pair_def ed25519_pair_def
      wf_rsapss_verifier_def wf_rsapkcs_verifier_def wf_ecdsa_verifier_def wf_ed25519_verifier_def
      wf_ed25519ph_verifier_def hashes_linked_def split: private_key.splits if_splits option.splits)

section \<open>Options from algorithm details\<close>

text \<open>The options that survive the filter.\<close>

definition kept_option :: "sig_option \<Rightarrow> bool" where
  "kept_option opt \<longleftrightarrow> ApplyED25519ph opt False \<or> ApplyRSAPSS opt None \<noteq> None"

lemma GetOpts_filter: "GetOptsFromAlgorithmDetails d opts = WithHash (hashType d) # filter kept_option opts"
proof -
  have "fold (\<lambda>opt res. if kept_option opt then res @ [opt] else res) opts res = res @ filter kept_option opts"
    for res by (induction opts arbitrary: res) auto
  then show ?thesis by (simp add: GetOptsFromAlgorithmDetails_def kept_option_def Let_def)
qed

lemma load_options_eq:
  "load_options opts =
     (case last_set set_ed25519ph opts of None \<Rightarrow> False | Some b \<Rightarrow> b,
      case last_set set_hash opts of None \<Rightarrow> SHA256 | Some h \<Rightarrow> h,
      case last_set set_pss opts of None \<Rightarrow> None | Some p \<Rightarrow> p)"
  by (simp add: load_options_def fold_triple ed25519ph_opt.fold_last hash_opt.fold_last pss_opt.fold_last)

text \<open>An option list that never switches a scheme off again, as the constructors of the options
  package build them from non-nil arguments.\<close>

definition only_sets :: "sig_option list \<Rightarrow> bool" where
  "only_sets opts \<longleftrightarrow> (\<forall>opt \<in> set opts. set_pss opt \<noteq> Some None \<and> set_ed25519ph opt \<noteq> Some False)"

lemma last_set_filter:
  "(\<And>opt. opt \<in> set opts \<Longrightarrow> f opt \<noteq> None \<Longrightarrow> p opt) \<Longrightarrow> last_set f (filter p opts) = last_set f opts"
proof (induction opts)
  case (Cons a opts)
  have "f a = None" if "\<not> p a" using Cons.prems [of a] that by (cases "f a") auto
  with Cons show ?case by (auto split: option.splits)
qed simp

lemma load_options_filtered:
  assumes "only_sets opts"
  shows "load_options (GetOptsFromAlgorithmDetails d opts) = (fst (load_flags opts), hashType d, snd (load_flags opts))"
proof -
  have "kept_option opt" if "opt \<in> set opts" "set_ed25519ph opt \<noteq> None \<or> set_pss opt \<noteq> None" for opt
    using assms that
    by (cases opt) (auto simp: only_sets_def kept_option_def set_defs apply_defs)
  then have "last_set set_ed25519ph (filter kept_option opts) = last_set set_ed25519ph opts"
    "last_set set_pss (filter kept_option opts) = last_set set_pss opts"
    by (auto intro!: last_set_filter)
  moreover have "last_set set_hash (filter kept_option opts) = None"
    by (auto simp: last_set_None_iff kept_option_def set_defs apply_defs split: sig_option.splits)
  ultimately show ?thesis
    by (simp add: GetOpts_filter load_options_eq load_flags_eq with_defs set_defs split: option.splits)
qed

text \<open>The scheme an algorithm names, and the scheme, hash and key type of a loaded verifier.\<close>

datatype scheme = PSS_scheme | PKCS_scheme | ECDSA_scheme | ED25519_scheme | ED25519ph_scheme

definition scheme_of_details :: "PublicKeyDetails \<Rightarrow> scheme option" where
  "scheme_of_details k =
     (if k \<in> {PKIX_RSA_PSS_2048_SHA256, PKIX_RSA_PSS_3072_SHA256, PKIX_RSA_PSS_4096_SHA256} then Some PSS_scheme
      else if k \<in> {PKIX_RSA_PKCS1V15_2048_SHA256, PKIX_RSA_PKCS1V15_3072_SHA256, PKIX_RSA_PKCS1V15_4096_SHA256}
      then Some PKCS_scheme
      else if k \<in> {PKIX_ECDSA_P256_SHA_256, PKIX_ECDSA_P384_SHA_384, PKIX_ECDSA_P384_SHA_256,
                   PKIX_ECDSA_P521_SHA_512, PKIX_ECDSA_P521_SHA_256} then Some ECDSA_scheme
      else if k = PKIX_ED25519 then Some ED25519_scheme
      else if k = PKIX_ED25519_PH then Some ED25519ph_scheme
      else None)"

definition scheme_of_verifier :: "any_verifier \<Rightarrow> scheme \<times> hash" where
  "scheme_of_verifier v = (case v of
       Pss_verifier x \<Rightarrow> (PSS_scheme, pv_hashFunc x)
     | Pkcs_verifier x \<Rightarrow> (PKCS_scheme, kv_hashFunc x)
     | Ecdsa_verifier x \<Rightarrow> (ECDSA_scheme, ev_hashFunc x)
     | Ed25519_verifier x \<Rightarrow> (ED25519_scheme, NoHash)
     | Ed25519ph_verifier x \<Rightarrow> (ED25519ph_scheme, SHA512))"

section \<open>Properties\<close>

text \<open>C2: a message signed by a loaded signer-verifier verifies with it, whatever the key type and the
  load options, when the halves of the key belong together and signing and verifying are given the same
  digest and hash options.  For RSA-PSS this holds whatever hash the caller's \<open>PSSOptions\<close> name, because signing
  writes the hash in force over it.\<close>

theorem loaded_signer_verifier_accepts:
  assumes "lib_laws L" "hashes_linked L" "good_private L key" "LoadSignerVerifierWithOpts key opts = Ret sv"
    and "go_then (NewReader m) (\<lambda>r. SignMessage L (sv_signer sv) r sopts) w = (Ret s, w1)"
    and "same_msg_options sopts vopts"
  shows "fst (go_then (NewReader s) (\<lambda>rs. go_then (NewReader m) (\<lambda>rm.
      VerifySignature L (sv_verifier sv) rs rm vopts)) w1) = Ret ()"
  using any.sign_bytes_accepted [OF LoadSignerVerifier_pair [OF assms(1-4)]
      assms(5) [folded any.sign_bytes_def] assms(6) salt_stable_refl [of w1]]
  by (simp add: any.verify_bytes_def)

theorem loaded_signer_verifier_accepts_witness:
  "\<exists>sv s w1. LoadSignerVerifierWithOpts (Rsa_private (Some \<lparr>rsa_PublicKey = \<lparr>rsa_N = 2 ^ 2047, rsa_E = 65537\<rparr>, rsa_D = 1\<rparr>)) [WithRSAPSS (Some 0)] = Ret sv \<and>
     go_then (NewReader [1, 2]) (\<lambda>r. SignMessage ref_lib (sv_signer sv) r [])
       ((two_readers [] [])\<lparr>pss_cells := \<lambda>_. \<lparr>SaltLength = 0, PSSHash = SHA512\<rparr>\<rparr>) = (Ret s, w1) \<and>
     fst (go_then (NewReader s) (\<lambda>rs. go_then (NewReader [1, 2]) (\<lambda>rm.
       VerifySignature ref_lib (sv_verifier sv) rs rm [])) w1) = Ret ()"
proof -
  let ?k = "\<lparr>rsa_PublicKey = \<lparr>rsa_N = 2 ^ 2047, rsa_E = 65537\<rparr>, rsa_D = 1\<rparr>" let ?key = "Rsa_private (Some ?k)"
  let ?w = "(two_readers [] [])\<lparr>pss_cells := \<lambda>_. \<lparr>SaltLength = 0, PSSHash = SHA512\<rparr>\<rparr>"
  let ?sg = "\<lparr>ps_hashFunc = SHA256, ps_priv = Some ?k, ps_pssOpts = Some 0\<rparr>"
  let ?sv = "Pss_sv \<lparr>psv_signer = ?sg, psv_verifier = \<lparr>pv_publicKey = Some (rsa_PublicKey ?k), pv_hashFunc = SHA256, pv_pssOpts = Some 0\<rparr>\<rparr>"
  have l: "LoadSignerVerifierWithOpts ?key [WithRSAPSS (Some 0)] = Ret ?sv"
    by (simp add: LoadSignerVerifierWithOpts_def load_options_def with_defs apply_defs load_defs rsaSupportedHashFuncs_def)
  define w0 where "w0 = snd (NewReader [1, 2] ?w)"
  have r: "NewReader [1, 2] ?w = (Ret (Some 2), w0)"
    by (simp add: w0_def NewReader_def two_readers_def)
  have d: "delivers w0 (Some 2) [1, 2]" by (simp add: w0_def NewReader_def two_readers_def delivers_def)
  have h: "hash_linked ref_lib SHA256" "hashes_linked ref_lib" by (simp_all add: ref_lib_def hashes_linked_def)
  have c: "ComputeDigestForSigning ref_lib (Some 2) SHA256 (Some rsaSupportedHashFuncs) [] w0 =
      (Ret (hash_sum ref_lib SHA256 [1, 2], SHA256), drain (Some 2) w0)"
    using ComputeDigest_plain [OF d, of SHA256 "Some rsaSupportedHashFuncs" ref_lib] h
    by (simp add: rsaSupportedHashFuncs_def)
  have "rsa_SignPSS ref_lib x ?k SHA256 y \<lparr>SaltLength = z, PSSHash = SHA256\<rparr> = Ret (2 # 5 # y)" for x y z
    by (simp add: ref_lib_def)
  then have "\<exists>s w1. go_then (NewReader [1, 2]) (\<lambda>r. SignMessage ref_lib (sv_signer ?sv) r []) ?w = (Ret s, w1)"
    by (cases "pss_cells (drain (Some 2) w0) 0")
       (simp add: go_then_def r SignMessage_def sv_signer_def RSAPSSSigner_SignMessage_def c set_pss_hash_def Let_def go_lift_def)
  then obtain s w1 where s: "go_then (NewReader [1, 2]) (\<lambda>r. SignMessage ref_lib (sv_signer ?sv) r []) ?w = (Ret s, w1)" by blast
  have "good_private ref_lib ?key" by (simp add: good_private_def)
  from loaded_signer_verifier_accepts [OF ref_lib_laws h(2) this l s same_msg_options_refl] l s
  show ?thesis by blast
qed

text \<open>A verifier loaded for a usable key rejects an empty signature and a nil one, whatever the
  message and the options; so a second attempt with the reader a first attempt has
  consumed never succeeds.\<close>

theorem loaded_verifier_rejects_empty:
  assumes "lib_laws L" "hashes_linked L" "good_public key" "LoadVerifierWithOpts key opts = Ret v"
    and "rs = None \<or> (delivers w rs [] \<and> rs \<noteq> rm)"
  shows "fst (VerifySignature L v rs rm vopts w) \<noteq> Ret ()"
  using any.rejects_empty any.rejects_nil LoadVerifierWithOpts_wf [OF assms(1-4)] assms(5) by auto

theorem loaded_verifier_rejects_empty_witness:
  "\<exists>v. LoadVerifierWithOpts (Rsa_public (Some \<lparr>rsa_N = 2 ^ 2047, rsa_E = 65537\<rparr>)) [] = Ret v \<and>
     fst (VerifySignature ref_lib v (Some 0) (Some 1) [] (two_readers [] [1])) \<noteq> Ret ()"
proof -
  have l: "LoadVerifierWithOpts (Rsa_public (Some \<lparr>rsa_N = 2 ^ 2047, rsa_E = 65537\<rparr>)) [] =
      Ret (Pkcs_verifier \<lparr>kv_publicKey = Some \<lparr>rsa_N = 2 ^ 2047, rsa_E = 65537\<rparr>, kv_hashFunc = SHA256\<rparr>)"
    by (simp add: LoadVerifierWithOpts_def load_options_def LoadRSAPKCS1v15Verifier_def rsaSupportedHashFuncs_def)
  have h: "hashes_linked ref_lib" by (simp add: ref_lib_def hashes_linked_def)
  have "good_public (Rsa_public (Some \<lparr>rsa_N = 2 ^ 2047, rsa_E = 65537\<rparr>))" by (simp add: good_public_def)
  from loaded_verifier_rejects_empty [OF ref_lib_laws h this l, of "Some 0" "two_readers [] [1]" "Some 1" "[]"] l
  show ?thesis by simp
qed

text \<open>C28: loading a signer-verifier is loading the signer from the private key and the verifier from
  its public key with the same options: each succeeds when the other two do, with the same parts.\<close>

theorem signer_verifier_is_both:
  "(LoadSignerVerifierWithOpts key opts = Ret sv) \<longleftrightarrow>
     LoadSignerWithOpts key opts = Ret (sv_signer sv) \<and>
     (\<exists>pub. crypto_Signer_Public key = Some (Ret pub) \<and> LoadVerifierWithOpts pub opts = Ret (sv_verifier sv))"
  by (rule LoadSignerVerifier_split)

text \<open>The only way loading a signer-verifier panics is a pre-hashed Ed25519 key of fewer than 32
  bytes, whose length the loader does not check.\<close>

theorem signer_verifier_load_panics_iff:
  "is_panic (LoadSignerVerifierWithOpts key opts) \<longleftrightarrow>
     (\<exists>k. key = Ed25519_private (Some k) \<and> fst (load_options opts) \<and> length k < 32)"
proof (cases "load_options opts")
  case (fields ph h pss)
  show ?thesis
    by (auto simp: LoadSignerVerifierWithOpts_def fields load_defs ed25519_Public_def is_panic_def
        split: private_key.splits option.splits outcome.splits if_splits)
qed

text \<open>C29: the default loader follows the registry: unless an option switches a scheme off again, the
  verifier it loads uses the padding or hashing scheme and the hash of the key's default algorithm.\<close>

theorem default_verifier_follows_details:
  assumes "only_sets opts" "GetDefaultAlgorithmDetails key opts = Ret d" "LoadDefaultVerifier key opts = Ret v"
  shows "scheme_of_details (knownAlgorithm d) = Some (fst (scheme_of_verifier v)) \<and>
    hashType d = snd (scheme_of_verifier v)"
proof -
  from assms(2) obtain k where k: "GetDefaultPublicKeyDetails key opts = Ret k" "GetAlgorithmDetails k = Ret d"
    by (auto simp: GetDefaultAlgorithmDetails_def outcome_simps)
  then have kn: "knownAlgorithm d = k" by (auto simp: GetAlgorithmDetails_iff)
  have v: "LoadVerifierWithOpts key (GetOptsFromAlgorithmDetails d opts) = Ret v"
    using assms(2,3) by (simp add: LoadDefaultVerifier_def LoadVerifierFromAlgorithmDetails_def)
  show ?thesis
    using k v default_entries [OF k(2)] kn load_options_filtered [OF assms(1), of d]
    by (cases "load_flags opts")
       (auto simp: LoadVerifierWithOpts_def GetDefaultPublicKeyDetails_def unsupported_key_def load_defs
        outcome_simps scheme_of_details_def scheme_of_verifier_def split: public_key.splits option.splits if_splits)
qed

theorem default_verifier_follows_details_witness:
  "\<exists>d v. GetDefaultAlgorithmDetails (Ed25519_public (Some [])) [WithED25519ph] = Ret d \<and>
     LoadDefaultVerifier (Ed25519_public (Some [])) [WithED25519ph] = Ret v \<and>
     scheme_of_details (knownAlgorithm d) = Some (fst (scheme_of_verifier v)) \<and>
     hashType d = snd (scheme_of_verifier v)"
proof -
  have d: "GetDefaultAlgorithmDetails (Ed25519_public (Some [])) [WithED25519ph] =
      Ret (details PKIX_ED25519_PH ED25519 SHA512 SHA2_512 NoParams ''ed25519-ph'')"
    by (simp add: GetDefault_simps load_flags_def with_defs apply_defs)
  have v: "LoadDefaultVerifier (Ed25519_public (Some [])) [WithED25519ph] =
      Ret (Ed25519ph_verifier \<lparr>hv_publicKey = Some []\<rparr>)"
    unfolding LoadDefaultVerifier_def d
    by (simp add: details_def LoadVerifierFromAlgorithmDetails_def LoadVerifierWithOpts_def
        GetOptsFromAlgorithmDetails_def load_options_def with_defs apply_defs load_defs)
  have "only_sets [WithED25519ph]" by (simp add: only_sets_def with_defs set_defs)
  from default_verifier_follows_details [OF this d v] d v show ?thesis by blast
qed

text \<open>The exception is real: PSS options followed by nil PSS options make the registry choose
  PKCS #1 v1.5, while the filtered options load a PSS verifier for the same key.\<close>

theorem default_verifier_diverges:
  assumes "rsa_Size k * 8 = 2048" "opts = [WithRSAPSS (Some a), WithRSAPSS None]"
  shows "GetDefaultPublicKeyDetails (Rsa_public (Some k)) opts = Ret PKIX_RSA_PKCS1V15_2048_SHA256 \<and>
    LoadDefaultVerifier (Rsa_public (Some k)) opts =
      Ret (Pss_verifier \<lparr>pv_publicKey = Some k, pv_hashFunc = SHA256, pv_pssOpts = Some a\<rparr>)"
  using assms
  by (simp add: LoadDefaultVerifier_def GetDefault_simps load_flags_def LoadVerifierFromAlgorithmDetails_def
      LoadVerifierWithOpts_def GetOptsFromAlgorithmDetails_def load_options_def with_defs apply_defs load_defs
      rsaSupportedHashFuncs_def)

theorem default_verifier_diverges_witness:
  "GetDefaultPublicKeyDetails (Rsa_public (Some \<lparr>rsa_N = 2 ^ 2047, rsa_E = 3\<rparr>)) [WithRSAPSS (Some 4), WithRSAPSS None] =
     Ret PKIX_RSA_PKCS1V15_2048_SHA256"
proof -
  have "rsa_Size \<lparr>rsa_N = 2 ^ 2047, rsa_E = 3\<rparr> * 8 = 2048" by (simp add: rsa_Size_def del: power_numeral)
  from default_verifier_diverges [OF this refl, of 4] show ?thesis by simp
qed

end
