(* ===== verification/Base64.thy ===== *)
theory Base64
  imports Prelude
begin

text \<open>
  \<open>encoding/base64\<close> as the code uses it: the standard and URL alphabets, with and without padding.
  Decoding skips line breaks, ignores the unused bits of the last character, and reports anything
  outside the alphabet.
\<close>

definition std_alphabet :: string where
  "std_alphabet = ''ABCDEFGHIJKLMNOPQRSTUVWXYZabcdefghijklmnopqrstuvwxyz0123456789+/''"

definition url_alphabet :: string where
  "url_alphabet = ''ABCDEFGHIJKLMNOPQRSTUVWXYZabcdefghijklmnopqrstuvwxyz0123456789-_''"

record encoding =
  alphabet :: string
  padded :: bool

definition StdEncoding :: encoding where "StdEncoding = \<lparr>alphabet = std_alphabet, padded = True\<rparr>"
definition URLEncoding :: encoding where "URLEncoding = \<lparr>alphabet = url_alphabet, padded = True\<rparr>"
definition RawURLEncoding :: encoding where "RawURLEncoding = \<lparr>alphabet = url_alphabet, padded = False\<rparr>"

definition sextet :: "encoding \<Rightarrow> nat \<Rightarrow> char" where
  "sextet e n = alphabet e ! n"

text \<open>The six-bit groups of three bytes; a missing byte counts as zero.\<close>

definition group1 :: "8 word \<Rightarrow> nat" where "group1 x = unat x div 4"
definition group2 :: "8 word \<Rightarrow> 8 word \<Rightarrow> nat" where "group2 x y = unat x mod 4 * 16 + unat y div 16"
definition group3 :: "8 word \<Rightarrow> 8 word \<Rightarrow> nat" where "group3 y z = unat y mod 16 * 4 + unat z div 64"
definition group4 :: "8 word \<Rightarrow> nat" where "group4 z = unat z mod 64"

fun EncodeToString :: "encoding \<Rightarrow> bytes \<Rightarrow> string" where
  "EncodeToString e [] = []"
| "EncodeToString e [x] =
     [sextet e (group1 x), sextet e (group2 x 0)] @ (if padded e then ''=='' else [])"
| "EncodeToString e [x, y] =
     [sextet e (group1 x), sextet e (group2 x y), sextet e (group3 y 0)] @ (if padded e then ''='' else [])"
| "EncodeToString e (x # y # z # r) =
     [sextet e (group1 x), sextet e (group2 x y), sextet e (group3 y z), sextet e (group4 z)] @ EncodeToString e r"

text \<open>The value of a character of the alphabet.\<close>

primrec index_of :: "char \<Rightarrow> string \<Rightarrow> nat option" where
  "index_of c [] = None"
| "index_of c (x # xs) = (if c = x then Some 0 else map_option Suc (index_of c xs))"

definition unsextet :: "encoding \<Rightarrow> char \<Rightarrow> nat option" where
  "unsextet e c = index_of c (alphabet e)"

definition byte1 :: "nat \<Rightarrow> nat \<Rightarrow> 8 word" where "byte1 a b = word_of_nat (a * 4 + b div 16)"
definition byte2 :: "nat \<Rightarrow> nat \<Rightarrow> 8 word" where "byte2 b c = word_of_nat (b mod 16 * 16 + c div 4)"
definition byte3 :: "nat \<Rightarrow> nat \<Rightarrow> 8 word" where "byte3 c d = word_of_nat (c mod 4 * 64 + d)"

definition one_byte :: "nat \<Rightarrow> nat \<Rightarrow> bytes" where
  "one_byte a b = [byte1 a b]"

definition two_bytes :: "nat \<Rightarrow> nat \<Rightarrow> nat \<Rightarrow> bytes" where
  "two_bytes a b c = [byte1 a b, byte2 b c]"

definition three_bytes :: "nat \<Rightarrow> nat \<Rightarrow> nat \<Rightarrow> nat \<Rightarrow> bytes" where
  "three_bytes a b c d = [byte1 a b, byte2 b c, byte3 c d]"

fun decode_quads :: "encoding \<Rightarrow> string \<Rightarrow> bytes option" where
  "decode_quads e [] = Some []"
| "decode_quads e [a] = None"
| "decode_quads e [a, b] =
     (if padded e then None
      else case (unsextet e a, unsextet e b) of (Some p, Some q) \<Rightarrow> Some (one_byte p q) | _ \<Rightarrow> None)"
| "decode_quads e [a, b, c] =
     (if padded e then None
      else case (unsextet e a, unsextet e b, unsextet e c) of
          (Some p, Some q, Some r) \<Rightarrow> Some (two_bytes p q r) | _ \<Rightarrow> None)"
| "decode_quads e (a # b # c # d # rest) =
     (if padded e \<and> rest = [] \<and> d = CHR ''='' then
        (if c = CHR ''='' then
           (case (unsextet e a, unsextet e b) of (Some p, Some q) \<Rightarrow> Some (one_byte p q) | _ \<Rightarrow> None)
         else
           (case (unsextet e a, unsextet e b, unsextet e c) of
              (Some p, Some q, Some r) \<Rightarrow> Some (two_bytes p q r) | _ \<Rightarrow> None))
      else
        (case (unsextet e a, unsextet e b, unsextet e c, unsextet e d) of
           (Some p, Some q, Some r, Some t) \<Rightarrow> map_option (\<lambda>bs. three_bytes p q r t @ bs) (decode_quads e rest)
         | _ \<Rightarrow> None))"

definition DecodeString :: "encoding \<Rightarrow> string \<Rightarrow> bytes outcome" where
  "DecodeString e s =
     (case decode_quads e (filter (\<lambda>c. c \<noteq> CHR 0x0A \<and> c \<noteq> CHR 0x0D) s) of
        Some b \<Rightarrow> Ret b | None \<Rightarrow> Err (Msg ''illegal base64 data''))"

section \<open>Round trip\<close>

definition wf_encoding :: "encoding \<Rightarrow> bool" where
  "wf_encoding e \<longleftrightarrow> length (alphabet e) = 64 \<and> distinct (alphabet e) \<and>
     set (alphabet e) \<inter> {CHR 0x0A, CHR 0x0D, CHR ''=''} = {}"

lemma wf_encodings [simp]: "wf_encoding StdEncoding" "wf_encoding URLEncoding" "wf_encoding RawURLEncoding"
  by (simp_all add: wf_encoding_def StdEncoding_def URLEncoding_def RawURLEncoding_def
      std_alphabet_def url_alphabet_def)

lemma index_of_nth: "distinct xs \<Longrightarrow> n < length xs \<Longrightarrow> index_of (xs ! n) xs = Some n"
proof (induction xs arbitrary: n)
  case (Cons x xs)
  then show ?case by (cases n) auto
qed simp

lemma unsextet_sextet: "wf_encoding e \<Longrightarrow> n < 64 \<Longrightarrow> unsextet e (sextet e n) = Some n"
  by (simp add: unsextet_def sextet_def wf_encoding_def index_of_nth)

lemma sextet_ordinary:
  assumes "wf_encoding e" "n < 64"
  shows "sextet e n \<noteq> CHR ''=''" "sextet e n \<noteq> CHR 0x0A" "sextet e n \<noteq> CHR 0x0D"
proof -
  have "sextet e n \<in> set (alphabet e)" using assms by (simp add: sextet_def wf_encoding_def)
  then show "sextet e n \<noteq> CHR ''=''" "sextet e n \<noteq> CHR 0x0A" "sextet e n \<noteq> CHR 0x0D"
    using assms(1) by (auto simp: wf_encoding_def)
qed

lemma byte_bound: "unat (x :: 8 word) < 256"
  using unsigned_less [of x, where ?'a = nat] by simp

lemma unat_word_of_nat_id: "word_of_nat (unat w) = w"
  by simp

lemma two_parts: "b < (n :: nat) \<Longrightarrow> (a * n + b) div n = a \<and> (a * n + b) mod n = b"
  by simp

lemma group_bounds [simp]: "group1 x < 64" "group2 x y < 64" "group3 y z < 64" "group4 z < 64"
proof -
  have "unat x div 4 < 64" "unat y div 16 < 16" "unat z div 64 < 4"
    using byte_bound [of x] byte_bound [of y] byte_bound [of z] by (simp_all add: div_less_iff_less_mult)
  moreover have "unat x mod 4 < 4" "unat y mod 16 < 16" "unat z mod 64 < 64" by simp_all
  ultimately show "group1 x < 64" "group2 x y < 64" "group3 y z < 64" "group4 z < 64"
    unfolding group1_def group2_def group3_def group4_def by linarith+
qed

lemma byte_groups [simp]:
  "byte1 (group1 x) (group2 x y) = x" "byte2 (group2 x y) (group3 y z) = y" "byte3 (group3 y z) (group4 z) = z"
proof -
  have b: "unat y div 16 < 16" "unat z div 64 < 4"
    using byte_bound [of y] byte_bound [of z] by (simp_all add: div_less_iff_less_mult)
  have "group2 x y div 16 = unat x mod 4" "group2 x y mod 16 = unat y div 16"
    "group3 y z div 4 = unat y mod 16" "group3 y z mod 4 = unat z div 64"
    unfolding group2_def group3_def using two_parts b by blast+
  then show "byte1 (group1 x) (group2 x y) = x" "byte2 (group2 x y) (group3 y z) = y" "byte3 (group3 y z) (group4 z) = z"
    by (simp_all only: byte1_def byte2_def byte3_def group1_def group4_def div_mult_mod_eq unat_word_of_nat_id)
qed

lemma EncodeToString_no_break:
  "wf_encoding e \<Longrightarrow> filter (\<lambda>c. c \<noteq> CHR 0x0A \<and> c \<noteq> CHR 0x0D) (EncodeToString e b) = EncodeToString e b"
  by (induction e b rule: EncodeToString.induct) (simp_all add: sextet_ordinary)

lemma decode_quads_encode: "wf_encoding e \<Longrightarrow> decode_quads e (EncodeToString e b) = Some b"
proof (induction e b rule: EncodeToString.induct)
  case (2 e x)
  then show ?case
    by (simp add: unsextet_sextet one_byte_def)
next
  case (3 e x y)
  then show ?case
    by (simp add: unsextet_sextet sextet_ordinary two_bytes_def)
next
  case (4 e x y z r)
  then show ?case
    by (simp add: unsextet_sextet sextet_ordinary three_bytes_def)
qed simp

lemma DecodeString_EncodeToString [simp]: "wf_encoding e \<Longrightarrow> DecodeString e (EncodeToString e b) = Ret b"
  by (simp add: DecodeString_def EncodeToString_no_break decode_quads_encode)

lemma EncodeToString_inj: "wf_encoding e \<Longrightarrow> EncodeToString e a = EncodeToString e b \<longleftrightarrow> a = b"
  by (metis DecodeString_EncodeToString outcome.inject(1))

end
