(* ===== verification/Dsse.thy ===== *)
theory Dsse
  imports Loaders Base64
begin

text \<open>
  \<open>pkg/signature/dsse\<close>: signers and verifiers that speak the DSSE envelope format.  A value behind the
  interfaces \<open>signature.Signer\<close> and \<open>signature.Verifier\<close> is a record of its methods, since the
  wrappers work on any.  The envelope code of go-securesystemslib is a parameter, \<open>dsse_lib\<close>; what
  it promises is \<open>dsse_laws\<close>.
\<close>

section \<open>Interface values\<close>

record signer_obj =
  so_PublicKey :: "sig_option list \<Rightarrow> public_key go"
  so_SignMessage :: "io_reader \<Rightarrow> sig_option list \<Rightarrow> bytes go"

record verifier_obj =
  vo_PublicKey :: "sig_option list \<Rightarrow> public_key go"
  vo_VerifySignature :: "io_reader \<Rightarrow> io_reader \<Rightarrow> sig_option list \<Rightarrow> unit go"

definition signer_value :: "crypto_lib \<Rightarrow> any_signer \<Rightarrow> signer_obj" where
  "signer_value L s = \<lparr>so_PublicKey = (\<lambda>opts. go_lift (Signer_PublicKey s opts)), so_SignMessage = SignMessage L s\<rparr>"

definition verifier_value :: "crypto_lib \<Rightarrow> any_verifier \<Rightarrow> verifier_obj" where
  "verifier_value L v = \<lparr>vo_PublicKey = (\<lambda>opts. go_lift (Verifier_PublicKey v opts)), vo_VerifySignature = VerifySignature L v\<rparr>"

section \<open>The envelope library\<close>

record dsse_Signature =
  sig_KeyID :: string
  sig_Sig :: string

record Envelope =
  env_PayloadType :: string
  env_Payload :: string
  env_Signatures :: "dsse_Signature list"

text \<open>The library calls back the adapters it is given: a key ID and a signing or verifying function.\<close>

type_synonym sign_adapter = "string \<times> (bytes \<Rightarrow> bytes go)"
type_synonym verify_adapter = "string \<times> (bytes \<Rightarrow> bytes \<Rightarrow> unit go)"

record dsse_lib =
  PAE :: "string \<Rightarrow> bytes \<Rightarrow> bytes"
  env_Marshal :: "Envelope \<Rightarrow> bytes outcome"
  env_Unmarshal :: "bytes \<Rightarrow> Envelope outcome"
  json_string :: "string \<Rightarrow> bool"
  b64Decode :: "string \<Rightarrow> bytes outcome"
  SHA256KeyID :: "public_key \<Rightarrow> string outcome"
  envelope_sign :: "sign_adapter list \<Rightarrow> string \<Rightarrow> bytes \<Rightarrow> Envelope go"
  envelope_verify :: "int \<Rightarrow> verify_adapter list \<Rightarrow> Envelope \<Rightarrow> unit go"

text \<open>
  An envelope whose payload type JSON can represent is read back as written.  Verifying succeeds
  when the only verifier accepts the only signature; when it succeeds for threshold \<open>t\<close>, at least
  \<open>t > 0\<close> of the verifiers accepted one of the signatures over the encoding of the payload.
\<close>

definition accepted_by :: "dsse_lib \<Rightarrow> Envelope \<Rightarrow> bytes \<Rightarrow> verify_adapter \<Rightarrow> bool" where
  "accepted_by D e p a \<longleftrightarrow> (\<exists>s \<in> set (env_Signatures e). \<exists>sg w w'.
     b64Decode D (sig_Sig s) = Ret sg \<and> snd a (PAE D (env_PayloadType e) p) sg w = (Ret (), w'))"

definition dsse_laws :: "dsse_lib \<Rightarrow> bool" where
  "dsse_laws D \<longleftrightarrow>
     (\<forall>e b. json_string D (env_PayloadType e) \<longrightarrow> env_Marshal D e = Ret b \<longrightarrow> env_Unmarshal D b = Ret e) \<and>
     (\<forall>b. b64Decode D (EncodeToString StdEncoding b) = Ret b) \<and>
     (\<forall>k f t p s w w'. f (PAE D t p) s w = (Ret (), w') \<longrightarrow>
        fst (envelope_verify D 1 [(k, f)]
          \<lparr>env_PayloadType = t, env_Payload = EncodeToString StdEncoding p,
           env_Signatures = [\<lparr>sig_KeyID = [], sig_Sig = EncodeToString StdEncoding s\<rparr>]\<rparr> w) = Ret ()) \<and>
     (\<forall>t as e w w'. envelope_verify D t as e w = (Ret (), w') \<longrightarrow>
        (\<exists>p I. b64Decode D (env_Payload e) = Ret p \<and> I \<subseteq> {..<length as} \<and> 0 < t \<and> t \<le> int (card I) \<and>
           (\<forall>i \<in> I. accepted_by D e p (as ! i))))"

section \<open>Adapters\<close>

text \<open>The \<open>Pub\<close> field of an adapter is an empty interface: the multi wrappers store the method value
  \<open>s.PublicKey\<close> in it, not the key it returns.\<close>

datatype pub_value = Pub_key public_key | Pub_method

record SignerAdapter =
  sa_SignatureSigner :: signer_obj
  sa_Pub :: pub_value
  sa_Opts :: "sig_option list"
  sa_PubKeyID :: string

record VerifierAdapter =
  va_SignatureVerifier :: verifier_obj
  va_Pub :: pub_value
  va_PubKeyID :: string

definition SignerAdapter_Sign :: "SignerAdapter \<Rightarrow> go_context \<Rightarrow> bytes \<Rightarrow> bytes go" where
  "SignerAdapter_Sign a ctx data =
     go_then (NewReader data) (\<lambda>r. so_SignMessage (sa_SignatureSigner a) r (sa_Opts a @ [WithContext ctx]))"

definition SignerAdapter_Verify :: "SignerAdapter \<Rightarrow> go_context \<Rightarrow> bytes \<Rightarrow> bytes \<Rightarrow> unit outcome" where
  "SignerAdapter_Verify a ctx data sg = Err (Msg ''Verify disabled'')"

definition SignerAdapter_Public :: "SignerAdapter \<Rightarrow> pub_value" where
  "SignerAdapter_Public a = sa_Pub a"

definition SignerAdapter_KeyID :: "SignerAdapter \<Rightarrow> string outcome" where
  "SignerAdapter_KeyID a = Ret (sa_PubKeyID a)"

definition VerifierAdapter_Verify :: "VerifierAdapter \<Rightarrow> go_context \<Rightarrow> bytes \<Rightarrow> bytes \<Rightarrow> unit go" where
  "VerifierAdapter_Verify a ctx data sg =
     go_then (NewReader sg) (\<lambda>rs. go_then (NewReader data) (\<lambda>rd.
       vo_VerifySignature (va_SignatureVerifier a) rs rd [WithContext ctx]))"

definition VerifierAdapter_Public :: "VerifierAdapter \<Rightarrow> pub_value" where
  "VerifierAdapter_Public a = va_Pub a"

definition VerifierAdapter_KeyID :: "VerifierAdapter \<Rightarrow> string outcome" where
  "VerifierAdapter_KeyID a = Ret (va_PubKeyID a)"

text \<open>What the library sees of an adapter.\<close>

definition sign_adapter_of :: "SignerAdapter \<Rightarrow> sign_adapter" where
  "sign_adapter_of a = (sa_PubKeyID a, SignerAdapter_Sign a Background)"

definition verify_adapter_of :: "VerifierAdapter \<Rightarrow> verify_adapter" where
  "verify_adapter_of a = (va_PubKeyID a, VerifierAdapter_Verify a Background)"

section \<open>One signer, one verifier\<close>

definition wrappedSigner_SignMessage ::
  "dsse_lib \<Rightarrow> signer_obj \<Rightarrow> string \<Rightarrow> io_reader \<Rightarrow> sig_option list \<Rightarrow> bytes go" where
  "wrappedSigner_SignMessage D s payloadType r opts =
     go_then (ReadAll r) (\<lambda>p.
       let pae = PAE D payloadType p
       in go_then (go_then (NewReader pae) (\<lambda>rp. so_SignMessage s rp opts)) (\<lambda>sg.
          go_lift (env_Marshal D \<lparr>env_PayloadType = payloadType, env_Payload = EncodeToString StdEncoding p,
            env_Signatures = [\<lparr>sig_KeyID = [], sig_Sig = EncodeToString StdEncoding sg\<rparr>]\<rparr>)))"

definition wrappedSigner_PublicKey :: "signer_obj \<Rightarrow> sig_option list \<Rightarrow> public_key go" where
  "wrappedSigner_PublicKey s opts = so_PublicKey s opts"

definition WrapSigner :: "dsse_lib \<Rightarrow> signer_obj \<Rightarrow> string \<Rightarrow> signer_obj" where
  "WrapSigner D s payloadType =
     \<lparr>so_PublicKey = wrappedSigner_PublicKey s, so_SignMessage = wrappedSigner_SignMessage D s payloadType\<rparr>"

definition wrappedVerifier_PublicKey :: "verifier_obj \<Rightarrow> sig_option list \<Rightarrow> public_key go" where
  "wrappedVerifier_PublicKey v opts = vo_PublicKey v opts"

definition wrappedVerifier_VerifySignature ::
  "dsse_lib \<Rightarrow> verifier_obj \<Rightarrow> io_reader \<Rightarrow> io_reader \<Rightarrow> sig_option list \<Rightarrow> unit go" where
  "wrappedVerifier_VerifySignature D v s r opts =
     go_then (ReadAll s) (\<lambda>sg.
     go_then (go_lift (env_Unmarshal D sg)) (\<lambda>env.
     go_then (wrappedVerifier_PublicKey v []) (\<lambda>pub.
       let adapter = \<lparr>va_SignatureVerifier = v, va_Pub = Pub_key pub, va_PubKeyID = []\<rparr>
       in envelope_verify D 1 [verify_adapter_of adapter] env)))"

definition WrapVerifier :: "dsse_lib \<Rightarrow> verifier_obj \<Rightarrow> verifier_obj" where
  "WrapVerifier D v =
     \<lparr>vo_PublicKey = wrappedVerifier_PublicKey v, vo_VerifySignature = wrappedVerifier_VerifySignature D v\<rparr>"

text \<open>A wrapped signer-verifier is a value of both interfaces, with one method \<open>PublicKey\<close>, the signer's.\<close>

definition wrappedSignerVerifier_PublicKey :: "signer_obj \<Rightarrow> sig_option list \<Rightarrow> public_key go" where
  "wrappedSignerVerifier_PublicKey signer opts = so_PublicKey signer opts"

definition wrappedSignerVerifier_VerifySignature ::
  "verifier_obj \<Rightarrow> io_reader \<Rightarrow> io_reader \<Rightarrow> sig_option list \<Rightarrow> unit go" where
  "wrappedSignerVerifier_VerifySignature verifier s r opts = vo_VerifySignature verifier s r opts"

definition wrappedSignerVerifier_SignMessage :: "signer_obj \<Rightarrow> io_reader \<Rightarrow> sig_option list \<Rightarrow> bytes go" where
  "wrappedSignerVerifier_SignMessage signer r opts = so_SignMessage signer r opts"

definition WrapSignerVerifier ::
  "dsse_lib \<Rightarrow> signer_obj \<Rightarrow> verifier_obj \<Rightarrow> string \<Rightarrow> signer_obj \<times> verifier_obj" where
  "WrapSignerVerifier D sg v payloadType =
     (let signer = WrapSigner D sg payloadType; verifier = WrapVerifier D v
      in (\<lparr>so_PublicKey = wrappedSignerVerifier_PublicKey signer, so_SignMessage = wrappedSignerVerifier_SignMessage signer\<rparr>,
          \<lparr>vo_PublicKey = wrappedSignerVerifier_PublicKey signer,
           vo_VerifySignature = wrappedSignerVerifier_VerifySignature verifier\<rparr>))"

section \<open>Several signers, several verifiers\<close>

text \<open>The loop building the adapters; \<open>None\<close> is the nil interface returned when a public key cannot be
  had.\<close>

fun signer_adapters :: "dsse_lib \<Rightarrow> signer_obj list \<Rightarrow> SignerAdapter list \<Rightarrow> SignerAdapter list option go" where
  "signer_adapters D [] acc w = (Ret (Some acc), w)"
| "signer_adapters D (s # ss) acc w = (case so_PublicKey s [] w of
       (Err e, w') \<Rightarrow> (Ret None, w')
     | (Panic p, w') \<Rightarrow> (Panic p, w')
     | (Ret pub, w') \<Rightarrow> (case SHA256KeyID D pub of
           Panic p \<Rightarrow> (Panic p, w')
         | Err e \<Rightarrow> signer_adapters D ss
             (acc @ [\<lparr>sa_SignatureSigner = s, sa_Pub = Pub_method, sa_Opts = [], sa_PubKeyID = []\<rparr>]) w'
         | Ret keyID \<Rightarrow> signer_adapters D ss
             (acc @ [\<lparr>sa_SignatureSigner = s, sa_Pub = Pub_method, sa_Opts = [], sa_PubKeyID = keyID\<rparr>]) w'))"

fun verifier_adapters :: "dsse_lib \<Rightarrow> verifier_obj list \<Rightarrow> VerifierAdapter list \<Rightarrow> VerifierAdapter list option go" where
  "verifier_adapters D [] acc w = (Ret (Some acc), w)"
| "verifier_adapters D (v # vs) acc w = (case vo_PublicKey v [] w of
       (Err e, w') \<Rightarrow> (Ret None, w')
     | (Panic p, w') \<Rightarrow> (Panic p, w')
     | (Ret pub, w') \<Rightarrow> (case SHA256KeyID D pub of
           Panic p \<Rightarrow> (Panic p, w')
         | Err e \<Rightarrow> verifier_adapters D vs
             (acc @ [\<lparr>va_SignatureVerifier = v, va_Pub = Pub_method, va_PubKeyID = []\<rparr>]) w'
         | Ret keyID \<Rightarrow> verifier_adapters D vs
             (acc @ [\<lparr>va_SignatureVerifier = v, va_Pub = Pub_method, va_PubKeyID = keyID\<rparr>]) w'))"

record wrappedMultiSigner =
  wms_sLAdapters :: "SignerAdapter list"
  wms_payloadType :: string

record wrappedMultiVerifier =
  wmv_vLAdapters :: "VerifierAdapter list"
  wmv_threshold :: int
  wmv_payloadType :: string

definition WrapMultiSigner :: "dsse_lib \<Rightarrow> string \<Rightarrow> signer_obj list \<Rightarrow> wrappedMultiSigner option go" where
  "WrapMultiSigner D payloadType sL =
     go_then (signer_adapters D sL []) (\<lambda>as.
       go_ret (map_option (\<lambda>l. \<lparr>wms_sLAdapters = l, wms_payloadType = payloadType\<rparr>) as))"

definition WrapMultiVerifier ::
  "dsse_lib \<Rightarrow> string \<Rightarrow> int \<Rightarrow> verifier_obj list \<Rightarrow> wrappedMultiVerifier option go" where
  "WrapMultiVerifier D payloadType threshold vL =
     go_then (verifier_adapters D vL []) (\<lambda>as.
       go_ret (map_option (\<lambda>l. \<lparr>wmv_vLAdapters = l, wmv_threshold = threshold, wmv_payloadType = payloadType\<rparr>) as))"

definition wrappedMultiSigner_PublicKey :: "wrappedMultiSigner \<Rightarrow> sig_option list \<Rightarrow> public_key outcome" where
  "wrappedMultiSigner_PublicKey wL opts = Err (Msg ''not supported for multi signatures'')"

definition wrappedMultiSigner_SignMessage ::
  "dsse_lib \<Rightarrow> wrappedMultiSigner \<Rightarrow> io_reader \<Rightarrow> sig_option list \<Rightarrow> bytes go" where
  "wrappedMultiSigner_SignMessage D wL r opts =
     go_then (ReadAll r) (\<lambda>p.
     go_then (envelope_sign D (map sign_adapter_of (wms_sLAdapters wL)) (wms_payloadType wL) p) (\<lambda>env.
     go_lift (env_Marshal D env)))"

definition wrappedMultiVerifier_PublicKey :: "wrappedMultiVerifier \<Rightarrow> sig_option list \<Rightarrow> public_key outcome" where
  "wrappedMultiVerifier_PublicKey wL opts = Err (Msg ''not supported for multi signatures'')"

definition wrappedMultiVerifier_VerifySignature ::
  "dsse_lib \<Rightarrow> wrappedMultiVerifier \<Rightarrow> io_reader \<Rightarrow> io_reader \<Rightarrow> sig_option list \<Rightarrow> unit go" where
  "wrappedMultiVerifier_VerifySignature D wL s r opts =
     go_then (ReadAll s) (\<lambda>sg.
     go_then (go_lift (env_Unmarshal D sg)) (\<lambda>env.
     envelope_verify D (wmv_threshold wL) (map verify_adapter_of (wmv_vLAdapters wL)) env))"

definition WrapMultiSignerVerifier ::
  "dsse_lib \<Rightarrow> string \<Rightarrow> int \<Rightarrow> (signer_obj \<times> verifier_obj) list \<Rightarrow>
     (wrappedMultiSigner option \<times> wrappedMultiVerifier option) go" where
  "WrapMultiSignerVerifier D payloadType threshold svL =
     (let (signerL, verifierL) = fold (\<lambda>sv (ss, vs). (ss @ [fst sv], vs @ [snd sv])) svL ([], [])
      in go_then (WrapMultiSigner D payloadType signerL) (\<lambda>sL.
         go_then (WrapMultiVerifier D payloadType threshold verifierL) (\<lambda>vL. go_ret (sL, vL))))"

text \<open>The methods of the combined value; a half that could not be built is a nil interface.\<close>

definition wrappedMultiSignerVerifier_PublicKey ::
  "wrappedMultiSigner option \<times> wrappedMultiVerifier option \<Rightarrow> sig_option list \<Rightarrow> public_key outcome" where
  "wrappedMultiSignerVerifier_PublicKey w opts = (case fst w of
       None \<Rightarrow> Panic ''nil pointer dereference''
     | Some signer \<Rightarrow> wrappedMultiSigner_PublicKey signer opts)"

definition wrappedMultiSignerVerifier_VerifySignature :: "dsse_lib \<Rightarrow>
    wrappedMultiSigner option \<times> wrappedMultiVerifier option \<Rightarrow> io_reader \<Rightarrow> io_reader \<Rightarrow> sig_option list \<Rightarrow> unit go" where
  "wrappedMultiSignerVerifier_VerifySignature D w s r opts = (case snd w of
       None \<Rightarrow> go_panic ''nil pointer dereference''
     | Some verifier \<Rightarrow> wrappedMultiVerifier_VerifySignature D verifier s r opts)"

definition wrappedMultiSignerVerifier_SignMessage :: "dsse_lib \<Rightarrow>
    wrappedMultiSigner option \<times> wrappedMultiVerifier option \<Rightarrow> io_reader \<Rightarrow> sig_option list \<Rightarrow> bytes go" where
  "wrappedMultiSignerVerifier_SignMessage D w r opts = (case fst w of
       None \<Rightarrow> go_panic ''nil pointer dereference''
     | Some signer \<Rightarrow> wrappedMultiSigner_SignMessage D signer r opts)"

section \<open>Lemmas\<close>

lemmas wrapped_public_key [simp] = wrappedSigner_PublicKey_def [abs_def] wrappedVerifier_PublicKey_def [abs_def]

lemma dsse_lawsD:
  assumes "dsse_laws D"
  shows "json_string D (env_PayloadType e) \<Longrightarrow> env_Marshal D e = Ret b \<Longrightarrow> env_Unmarshal D b = Ret e"
    and "b64Decode D (EncodeToString StdEncoding p) = Ret p"
    and "f (PAE D t p) s w = (Ret (), w') \<Longrightarrow> fst (envelope_verify D 1 [(k, f)]
          \<lparr>env_PayloadType = t, env_Payload = EncodeToString StdEncoding p,
           env_Signatures = [\<lparr>sig_KeyID = [], sig_Sig = EncodeToString StdEncoding s\<rparr>]\<rparr> w) = Ret ()"
    and "envelope_verify D n as env w = (Ret (), w') \<Longrightarrow>
        \<exists>p I. b64Decode D (env_Payload env) = Ret p \<and> I \<subseteq> {..<length as} \<and> 0 < n \<and> n \<le> int (card I) \<and>
           (\<forall>i \<in> I. accepted_by D env p (as ! i))"
  using assms unfolding dsse_laws_def by blast+

lemma accepted_by_adapter:
  "accepted_by D e p (verify_adapter_of a) \<longleftrightarrow> (\<exists>s \<in> set (env_Signatures e). \<exists>sg w w'.
     b64Decode D (sig_Sig s) = Ret sg \<and>
     go_then (NewReader sg) (\<lambda>r1. go_then (NewReader (PAE D (env_PayloadType e) p)) (\<lambda>r2.
       vo_VerifySignature (va_SignatureVerifier a) r1 r2 [WithContext Background])) w = (Ret (), w'))"
  by (simp only: accepted_by_def verify_adapter_of_def snd_conv VerifierAdapter_Verify_def)

lemma Verifier_PublicKey_Ret: "\<exists>p. Verifier_PublicKey v opts = Ret p"
  by (cases v) (simp_all add: Verifier_PublicKey_def RSAPSSVerifier_PublicKey_def RSAPKCS1v15Verifier_PublicKey_def
      ECDSAVerifier_PublicKey_def ED25519Verifier_PublicKey_def ED25519phVerifier_PublicKey_def)

lemma verifier_adapters_Some:
  "verifier_adapters D vs acc w = (Ret (Some as), w') \<Longrightarrow>
     map va_SignatureVerifier as = map va_SignatureVerifier acc @ vs"
proof (induction vs arbitrary: acc w)
  case (Cons v vs)
  then show ?case by (fastforce split: prod.splits outcome.splits)
qed simp

lemma salt_stable_iff: "pss_cells w = pss_cells w' \<Longrightarrow> salt_stable w w'"
  by (simp add: salt_stable_def)

lemma pss_cells_NewReader [simp]: "pss_cells (snd (NewReader b w)) = pss_cells w"
  by (simp add: NewReader_def)

lemma NewReader_step: "NewReader b w = (Ret (Some (fresh w)), snd (NewReader b w))"
  by (simp add: NewReader_def)

lemma NewReader_delivers [simp]: "delivers (snd (NewReader b w)) (Some (fresh w)) b"
  by (simp add: NewReader_def delivers_def)

lemma wrappedSigner_step:
  assumes "delivers w r p" "go_then (NewReader (PAE D t p)) (\<lambda>rp. so_SignMessage s rp opts) (drain r w) = (Ret sg, w1)"
  shows "wrappedSigner_SignMessage D s t r opts w =
    (env_Marshal D \<lparr>env_PayloadType = t, env_Payload = EncodeToString StdEncoding p,
       env_Signatures = [\<lparr>sig_KeyID = [], sig_Sig = EncodeToString StdEncoding sg\<rparr>]\<rparr>, w1)"
  by (simp add: wrappedSigner_SignMessage_def Let_def go_then_step(1) [of "ReadAll r", OF ReadAll_delivers [OF assms(1)]]
    go_then_step(1) [of "go_then (NewReader (PAE D t p)) (\<lambda>rp. so_SignMessage s rp opts)", OF assms(2)])

lemma wrappedVerifier_step:
  assumes "delivers w rs b" "env_Unmarshal D b = Ret env" "vo_PublicKey v [] (drain rs w) = (Ret pub, w1)"
  shows "wrappedVerifier_VerifySignature D v rs rm opts w =
    envelope_verify D 1 [verify_adapter_of \<lparr>va_SignatureVerifier = v, va_Pub = Pub_key pub, va_PubKeyID = []\<rparr>] env w1"
  by (simp add: wrappedVerifier_VerifySignature_def Let_def assms(2)
    go_then_step(1) [of "ReadAll rs", OF ReadAll_delivers [OF assms(1)]] go_then_step(1) [of "vo_PublicKey v []", OF assms(3)])

section \<open>Properties\<close>

text \<open>C21: an envelope made by a wrapped signer verifies with the wrapped verifier of the same loaded
  key, whatever message reader and options the verifier is given, provided the signer's
  options do not replace the digest or the hash.\<close>

theorem dsse_roundtrip:
  assumes "lib_laws L" "hashes_linked L" "good_private L key" "LoadSignerVerifierWithOpts key opts = Ret sv"
    and "dsse_laws D" "json_string D payloadType" "same_msg_options sopts []"
    and "go_then (NewReader m) (\<lambda>r. so_SignMessage (WrapSigner D (signer_value L (sv_signer sv)) payloadType) r sopts) w
      = (Ret envelope, w1)"
  shows "fst (go_then (NewReader envelope) (\<lambda>rs.
      vo_VerifySignature (WrapVerifier D (verifier_value L (sv_verifier sv))) rs rm vopts) w1) = Ret ()"
proof -
  let ?pae = "PAE D payloadType m"
  define v where "v = sv_verifier sv"
  define wr where "wr = drain (Some (fresh w)) (snd (NewReader m w))"
  have "ReadAll (Some (fresh w)) (snd (NewReader m w)) = (Ret m, wr)" by (simp add: ReadAll_delivers wr_def)
  with assms(8) obtain sg where
    sg: "any.sign_bytes L (sv_signer sv) ?pae sopts wr = (Ret sg, w1)"
    and e: "env_Marshal D \<lparr>env_PayloadType = payloadType, env_Payload = EncodeToString StdEncoding m,
            env_Signatures = [\<lparr>sig_KeyID = [], sig_Sig = EncodeToString StdEncoding sg\<rparr>]\<rparr> = Ret envelope"
    by (auto simp: go_then_step(1) [OF NewReader_step] WrapSigner_def wrappedSigner_SignMessage_def Let_def
        signer_value_def go_then_step(1) [of "ReadAll (Some (fresh w))"] any.sign_bytes_def go_then_Ret_iff)
  define w2 where "w2 = drain (Some (fresh w1)) (snd (NewReader envelope w1))"
  have o: "same_msg_options sopts [WithContext Background]"
    using assms(7) by (simp add: same_msg_options_def msg_options_eq with_defs set_defs)
  have "salt_stable w1 w2" by (rule salt_stable_iff) (simp add: w2_def)
  from any.sign_bytes_accepted [OF LoadSignerVerifier_pair [OF assms(1-4)] sg o this]
  obtain w3 where acc: "VerifierAdapter_Verify a Background ?pae sg w2 = (Ret (), w3)"
    if "va_SignatureVerifier a = verifier_value L v" for a
    by (cases "any.verify_bytes L v sg ?pae [WithContext Background] w2")
      (auto simp: v_def VerifierAdapter_Verify_def any.verify_bytes_def verifier_value_def)
  obtain pub where pub: "Verifier_PublicKey v [] = Ret pub" using Verifier_PublicKey_Ret by blast
  let ?a = "\<lparr>va_SignatureVerifier = verifier_value L v, va_Pub = Pub_key pub, va_PubKeyID = []\<rparr>"
  have "fst (envelope_verify D 1 [verify_adapter_of ?a] \<lparr>env_PayloadType = payloadType,
      env_Payload = EncodeToString StdEncoding m,
      env_Signatures = [\<lparr>sig_KeyID = [], sig_Sig = EncodeToString StdEncoding sg\<rparr>]\<rparr> w2) = Ret ()"
    unfolding verify_adapter_of_def using dsse_lawsD(3) [OF assms(5)] acc [of ?a] by simp
  moreover have "ReadAll (Some (fresh w1)) (snd (NewReader envelope w1)) = (Ret envelope, w2)"
    by (simp add: ReadAll_delivers w2_def)
  moreover have "env_Unmarshal D envelope = Ret \<lparr>env_PayloadType = payloadType,
      env_Payload = EncodeToString StdEncoding m,
      env_Signatures = [\<lparr>sig_KeyID = [], sig_Sig = EncodeToString StdEncoding sg\<rparr>]\<rparr>"
    using dsse_lawsD(1) [OF assms(5) _ e] assms(6) by simp
  ultimately show ?thesis
    by (simp add: go_then_step(1) [OF NewReader_step] WrapVerifier_def wrappedVerifier_VerifySignature_def
        go_then_step(1) [of "ReadAll (Some (fresh w1))"] v_def [symmetric] Let_def)
       (simp add: verifier_value_def pub)
qed

text \<open>C3: a wrapped verifier accepts only an envelope one of whose signatures the inner verifier accepts
  over the pre-authentication encoding of the envelope's own payload type and payload; the
  message reader it is given plays no part.\<close>

theorem dsse_verify_sound:
  assumes "dsse_laws D" "vo_VerifySignature (WrapVerifier D v) rs rm opts w = (Ret (), w')"
  shows "\<exists>b env p s sg w1 w2. delivers w rs b \<and> env_Unmarshal D b = Ret env \<and>
    b64Decode D (env_Payload env) = Ret p \<and> s \<in> set (env_Signatures env) \<and> b64Decode D (sig_Sig s) = Ret sg \<and>
    go_then (NewReader sg) (\<lambda>r1. go_then (NewReader (PAE D (env_PayloadType env) p)) (\<lambda>r2.
      vo_VerifySignature v r1 r2 [WithContext Background])) w1 = (Ret (), w2)"
proof -
  from assms(2) obtain b env pub wa where b: "delivers w rs b" "env_Unmarshal D b = Ret env"
    and e: "envelope_verify D 1 [verify_adapter_of \<lparr>va_SignatureVerifier = v, va_Pub = Pub_key pub, va_PubKeyID = []\<rparr>]
      env wa = (Ret (), w')"
    by (auto simp: WrapVerifier_def wrappedVerifier_VerifySignature_def go_simps Let_def)
  then obtain a where a: "va_SignatureVerifier a = v" "envelope_verify D 1 [verify_adapter_of a] env wa = (Ret (), w')"
    by (metis VerifierAdapter.select_convs(1))
  from dsse_lawsD(4) [OF assms(1) a(2)] obtain p I where p: "b64Decode D (env_Payload env) = Ret p"
    "I \<subseteq> {..<1}" "1 \<le> int (card I)" "\<forall>i \<in> I. accepted_by D env p ([verify_adapter_of a] ! i)" by auto
  then obtain i where "i \<in> I" by fastforce
  with p(2) have "0 \<in> I" by auto
  with p(4) have "accepted_by D env p (verify_adapter_of a)" by force
  with a(1) b p(1) show ?thesis unfolding accepted_by_adapter by blast
qed

text \<open>C9: a multi verifier accepts an envelope only if the threshold is positive and at least that many of
  its verifiers, counted once each, accept one of the signatures over the encoding of the
  envelope's own payload type; the payload type the verifier was made with is not compared.\<close>

theorem dsse_multi_threshold:
  assumes "dsse_laws D" "WrapMultiVerifier D payloadType threshold vL w0 = (Ret (Some mv), w1)"
    and "wrappedMultiVerifier_VerifySignature D mv rs rm opts w = (Ret (), w')"
  shows "\<exists>b env p I. delivers w rs b \<and> env_Unmarshal D b = Ret env \<and> b64Decode D (env_Payload env) = Ret p \<and>
    I \<subseteq> {..<length vL} \<and> 0 < threshold \<and> threshold \<le> int (card I) \<and>
    (\<forall>i \<in> I. \<exists>s \<in> set (env_Signatures env). \<exists>sg wa wb. b64Decode D (sig_Sig s) = Ret sg \<and>
      go_then (NewReader sg) (\<lambda>r1. go_then (NewReader (PAE D (env_PayloadType env) p)) (\<lambda>r2.
        vo_VerifySignature (vL ! i) r1 r2 [WithContext Background])) wa = (Ret (), wb))"
proof -
  from assms(2) obtain as where as: "verifier_adapters D vL [] w0 = (Ret (Some as), w1)"
    "mv = \<lparr>wmv_vLAdapters = as, wmv_threshold = threshold, wmv_payloadType = payloadType\<rparr>"
    by (auto simp: WrapMultiVerifier_def go_simps)
  have vL: "vL = map va_SignatureVerifier as" using verifier_adapters_Some [OF as(1)] by simp
  from assms(3) obtain b env wa where b: "delivers w rs b" "env_Unmarshal D b = Ret env"
    and v: "envelope_verify D threshold (map verify_adapter_of as) env wa = (Ret (), w')"
    by (auto simp: wrappedMultiVerifier_VerifySignature_def go_simps as(2))
  from dsse_lawsD(4) [OF assms(1) v] obtain p I where p: "b64Decode D (env_Payload env) = Ret p"
    "I \<subseteq> {..<length vL}" "0 < threshold" "threshold \<le> int (card I)"
    "\<forall>i \<in> I. accepted_by D env p (map verify_adapter_of as ! i)" by (auto simp: vL)
  have acc: "\<exists>s \<in> set (env_Signatures env). \<exists>sg wa wb. b64Decode D (sig_Sig s) = Ret sg \<and>
      go_then (NewReader sg) (\<lambda>r1. go_then (NewReader (PAE D (env_PayloadType env) p)) (\<lambda>r2.
        vo_VerifySignature (vL ! i) r1 r2 [WithContext Background])) wa = (Ret (), wb)" if "i \<in> I" for i
  proof -
    from that p(2) have "i < length as" by (auto simp: vL)
    then have "map verify_adapter_of as ! i = verify_adapter_of (as ! i)" "vL ! i = va_SignatureVerifier (as ! i)"
      by (simp_all add: vL)
    moreover have "accepted_by D env p (map verify_adapter_of as ! i)" using p(5) that by blast
    ultimately show ?thesis by (simp only: accepted_by_adapter)
  qed
  show ?thesis
    by (intro exI [of _ b] exI [of _ env] exI [of _ p] exI [of _ I] conjI ballI)
      (rule b p(1-4) acc | assumption)+
qed

section \<open>A reference library and witnesses\<close>

definition no_zero :: "string \<Rightarrow> bool" where
  "no_zero s \<longleftrightarrow> 0 \<notin> set (bytes_of s)"

definition ref_dsse :: dsse_lib where
  "ref_dsse = \<lparr>
     PAE = (\<lambda>t p. bytes_of t @ p),
     env_Marshal = (\<lambda>e. case env_Signatures e of
         [s] \<Rightarrow> if no_zero (env_PayloadType e) \<and> no_zero (env_Payload e) \<and> no_zero (sig_KeyID s) \<and> no_zero (sig_Sig s)
               then Ret (bytes_of (env_PayloadType e) @ 0 # bytes_of (env_Payload e) @ 0 #
                 bytes_of (sig_KeyID s) @ 0 # bytes_of (sig_Sig s))
               else Err (Msg ''json'')
       | _ \<Rightarrow> Err (Msg ''json'')),
     env_Unmarshal = (\<lambda>b. case split_on 0 b of
         [t, p, k, s] \<Rightarrow> Ret \<lparr>env_PayloadType = string_of t, env_Payload = string_of p,
           env_Signatures = [\<lparr>sig_KeyID = string_of k, sig_Sig = string_of s\<rparr>]\<rparr>
       | _ \<Rightarrow> Err (Msg ''json'')),
     json_string = no_zero,
     b64Decode = DecodeString StdEncoding,
     SHA256KeyID = (\<lambda>k. Ret []),
     envelope_sign = (\<lambda>as t p. go_err (Msg ''no signers provided'')),
     envelope_verify = (\<lambda>t as e. case (DecodeString StdEncoding (env_Payload e), as, env_Signatures e) of
         (Ret p, [a], [s]) \<Rightarrow> (case DecodeString StdEncoding (sig_Sig s) of
             Ret sg \<Rightarrow> if t = 1 then snd a (bytes_of (env_PayloadType e) @ p) sg else go_err (Msg ''invalid threshold'')
           | _ \<Rightarrow> go_err (Msg ''unable to base64 decode signature''))
       | _ \<Rightarrow> go_err (Msg ''no signatures found''))\<rparr>"

lemma ref_dsse_simps:
  "PAE ref_dsse t p = bytes_of t @ p"
  "b64Decode ref_dsse = DecodeString StdEncoding"
  "SHA256KeyID ref_dsse k = Ret []"
  "json_string ref_dsse = no_zero"
  by (simp_all add: ref_dsse_def)

lemma ref_dsse_verify:
  "envelope_verify ref_dsse 1 [a] \<lparr>env_PayloadType = t, env_Payload = EncodeToString StdEncoding p,
     env_Signatures = [\<lparr>sig_KeyID = k, sig_Sig = EncodeToString StdEncoding s\<rparr>]\<rparr> = snd a (bytes_of t @ p) s"
  by (simp add: ref_dsse_def)

lemma ref_dsse_json:
  "env_Marshal ref_dsse e = Ret b \<Longrightarrow> env_Unmarshal ref_dsse b = Ret e"
  by (cases e) (auto simp: ref_dsse_def no_zero_def split_on_append split: list.splits if_splits)

lemma ref_dsse_threshold:
  assumes "envelope_verify ref_dsse t as e w = (Ret (), w')"
  shows "\<exists>p I. b64Decode ref_dsse (env_Payload e) = Ret p \<and> I \<subseteq> {..<length as} \<and> 0 < t \<and> t \<le> int (card I) \<and>
    (\<forall>i \<in> I. accepted_by ref_dsse e p (as ! i))"
proof -
  from assms obtain p a s sg where "DecodeString StdEncoding (env_Payload e) = Ret p" "as = [a]" "t = 1"
    "env_Signatures e = [s]" "DecodeString StdEncoding (sig_Sig s) = Ret sg"
    "snd a (bytes_of (env_PayloadType e) @ p) sg w = (Ret (), w')"
    by (auto simp: ref_dsse_def split: outcome.splits list.splits if_splits)
  then show ?thesis
    by (intro exI [of _ p] exI [of _ "{0}"]) (auto simp: ref_dsse_simps accepted_by_def)
qed

lemma ref_dsse_laws [simp]: "dsse_laws ref_dsse"
  using ref_dsse_json ref_dsse_threshold unfolding dsse_laws_def
  by (auto simp: ref_dsse_verify ref_dsse_simps)

text \<open>An Ed25519 key pair of the reference library, and what it signs.\<close>

definition ed_sv :: any_signer_verifier where
  "ed_sv = Ed25519_sv \<lparr>dsv_signer = \<lparr>ds_priv = Some (replicate 64 7)\<rparr>,
     dsv_verifier = \<lparr>dv_publicKey = Some (replicate 32 7)\<rparr>\<rparr>"

lemma ed_sv_facts:
  "LoadSignerVerifierWithOpts (Ed25519_private (Some (replicate 64 7))) [] = Ret ed_sv"
  "hashes_linked ref_lib" "good_private ref_lib (Ed25519_private (Some (replicate 64 7)))"
  by (simp_all add: LoadSignerVerifierWithOpts_def load_options_def load_defs ed25519_Public_64 ed_sv_def
      ref_lib_def hashes_linked_def good_private_def ed25519_pair_def)

lemma ed_sv_signs:
  "delivers w r m \<Longrightarrow> SignMessage ref_lib (sv_signer ed_sv) r opts w = (Ret (3 # m), drain r w)"
  using ComputeDigest_plain [of w r m NoHash "Some ed25519SupportedHashFuncs" ref_lib]
  by (simp add: ed_sv_def sv_signer_def SignMessage_def ED25519Signer_SignMessage_def call_ed25519_Sign_def
      ed25519SupportedHashFuncs_def go_then_def) (simp add: ref_lib_def)

lemma ed_dsse_signs:
  "\<exists>e w1. go_then (NewReader [1]) (\<lambda>r. so_SignMessage (WrapSigner ref_dsse (signer_value ref_lib (sv_signer ed_sv)) ''t'') r [])
     (two_readers [] []) = (Ret e, w1)"
proof -
  define w0 where "w0 = snd (NewReader [1] (two_readers [] []))"
  have r: "NewReader [1] (two_readers [] []) = (Ret (Some 2), w0)" "delivers w0 (Some 2) [1]"
    by (simp_all add: w0_def NewReader_def two_readers_def delivers_def)
  define w1 where "w1 = snd (NewReader (bytes_of ''t'' @ [1]) (drain (Some 2) w0))"
  have n: "NewReader (bytes_of ''t'' @ [1]) (drain (Some 2) w0) = (Ret (Some (fresh (drain (Some 2) w0))), w1)"
    "delivers w1 (Some (fresh (drain (Some 2) w0))) (bytes_of ''t'' @ [1])"
    unfolding w1_def by (rule NewReader_step, rule NewReader_delivers)
  from ed_sv_signs [OF n(2), of "[]"] obtain w2 where
    "SignMessage ref_lib (sv_signer ed_sv) (Some (fresh (drain (Some 2) w0))) [] w1 = (Ret (3 # bytes_of ''t'' @ [1]), w2)"
    by blast
  then have "go_then (NewReader (PAE ref_dsse ''t'' [1]))
      (\<lambda>rp. so_SignMessage (signer_value ref_lib (sv_signer ed_sv)) rp []) (drain (Some 2) w0) =
      (Ret (3 # bytes_of ''t'' @ [1]), w2)"
    unfolding ref_dsse_simps signer_value_def go_then_def n(1) by simp
  note s = wrappedSigner_step [OF r(2) this]
  have "\<exists>e. env_Marshal ref_dsse \<lparr>env_PayloadType = ''t'', env_Payload = EncodeToString StdEncoding [1],
      env_Signatures = [\<lparr>sig_KeyID = [], sig_Sig = EncodeToString StdEncoding (3 # bytes_of ''t'' @ [1])\<rparr>]\<rparr> = Ret e"
    by (simp add: ref_dsse_def no_zero_def bytes_of_def StdEncoding_def std_alphabet_def sextet_def
        group1_def group2_def group3_def group4_def)
  then show ?thesis unfolding go_then_def r(1) WrapSigner_def using s by auto
qed

theorem dsse_roundtrip_witness:
  "\<exists>e w1. go_then (NewReader [1]) (\<lambda>r. so_SignMessage (WrapSigner ref_dsse (signer_value ref_lib (sv_signer ed_sv)) ''t'') r [])
     (two_readers [] []) = (Ret e, w1) \<and>
   fst (go_then (NewReader e) (\<lambda>rs.
      vo_VerifySignature (WrapVerifier ref_dsse (verifier_value ref_lib (sv_verifier ed_sv))) rs None []) w1) = Ret ()"
proof -
  obtain e w1 where e: "go_then (NewReader [1]) (\<lambda>r. so_SignMessage (WrapSigner ref_dsse
      (signer_value ref_lib (sv_signer ed_sv)) ''t'') r []) (two_readers [] []) = (Ret e, w1)"
    using ed_dsse_signs by blast
  have "json_string ref_dsse ''t''" by (simp add: ref_dsse_simps no_zero_def bytes_of_def)
  from dsse_roundtrip [OF ref_lib_laws ed_sv_facts(2,3,1) ref_dsse_laws this same_msg_options_refl e] e
  show ?thesis by blast
qed

definition accept_all :: verifier_obj where
  "accept_all = \<lparr>vo_PublicKey = (\<lambda>opts. go_ret Nil_public), vo_VerifySignature = (\<lambda>s r opts. go_ret ())\<rparr>"

definition small_envelope :: bytes where
  "small_envelope = bytes_of ''t'' @ 0 # bytes_of ''AQ=='' @ 0 # 0 # bytes_of ''Ag==''"

lemma small_envelope_parses:
  "env_Unmarshal ref_dsse small_envelope = Ret \<lparr>env_PayloadType = ''t'', env_Payload = ''AQ=='',
     env_Signatures = [\<lparr>sig_KeyID = [], sig_Sig = ''Ag==''\<rparr>]\<rparr>"
  by (rule ref_dsse_json) (simp add: ref_dsse_def small_envelope_def no_zero_def bytes_of_def)

lemma small_envelope_b64: "EncodeToString StdEncoding [1] = ''AQ==''" "EncodeToString StdEncoding [2] = ''Ag==''"
  by (simp_all add: StdEncoding_def std_alphabet_def sextet_def group1_def group2_def)

lemma small_envelope_verifies:
  "\<exists>w'. envelope_verify ref_dsse 1 [verify_adapter_of \<lparr>va_SignatureVerifier = accept_all, va_Pub = p, va_PubKeyID = k\<rparr>]
    \<lparr>env_PayloadType = ''t'', env_Payload = ''AQ=='', env_Signatures = [\<lparr>sig_KeyID = [], sig_Sig = ''Ag==''\<rparr>]\<rparr> w = (Ret (), w')"
  unfolding small_envelope_b64 [symmetric] ref_dsse_verify
  by (simp add: verify_adapter_of_def VerifierAdapter_Verify_def accept_all_def go_then_def NewReader_def)

theorem dsse_verify_sound_witness:
  "\<exists>b env p s sg w1 w2. delivers (two_readers small_envelope []) (Some 0) b \<and> env_Unmarshal ref_dsse b = Ret env \<and>
    b64Decode ref_dsse (env_Payload env) = Ret p \<and> s \<in> set (env_Signatures env) \<and> b64Decode ref_dsse (sig_Sig s) = Ret sg \<and>
    go_then (NewReader sg) (\<lambda>r1. go_then (NewReader (PAE ref_dsse (env_PayloadType env) p)) (\<lambda>r2.
      vo_VerifySignature accept_all r1 r2 [WithContext Background])) w1 = (Ret (), w2)"
proof -
  have "vo_PublicKey accept_all [] w = (Ret Nil_public, w)" for w by (simp add: accept_all_def)
  from wrappedVerifier_step [OF two_readers_delivers(1) small_envelope_parses this]
    small_envelope_verifies
  obtain w' where "vo_VerifySignature (WrapVerifier ref_dsse accept_all) (Some 0) None []
      (two_readers small_envelope []) = (Ret (), w')"
    unfolding WrapVerifier_def by (metis verifier_obj.select_convs(2))
  from dsse_verify_sound [OF ref_dsse_laws this] show ?thesis .
qed

theorem dsse_multi_threshold_witness:
  "\<exists>b env p I. delivers (two_readers small_envelope []) (Some 0) b \<and> env_Unmarshal ref_dsse b = Ret env \<and>
    b64Decode ref_dsse (env_Payload env) = Ret p \<and> I \<subseteq> {..<length [accept_all]} \<and> 0 < (1 :: int) \<and> 1 \<le> int (card I) \<and>
    (\<forall>i \<in> I. \<exists>s \<in> set (env_Signatures env). \<exists>sg wa wb. b64Decode ref_dsse (sig_Sig s) = Ret sg \<and>
      go_then (NewReader sg) (\<lambda>r1. go_then (NewReader (PAE ref_dsse (env_PayloadType env) p)) (\<lambda>r2.
        vo_VerifySignature ([accept_all] ! i) r1 r2 [WithContext Background])) wa = (Ret (), wb))"
proof -
  let ?a = "\<lparr>va_SignatureVerifier = accept_all, va_Pub = Pub_method, va_PubKeyID = []\<rparr>"
  let ?mv = "\<lparr>wmv_vLAdapters = [?a], wmv_threshold = 1, wmv_payloadType = ''other''\<rparr>"
  have p: "vo_PublicKey accept_all [] w = (Ret Nil_public, w)" for w by (simp add: accept_all_def)
  have m: "WrapMultiVerifier ref_dsse ''other'' 1 [accept_all] (two_readers [] []) = (Ret (Some ?mv), two_readers [] [])"
    by (simp add: WrapMultiVerifier_def go_then_def p ref_dsse_simps)
  obtain w' where "envelope_verify ref_dsse 1 [verify_adapter_of ?a] \<lparr>env_PayloadType = ''t'', env_Payload = ''AQ=='',
      env_Signatures = [\<lparr>sig_KeyID = [], sig_Sig = ''Ag==''\<rparr>]\<rparr> (drain (Some 0) (two_readers small_envelope [])) = (Ret (), w')"
    using small_envelope_verifies by blast
  then have "wrappedMultiVerifier_VerifySignature ref_dsse ?mv (Some 0) None [] (two_readers small_envelope []) = (Ret (), w')"
    using ReadAll_delivers [OF two_readers_delivers(1), of small_envelope "[]"] small_envelope_parses
    by (simp add: wrappedMultiVerifier_VerifySignature_def go_then_def)
  from dsse_multi_threshold [OF ref_dsse_laws m this] show ?thesis .
qed

end
