(* ===== verification/Payload.thy ===== *)
theory Payload
  imports Loaders
begin

text \<open>
  \<open>pkg/signature/payload/payload.go\<close>, the signed statement about a container image, and the two
  functions of \<open>pkg/signature/util.go\<close> that sign and verify one.  Two parts of it are parameters:
  \<open>encoding/json\<close> on the payload struct, and the parser \<open>name.NewDigest\<close> of go-containerregistry.
  Annotations are any value \<open>'ann\<close> JSON can carry; \<open>None\<close> is the nil map.
\<close>

definition CosignSignatureType :: string where
  "CosignSignatureType = ''cosign container image signature''"

record Identity =
  DockerReference :: string

record Image =
  DockerManifestDigest :: string

record Critical =
  crit_Identity :: Identity
  crit_Image :: Image
  crit_Type :: string

record 'ann SimpleContainerImage =
  sci_Critical :: Critical
  sci_Optional :: "'ann option"

text \<open>What the code asks of a \<open>name.Digest\<close>: \<open>Repository.Name()\<close> and \<open>DigestStr()\<close>.\<close>

record image_digest =
  Repository_Name :: string
  DigestStr :: string

record 'ann Cosign =
  cosign_Image :: image_digest
  ClaimedIdentity :: string
  Annotations :: "'ann option"

record 'ann payload_lib =
  json_Marshal :: "'ann SimpleContainerImage \<Rightarrow> bytes outcome"
  json_Unmarshal :: "bytes \<Rightarrow> 'ann SimpleContainerImage outcome"
  json_literal :: "bytes \<Rightarrow> bytes outcome"
  json_clean :: "'ann SimpleContainerImage \<Rightarrow> bool"
  NewDigest :: "string \<Rightarrow> image_digest outcome"

text \<open>
  \<open>json_literal\<close> is the syntax check \<open>json.Unmarshal\<close> does before it hands the value, without
  surrounding white space, to an \<open>UnmarshalJSON\<close> method.  JSON prints and parses the payloads
  \<open>json_clean\<close> holds of (valid UTF-8 strings, values JSON represents); a repository name and its
  digest parse back to themselves.
\<close>

definition payload_laws :: "'ann payload_lib \<Rightarrow> bool" where
  "payload_laws J \<longleftrightarrow>
     (\<forall>x b. json_clean J x \<longrightarrow> json_Marshal J x = Ret b \<longrightarrow>
        json_Unmarshal J b = Ret x \<and> json_literal J b = Ret b \<and> string_of b \<noteq> ''null'') \<and>
     (\<forall>s d. NewDigest J s = Ret d \<longrightarrow>
        NewDigest J (Repository_Name d @ ''@'' @ DigestStr d) = Ret d) \<and>
     (\<forall>r g d. NewDigest J (r @ ''@'' @ g) = Ret d \<longrightarrow> CHR ''@'' \<notin> set g \<longrightarrow> DigestStr d = g)"

section \<open>Payloads\<close>

definition Cosign_SimpleContainerImage :: "'ann Cosign \<Rightarrow> 'ann SimpleContainerImage" where
  "Cosign_SimpleContainerImage p =
     (let dockerReference = Repository_Name (cosign_Image p);
          dockerReference' = (if ClaimedIdentity p \<noteq> [] then ClaimedIdentity p else dockerReference)
      in \<lparr>sci_Critical = \<lparr>crit_Identity = \<lparr>DockerReference = dockerReference'\<rparr>,
            crit_Image = \<lparr>DockerManifestDigest = DigestStr (cosign_Image p)\<rparr>,
            crit_Type = CosignSignatureType\<rparr>,
          sci_Optional = Annotations p\<rparr>)"

definition Cosign_MarshalJSON :: "'ann payload_lib \<Rightarrow> 'ann Cosign \<Rightarrow> bytes outcome" where
  "Cosign_MarshalJSON J p = json_Marshal J (Cosign_SimpleContainerImage p)"

text \<open>The receiver is updated in place, so the method takes its old value.\<close>

definition Cosign_UnmarshalJSON :: "'ann payload_lib \<Rightarrow> 'ann Cosign \<Rightarrow> bytes \<Rightarrow> 'ann Cosign outcome" where
  "Cosign_UnmarshalJSON J p data =
     (if string_of data = ''null'' then Ret p
      else and_then (json_Unmarshal J data) (\<lambda>simple.
        if crit_Type (sci_Critical simple) \<noteq> CosignSignatureType
        then Err (Msg ''Cosign signature payload was of an unknown type'')
        else
          let digestStr = DockerReference (crit_Identity (sci_Critical simple)) @ ''@'' @
                DockerManifestDigest (crit_Image (sci_Critical simple))
          in and_then (wrap_outcome ''could not parse image digest string'' (NewDigest J digestStr)) (\<lambda>digest.
             Ret (p\<lparr>cosign_Image := digest,
                     ClaimedIdentity := DockerReference (crit_Identity (sci_Critical simple)),
                     Annotations := sci_Optional simple\<rparr>))))"

definition zero_Cosign :: "'ann Cosign" where
  "zero_Cosign = \<lparr>cosign_Image = \<lparr>Repository_Name = [], DigestStr = []\<rparr>, ClaimedIdentity = [], Annotations = None\<rparr>"

section \<open>Signing and verifying an image\<close>

definition SignImage ::
  "crypto_lib \<Rightarrow> 'ann payload_lib \<Rightarrow> any_signer_verifier \<Rightarrow> image_digest \<Rightarrow> 'ann option \<Rightarrow> (bytes \<times> bytes) go" where
  "SignImage L J signer img optionalAnnotations =
     (let imgPayload = \<lparr>cosign_Image = img, ClaimedIdentity = [], Annotations = optionalAnnotations\<rparr>
      in go_then (go_wrap ''failed to marshal payload to JSON'' (go_lift (Cosign_MarshalJSON J imgPayload))) (\<lambda>payload.
         go_then (go_wrap ''failed to sign payload''
             (go_then (NewReader payload) (\<lambda>r. SignMessage L (sv_signer signer) r []))) (\<lambda>signature.
         go_ret (payload, signature))))"

definition VerifyImageSignature ::
  "crypto_lib \<Rightarrow> 'ann payload_lib \<Rightarrow> any_signer_verifier \<Rightarrow> bytes \<Rightarrow> bytes \<Rightarrow> (image_digest \<times> 'ann option) go" where
  "VerifyImageSignature L J signer payload signature =
     go_then (go_wrap ''signature verification failed''
         (go_then (NewReader signature) (\<lambda>rs. go_then (NewReader payload) (\<lambda>rp.
            VerifySignature L (sv_verifier signer) rs rp [])))) (\<lambda>_.
     go_then (go_wrap ''could not deserialize image payload''
         (go_lift (and_then (json_literal J payload) (Cosign_UnmarshalJSON J zero_Cosign)))) (\<lambda>imgPayload.
     go_ret (cosign_Image imgPayload, Annotations imgPayload)))"

section \<open>Properties\<close>

text \<open>The payload a marshalled one parses to: the docker reference becomes the claimed identity.\<close>

lemma Cosign_roundtrip:
  assumes "payload_laws J" "json_clean J (Cosign_SimpleContainerImage p)" "Cosign_MarshalJSON J p = Ret b"
    and "NewDigest J (DockerReference (crit_Identity (sci_Critical (Cosign_SimpleContainerImage p))) @ ''@'' @
      DigestStr (cosign_Image p)) = Ret d"
  shows "Cosign_UnmarshalJSON J q b =
    Ret \<lparr>cosign_Image = d,
         ClaimedIdentity = DockerReference (crit_Identity (sci_Critical (Cosign_SimpleContainerImage p))),
         Annotations = Annotations p\<rparr>"
proof -
  have b: "json_Unmarshal J b = Ret (Cosign_SimpleContainerImage p)" "string_of b \<noteq> ''null''"
    using assms(1-3) by (auto simp: payload_laws_def Cosign_MarshalJSON_def)
  have "crit_Type (sci_Critical (Cosign_SimpleContainerImage p)) = CosignSignatureType"
    "DockerManifestDigest (crit_Image (sci_Critical (Cosign_SimpleContainerImage p))) = DigestStr (cosign_Image p)"
    "sci_Optional (Cosign_SimpleContainerImage p) = Annotations p"
    by (simp_all add: Cosign_SimpleContainerImage_def Let_def)
  with b assms(4) show ?thesis by (cases q) (simp add: Cosign_UnmarshalJSON_def)
qed

text \<open>The payload format is read back as written: unmarshalling the JSON of a Cosign payload
  yields the same manifest digest and annotations, and the claimed identity, or the repository
  name when none was claimed, as claimed identity.\<close>

theorem cosign_payload_roundtrip:
  assumes "payload_laws J" "json_clean J (Cosign_SimpleContainerImage p)" "Cosign_MarshalJSON J p = Ret b"
    and "CHR ''@'' \<notin> set (DigestStr (cosign_Image p))" "Cosign_UnmarshalJSON J q b = Ret p'"
  shows "DigestStr (cosign_Image p') = DigestStr (cosign_Image p) \<and> Annotations p' = Annotations p \<and>
    ClaimedIdentity p' = (if ClaimedIdentity p \<noteq> [] then ClaimedIdentity p else Repository_Name (cosign_Image p))"
proof -
  have b: "json_Unmarshal J b = Ret (Cosign_SimpleContainerImage p)" "string_of b \<noteq> ''null''"
    using assms(1-3) by (auto simp: payload_laws_def Cosign_MarshalJSON_def)
  with assms(5) obtain d where
    d: "NewDigest J (DockerReference (crit_Identity (sci_Critical (Cosign_SimpleContainerImage p))) @ ''@'' @
      DigestStr (cosign_Image p)) = Ret d"
    by (auto simp: Cosign_UnmarshalJSON_def Cosign_SimpleContainerImage_def Let_def outcome_simps split: if_splits)
  with assms(1,4) have "DigestStr d = DigestStr (cosign_Image p)" unfolding payload_laws_def by blast
  with Cosign_roundtrip [OF assms(1-3) d, of q] assms(5) show ?thesis
    by (auto simp: Cosign_SimpleContainerImage_def Let_def)
qed

text \<open>C30: what \<open>SignImage\<close> signs, \<open>VerifyImageSignature\<close> with the same signer-verifier accepts, and it
  returns the image and the annotations that were signed.\<close>

theorem image_signature_roundtrip:
  assumes "lib_laws L" "hashes_linked L" "good_private L key" "LoadSignerVerifierWithOpts key opts = Ret sv"
    and "payload_laws J" "NewDigest J ref0 = Ret img"
    and "json_clean J (Cosign_SimpleContainerImage \<lparr>cosign_Image = img, ClaimedIdentity = [], Annotations = ann\<rparr>)"
    and "SignImage L J sv img ann w = (Ret (payload, s), w1)"
  shows "fst (VerifyImageSignature L J sv payload s w1) = Ret (img, ann)"
proof -
  let ?p = "\<lparr>cosign_Image = img, ClaimedIdentity = [], Annotations = ann\<rparr>"
  from assms(8) have m: "Cosign_MarshalJSON J ?p = Ret payload"
    and sg: "go_then (NewReader payload) (\<lambda>r. SignMessage L (sv_signer sv) r []) w = (Ret s, w1)"
    by (auto simp: SignImage_def Let_def go_then_Ret_iff)
  have v: "fst (go_then (NewReader s) (\<lambda>rs. go_then (NewReader payload) (\<lambda>rm.
      VerifySignature L (sv_verifier sv) rs rm [])) w1) = Ret ()"
    using any.sign_bytes_accepted [OF LoadSignerVerifier_pair [OF assms(1-4)]
        sg [folded any.sign_bytes_def] same_msg_options_refl salt_stable_refl [of w1]]
    by (simp add: any.verify_bytes_def)
  then obtain w2 where "go_then (NewReader s) (\<lambda>rs. go_then (NewReader payload) (\<lambda>rm.
      VerifySignature L (sv_verifier sv) rs rm [])) w1 = (Ret (), w2)" by (metis prod.collapse)
  moreover have "NewDigest J (Repository_Name img @ ''@'' @ DigestStr img) = Ret img"
    using assms(5,6) unfolding payload_laws_def by blast
  then have "Cosign_UnmarshalJSON J zero_Cosign payload =
      Ret \<lparr>cosign_Image = img, ClaimedIdentity = Repository_Name img, Annotations = ann\<rparr>"
    using Cosign_roundtrip [OF assms(5,7) m, of img zero_Cosign]
    by (simp add: Cosign_SimpleContainerImage_def Let_def)
  moreover have "json_literal J payload = Ret payload"
    using m assms(5,7) by (auto simp: payload_laws_def Cosign_MarshalJSON_def)
  ultimately show ?thesis by (simp add: VerifyImageSignature_def go_then_def go_wrap_def)
qed

section \<open>A reference instance and witnesses\<close>

text \<open>Fields separated by zero bytes, an annotation number in unary; repository and digest are
  separated by the only at sign.\<close>

definition ref_sci :: "string \<Rightarrow> string \<Rightarrow> string \<Rightarrow> nat option \<Rightarrow> nat SimpleContainerImage" where
  "ref_sci r g t a = \<lparr>sci_Critical = \<lparr>crit_Identity = \<lparr>DockerReference = r\<rparr>,
     crit_Image = \<lparr>DockerManifestDigest = g\<rparr>, crit_Type = t\<rparr>, sci_Optional = a\<rparr>"

definition ref_payload :: "nat payload_lib" where
  "ref_payload = \<lparr>
     json_Marshal = (\<lambda>x. Ret (bytes_of (DockerReference (crit_Identity (sci_Critical x))) @ 0 #
       bytes_of (DockerManifestDigest (crit_Image (sci_Critical x))) @ 0 #
       bytes_of (crit_Type (sci_Critical x)) @ 0 #
       (case sci_Optional x of None \<Rightarrow> [] | Some n \<Rightarrow> replicate (Suc n) 1))),
     json_Unmarshal = (\<lambda>b. case split_on 0 b of
         [r, g, t, a] \<Rightarrow> Ret (ref_sci (string_of r) (string_of g) (string_of t)
           (if a = [] then None else Some (length a - 1)))
       | _ \<Rightarrow> Err (Msg ''json'')),
     json_literal = Ret,
     json_clean = (\<lambda>x. 0 \<notin> set (bytes_of (DockerReference (crit_Identity (sci_Critical x)))) \<and>
       0 \<notin> set (bytes_of (DockerManifestDigest (crit_Image (sci_Critical x)))) \<and>
       0 \<notin> set (bytes_of (crit_Type (sci_Critical x)))),
     NewDigest = (\<lambda>s. case split_on CHR ''@'' s of
         [r, g] \<Rightarrow> Ret \<lparr>Repository_Name = r, DigestStr = g\<rparr>
       | _ \<Rightarrow> Err (Msg ''a digest must contain exactly one separator''))\<rparr>"

lemma ref_payload_json:
  assumes "json_clean ref_payload x" "json_Marshal ref_payload x = Ret b"
  shows "json_Unmarshal ref_payload b = Ret x" "string_of b \<noteq> ''null''"
proof -
  have z: "0 \<in> set b" using assms(2) by (auto simp: ref_payload_def)
  have "split_on 0 b = [bytes_of (DockerReference (crit_Identity (sci_Critical x))),
      bytes_of (DockerManifestDigest (crit_Image (sci_Critical x))), bytes_of (crit_Type (sci_Critical x)),
      case sci_Optional x of None \<Rightarrow> [] | Some n \<Rightarrow> replicate (Suc n) 1]"
    using assms by (auto simp: ref_payload_def split_on_append split: option.splits)
  then show "json_Unmarshal ref_payload b = Ret x"
    by (cases x) (auto simp: ref_payload_def ref_sci_def split: option.splits)
  show "string_of b \<noteq> ''null''"
  proof
    assume "string_of b = ''null''"
    then have "b = bytes_of ''null''" by (metis bytes_of_string_of)
    also have "\<dots> = [110, 117, 108, 108]" by (simp add: bytes_of_def)
    finally show False using z by simp
  qed
qed

lemma ref_payload_NewDigest:
  "NewDigest ref_payload s = Ret d \<longleftrightarrow> split_on CHR ''@'' s = [Repository_Name d, DigestStr d]"
  by (cases d) (auto simp: ref_payload_def split: list.splits)

lemma ref_payload_laws [simp]: "payload_laws ref_payload"
proof -
  have 1: "json_literal ref_payload b = Ret b" for b by (simp add: ref_payload_def)
  have 2: "NewDigest ref_payload (Repository_Name d @ ''@'' @ DigestStr d) = Ret d"
    if "NewDigest ref_payload s = Ret d" for s d
  proof -
    have "split_on CHR ''@'' s = [Repository_Name d, DigestStr d]" using that by (simp add: ref_payload_NewDigest)
    then have "CHR ''@'' \<notin> set (Repository_Name d)" "CHR ''@'' \<notin> set (DigestStr d)"
      using split_on_no_sep [of _ "CHR ''@''" s] by auto
    then show ?thesis by (simp add: ref_payload_NewDigest split_on_append)
  qed
  have 3: "DigestStr d = g" if "NewDigest ref_payload (r @ ''@'' @ g) = Ret d" "CHR ''@'' \<notin> set g" for r g d
    using that by (auto simp: ref_payload_NewDigest split_on_append_all Cons_eq_append_conv append_eq_Cons_conv)
  show ?thesis using 1 2 3 ref_payload_json unfolding payload_laws_def by blast
qed

lemma json_clean_ref:
  "json_clean ref_payload (Cosign_SimpleContainerImage \<lparr>cosign_Image = \<lparr>Repository_Name = ''r'', DigestStr = ''g''\<rparr>,
     ClaimedIdentity = [], Annotations = a\<rparr>)"
  by (simp add: ref_payload_def Cosign_SimpleContainerImage_def bytes_of_def CosignSignatureType_def)

theorem cosign_payload_roundtrip_witness:
  "\<exists>b. Cosign_MarshalJSON ref_payload \<lparr>cosign_Image = \<lparr>Repository_Name = ''r'', DigestStr = ''g''\<rparr>,
     ClaimedIdentity = [], Annotations = Some 3\<rparr> = Ret b \<and>
   (\<forall>p'. Cosign_UnmarshalJSON ref_payload zero_Cosign b = Ret p' \<longrightarrow>
     DigestStr (cosign_Image p') = ''g'' \<and> Annotations p' = Some 3 \<and> ClaimedIdentity p' = ''r'')"
proof -
  let ?p = "\<lparr>cosign_Image = \<lparr>Repository_Name = ''r'', DigestStr = ''g''\<rparr>, ClaimedIdentity = [], Annotations = Some 3\<rparr>"
  obtain b where b: "Cosign_MarshalJSON ref_payload ?p = Ret b"
    by (auto simp: Cosign_MarshalJSON_def ref_payload_def)
  then show ?thesis
    using cosign_payload_roundtrip [OF ref_payload_laws json_clean_ref b, of zero_Cosign] by auto
qed

theorem image_signature_roundtrip_witness:
  "\<exists>payload s w1. SignImage ref_lib ref_payload (Ed25519_sv \<lparr>dsv_signer = \<lparr>ds_priv = Some (replicate 64 7)\<rparr>,
       dsv_verifier = \<lparr>dv_publicKey = Some (replicate 32 7)\<rparr>\<rparr>) \<lparr>Repository_Name = ''r'', DigestStr = ''g''\<rparr> None
       (two_readers [] []) = (Ret (payload, s), w1) \<and>
     fst (VerifyImageSignature ref_lib ref_payload (Ed25519_sv \<lparr>dsv_signer = \<lparr>ds_priv = Some (replicate 64 7)\<rparr>,
       dsv_verifier = \<lparr>dv_publicKey = Some (replicate 32 7)\<rparr>\<rparr>) payload s w1) =
       Ret (\<lparr>Repository_Name = ''r'', DigestStr = ''g''\<rparr>, None)"
proof -
  let ?key = "Ed25519_private (Some (replicate 64 7))"
  let ?sv = "Ed25519_sv \<lparr>dsv_signer = \<lparr>ds_priv = Some (replicate 64 7)\<rparr>,
       dsv_verifier = \<lparr>dv_publicKey = Some (replicate 32 7)\<rparr>\<rparr>"
  let ?i = "\<lparr>Repository_Name = ''r'', DigestStr = ''g''\<rparr>"
  let ?p = "\<lparr>cosign_Image = ?i, ClaimedIdentity = [], Annotations = None\<rparr> :: nat Cosign"
  have l: "LoadSignerVerifierWithOpts ?key [] = Ret ?sv"
    by (simp add: LoadSignerVerifierWithOpts_def load_options_def load_defs ed25519_Public_64)
  have h: "hashes_linked ref_lib" "good_private ref_lib ?key"
    by (simp_all add: ref_lib_def hashes_linked_def good_private_def ed25519_pair_def)
  obtain b where b: "Cosign_MarshalJSON ref_payload ?p = Ret b"
    by (auto simp: Cosign_MarshalJSON_def ref_payload_def)
  define w0 where "w0 = snd (NewReader b (two_readers [] []))"
  have r: "NewReader b (two_readers [] []) = (Ret (Some 2), w0)"
    by (simp add: w0_def NewReader_def two_readers_def)
  have d: "delivers w0 (Some 2) b" by (simp add: w0_def NewReader_def two_readers_def delivers_def)
  have "ComputeDigestForSigning ref_lib (Some 2) NoHash (Some ed25519SupportedHashFuncs) [] w0 = (Ret (b, NoHash), drain (Some 2) w0)"
    using ComputeDigest_plain [OF d, of NoHash "Some ed25519SupportedHashFuncs" ref_lib]
    by (simp add: ed25519SupportedHashFuncs_def)
  then have s: "SignImage ref_lib ref_payload ?sv ?i None (two_readers [] []) = (Ret (b, 3 # b), drain (Some 2) w0)"
    by (simp add: SignImage_def Let_def b go_then_def go_wrap_def r SignMessage_def sv_signer_def
        ED25519Signer_SignMessage_def call_ed25519_Sign_def) (simp add: ref_lib_def)
  have n: "NewDigest ref_payload ''r@g'' = Ret ?i" by (simp add: ref_payload_NewDigest)
  from image_signature_roundtrip [OF ref_lib_laws h l ref_payload_laws n json_clean_ref s] s
  show ?thesis by blast
qed

end
