(* ===== verification/TufTypes.thy ===== *)
theory TufTypes
  imports Prelude
begin

text \<open>
  \<open>pkg/tuf/usage_type.go\<close> and \<open>status_type.go\<close>: the two enumerations of the custom target metadata and
  their text form.  In Go both are \<open>int\<close>, so a value outside the constants exists and has no text.
\<close>

type_synonym UsageKind = int
type_synonym StatusKind = int

definition UnknownUsage :: UsageKind where "UnknownUsage = 0"
definition Fulcio :: UsageKind where "Fulcio = 1"
definition Rekor :: UsageKind where "Rekor = 2"
definition CTFE :: UsageKind where "CTFE = 3"
definition TSA :: UsageKind where "TSA = 4"

definition UnknownStatus :: StatusKind where "UnknownStatus = 0"
definition Active :: StatusKind where "Active = 1"
definition Expired :: StatusKind where "Expired = 2"

lemmas usage_defs = UnknownUsage_def Fulcio_def Rekor_def CTFE_def TSA_def
lemmas status_defs = UnknownStatus_def Active_def Expired_def

text \<open>
  \<open>strings.ToLower\<close> as far as the ASCII letters of the result go: the upper-case letters, the Kelvin
  sign (lower case k) and the capital I with a dot (lower case i) are the runes whose lower case is
  ASCII; every other non-ASCII byte is left alone and so stays outside ASCII.
\<close>

fun ToLower :: "string \<Rightarrow> string" where
  "ToLower [] = []"
| "ToLower (c # s) =
     (if HasPrefix (c # s) [CHR 0xE2, CHR 0x84, CHR 0xAA] then CHR ''k'' # ToLower (drop 2 s)
      else if HasPrefix (c # s) [CHR 0xC4, CHR 0xB0] then CHR ''i'' # ToLower (drop 1 s)
      else (if of_char c \<ge> (65 :: nat) \<and> of_char c \<le> (90 :: nat) then char_of (of_char c + 32 :: nat) else c) # ToLower s)"

section \<open>Usage\<close>

definition toUsageString :: "UsageKind \<Rightarrow> string option" where
  "toUsageString = [UnknownUsage \<mapsto> ''Unknown'', Fulcio \<mapsto> ''Fulcio'', Rekor \<mapsto> ''Rekor'', CTFE \<mapsto> ''CTFE'', TSA \<mapsto> ''TSA'']"

text \<open>Reading a key a map does not have gives the empty string.\<close>

definition UsageKind_String :: "UsageKind \<Rightarrow> string" where
  "UsageKind_String u = (case toUsageString u of Some s \<Rightarrow> s | None \<Rightarrow> [])"

definition UsageKind_MarshalText :: "UsageKind \<Rightarrow> bytes outcome" where
  "UsageKind_MarshalText u =
     (let str = UsageKind_String u
      in if length str = 0 then Err (Msg ''error while marshalling, UsageKind not valid'')
         else Ret (bytes_of (UsageKind_String u)))"

definition UsageKind_UnmarshalText :: "bytes \<Rightarrow> UsageKind outcome" where
  "UsageKind_UnmarshalText text =
     (let s = ToLower (string_of text)
      in if s = ''unknown'' then Ret UnknownUsage
         else if s = ''fulcio'' then Ret Fulcio
         else if s = ''rekor'' then Ret Rekor
         else if s = ''ctfe'' then Ret CTFE
         else if s = ''tsa'' then Ret TSA
         else Err (Msg ''error while unmarshalling, UsageKind not valid''))"

section \<open>Status\<close>

definition toStatusString :: "StatusKind \<Rightarrow> string option" where
  "toStatusString = [UnknownStatus \<mapsto> ''Unknown'', Active \<mapsto> ''Active'', Expired \<mapsto> ''Expired'']"

definition StatusKind_String :: "StatusKind \<Rightarrow> string" where
  "StatusKind_String s = (case toStatusString s of Some t \<Rightarrow> t | None \<Rightarrow> [])"

definition StatusKind_MarshalText :: "StatusKind \<Rightarrow> bytes outcome" where
  "StatusKind_MarshalText s =
     (let str = StatusKind_String s
      in if length str = 0 then Err (Msg ''error while marshalling, StatusKind not valid'')
         else Ret (bytes_of (StatusKind_String s)))"

definition StatusKind_UnmarshalText :: "bytes \<Rightarrow> StatusKind outcome" where
  "StatusKind_UnmarshalText text =
     (let s = ToLower (string_of text)
      in if s = ''unknown'' then Ret UnknownStatus
         else if s = ''active'' then Ret Active
         else if s = ''expired'' then Ret Expired
         else Err (Msg ''error while unmarshalling, StatusKind not valid''))"

section \<open>Text forms\<close>

text \<open>
  The contract of a type with a text form: what marshals, unmarshals to the same value, and the
  values the unmarshaller yields are those that marshal.
\<close>

locale text_form =
  fixes marshal :: "'v \<Rightarrow> bytes outcome"
    and unmarshal :: "bytes \<Rightarrow> 'v outcome"
  assumes marshal_unmarshal: "marshal v = Ret b \<Longrightarrow> unmarshal b = Ret v"
    and unmarshal_marshals: "unmarshal b = Ret v \<Longrightarrow> \<exists>b'. marshal v = Ret b'"
begin

lemma marshal_inj: "marshal v = Ret b \<Longrightarrow> marshal v' = Ret b \<Longrightarrow> v = v'"
  using marshal_unmarshal by (metis outcome.inject(1))

lemma canonical: "unmarshal b = Ret v \<Longrightarrow> \<exists>b'. marshal v = Ret b' \<and> unmarshal b' = Ret v"
  using unmarshal_marshals marshal_unmarshal by blast

end

interpretation usage_text: text_form UsageKind_MarshalText UsageKind_UnmarshalText
  by unfold_locales
    (auto simp: UsageKind_MarshalText_def UsageKind_UnmarshalText_def UsageKind_String_def toUsageString_def
      usage_defs Let_def HasPrefix_def char_of_def bit_Suc_0_iff split: if_splits)

interpretation status_text: text_form StatusKind_MarshalText StatusKind_UnmarshalText
  by unfold_locales
    (auto simp: StatusKind_MarshalText_def StatusKind_UnmarshalText_def StatusKind_String_def toStatusString_def
      status_defs Let_def HasPrefix_def char_of_def bit_Suc_0_iff split: if_splits)

section \<open>Properties\<close>

text \<open>The text form of a usage or a status is read back as the same value, and exactly the
  values with a text form are ever read.\<close>

theorem kind_text_roundtrip:
  "((\<exists>b. UsageKind_MarshalText u = Ret b \<and> UsageKind_UnmarshalText b = Ret u) = (0 \<le> u \<and> u \<le> 4)) \<and>
   ((\<exists>b. UsageKind_UnmarshalText b = Ret u) = (0 \<le> u \<and> u \<le> 4)) \<and>
   ((\<exists>b. StatusKind_MarshalText s = Ret b \<and> StatusKind_UnmarshalText b = Ret s) = (0 \<le> s \<and> s \<le> 2)) \<and>
   ((\<exists>b. StatusKind_UnmarshalText b = Ret s) = (0 \<le> s \<and> s \<le> 2))"
proof -
  have u: "(\<exists>b. UsageKind_MarshalText u = Ret b) = (0 \<le> u \<and> u \<le> 4)"
    by (auto simp: UsageKind_MarshalText_def UsageKind_String_def toUsageString_def usage_defs Let_def)
  have s: "(\<exists>b. StatusKind_MarshalText s = Ret b) = (0 \<le> s \<and> s \<le> 2)"
    by (auto simp: StatusKind_MarshalText_def StatusKind_String_def toStatusString_def status_defs Let_def)
  have "(\<exists>b. UsageKind_MarshalText u = Ret b \<and> UsageKind_UnmarshalText b = Ret u) = (0 \<le> u \<and> u \<le> 4)"
    "(\<exists>b. UsageKind_UnmarshalText b = Ret u) = (0 \<le> u \<and> u \<le> 4)"
    using u usage_text.marshal_unmarshal usage_text.unmarshal_marshals by blast+
  moreover have "(\<exists>b. StatusKind_MarshalText s = Ret b \<and> StatusKind_UnmarshalText b = Ret s) = (0 \<le> s \<and> s \<le> 2)"
    "(\<exists>b. StatusKind_UnmarshalText b = Ret s) = (0 \<le> s \<and> s \<le> 2)"
    using s status_text.marshal_unmarshal status_text.unmarshal_marshals by blast+
  ultimately show ?thesis by blast
qed

end
