(* ===== verification/Tuf.thy ===== *)
theory Tuf
  imports TufTypes Paths "HOL-Library.AList"
begin

text \<open>
  \<open>pkg/tuf/client.go\<close>: the client of sigstore's TUF repository.  The state is the process (environment
  variables, the singleton and its error), the disk (files and the metadata database) and the TUF
  object with its caches.  The go-tuf client, its metadata checks and JSON are parameters
  (\<open>tuf_lib\<close>); a map that is ranged over is an association list in the order of the iteration.
\<close>

section \<open>Parameters\<close>

record file_meta =
  fm_Length :: nat
  fm_Hashes :: "(string \<times> bytes) list"
  fm_Custom :: "bytes option"

type_synonym meta_store = "(string \<times> bytes) list"
type_synonym target_files = "(string \<times> file_meta) list"

datatype remote = HTTP_remote string | File_remote string

text \<open>A client is a value \<open>'c\<close> that includes what the remote repository will answer; it works on the
  local metadata store.\<close>

record 'c tuf_lib =
  NewClient :: "remote \<Rightarrow> 'c"
  client_Init :: "bytes \<Rightarrow> 'c \<times> meta_store \<Rightarrow> unit outcome \<times> 'c \<times> meta_store"
  client_Update :: "'c \<times> meta_store \<Rightarrow> target_files outcome \<times> 'c \<times> meta_store"
  client_Targets :: "'c \<times> meta_store \<Rightarrow> target_files outcome \<times> 'c \<times> meta_store"
  client_Target :: "string \<Rightarrow> 'c \<times> meta_store \<Rightarrow> file_meta outcome \<times> 'c \<times> meta_store"
  client_Download :: "string \<Rightarrow> 'c \<times> meta_store \<Rightarrow> bytes outcome \<times> 'c \<times> meta_store"
  GenerateTargetFileMeta :: "bytes \<Rightarrow> file_meta outcome"
  TargetFileMetaEqual :: "file_meta \<Rightarrow> file_meta \<Rightarrow> unit outcome"
  parse_signed :: "bytes \<Rightarrow> (int \<times> int) outcome"
  parse_custom :: "bytes \<Rightarrow> (bytes option \<times> bytes option \<times> string) outcome"
  ParseRequestURI :: "string \<Rightarrow> (string \<times> string) outcome"
  HTTPRemoteStore :: "string \<Rightarrow> unit outcome"
  NewFileRemoteStore :: "string \<Rightarrow> unit outcome"
  remote_Marshal :: "string \<Rightarrow> bytes outcome"
  remote_Unmarshal :: "bytes \<Rightarrow> string outcome"
  format_time :: "int \<Rightarrow> string"

section \<open>State\<close>

record file_system =
  fs_files :: "string \<Rightarrow> bytes option"
  fs_mkdir_error :: "string \<Rightarrow> goerr option"
  fs_write_error :: "string \<Rightarrow> goerr option"

text \<open>The in-memory target cache; \<open>None\<close> is the nil map.\<close>

record memoryCache =
  mc_targets :: "(string \<Rightarrow> bytes option) option"

record diskCache =
  dc_base :: string
  dc_memory :: memoryCache

datatype targetImpl = MemoryImpl memoryCache | DiskImpl diskCache

text \<open>An \<open>fs.FS\<close> that implements \<open>ReadFileFS\<close> is a function from paths; \<open>None\<close> is one that does not.\<close>

type_synonym embedded_fs = "(string \<Rightarrow> bytes outcome) option"

record 'c TUF =
  tuf_mirror :: string
  tuf_embedded :: embedded_fs
  tuf_targets :: targetImpl
  tuf_local :: meta_store
  tuf_client :: 'c

record 'c tuf_world =
  env_TUF_ROOT :: string
  env_SIGSTORE_NO_CACHE :: string
  user_home :: "string outcome"
  goos :: string
  now :: int
  disk :: file_system
  databases :: "string \<Rightarrow> meta_store"
  db_open_error :: "string \<Rightarrow> goerr option"
  db_get_error :: "string \<Rightarrow> goerr option"
  db_set_error :: "string \<Rightarrow> goerr option"
  once_done :: bool
  singletonTUFErr :: "goerr option"
  singletonTUF :: "'c TUF option"

section \<open>Constants and environment\<close>

definition DefaultRemoteRoot :: string where
  "DefaultRemoteRoot = ''https://tuf-repo-cdn.sigstore.dev''"
definition defaultRemoteGCSBucket :: string where
  "defaultRemoteGCSBucket = ''sigstore-tuf-root''"
definition defaultRemoteRootNoCDN :: string where
  "defaultRemoteRootNoCDN = ''https://sigstore-tuf-root.storage.googleapis.com''"
definition defaultRemoteRootNoCDNAlt :: string where
  "defaultRemoteRootNoCDNAlt = ''https://storage.googleapis.com/sigstore-tuf-root''"

definition getRemoteRoot :: string where
  "getRemoteRoot = DefaultRemoteRoot"

text \<open>\<open>strconv.ParseBool\<close>; \<open>None\<close> is its error.\<close>

definition ParseBool :: "string \<Rightarrow> bool option" where
  "ParseBool s =
     (if s \<in> set [''1'', ''t'', ''T'', ''TRUE'', ''true'', ''True''] then Some True
      else if s \<in> set [''0'', ''f'', ''F'', ''FALSE'', ''false'', ''False''] then Some False
      else None)"

definition noCache :: "('c, 'x) tuf_world_scheme \<Rightarrow> bool" where
  "noCache w = (case ParseBool (env_SIGSTORE_NO_CACHE w) of None \<Rightarrow> False | Some b \<Rightarrow> b)"

definition rootCacheDir :: "('c, 'x) tuf_world_scheme \<Rightarrow> string" where
  "rootCacheDir w =
     (if env_TUF_ROOT w = [] then
        let home = (case user_home w of Ret h \<Rightarrow> h | _ \<Rightarrow> [])
        in path_Join [home, ''.sigstore'', ''root'']
      else env_TUF_ROOT w)"

definition cachedRemote :: "string \<Rightarrow> string" where
  "cachedRemote cacheRoot = path_Join [cacheRoot, ''remote.json'']"

definition cachedTargetsDir :: "string \<Rightarrow> string" where
  "cachedTargetsDir cacheRoot = path_Join [cacheRoot, ''targets'']"

definition tufDB :: "('c, 'x) tuf_world_scheme \<Rightarrow> string" where
  "tufDB w = path_Join [rootCacheDir w, ''tuf.db'']"

text \<open>The switch of the method \<open>Mirror\<close>, on the field it reads.\<close>

definition mirror_url :: "string \<Rightarrow> string" where
  "mirror_url mirror =
     (if mirror \<in> set [defaultRemoteGCSBucket, defaultRemoteRootNoCDN, defaultRemoteRootNoCDNAlt]
      then DefaultRemoteRoot else mirror)"

definition TUF_Mirror :: "'c TUF \<Rightarrow> string" where
  "TUF_Mirror t = mirror_url (tuf_mirror t)"

section \<open>Target caches\<close>

definition os_ReadFile :: "file_system \<Rightarrow> string \<Rightarrow> bytes outcome" where
  "os_ReadFile d p = (case fs_files d p of Some b \<Rightarrow> Ret b | None \<Rightarrow> Err (Msg ''no such file or directory''))"

definition os_WriteFile :: "string \<Rightarrow> bytes \<Rightarrow> (file_system, unit) step" where
  "os_WriteFile p b d = (case fs_write_error d p of
       Some e \<Rightarrow> (Err e, d)
     | None \<Rightarrow> (Ret (), d\<lparr>fs_files := (fs_files d)(p := Some b)\<rparr>))"

definition os_MkdirAll :: "string \<Rightarrow> (file_system, unit) step" where
  "os_MkdirAll p d = (case fs_mkdir_error d p of Some e \<Rightarrow> (Err e, d) | None \<Rightarrow> (Ret (), d))"

definition memoryCache_Set :: "memoryCache \<Rightarrow> string \<Rightarrow> bytes \<Rightarrow> memoryCache" where
  "memoryCache_Set m p b =
     (let targets = (case mc_targets m of None \<Rightarrow> Map.empty | Some x \<Rightarrow> x)
      in m\<lparr>mc_targets := Some (targets(p \<mapsto> b))\<rparr>)"

definition memoryCache_Get :: "memoryCache \<Rightarrow> string \<Rightarrow> bytes outcome" where
  "memoryCache_Get m p = (case mc_targets m of
       None \<Rightarrow> Err (Msg ''no cached targets available'')
     | Some targets \<Rightarrow> (case targets p of None \<Rightarrow> Err (Msg ''missing cached target'') | Some b \<Rightarrow> Ret b))"

definition diskCache_Get :: "diskCache \<Rightarrow> file_system \<Rightarrow> string \<Rightarrow> bytes outcome" where
  "diskCache_Get d fs p = (case memoryCache_Get (dc_memory d) p of
       Ret b \<Rightarrow> Ret b
     | _ \<Rightarrow> os_ReadFile fs (path_Join [dc_base d, p]))"

definition diskCache_Set :: "diskCache \<Rightarrow> string \<Rightarrow> bytes \<Rightarrow> file_system \<Rightarrow> unit outcome \<times> diskCache \<times> file_system" where
  "diskCache_Set d p b fs =
     (let d' = d\<lparr>dc_memory := memoryCache_Set (dc_memory d) p b\<rparr>;
          fp = path_Join [dc_base d, p]
      in case go_then (go_wrap ''creating targets dir'' (os_MkdirAll (path_Dir fp))) (\<lambda>_. os_WriteFile fp b) fs of
           (x, fs') \<Rightarrow> (x, d', fs'))"

definition targets_Get :: "targetImpl \<times> file_system \<Rightarrow> string \<Rightarrow> bytes outcome" where
  "targets_Get s p = (case fst s of
       MemoryImpl m \<Rightarrow> memoryCache_Get m p
     | DiskImpl d \<Rightarrow> diskCache_Get d (snd s) p)"

definition targets_Set :: "string \<Rightarrow> bytes \<Rightarrow> (targetImpl \<times> file_system, unit) step" where
  "targets_Set p b s = (case fst s of
       MemoryImpl m \<Rightarrow> (Ret (), MemoryImpl (memoryCache_Set m p b), snd s)
     | DiskImpl d \<Rightarrow> (case diskCache_Set d p b (snd s) of (x, d', fs') \<Rightarrow> (x, DiskImpl d', fs')))"

definition newFileImpl :: "('c, 'x) tuf_world_scheme \<Rightarrow> targetImpl" where
  "newFileImpl w =
     (let memTargets = \<lparr>mc_targets = None\<rparr>
      in if noCache w then MemoryImpl memTargets
         else DiskImpl \<lparr>dc_base = cachedTargetsDir (rootCacheDir w), dc_memory = memTargets\<rparr>)"

section \<open>Metadata\<close>

definition getExpiration :: "'c tuf_lib \<Rightarrow> bytes \<Rightarrow> int outcome" where
  "getExpiration T metadata = and_then (parse_signed T metadata) (\<lambda>sm. Ret (fst sm))"

definition getVersion :: "'c tuf_lib \<Rightarrow> bytes \<Rightarrow> int outcome" where
  "getVersion T metadata = and_then (parse_signed T metadata) (\<lambda>sm. Ret (snd sm))"

definition isExpiredTimestamp :: "'c tuf_lib \<Rightarrow> int \<Rightarrow> bytes \<Rightarrow> bool" where
  "isExpiredTimestamp T t metadata = (case getExpiration T metadata of
       Ret expiration \<Rightarrow> expiration - t \<le> 0
     | _ \<Rightarrow> True)"

record MetadataStatus =
  ms_Version :: int
  ms_Size :: nat
  ms_Expiration :: string
  ms_Error :: "goerr option"

definition getMetadataStatus :: "'c tuf_lib \<Rightarrow> bytes \<Rightarrow> MetadataStatus outcome" where
  "getMetadataStatus T b =
     and_then (getExpiration T b) (\<lambda>expires.
     and_then (getVersion T b) (\<lambda>version.
     Ret \<lparr>ms_Version = version, ms_Size = length b, ms_Expiration = format_time T expires, ms_Error = None\<rparr>))"

record RootStatus =
  rs_Local :: string
  rs_Remote :: string
  rs_Metadata :: "(string \<times> MetadataStatus) list"
  rs_Targets :: "string list"

definition getRoot :: "meta_store \<Rightarrow> embedded_fs \<Rightarrow> bytes outcome" where
  "getRoot meta fallback = (case map_of meta ''root.json'' of
       Some trustedRoot \<Rightarrow> Ret trustedRoot
     | None \<Rightarrow> (case fallback of
           None \<Rightarrow> Err (Msg ''fs.ReadFileFS unimplemented for embedded repo'')
         | Some rd \<Rightarrow> rd (path_Join [''repository'', ''root.json''])))"

text \<open>Copying metadata into a store whose \<open>SetMeta\<close> may fail.\<close>

fun sync_loop :: "(string \<Rightarrow> goerr option) \<Rightarrow> meta_store \<Rightarrow> meta_store \<Rightarrow> unit outcome \<times> meta_store" where
  "sync_loop fails [] dest = (Ret (), dest)"
| "sync_loop fails ((k, v) # m) dest = (case fails k of
       Some e \<Rightarrow> (Err (Msg ''syncing local store for metadata''), dest)
     | None \<Rightarrow> sync_loop fails m (AList.update k v dest))"

text \<open>Copying may already fail at \<open>GetMeta\<close> of the source; a store in memory never does.\<close>

definition syncLocalMeta ::
  "goerr option \<Rightarrow> (string \<Rightarrow> goerr option) \<Rightarrow> meta_store \<Rightarrow> meta_store \<Rightarrow> unit outcome \<times> meta_store" where
  "syncLocalMeta get_error fails src dest = (case get_error of
       Some e \<Rightarrow> (Err (Wrap ''getting metadata to sync'' e), dest)
     | None \<Rightarrow> sync_loop fails src dest)"

definition newLocalStore :: "('c, 'x) tuf_world_scheme \<Rightarrow> meta_store outcome" where
  "newLocalStore w =
     (if noCache w then Ret []
      else (case db_open_error w (tufDB w) of
          Some e \<Rightarrow> Err (Wrap ''creating cached local store'' e)
        | None \<Rightarrow> (case syncLocalMeta (db_get_error w (tufDB w)) (\<lambda>_. None) (databases w (tufDB w)) [] of
              (Ret _, local) \<Rightarrow> Ret local
            | (Err e, _) \<Rightarrow> Err e
            | (Panic p, _) \<Rightarrow> Panic p)))"

definition remoteFromMirror :: "'c tuf_lib \<Rightarrow> string \<Rightarrow> remote outcome" where
  "remoteFromMirror T mirror = (case ParseRequestURI T mirror of
       Ret (scheme, path) \<Rightarrow>
         if scheme \<noteq> ''file'' then and_then (HTTPRemoteStore T mirror) (\<lambda>_. Ret (HTTP_remote mirror))
         else and_then (NewFileRemoteStore T path) (\<lambda>_. Ret (File_remote path))
     | _ \<Rightarrow>
         let u = ''https://'' @ mirror @ ''.storage.googleapis.com''
         in and_then (HTTPRemoteStore T u) (\<lambda>_. Ret (HTTP_remote u)))"

section \<open>Methods of the TUF object\<close>

text \<open>A method works on the object and the rest of the world.\<close>

type_synonym 'c tuf_state = "'c TUF \<times> 'c tuf_world"

definition on_client :: "('c \<times> meta_store \<Rightarrow> 'a outcome \<times> 'c \<times> meta_store) \<Rightarrow> ('c tuf_state, 'a) step" where
  "on_client f s = (case f (tuf_client (fst s), tuf_local (fst s)) of
       (x, c, m) \<Rightarrow> (x, (fst s)\<lparr>tuf_client := c, tuf_local := m\<rparr>, snd s))"

definition cache_Get :: "'c tuf_state \<Rightarrow> string \<Rightarrow> bytes outcome" where
  "cache_Get s p = targets_Get (tuf_targets (fst s), disk (snd s)) p"

definition cache_Set :: "string \<Rightarrow> bytes \<Rightarrow> ('c tuf_state, unit) step" where
  "cache_Set p b s = (case targets_Set p b (tuf_targets (fst s), disk (snd s)) of
       (x, i, fs) \<Rightarrow> (x, (fst s)\<lparr>tuf_targets := i\<rparr>, (snd s)\<lparr>disk := fs\<rparr>))"

definition isValidTarget :: "'c tuf_lib \<Rightarrow> bytes \<Rightarrow> file_meta \<Rightarrow> bool outcome" where
  "isValidTarget T testTarget validMeta =
     and_then (GenerateTargetFileMeta T testTarget) (\<lambda>localMeta.
     and_then (TargetFileMetaEqual T localMeta validMeta) (\<lambda>_. Ret True))"

definition GetTarget :: "'c tuf_lib \<Rightarrow> string \<Rightarrow> ('c tuf_state, bytes) step" where
  "GetTarget T name =
     go_then (go_wrap ''error verifying local metadata; local cache may be corrupt'' (on_client (client_Target T name))) (\<lambda>validMeta.
     go_then (\<lambda>s. (cache_Get s name, s)) (\<lambda>targetBytes.
     go_then (go_wrap ''cache contains invalid target; local cache may be corrupt'' (go_lift (isValidTarget T targetBytes validMeta))) (\<lambda>valid.
     go_ret targetBytes)))"

record TargetFile =
  tf_Name :: string
  tf_Target :: bytes
  tf_Status :: StatusKind

text \<open>Decoding the custom metadata: a field that is absent keeps the zero value, a present one is
  unmarshalled from its text.\<close>

definition customMetadata :: "'c tuf_lib \<Rightarrow> bytes \<Rightarrow> (UsageKind \<times> StatusKind) outcome" where
  "customMetadata T b =
     and_then (parse_custom T b) (\<lambda>(usage, status, uri).
     and_then (case usage of None \<Rightarrow> Ret UnknownUsage | Some x \<Rightarrow> UsageKind_UnmarshalText x) (\<lambda>u.
     and_then (case status of None \<Rightarrow> Ret UnknownStatus | Some x \<Rightarrow> StatusKind_UnmarshalText x) (\<lambda>s.
     Ret (u, s))))"

fun match_targets :: "'c tuf_lib \<Rightarrow> UsageKind \<Rightarrow> target_files \<Rightarrow> TargetFile list \<Rightarrow> ('c tuf_state, TargetFile list) step" where
  "match_targets T usage [] acc = go_ret acc"
| "match_targets T usage ((name, targetMeta) # ts) acc = (case fm_Custom targetMeta of
       None \<Rightarrow> match_targets T usage ts acc
     | Some custom \<Rightarrow> (case customMetadata T custom of
           Ret (u, status) \<Rightarrow>
             if u = usage then
               go_then (go_wrap ''error getting target by usage'' (GetTarget T name)) (\<lambda>target.
               match_targets T usage ts (acc @ [\<lparr>tf_Name = name, tf_Target = target, tf_Status = status\<rparr>]))
             else match_targets T usage ts acc
         | Err e \<Rightarrow> match_targets T usage ts acc
         | Panic p \<Rightarrow> go_panic p))"

fun fallback_targets :: "'c tuf_lib \<Rightarrow> string list \<Rightarrow> TargetFile list \<Rightarrow> ('c tuf_state, TargetFile list) step" where
  "fallback_targets T [] acc s = (Ret acc, s)"
| "fallback_targets T (fallback # fs) acc s = (case GetTarget T fallback s of
       (Ret target, s') \<Rightarrow>
         fallback_targets T fs (acc @ [\<lparr>tf_Name = fallback, tf_Target = target, tf_Status = Active\<rparr>]) s'
     | (Err e, s') \<Rightarrow> fallback_targets T fs acc s'
     | (Panic p, s') \<Rightarrow> (Panic p, s'))"

definition GetTargetsByMeta :: "'c tuf_lib \<Rightarrow> UsageKind \<Rightarrow> string list \<Rightarrow> ('c tuf_state, TargetFile list) step" where
  "GetTargetsByMeta T usage fallbacks =
     go_then (go_wrap ''error getting targets'' (on_client (client_Targets T))) (\<lambda>targets.
     go_then (match_targets T usage targets []) (\<lambda>matchedTargets.
     go_then (if length matchedTargets = 0 then fallback_targets T fallbacks matchedTargets
              else go_ret matchedTargets) (\<lambda>matchedTargets'.
     if length matchedTargets' = 0
     then go_err (Msg ''no matching targets by custom metadata, fallbacks not found'')
     else go_ret matchedTargets')))"

fun status_loop :: "'c tuf_lib \<Rightarrow> meta_store \<Rightarrow> (string \<times> MetadataStatus) list \<Rightarrow> (string \<times> MetadataStatus) list outcome" where
  "status_loop T [] acc = Ret acc"
| "status_loop T ((role, md) # ms) acc = (case getMetadataStatus T md of
       Ret mdStatus \<Rightarrow> status_loop T ms (AList.update role mdStatus acc)
     | Err e \<Rightarrow> status_loop T ms
         (AList.update role \<lparr>ms_Version = 0, ms_Size = 0, ms_Expiration = [], ms_Error = Some e\<rparr> acc)
     | Panic p \<Rightarrow> Panic p)"

definition getRootStatus :: "'c tuf_lib \<Rightarrow> ('c tuf_state, RootStatus) step" where
  "getRootStatus T s =
     (let local = (if noCache (snd s) then ''in-memory'' else rootCacheDir (snd s))
      in go_then (on_client (client_Targets T)) (\<lambda>targets s'.
           (and_then (status_loop T (tuf_local (fst s')) []) (\<lambda>md.
              Ret \<lparr>rs_Local = local, rs_Remote = TUF_Mirror (fst s), rs_Metadata = md, rs_Targets = map fst targets\<rparr>), s')) s)"

section \<open>Updating\<close>

definition updateClient :: "'c tuf_lib \<Rightarrow> ('c tuf_state, target_files) step" where
  "updateClient T =
     go_then (go_wrap ''error updating to TUF remote mirror'' (on_client (client_Update T))) (\<lambda>targets s.
       let w = snd s; db = tufDB w
       in if noCache w then (Ret targets, s)
          else (case db_open_error w db of
              Some e \<Rightarrow> (Err (Wrap ''creating cached local store'' e), s)
            | None \<Rightarrow> (case syncLocalMeta None (db_set_error w) (tuf_local (fst s)) (databases w db) of
                (x, m) \<Rightarrow> (and_then x (\<lambda>_. Ret targets),
                  fst s, w\<lparr>databases := (databases w)(db := m)\<rparr>))))"

text \<open>\<open>bytes.ReplaceAll\<close> of carriage return, newline by newline.\<close>

fun crlf_to_lf :: "bytes \<Rightarrow> bytes" where
  "crlf_to_lf [] = []"
| "crlf_to_lf [b] = [b]"
| "crlf_to_lf (a # b # r) = (if a = 0x0D \<and> b = 0x0A then 0x0A # crlf_to_lf r else a # crlf_to_lf (b # r))"

text \<open>The embedded copy of a target, if there is a valid one: what ends up in the buffer.\<close>

definition embedded_target :: "'c tuf_lib \<Rightarrow> string \<Rightarrow> string \<Rightarrow> file_meta \<Rightarrow> (string \<Rightarrow> bytes outcome) \<Rightarrow> bytes outcome" where
  "embedded_target T os name meta rd = (case rd (path_Join [''repository'', ''targets'', name]) of
       Ret b \<Rightarrow>
         let b' = (if os = ''windows'' then crlf_to_lf b else b)
         in (case isValidTarget T b' meta of Ret _ \<Rightarrow> Ret b' | Err _ \<Rightarrow> Ret [] | Panic p \<Rightarrow> Panic p)
     | Err e \<Rightarrow> Ret []
     | Panic p \<Rightarrow> Panic p)"

definition already_cached :: "'c tuf_lib \<Rightarrow> string \<Rightarrow> file_meta \<Rightarrow> 'c tuf_state \<Rightarrow> bool outcome" where
  "already_cached T name meta s = (case cache_Get s name of
       Ret cachedTarget \<Rightarrow>
         (case isValidTarget T cachedTarget meta of Ret v \<Rightarrow> Ret v | Err _ \<Rightarrow> Ret False | Panic p \<Rightarrow> Panic p)
     | Err e \<Rightarrow> Ret False
     | Panic p \<Rightarrow> Panic p)"

definition maybeDownloadRemoteTarget :: "'c tuf_lib \<Rightarrow> string \<Rightarrow> file_meta \<Rightarrow> ('c tuf_state, unit) step" where
  "maybeDownloadRemoteTarget T name meta =
     go_then (\<lambda>s. (already_cached T name meta s, s)) (\<lambda>cached.
       if cached then go_ret ()
       else (\<lambda>s. (case tuf_embedded (fst s) of
            None \<Rightarrow> (Err (Msg ''fs.ReadFileFS unimplemented for embedded repo''), s)
          | Some rd \<Rightarrow>
              go_then (go_lift (embedded_target T (goos (snd s)) name meta rd)) (\<lambda>w.
              go_then (if length w = 0
                       then go_wrap ''downloading target'' (on_client (client_Download T name))
                       else go_ret w) (\<lambda>b.
              cache_Set name b)) s)))"

fun download_loop :: "'c tuf_lib \<Rightarrow> target_files \<Rightarrow> ('c tuf_state, unit) step" where
  "download_loop T [] = go_ret ()"
| "download_loop T ((name, targetMeta) # ts) =
     go_then (maybeDownloadRemoteTarget T name targetMeta) (\<lambda>_. download_loop T ts)"

definition updateMetadataAndDownloadTargets :: "'c tuf_lib \<Rightarrow> ('c tuf_state, unit) step" where
  "updateMetadataAndDownloadTargets T = go_then (updateClient T) (\<lambda>targetFiles. download_loop T targetFiles)"

section \<open>The singleton\<close>

text \<open>The body of \<open>singletonTUFOnce.Do\<close>: the object it builds, or the error it leaves behind.\<close>

definition new_TUF :: "'c tuf_lib \<Rightarrow> string \<Rightarrow> bytes option \<Rightarrow> embedded_fs \<Rightarrow> 'c tuf_world \<Rightarrow> 'c TUF outcome" where
  "new_TUF T mirror root embedded w =
     and_then (newLocalStore w) (\<lambda>local.
     and_then (remoteFromMirror T (mirror_url mirror)) (\<lambda>remote.
     and_then (case root of
         Some r \<Rightarrow> Ret r
       | None \<Rightarrow> wrap_outcome ''getting trusted root'' (getRoot local embedded)) (\<lambda>root'.
     (case client_Init T root' (NewClient T remote, local) of
        (x, c, local') \<Rightarrow>
          and_then (wrap_outcome ''unable to initialize client, local cache may be corrupt'' x) (\<lambda>_.
          Ret \<lparr>tuf_mirror = mirror, tuf_embedded = embedded, tuf_targets = newFileImpl w,
               tuf_local = local', tuf_client = c\<rparr>)))))"

definition singleton_once :: "'c tuf_lib \<Rightarrow> string \<Rightarrow> bytes option \<Rightarrow> embedded_fs \<Rightarrow> ('c tuf_world, unit) step" where
  "singleton_once T mirror root embedded w =
     (if once_done w then (Ret (), w)
      else (case new_TUF T mirror root embedded w of
          Ret t \<Rightarrow> (Ret (), w\<lparr>once_done := True, singletonTUF := Some t, singletonTUFErr := None\<rparr>)
        | Err e \<Rightarrow> (Ret (), w\<lparr>once_done := True, singletonTUFErr := Some e\<rparr>)
        | Panic p \<Rightarrow> (Panic p, w\<lparr>once_done := True\<rparr>)))"

text \<open>Calling a method on the singleton, which every caller shares.\<close>

definition on_singleton :: "('c tuf_state, 'a) step \<Rightarrow> ('c tuf_world, 'a) step" where
  "on_singleton m w = (case singletonTUF w of
       None \<Rightarrow> (Panic ''nil pointer dereference'', w)
     | Some t \<Rightarrow> (case m (t, w) of (x, t', w') \<Rightarrow> (x, w'\<lparr>singletonTUF := Some t'\<rparr>)))"

definition initializeTUF :: "'c tuf_lib \<Rightarrow> string \<Rightarrow> bytes option \<Rightarrow> embedded_fs \<Rightarrow> bool \<Rightarrow> ('c tuf_world, unit) step" where
  "initializeTUF T mirror root embedded forceUpdate =
     go_then (singleton_once T mirror root embedded) (\<lambda>_ w.
       (case singletonTUFErr w of
          Some e \<Rightarrow> (Err e, w)
        | None \<Rightarrow> on_singleton (\<lambda>s.
            let fresh_timestamp = (case map_of (tuf_local (fst s)) ''timestamp.json'' of
                  Some trustedTimestamp \<Rightarrow> \<not> isExpiredTimestamp T (now (snd s)) trustedTimestamp
                | None \<Rightarrow> False)
            in if fresh_timestamp \<and> \<not> forceUpdate then (Ret (), s)
               else go_wrap ''updating local metadata and targets'' (updateMetadataAndDownloadTargets T) s) w))"

text \<open>The mirror to use: the one cached on disk, or the default.\<close>

definition cached_mirror :: "'c tuf_lib \<Rightarrow> 'c tuf_world \<Rightarrow> string" where
  "cached_mirror T w = (case os_ReadFile (disk w) (cachedRemote (rootCacheDir w)) of
       Ret b \<Rightarrow> (case remote_Unmarshal T b of Ret m \<Rightarrow> m | _ \<Rightarrow> getRemoteRoot)
     | _ \<Rightarrow> getRemoteRoot)"

definition NewFromEnv :: "'c tuf_lib \<Rightarrow> embedded_fs \<Rightarrow> ('c tuf_world, unit) step" where
  "NewFromEnv T embedded w = initializeTUF T (cached_mirror T w) None embedded False w"

definition on_disk :: "(file_system, 'a) step \<Rightarrow> ('c tuf_world, 'a) step" where
  "on_disk m w = (case m (disk w) of (x, d) \<Rightarrow> (x, w\<lparr>disk := d\<rparr>))"

definition Initialize :: "'c tuf_lib \<Rightarrow> embedded_fs \<Rightarrow> string \<Rightarrow> bytes option \<Rightarrow> ('c tuf_world, unit) step" where
  "Initialize T embedded mirror root =
     go_then (initializeTUF T mirror root embedded True) (\<lambda>_ w.
       if \<not> noCache w then
         (case singletonTUF w of
            None \<Rightarrow> (Panic ''nil pointer dereference'', w)
          | Some tuf \<Rightarrow>
              go_then (go_lift (remote_Marshal T (TUF_Mirror tuf))) (\<lambda>b.
                go_wrap ''storing remote'' (on_disk (os_WriteFile (cachedRemote (rootCacheDir w)) b))) w)
       else (Ret (), w))"

definition GetRootStatus :: "'c tuf_lib \<Rightarrow> embedded_fs \<Rightarrow> ('c tuf_world, RootStatus) step" where
  "GetRootStatus T embedded = go_then (NewFromEnv T embedded) (\<lambda>_. on_singleton (getRootStatus T))"

section \<open>The contract of a target cache\<close>

text \<open>
  Setting a target makes it available, whether or not writing it to disk succeeds, and leaves alone
  every target kept in another slot: under another name in memory, in another file on disk.
\<close>

locale target_cache =
  fixes get :: "'s \<Rightarrow> string \<Rightarrow> bytes outcome"
    and put :: "string \<Rightarrow> bytes \<Rightarrow> ('s, unit) step"
    and slot :: "'s \<Rightarrow> string \<Rightarrow> string"
  assumes get_put: "put p b s = (x, s') \<Longrightarrow> get s' p = Ret b"
    and get_other: "put p b s = (x, s') \<Longrightarrow> slot s q \<noteq> slot s p \<Longrightarrow> get s' q = Ret c \<longleftrightarrow> get s q = Ret c"
    and slot_fixed: "put p b s = (x, s') \<Longrightarrow> slot s' = slot s"
begin

text \<open>The cache holds, for every listed name, something its predicate accepts.\<close>

definition holds :: "(string \<times> (bytes \<Rightarrow> bool)) list \<Rightarrow> 's \<Rightarrow> bool" where
  "holds ps s \<longleftrightarrow> (\<forall>(p, P) \<in> set ps. \<exists>b. get s p = Ret b \<and> P b)"

lemma holds_put:
  assumes "holds ps s" "put p b s = (x, s')" "P b" "\<And>q Q. (q, Q) \<in> set ps \<Longrightarrow> slot s q \<noteq> slot s p"
  shows "holds (ps @ [(p, P)]) s'"
proof -
  have "\<exists>c. get s' q = Ret c \<and> Q c" if "(q, Q) \<in> set ps" for q Q
    using assms(1) get_other [OF assms(2) assms(4) [OF that]] that by (fastforce simp: holds_def)
  with get_put [OF assms(2)] assms(3) show ?thesis by (auto simp: holds_def)
qed

lemma holds_snoc: "holds ps s \<Longrightarrow> get s p = Ret b \<Longrightarrow> P b \<Longrightarrow> holds (ps @ [(p, P)]) s"
  by (auto simp: holds_def)

lemma holds_same: "holds ps s \<Longrightarrow> (\<And>p. get s' p = get s p) \<Longrightarrow> holds ps s'"
  by (simp add: holds_def)

end

definition cache_slot :: "targetImpl \<Rightarrow> string \<Rightarrow> string" where
  "cache_slot i p = (case i of MemoryImpl _ \<Rightarrow> p | DiskImpl d \<Rightarrow> path_Join [dc_base d, p])"

lemma memoryCache_Get_Set:
  "memoryCache_Get (memoryCache_Set m p b) q = Ret c \<longleftrightarrow> (if q = p then c = b else memoryCache_Get m q = Ret c)"
  by (auto simp: memoryCache_Get_def memoryCache_Set_def Let_def split: option.splits)

lemma memoryCache_Get_Set_same [simp]: "memoryCache_Get (memoryCache_Set m p b) p = Ret b"
  by (simp add: memoryCache_Get_Set)

lemma os_WriteFile_other: "os_WriteFile p b d = (x, d') \<Longrightarrow> q \<noteq> p \<Longrightarrow> os_ReadFile d' q = os_ReadFile d q"
  by (auto simp: os_WriteFile_def os_ReadFile_def split: option.splits)

lemma diskCache_Set_effect:
  assumes "diskCache_Set d p b fs = (x, d', fs')"
  shows "d' = d\<lparr>dc_memory := memoryCache_Set (dc_memory d) p b\<rparr>"
    and "q \<noteq> path_Join [dc_base d, p] \<Longrightarrow> os_ReadFile fs' q = os_ReadFile fs q"
    and "x = Ret () \<Longrightarrow> os_ReadFile fs' (path_Join [dc_base d, p]) = Ret b"
  using assms
  by (auto simp: diskCache_Set_def Let_def go_then_def go_wrap_def os_MkdirAll_def os_WriteFile_def os_ReadFile_def
      split: option.splits prod.splits)

lemma diskCache_Get_Set:
  assumes "diskCache_Set d p b fs = (x, d', fs')" "path_Join [dc_base d, q] \<noteq> path_Join [dc_base d, p]"
  shows "diskCache_Get d' fs' q = Ret c \<longleftrightarrow> diskCache_Get d fs q = Ret c"
proof -
  have "q \<noteq> p" using assms(2) by auto
  then have "memoryCache_Get (dc_memory d') q = Ret e \<longleftrightarrow> memoryCache_Get (dc_memory d) q = Ret e" for e
    by (simp add: diskCache_Set_effect(1) [OF assms(1)] memoryCache_Get_Set)
  moreover have "dc_base d' = dc_base d" by (simp add: diskCache_Set_effect(1) [OF assms(1)])
  moreover note diskCache_Set_effect(2) [OF assms]
  ultimately show ?thesis
    by (cases "memoryCache_Get (dc_memory d) q"; cases "memoryCache_Get (dc_memory d') q")
      (auto simp: diskCache_Get_def)
qed

interpretation impl_cache: target_cache targets_Get targets_Set "\<lambda>s. cache_slot (fst s)"
proof unfold_locales
  fix p b s x s'
  assume a: "targets_Set p b s = (x, s')"
  show "targets_Get s' p = Ret b"
  proof (cases "fst s")
    case (MemoryImpl m)
    with a show ?thesis by (auto simp: targets_Set_def targets_Get_def)
  next
    case (DiskImpl d)
    with a obtain d' fs' where "diskCache_Set d p b (snd s) = (x, d', fs')" "s' = (DiskImpl d', fs')"
      by (auto simp: targets_Set_def split: prod.splits)
    moreover from this(1) have "d' = d\<lparr>dc_memory := memoryCache_Set (dc_memory d) p b\<rparr>"
      by (rule diskCache_Set_effect(1))
    ultimately show ?thesis by (simp add: targets_Get_def diskCache_Get_def)
  qed
next
  fix p b s x s' q c
  assume a: "targets_Set p b s = (x, s')" "cache_slot (fst s) q \<noteq> cache_slot (fst s) p"
  show "targets_Get s' q = Ret c \<longleftrightarrow> targets_Get s q = Ret c"
  proof (cases "fst s")
    case (MemoryImpl m)
    with a show ?thesis by (auto simp: targets_Set_def targets_Get_def cache_slot_def memoryCache_Get_Set)
  next
    case (DiskImpl d)
    with a obtain d' fs' where d: "diskCache_Set d p b (snd s) = (x, d', fs')" "s' = (DiskImpl d', fs')"
      by (auto simp: targets_Set_def split: prod.splits)
    with DiskImpl a(2) show ?thesis
      using diskCache_Get_Set [OF d(1), of q c] by (simp add: targets_Get_def cache_slot_def)
  qed
next
  fix p b s x s'
  assume "targets_Set p b s = (x, s')"
  then show "cache_slot (fst s') = cache_slot (fst s)"
    by (cases "fst s") (auto simp: targets_Set_def cache_slot_def fun_eq_iff split: prod.splits
        dest!: diskCache_Set_effect(1))
qed

text \<open>The same contract for the cache of a TUF object.\<close>

lemma cache_Set_impl:
  "cache_Set p b s = (x, s') \<Longrightarrow>
     \<exists>c. targets_Set p b (tuf_targets (fst s), disk (snd s)) = (x, c) \<and>
       (tuf_targets (fst s'), disk (snd s')) = c \<and>
       s' = ((fst s)\<lparr>tuf_targets := fst c\<rparr>, (snd s)\<lparr>disk := snd c\<rparr>)"
  by (auto simp: cache_Set_def split: prod.splits)

interpretation obj_cache: target_cache cache_Get cache_Set "\<lambda>s. cache_slot (tuf_targets (fst s))"
proof unfold_locales
  fix p b and s :: "'a tuf_state" and x s'
  assume a: "cache_Set p b s = (x, s')"
  then obtain c where c: "targets_Set p b (tuf_targets (fst s), disk (snd s)) = (x, c)"
    "(tuf_targets (fst s'), disk (snd s')) = c" using cache_Set_impl by blast
  show "cache_Get s' p = Ret b" using impl_cache.get_put [OF c(1)] c(2) by (simp add: cache_Get_def)
  show "cache_slot (tuf_targets (fst s')) = cache_slot (tuf_targets (fst s))"
    using impl_cache.slot_fixed [OF c(1)] c(2) by auto
  fix q e
  assume "cache_slot (tuf_targets (fst s)) q \<noteq> cache_slot (tuf_targets (fst s)) p"
  then show "cache_Get s' q = Ret e \<longleftrightarrow> cache_Get s q = Ret e"
    using impl_cache.get_other [OF c(1), of q e] c(2) by (simp add: cache_Get_def)
qed

section \<open>What the parameters promise\<close>

text \<open>
  \<open>knows cm n m\<close>: the client's trusted metadata says \<open>m\<close> of target \<open>n\<close>.  An update returns such
  entries, downloading keeps them, and a download that succeeds delivers bytes that match them.  The
  JSON of the cached mirror is read back as written.
\<close>

definition tuf_laws :: "'c tuf_lib \<Rightarrow> ('c \<times> meta_store \<Rightarrow> string \<Rightarrow> file_meta \<Rightarrow> bool) \<Rightarrow> bool" where
  "tuf_laws T knows \<longleftrightarrow>
     (\<forall>cm ts cm'. client_Update T cm = (Ret ts, cm') \<longrightarrow> (\<forall>(n, m) \<in> set ts. knows cm' n m)) \<and>
     (\<forall>cm n x cm' n' m. client_Download T n cm = (x, cm') \<longrightarrow> knows cm n' m \<longrightarrow> knows cm' n' m) \<and>
     (\<forall>cm n b cm' m. client_Download T n cm = (Ret b, cm') \<longrightarrow> knows cm n m \<longrightarrow> isValidTarget T b m = Ret True)"

definition remote_json_laws :: "'c tuf_lib \<Rightarrow> bool" where
  "remote_json_laws T \<longleftrightarrow> (\<forall>m b. remote_Marshal T m = Ret b \<longrightarrow> remote_Unmarshal T b = Ret m)"

lemma isValidTarget_True: "isValidTarget T b m = Ret v \<Longrightarrow> v"
  by (auto simp: isValidTarget_def and_then_Ret_iff)

section \<open>Frames\<close>

lemma on_client_frame:
  assumes "on_client f s = (x, s')"
  shows "cache_Get s' p = cache_Get s p" "snd s' = snd s" "tuf_targets (fst s') = tuf_targets (fst s)"
    "tuf_embedded (fst s') = tuf_embedded (fst s)" "tuf_mirror (fst s') = tuf_mirror (fst s)"
    "f (tuf_client (fst s), tuf_local (fst s)) = (x, tuf_client (fst s'), tuf_local (fst s'))"
  using assms by (auto simp: on_client_def cache_Get_def split: prod.splits)

lemma cache_Set_frame:
  assumes "cache_Set p b s = (x, s')"
  shows "tuf_client (fst s') = tuf_client (fst s)" "tuf_local (fst s') = tuf_local (fst s)"
    "tuf_embedded (fst s') = tuf_embedded (fst s)" "tuf_mirror (fst s') = tuf_mirror (fst s)"
    "databases (snd s') = databases (snd s)"
  using assms by (auto simp: cache_Set_def split: prod.splits)

section \<open>Downloading\<close>

lemma maybeDownload_cases:
  assumes "maybeDownloadRemoteTarget T name meta s = (Ret (), s')"
  obtains (hit) "already_cached T name meta s = Ret True" "s' = s"
    | (miss) rd w b s1 where "embedded_target T (goos (snd s)) name meta rd = Ret w"
        "(if length w = 0 then go_wrap ''downloading target'' (on_client (client_Download T name)) else go_ret w) s = (Ret b, s1)"
        "cache_Set name b s1 = (Ret (), s')"
proof -
  from assms obtain cached where c: "already_cached T name meta s = Ret cached"
    and r: "(if cached then go_ret ()
       else (\<lambda>s. (case tuf_embedded (fst s) of
            None \<Rightarrow> (Err (Msg ''fs.ReadFileFS unimplemented for embedded repo''), s)
          | Some rd \<Rightarrow>
              go_then (go_lift (embedded_target T (goos (snd s)) name meta rd)) (\<lambda>w.
              go_then (if length w = 0
                       then go_wrap ''downloading target'' (on_client (client_Download T name))
                       else go_ret w) (\<lambda>b.
              cache_Set name b)) s))) s = (Ret (), s')"
    unfolding maybeDownloadRemoteTarget_def go_then_Ret_iff by blast
  show thesis
  proof (cases cached)
    case True
    with r have "s' = s" by simp
    with True c show thesis by (intro hit) simp_all
  next
    case False
    with r obtain rd where rd: "go_then (go_lift (embedded_target T (goos (snd s)) name meta rd)) (\<lambda>w.
              go_then (if length w = 0
                       then go_wrap ''downloading target'' (on_client (client_Download T name))
                       else go_ret w) (\<lambda>b.
              cache_Set name b)) s = (Ret (), s')" by (cases "tuf_embedded (fst s)") simp_all
    then obtain w s0 where w: "go_lift (embedded_target T (goos (snd s)) name meta rd) s = (Ret w, s0)"
      and g: "go_then (if length w = 0 then go_wrap ''downloading target'' (on_client (client_Download T name))
                    else go_ret w) (\<lambda>b. cache_Set name b) s0 = (Ret (), s')"
      by (rule go_then_RetE)
    from w have e: "s0 = s" "embedded_target T (goos (snd s)) name meta rd = Ret w"
      unfolding go_lift_apply prod.inject by blast+
    from g [unfolded e(1)] obtain b s1 where d: "(if length w = 0 then go_wrap ''downloading target'' (on_client (client_Download T name))
                    else go_ret w) s = (Ret b, s1)" "cache_Set name b s1 = (Ret (), s')"
      by (rule go_then_RetE)
    show thesis by (rule miss [OF e(2) d])
  qed
qed

lemma maybeDownload_outcome:
  assumes "tuf_laws T knows" "maybeDownloadRemoteTarget T name meta s = (Ret (), s')"
    and "knows (tuf_client (fst s), tuf_local (fst s)) name meta"
  shows "(s' = s \<and> (\<exists>b. cache_Get s name = Ret b \<and> isValidTarget T b meta = Ret True)) \<or>
    (\<exists>s1 b. cache_Get s1 = cache_Get s \<and> tuf_targets (fst s1) = tuf_targets (fst s) \<and>
      cache_Set name b s1 = (Ret (), s') \<and> isValidTarget T b meta = Ret True)"
  using assms(2)
proof (cases rule: maybeDownload_cases)
  case hit
  then show ?thesis by (auto simp: already_cached_def split: outcome.splits)
next
  case (miss rd w b s1)
  have "isValidTarget T b meta = Ret True \<and> (\<forall>p. cache_Get s1 p = cache_Get s p) \<and> tuf_targets (fst s1) = tuf_targets (fst s)"
  proof (cases "w = []")
    case True
    with miss have d: "on_client (client_Download T name) s = (Ret b, s1)" by simp
    note f = on_client_frame [OF d]
    have "isValidTarget T b meta = Ret True"
      using f(6) assms(1,3) unfolding tuf_laws_def by blast
    with f(1,3) show ?thesis by simp
  next
    case False
    with miss have "b = w" "s1 = s" by auto
    moreover have "isValidTarget T w meta = Ret True"
      using miss(1) False isValidTarget_True by (fastforce simp: embedded_target_def Let_def split: outcome.splits)
    ultimately show ?thesis by simp
  qed
  moreover from this have "cache_Get s1 = cache_Get s" by (simp add: fun_eq_iff)
  ultimately show ?thesis using miss(3) by blast
qed

lemma maybeDownload_knows:
  assumes "tuf_laws T knows" "maybeDownloadRemoteTarget T name meta s = (Ret (), s')"
    and "knows (tuf_client (fst s), tuf_local (fst s)) n m"
  shows "knows (tuf_client (fst s'), tuf_local (fst s')) n m"
  using assms(2)
proof (cases rule: maybeDownload_cases)
  case hit
  with assms(3) show ?thesis by simp
next
  case (miss rd w b s1)
  have "knows (tuf_client (fst s1), tuf_local (fst s1)) n m"
  proof (cases "w = []")
    case True
    with miss have "on_client (client_Download T name) s = (Ret b, s1)" by simp
    from on_client_frame(6) [OF this] assms(1,3) show ?thesis unfolding tuf_laws_def by blast
  qed (use miss assms(3) in auto)
  then show ?thesis by (simp add: cache_Set_frame(1,2) [OF miss(3)])
qed

definition valid_for :: "'c tuf_lib \<Rightarrow> file_meta \<Rightarrow> bytes \<Rightarrow> bool" where
  "valid_for T m b \<longleftrightarrow> isValidTarget T b m = Ret True"

abbreviation state_slot :: "'c tuf_state \<Rightarrow> string \<Rightarrow> string" where
  "state_slot s \<equiv> cache_slot (tuf_targets (fst s))"

lemma download_one:
  assumes "tuf_laws T knows" "maybeDownloadRemoteTarget T name meta s = (Ret (), s')"
    and "knows (tuf_client (fst s), tuf_local (fst s)) name meta"
    and "obj_cache.holds ps s" "\<And>q Q. (q, Q) \<in> set ps \<Longrightarrow> state_slot s q \<noteq> state_slot s name"
  shows "obj_cache.holds (ps @ [(name, valid_for T meta)]) s'" "state_slot s' = state_slot s"
proof -
  from maybeDownload_outcome [OF assms(1-3)]
  consider (hit) b where "s' = s" "cache_Get s name = Ret b" "isValidTarget T b meta = Ret True"
    | (miss) s1 b where "cache_Get s1 = cache_Get s" "tuf_targets (fst s1) = tuf_targets (fst s)"
        "cache_Set name b s1 = (Ret (), s')" "isValidTarget T b meta = Ret True" by blast
  then have "obj_cache.holds (ps @ [(name, valid_for T meta)]) s' \<and> state_slot s' = state_slot s"
  proof cases
    case hit
    then show ?thesis using obj_cache.holds_snoc [OF assms(4)] by (simp add: valid_for_def)
  next
    case miss
    have "obj_cache.holds ps s1" using obj_cache.holds_same [OF assms(4)] miss(1) by simp
    from obj_cache.holds_put [OF this miss(3)] obj_cache.slot_fixed [OF miss(3)] miss(2,4) assms(5)
    show ?thesis by (simp add: valid_for_def)
  qed
  then show "obj_cache.holds (ps @ [(name, valid_for T meta)]) s'" "state_slot s' = state_slot s" by auto
qed

lemma download_loop_holds:
  assumes "tuf_laws T knows" "download_loop T ts s = (Ret (), s')"
    and "\<And>n m. (n, m) \<in> set ts \<Longrightarrow> knows (tuf_client (fst s), tuf_local (fst s)) n m"
    and "obj_cache.holds ps s" "distinct (map (state_slot s) (map fst ps @ map fst ts))"
  shows "obj_cache.holds (ps @ map (\<lambda>(n, m). (n, valid_for T m)) ts) s'"
  using assms(2-)
proof (induction ts arbitrary: s ps)
  case Nil
  then show ?case by simp
next
  case (Cons t ts)
  obtain n m where t: "t = (n, m)" by fastforce
  with Cons.prems(1) obtain s1 where m: "maybeDownloadRemoteTarget T n m s = (Ret (), s1)"
    "download_loop T ts s1 = (Ret (), s')" by (auto simp: go_then_Ret_iff)
  have k: "knows (tuf_client (fst s), tuf_local (fst s)) n m" using Cons.prems(2) t by simp
  have sl: "state_slot s q \<noteq> state_slot s n" if "(q, Q) \<in> set ps" for q Q
    using Cons.prems(4) that t by force
  note one = download_one [OF assms(1) m(1) k Cons.prems(3) sl]
  have "obj_cache.holds ((ps @ [(n, valid_for T m)]) @ map (\<lambda>(n, m). (n, valid_for T m)) ts) s'"
  proof (rule Cons.IH [OF m(2)])
    show "knows (tuf_client (fst s1), tuf_local (fst s1)) n' m'" if "(n', m') \<in> set ts" for n' m'
      using maybeDownload_knows [OF assms(1) m(1)] Cons.prems(2) that by simp
    show "obj_cache.holds (ps @ [(n, valid_for T m)]) s1" by (rule one(1))
    show "distinct (map (state_slot s1) (map fst (ps @ [(n, valid_for T m)]) @ map fst ts))"
      using Cons.prems(4) one(2) t by simp
  qed
  then show ?case using t by simp
qed

lemma updateClient_Ret:
  assumes "updateClient T s = (Ret ts, s')"
  shows "client_Update T (tuf_client (fst s), tuf_local (fst s)) = (Ret ts, tuf_client (fst s'), tuf_local (fst s'))"
    and "tuf_targets (fst s') = tuf_targets (fst s)" "disk (snd s') = disk (snd s)"
proof -
  from assms obtain s1 where u: "on_client (client_Update T) s = (Ret ts, s1)"
    and f: "fst s' = fst s1" "disk (snd s') = disk (snd s1)"
    by (auto simp: updateClient_def go_then_Ret_iff Let_def and_then_Ret_iff split: if_splits option.splits prod.splits)
  show "client_Update T (tuf_client (fst s), tuf_local (fst s)) = (Ret ts, tuf_client (fst s'), tuf_local (fst s'))"
    "tuf_targets (fst s') = tuf_targets (fst s)" "disk (snd s') = disk (snd s)"
    using on_client_frame [OF u] f by simp_all
qed

section \<open>Properties of the targets\<close>

text \<open>C10: after a successful update every target the update names is in the cache with contents that
  match its trusted metadata, wherever they came from: the cache itself, the embedded repository
  or the remote one, provided no two of the names share a cache slot.\<close>

theorem update_leaves_valid_targets:
  assumes "tuf_laws T knows" "updateMetadataAndDownloadTargets T s = (Ret (), s')"
    and "fst (client_Update T (tuf_client (fst s), tuf_local (fst s))) = Ret ts"
    and "distinct (map (state_slot s \<circ> fst) ts)" "(name, meta) \<in> set ts"
  shows "\<exists>b. cache_Get s' name = Ret b \<and> isValidTarget T b meta = Ret True"
proof -
  from assms(2) obtain ts' s1 where u: "updateClient T s = (Ret ts', s1)" "download_loop T ts' s1 = (Ret (), s')"
    by (auto simp: updateMetadataAndDownloadTargets_def go_then_Ret_iff)
  note f = updateClient_Ret [OF u(1)]
  with assms(3) have ts: "ts' = ts" by simp
  have "knows (tuf_client (fst s1), tuf_local (fst s1)) n m" if "(n, m) \<in> set ts" for n m
    using f(1) that assms(1) unfolding tuf_laws_def ts by blast
  moreover have "obj_cache.holds [] s1" by (simp add: obj_cache.holds_def)
  ultimately have "obj_cache.holds ([] @ map (\<lambda>(n, m). (n, valid_for T m)) ts) s'"
    using download_loop_holds [OF assms(1) u(2) [unfolded ts], of "[]"] assms(4) f(2) by (simp add: comp_def)
  then show ?thesis using assms(5) by (force simp: obj_cache.holds_def valid_for_def)
qed

text \<open>C1: a target handed out matches the metadata the client verified for that name, whatever is in the
  cache or on disk: corrupted contents are reported, never returned.\<close>

theorem GetTarget_valid:
  assumes "GetTarget T name s = (Ret b, s')"
  shows "\<exists>m cm. client_Target T name (tuf_client (fst s), tuf_local (fst s)) = (Ret m, cm) \<and>
    isValidTarget T b m = Ret True \<and> cache_Get s name = Ret b \<and> disk (snd s') = disk (snd s)"
proof -
  from assms obtain m s1 v where "on_client (client_Target T name) s = (Ret m, s1)" "cache_Get s1 name = Ret b"
    "isValidTarget T b m = Ret v" "s' = s1"
    by (auto simp: GetTarget_def go_then_Ret_iff)
  with on_client_frame [of "client_Target T name" s "Ret m" s1] isValidTarget_True [of T b m v] show ?thesis
    by auto
qed

text \<open>A file of the answer was read through \<open>GetTarget\<close>; and why it was chosen: the repository tags
  it so.\<close>

definition read_target :: "'c tuf_lib \<Rightarrow> TargetFile \<Rightarrow> bool" where
  "read_target T f \<longleftrightarrow> (\<exists>s0 s1. GetTarget T (tf_Name f) s0 = (Ret (tf_Target f), s1))"

lemma read_targetI: "GetTarget T n s0 = (Ret b, s1) \<Longrightarrow> read_target T \<lparr>tf_Name = n, tf_Target = b, tf_Status = st\<rparr>"
  unfolding read_target_def TargetFile.select_convs by blast

definition tagged :: "'c tuf_lib \<Rightarrow> UsageKind \<Rightarrow> target_files \<Rightarrow> TargetFile \<Rightarrow> bool" where
  "tagged T u ts f \<longleftrightarrow> (\<exists>meta c. (tf_Name f, meta) \<in> set ts \<and> fm_Custom meta = Some c \<and>
      customMetadata T c = Ret (u, tf_Status f)) \<and> read_target T f"

lemma tagged_Cons: "tagged T u ts f \<Longrightarrow> tagged T u (t # ts) f"
  by (auto simp: tagged_def)

lemma match_targets_Ret:
  assumes "match_targets T u ts acc s = (Ret fs, s')" "\<forall>f \<in> set acc. tagged T u (ts0 @ ts) f"
  shows "\<forall>f \<in> set fs. tagged T u (ts0 @ ts) f"
  using assms
proof (induction ts arbitrary: acc s ts0)
  case Nil
  then show ?case by simp
next
  case (Cons t ts)
  obtain name meta where t: "t = (name, meta)" by (cases t)
  have acc: "\<forall>f \<in> set acc. tagged T u ((ts0 @ [t]) @ ts) f" using Cons.prems(2) by simp
  have skip: ?case if "match_targets T u ts acc s = (Ret fs, s')"
    using Cons.IH [OF that acc] by simp
  show ?case
  proof (cases "fm_Custom meta")
    case None
    with Cons.prems(1) t show ?thesis by (intro skip) simp
  next
    case (Some c)
    show ?thesis
    proof (cases "customMetadata T c")
      case (Ret us)
      obtain v status where us: "us = (v, status)" by (cases us)
      show ?thesis
      proof (cases "v = u")
        case True
        with Cons.prems(1) t Some Ret us obtain b s1 where b: "GetTarget T name s = (Ret b, s1)"
          "match_targets T u ts (acc @ [\<lparr>tf_Name = name, tf_Target = b, tf_Status = status\<rparr>]) s1 = (Ret fs, s')"
          by (auto simp: go_then_Ret_iff)
        have "tagged T u ((ts0 @ [t]) @ ts) \<lparr>tf_Name = name, tf_Target = b, tf_Status = status\<rparr>"
          using read_targetI [OF b(1)] Some Ret us True t by (auto simp: tagged_def)
        with acc have "\<forall>f \<in> set (acc @ [\<lparr>tf_Name = name, tf_Target = b, tf_Status = status\<rparr>]). tagged T u ((ts0 @ [t]) @ ts) f"
          by simp
        from Cons.IH [OF b(2) this] show ?thesis by simp
      qed (use Cons.prems(1) t Some Ret us in \<open>intro skip, simp\<close>)
    next
      case (Err e)
      with Cons.prems(1) t Some show ?thesis by (intro skip) simp
    next
      case (Panic p)
      with Cons.prems(1) t Some show ?thesis by simp
    qed
  qed
qed

lemma fallback_targets_Ret:
  assumes "fallback_targets T fbs acc s = (Ret fs, s')"
  shows "\<exists>gs. fs = acc @ gs \<and> (\<forall>f \<in> set gs. tf_Name f \<in> set fbs \<and> tf_Status f = Active \<and> read_target T f)"
  using assms
proof (induction fbs arbitrary: acc s)
  case (Cons n fbs)
  obtain x s1 where g: "GetTarget T n s = (x, s1)" by (cases "GetTarget T n s")
  show ?case
  proof (cases x)
    case (Ret b)
    with g Cons.prems have "fallback_targets T fbs (acc @ [\<lparr>tf_Name = n, tf_Target = b, tf_Status = Active\<rparr>]) s1 = (Ret fs, s')"
      by simp
    from Cons.IH [OF this] obtain gs where "fs = acc @ \<lparr>tf_Name = n, tf_Target = b, tf_Status = Active\<rparr> # gs"
      "\<forall>f \<in> set gs. tf_Name f \<in> set fbs \<and> tf_Status f = Active \<and> read_target T f" by auto
    then show ?thesis using read_targetI [OF g [unfolded Ret]]
      by (intro exI [of _ "\<lparr>tf_Name = n, tf_Target = b, tf_Status = Active\<rparr> # gs"]) auto
  next
    case (Err e)
    with g Cons.prems have "fallback_targets T fbs acc s1 = (Ret fs, s')" by simp
    from Cons.IH [OF this] show ?thesis by auto
  next
    case (Panic p)
    with g Cons.prems show ?thesis by simp
  qed
qed simp

lemma GetTargetsByMeta_files:
  assumes "GetTargetsByMeta T usage fallbacks s = (Ret files, s')"
  shows "files \<noteq> [] \<and> (\<forall>f \<in> set files. read_target T f) \<and>
    ((\<exists>ts cm. client_Targets T (tuf_client (fst s), tuf_local (fst s)) = (Ret ts, cm) \<and> (\<forall>f \<in> set files. tagged T usage ts f)) \<or>
     (\<forall>f \<in> set files. tf_Name f \<in> set fallbacks \<and> tf_Status f = Active))"
proof -
  from assms obtain ts s1 ms s2 fs s3 where ts: "on_client (client_Targets T) s = (Ret ts, s1)"
    and m: "match_targets T usage ts [] s1 = (Ret ms, s2)"
    and f: "(if length ms = 0 then fallback_targets T fallbacks ms else go_ret ms) s2 = (Ret fs, s3)"
    and e: "fs \<noteq> []" "files = fs"
    by (auto simp: GetTargetsByMeta_def go_then_Ret_iff split: if_splits)
  note t = on_client_frame(6) [OF ts]
  have ms: "\<forall>f \<in> set ms. tagged T usage ts f" using match_targets_Ret [OF m, of "[]"] by simp
  show ?thesis
  proof (cases "ms = []")
    case True
    with f have "fallback_targets T fallbacks [] s2 = (Ret fs, s3)" by simp
    from fallback_targets_Ret [OF this] e show ?thesis by auto
  next
    case False
    with f e have "files = ms" by simp
    moreover from ms have "\<forall>f \<in> set files. read_target T f" using \<open>files = ms\<close> by (auto simp: tagged_def)
    ultimately show ?thesis using ms t e by blast
  qed
qed

text \<open>C22: what \<open>GetTargetsByMeta\<close> returns is never empty and comes from one source only: either every file
  is a target the repository tags with the requested usage and with the status it tags it
  with, or every file is one of the fallback names, marked active; each was read through
  \<open>GetTarget\<close>, so it matches verified metadata.\<close>

theorem GetTargetsByMeta_sound:
  assumes "GetTargetsByMeta T usage fallbacks s = (Ret files, s')"
  shows "files \<noteq> [] \<and> (\<forall>f \<in> set files. read_target T f) \<and>
    ((\<exists>ts cm. client_Targets T (tuf_client (fst s), tuf_local (fst s)) = (Ret ts, cm) \<and> (\<forall>f \<in> set files. tagged T usage ts f)) \<or>
     (\<forall>f \<in> set files. tf_Name f \<in> set fallbacks \<and> tf_Status f = Active))"
  using assms by (rule GetTargetsByMeta_files)

section \<open>What a method of the object leaves alone\<close>

definition same_config :: "'c TUF \<Rightarrow> 'c TUF \<Rightarrow> bool" where
  "same_config t t' \<longleftrightarrow> tuf_mirror t' = tuf_mirror t \<and> tuf_embedded t' = tuf_embedded t \<and>
     cache_slot (tuf_targets t') = cache_slot (tuf_targets t)"

definition same_process :: "'c tuf_world \<Rightarrow> 'c tuf_world \<Rightarrow> bool" where
  "same_process w w' \<longleftrightarrow> env_TUF_ROOT w' = env_TUF_ROOT w \<and> env_SIGSTORE_NO_CACHE w' = env_SIGSTORE_NO_CACHE w \<and>
     user_home w' = user_home w \<and> goos w' = goos w"

definition same_once :: "'c tuf_world \<Rightarrow> 'c tuf_world \<Rightarrow> bool" where
  "same_once w w' \<longleftrightarrow> once_done w' = once_done w \<and> singletonTUFErr w' = singletonTUFErr w"

definition in_memory :: "'c TUF \<Rightarrow> bool" where
  "in_memory t = (case tuf_targets t of MemoryImpl _ \<Rightarrow> True | DiskImpl _ \<Rightarrow> False)"

definition disk_kept :: "'c tuf_world \<Rightarrow> 'c tuf_world \<Rightarrow> bool" where
  "disk_kept w w' \<longleftrightarrow> disk w' = disk w \<and> databases w' = databases w"

definition obj_frame :: "'c tuf_state \<Rightarrow> 'c tuf_state \<Rightarrow> bool" where
  "obj_frame s s' \<longleftrightarrow> same_config (fst s) (fst s') \<and> same_process (snd s) (snd s') \<and> same_once (snd s) (snd s') \<and>
     singletonTUF (snd s') = singletonTUF (snd s) \<and> in_memory (fst s') = in_memory (fst s) \<and>
     (noCache (snd s) \<and> in_memory (fst s) \<longrightarrow> disk_kept (snd s) (snd s'))"

lemmas frame_defs = same_config_def same_process_def same_once_def disk_kept_def

lemma noCache_same: "same_process w w' \<Longrightarrow> noCache w' = noCache w"
  by (simp add: same_process_def noCache_def)

lemma rootCacheDir_same: "same_process w w' \<Longrightarrow> rootCacheDir w' = rootCacheDir w"
  by (simp add: same_process_def rootCacheDir_def)

lemma obj_frame_same [simp]: "obj_frame s s"
  by (simp add: obj_frame_def frame_defs)

lemma obj_frame_refl: "reflp obj_frame"
  by (simp add: reflpI)

lemma obj_frame_trans: "transp obj_frame"
proof (rule transpI)
  fix a b c :: "'a tuf_state"
  assume 1: "obj_frame a b" and 2: "obj_frame b c"
  then have "noCache (snd b) = noCache (snd a)" by (simp add: obj_frame_def noCache_same)
  with 1 2 show "obj_frame a c" by (auto simp: obj_frame_def frame_defs)
qed

lemmas obj_stays = stays_lift [OF obj_frame_refl] stays_read [OF obj_frame_refl]
  stays_then [OF obj_frame_trans] stays_wrap

lemma stays_on_client: "stays obj_frame (on_client f)"
  by (auto simp: stays_def on_client_def obj_frame_def frame_defs in_memory_def split: prod.splits)

lemma stays_cache_Set: "stays obj_frame (cache_Set p b)"
  unfolding stays_def
proof
  fix s :: "'a tuf_state"
  obtain x i fs where c: "targets_Set p b (tuf_targets (fst s), disk (snd s)) = (x, i, fs)"
    by (cases "targets_Set p b (tuf_targets (fst s), disk (snd s))") auto
  have "cache_slot i = cache_slot (tuf_targets (fst s))" using impl_cache.slot_fixed [OF c] by simp
  moreover have "(case i of MemoryImpl _ \<Rightarrow> True | DiskImpl _ \<Rightarrow> False) = in_memory (fst s)"
    "in_memory (fst s) \<longrightarrow> fs = disk (snd s)"
    using c by (auto simp: targets_Set_def in_memory_def split: targetImpl.splits prod.splits)
  ultimately show "obj_frame s (snd (cache_Set p b s))"
    by (simp add: cache_Set_def c obj_frame_def frame_defs in_memory_def)
qed

lemma stays_GetTarget: "stays obj_frame (GetTarget T name)"
  unfolding GetTarget_def by (intro obj_stays stays_on_client)

lemma stays_updateClient: "stays obj_frame (updateClient T)"
proof -
  have "stays obj_frame (\<lambda>s. let w = snd s; db = tufDB w
       in if noCache w then (Ret targets, s)
          else (case db_open_error w db of
              Some e \<Rightarrow> (Err (Wrap ''creating cached local store'' e), s)
            | None \<Rightarrow> (case syncLocalMeta None (db_set_error w) (tuf_local (fst s)) (databases w db) of
                (x, m) \<Rightarrow> (and_then x (\<lambda>_. Ret targets),
                  fst s, w\<lparr>databases := (databases w)(db := m)\<rparr>))))" for targets
    by (auto simp: stays_def obj_frame_def frame_defs Let_def split: option.splits prod.splits)
  then show ?thesis unfolding updateClient_def by (intro obj_stays stays_on_client)
qed

lemma stays_maybeDownload: "stays obj_frame (maybeDownloadRemoteTarget T name meta)"
proof -
  have fetch: "stays obj_frame (if length w = 0 then go_wrap e (on_client (client_Download T name)) else go_ret w)" for w e
    by (cases "w = []") (simp_all add: obj_stays stays_on_client)
  have miss: "stays obj_frame (\<lambda>s. (case tuf_embedded (fst s) of
            None \<Rightarrow> (Err (Msg ''fs.ReadFileFS unimplemented for embedded repo''), s)
          | Some rd \<Rightarrow>
              go_then (go_lift (embedded_target T (goos (snd s)) name meta rd)) (\<lambda>w.
              go_then (if length w = 0
                       then go_wrap ''downloading target'' (on_client (client_Download T name))
                       else go_ret w) (\<lambda>b.
              cache_Set name b)) s))"
  proof -
    have "stays obj_frame (go_then (go_lift (embedded_target T os name meta rd)) (\<lambda>w.
              go_then (if length w = 0
                       then go_wrap ''downloading target'' (on_client (client_Download T name))
                       else go_ret w) (\<lambda>b.
              cache_Set name b)))" for os rd
      by (intro obj_stays fetch stays_cache_Set)
    then show ?thesis using obj_frame_refl
      unfolding stays_def by (auto simp: reflp_def split: option.splits)
  qed
  have "stays obj_frame (if cached then go_ret () else (\<lambda>s. (case tuf_embedded (fst s) of
            None \<Rightarrow> (Err (Msg ''fs.ReadFileFS unimplemented for embedded repo''), s)
          | Some rd \<Rightarrow>
              go_then (go_lift (embedded_target T (goos (snd s)) name meta rd)) (\<lambda>w.
              go_then (if length w = 0
                       then go_wrap ''downloading target'' (on_client (client_Download T name))
                       else go_ret w) (\<lambda>b.
              cache_Set name b)) s)))" for cached
    by (cases cached) (simp_all only: if_True if_False miss obj_stays(1))
  then show ?thesis unfolding maybeDownloadRemoteTarget_def by (intro obj_stays)
qed

lemma stays_download_loop: "stays obj_frame (download_loop T ts)"
proof (induction ts)
  case (Cons t ts)
  then show ?case by (cases t) (auto intro!: obj_stays stays_maybeDownload)
qed (simp add: obj_stays)

lemma stays_update: "stays obj_frame (updateMetadataAndDownloadTargets T)"
  unfolding updateMetadataAndDownloadTargets_def by (intro obj_stays stays_updateClient stays_download_loop)

lemma stays_match_targets: "stays obj_frame (match_targets T u ts acc)"
proof (induction ts arbitrary: acc)
  case (Cons t ts)
  then show ?case
    by (cases t) (auto intro!: obj_stays stays_GetTarget split: option.splits outcome.splits)
qed (simp add: obj_stays)

lemma stays_fallback_targets: "stays obj_frame (fallback_targets T fbs acc)"
proof (induction fbs arbitrary: acc)
  case Nil
  show ?case using stays_read [OF obj_frame_refl, of "\<lambda>_. Ret acc"] by (simp add: stays_def)
next
  case (Cons n fbs)
  show ?case unfolding stays_def
  proof
    fix s
    obtain x s1 where g: "GetTarget T n s = (x, s1)" by (cases "GetTarget T n s")
    then have 1: "obj_frame s s1" by (rule staysD [OF stays_GetTarget])
    then have "obj_frame s (snd (fallback_targets T fbs a s1))" for a
      using Cons unfolding stays_def by (meson obj_frame_trans transpD)
    with 1 g show "obj_frame s (snd (fallback_targets T (n # fbs) acc s))" by (simp split: outcome.splits)
  qed
qed

lemma stays_GetTargetsByMeta: "stays obj_frame (GetTargetsByMeta T usage fbs)"
proof -
  have "stays obj_frame (if length ms = 0 then fallback_targets T fbs ms else go_ret ms)" for ms
    by (simp add: stays_fallback_targets obj_stays)
  moreover have "stays obj_frame (if length ms = 0 then go_err e else go_ret ms)" for ms e
    by (simp add: obj_stays)
  ultimately show ?thesis unfolding GetTargetsByMeta_def
    by (intro obj_stays stays_on_client stays_match_targets)
qed

lemma stays_getRootStatus: "stays obj_frame (getRootStatus T)"
  unfolding stays_def
proof
  fix s :: "'a tuf_state"
  have "stays obj_frame (go_then (on_client (client_Targets T)) (\<lambda>targets s'.
           (and_then (status_loop T (tuf_local (fst s')) []) (\<lambda>md.
              Ret \<lparr>rs_Local = l, rs_Remote = TUF_Mirror (fst s), rs_Metadata = md, rs_Targets = map fst targets\<rparr>), s')))" for l
    by (intro obj_stays stays_on_client)
  then show "obj_frame s (snd (getRootStatus T s))" unfolding getRootStatus_def Let_def stays_def by blast
qed

section \<open>The process over time\<close>

text \<open>The same frame for the calls that go through the singleton.\<close>

definition same_singleton :: "'c tuf_world \<Rightarrow> 'c tuf_world \<Rightarrow> bool" where
  "same_singleton w w' \<longleftrightarrow> (\<forall>t. singletonTUF w = Some t \<longrightarrow> (\<exists>t'. singletonTUF w' = Some t' \<and> same_config t t'))"

definition mem_only :: "'c tuf_world \<Rightarrow> bool" where
  "mem_only w \<longleftrightarrow> noCache w \<and> (\<forall>t. singletonTUF w = Some t \<longrightarrow> in_memory t)"

text \<open>A call leaves the environment alone; a singleton or an error, once there, stays; and without a
  cache nothing is written.\<close>

definition call_frame :: "'c tuf_world \<Rightarrow> 'c tuf_world \<Rightarrow> bool" where
  "call_frame w w' \<longleftrightarrow> same_process w w' \<and> (once_done w \<longrightarrow> same_once w w' \<and> same_singleton w w') \<and>
     (mem_only w \<longrightarrow> mem_only w' \<and> disk_kept w w')"

lemma call_frame_same [simp]: "call_frame w w"
  by (simp add: call_frame_def frame_defs same_singleton_def)

lemma call_frame_refl: "reflp call_frame"
  by (simp add: reflpI)

lemma call_frame_trans: "transp call_frame"
proof (rule transpI)
  fix a b c :: "'a tuf_world"
  assume 1: "call_frame a b" and 2: "call_frame b c"
  then have "same_process a c" by (simp add: call_frame_def same_process_def)
  moreover have "same_once a c \<and> same_singleton a c" if "once_done a"
  proof -
    from 1 that have b: "same_once a b" "same_singleton a b" by (simp_all add: call_frame_def)
    with that have "once_done b" by (simp add: same_once_def)
    with 2 have c: "same_once b c" "same_singleton b c" by (simp_all add: call_frame_def)
    from b(1) c(1) have "same_once a c" by (simp add: same_once_def)
    moreover from b(2) c(2) have "same_singleton a c"
      unfolding same_singleton_def same_config_def by metis
    ultimately show ?thesis by simp
  qed
  moreover have "mem_only c \<and> disk_kept a c" if "mem_only a"
    using 1 2 that by (simp add: call_frame_def disk_kept_def)
  ultimately show "call_frame a c" by (simp add: call_frame_def)
qed

lemmas call_stays = stays_lift [OF call_frame_refl] stays_read [OF call_frame_refl]
  stays_then [OF call_frame_trans] stays_wrap

lemma stays_on_singleton:
  assumes "stays obj_frame m"
  shows "stays call_frame (on_singleton m)"
  unfolding stays_def
proof
  fix w
  show "call_frame w (snd (on_singleton m w))"
  proof (cases "singletonTUF w")
    case None
    then show ?thesis by (simp add: on_singleton_def)
  next
    case (Some t)
    obtain x t' w' where m: "m (t, w) = (x, t', w')" by (cases "m (t, w)") auto
    with assms have f: "obj_frame (t, w) (t', w')" by (rule staysD)
    let ?w = "w'\<lparr>singletonTUF := Some t'\<rparr>"
    have "same_process w ?w" "same_once w ?w" "same_singleton w ?w"
      using f Some by (simp_all add: obj_frame_def frame_defs same_singleton_def)
    moreover have "mem_only ?w \<and> disk_kept w ?w" if "mem_only w"
    proof -
      have "noCache ?w = noCache w" by (rule noCache_same) fact
      with that Some f show ?thesis by (simp add: mem_only_def obj_frame_def disk_kept_def)
    qed
    ultimately show ?thesis by (simp add: on_singleton_def Some m call_frame_def)
  qed
qed

lemma new_TUF_Ret:
  assumes "new_TUF T mirror root embedded w = Ret t"
  shows "tuf_mirror t = mirror" "tuf_embedded t = embedded" "tuf_targets t = newFileImpl w"
proof -
  from assms obtain l root' r x c l' where "client_Init T root' (NewClient T r, l) = (x, c, l')"
    "t = \<lparr>tuf_mirror = mirror, tuf_embedded = embedded, tuf_targets = newFileImpl w, tuf_local = l', tuf_client = c\<rparr>"
    unfolding new_TUF_def and_then_Ret_iff by (force simp: and_then_Ret_iff split: prod.splits)
  then show "tuf_mirror t = mirror" "tuf_embedded t = embedded" "tuf_targets t = newFileImpl w" by simp_all
qed

lemma newFileImpl_memory: "noCache w \<Longrightarrow> tuf_targets t = newFileImpl w \<Longrightarrow> in_memory t"
  by (simp add: in_memory_def newFileImpl_def Let_def)

lemma stays_singleton_once: "stays call_frame (singleton_once T mirror root embedded)"
  unfolding stays_def
proof
  fix w :: "'a tuf_world"
  show "call_frame w (snd (singleton_once T mirror root embedded w))"
  proof (cases "once_done w")
    case True
    then show ?thesis by (simp add: singleton_once_def)
  next
    case False
    show ?thesis
    proof (cases "new_TUF T mirror root embedded w")
      case (Ret t)
      have "in_memory t" if "noCache w" by (rule newFileImpl_memory [OF that new_TUF_Ret(3) [OF Ret]])
      with False Ret show ?thesis
        by (simp add: singleton_once_def call_frame_def frame_defs mem_only_def noCache_def)
    qed (use False in \<open>simp_all add: singleton_once_def call_frame_def frame_defs mem_only_def noCache_def\<close>)
  qed
qed

lemma stays_initializeTUF: "stays call_frame (initializeTUF T mirror root embedded force)"
proof -
  let ?up = "\<lambda>s. let fresh_timestamp = (case map_of (tuf_local (fst s)) ''timestamp.json'' of
                  Some trustedTimestamp \<Rightarrow> \<not> isExpiredTimestamp T (now (snd s)) trustedTimestamp
                | None \<Rightarrow> False)
            in if fresh_timestamp \<and> \<not> force then (Ret (), s)
               else go_wrap ''updating local metadata and targets'' (updateMetadataAndDownloadTargets T) s"
  have "stays obj_frame (go_wrap ''updating local metadata and targets'' (updateMetadataAndDownloadTargets T))"
    by (intro obj_stays stays_update)
  then have "stays obj_frame ?up" by (simp add: stays_def Let_def)
  then have "stays call_frame (on_singleton ?up)" by (rule stays_on_singleton)
  then have "stays call_frame (\<lambda>w. (case singletonTUFErr w of
          Some e \<Rightarrow> (Err e, w) | None \<Rightarrow> on_singleton ?up w))"
    using call_frame_refl unfolding stays_def by (auto simp: reflp_def split: option.splits)
  then show ?thesis unfolding initializeTUF_def by (intro call_stays stays_singleton_once)
qed

lemma stays_NewFromEnv: "stays call_frame (NewFromEnv T embedded)"
  using stays_initializeTUF unfolding stays_def NewFromEnv_def by blast

lemma stays_store_remote:
  assumes "\<not> noCache w"
  shows "call_frame w (snd (go_then (go_lift (remote_Marshal T m)) (\<lambda>b.
                go_wrap ''storing remote'' (on_disk (os_WriteFile (cachedRemote (rootCacheDir w)) b))) w))"
  using assms
  by (cases "remote_Marshal T m")
    (auto simp: on_disk_def os_WriteFile_def go_wrap_def call_frame_def frame_defs same_singleton_def mem_only_def
      split: option.splits)

lemma stays_store:
  "stays call_frame (\<lambda>w. if \<not> noCache w then
         (case singletonTUF w of
            None \<Rightarrow> (Panic ''nil pointer dereference'', w)
          | Some tuf \<Rightarrow>
              go_then (go_lift (remote_Marshal T (TUF_Mirror tuf))) (\<lambda>b.
                go_wrap ''storing remote'' (on_disk (os_WriteFile (cachedRemote (rootCacheDir w)) b))) w)
       else (Ret (), w))"
  unfolding stays_def using stays_store_remote [of _ T] by (auto simp del: go_then_lift split: option.splits)

lemma stays_Initialize: "stays call_frame (Initialize T embedded mirror root)"
  unfolding Initialize_def by (intro call_stays stays_initializeTUF stays_store)

text \<open>
  The life of a process: any sequence of calls of the package's API, in the order the lock
  serialises them, while time passes.
\<close>

inductive tuf_step :: "'c tuf_lib \<Rightarrow> 'c tuf_world \<Rightarrow> 'c tuf_world \<Rightarrow> bool" for T where
  step_NewFromEnv: "NewFromEnv T embedded w = (x, w') \<Longrightarrow> tuf_step T w w'"
| step_Initialize: "Initialize T embedded mirror root w = (x, w') \<Longrightarrow> tuf_step T w w'"
| step_GetRootStatus: "GetRootStatus T embedded w = (x, w') \<Longrightarrow> tuf_step T w w'"
| step_GetTarget: "on_singleton (GetTarget T name) w = (x, w') \<Longrightarrow> tuf_step T w w'"
| step_GetTargetsByMeta: "on_singleton (GetTargetsByMeta T usage fallbacks) w = (x, w') \<Longrightarrow> tuf_step T w w'"
| step_time: "tuf_step T w (w\<lparr>now := t\<rparr>)"

abbreviation tuf_run :: "'c tuf_lib \<Rightarrow> 'c tuf_world \<Rightarrow> 'c tuf_world \<Rightarrow> bool" where
  "tuf_run T \<equiv> (tuf_step T)\<^sup>*\<^sup>*"

lemma tuf_step_frame: "tuf_step T w w' \<Longrightarrow> call_frame w w'"
proof (induction rule: tuf_step.induct)
  case (step_GetRootStatus embedded w x w')
  have "stays call_frame (GetRootStatus T embedded)"
    unfolding GetRootStatus_def by (intro call_stays stays_NewFromEnv stays_on_singleton stays_getRootStatus)
  then show ?case using step_GetRootStatus by (rule staysD)
next
  case (step_time w t)
  then show ?case
    by (simp add: call_frame_def frame_defs same_singleton_def mem_only_def noCache_def)
qed (blast intro: staysD [OF stays_NewFromEnv] staysD [OF stays_Initialize]
    staysD [OF stays_on_singleton [OF stays_GetTarget]] staysD [OF stays_on_singleton [OF stays_GetTargetsByMeta]])+

lemma tuf_run_frame: "tuf_run T w w' \<Longrightarrow> call_frame w w'"
  by (induction rule: rtranclp_induct) (auto dest: tuf_step_frame transpD [OF call_frame_trans])

section \<open>Properties of the process\<close>

text \<open>The step that updates the metadata and downloads the targets, as an initialisation takes it.\<close>

definition update_step :: "'c tuf_lib \<Rightarrow> ('c tuf_world, unit) step" where
  "update_step T = on_singleton (go_wrap ''updating local metadata and targets'' (updateMetadataAndDownloadTargets T))"

definition has_fresh_timestamp :: "'c tuf_lib \<Rightarrow> 'c tuf_world \<Rightarrow> 'c TUF \<Rightarrow> bool" where
  "has_fresh_timestamp T w t \<longleftrightarrow>
     (\<exists>b. map_of (tuf_local t) ''timestamp.json'' = Some b \<and> \<not> isExpiredTimestamp T (now w) b)"

lemma initializeTUF_failed:
  "once_done w \<Longrightarrow> singletonTUFErr w = Some e \<Longrightarrow> initializeTUF T mirror root embedded force w = (Err e, w)"
  by (simp add: initializeTUF_def singleton_once_def go_then_def)

lemma initializeTUF_made:
  assumes "once_done w" "singletonTUFErr w = None" "singletonTUF w = Some t"
  shows "initializeTUF T mirror root embedded force w =
    (if has_fresh_timestamp T w t \<and> \<not> force then (Ret (), w) else update_step T w)"
proof -
  have "w\<lparr>singletonTUF := Some t\<rparr> = w" using assms(3) by (cases w) simp
  with assms show ?thesis
    by (auto simp: initializeTUF_def singleton_once_def go_then_def has_fresh_timestamp_def update_step_def on_singleton_def
        Let_def split: option.splits)
qed

text \<open>A first call, of either function, is the construction of the client and what follows it.\<close>

lemma first_failed:
  assumes "\<not> once_done w" "new_TUF T mirror root embedded w = Err e"
  shows "initializeTUF T mirror root embedded force w = (Err e, w\<lparr>once_done := True, singletonTUFErr := Some e\<rparr>)"
  using assms by (simp add: initializeTUF_def singleton_once_def go_then_def)

lemma first_made:
  assumes "\<not> once_done w" "new_TUF T mirror root embedded w = Ret t" "stays call_frame m"
    and "go_then (initializeTUF T mirror root embedded force) (\<lambda>_. m) w = (x, w1)"
  shows "once_done w1 \<and> singletonTUFErr w1 = None \<and> singletonTUF w1 \<noteq> None"
proof -
  let ?w = "w\<lparr>once_done := True, singletonTUF := Some t, singletonTUFErr := None\<rparr>"
  have "initializeTUF T mirror root embedded force w = initializeTUF T mirror root embedded force ?w"
    using assms(1,2) by (simp add: initializeTUF_def singleton_once_def go_then_def)
  then have "go_then (initializeTUF T mirror root embedded force) (\<lambda>_. m) ?w = (x, w1)" using assms(4) by (simp add: go_then_def)
  moreover have "stays call_frame (go_then (initializeTUF T mirror root embedded force) (\<lambda>_. m))"
    by (intro call_stays stays_initializeTUF assms(3))
  ultimately have "call_frame ?w w1" by (rule staysD [rotated])
  then show ?thesis by (auto simp: call_frame_def same_once_def same_singleton_def)
qed

text \<open>C12: which failure of the first initialisation is final.  When the client cannot be made, because of the
  metadata database, the mirror, the root or the client library, the first call returns the error, and whatever calls
  follow and however much time passes, every later one returns it again and does nothing.  A first call that makes the
  client and then fails, to update it or to store the mirror, leaves no error behind: every later initialisation
  updates again, unless it is not forced to and finds a timestamp that is not expired.\<close>

theorem failed_init_is_final:
  assumes "\<not> once_done w" "first = NewFromEnv T embedded \<and> mirror = cached_mirror T w \<and> root = None \<or> first = Initialize T embedded mirror root"
    and "first w = (x, w1)" "tuf_run T w1 w'"
  shows "(\<forall>e. new_TUF T mirror root embedded w = Err e \<longrightarrow> x = Err e \<and>
      NewFromEnv T embedded' w' = (Err e, w') \<and> Initialize T embedded' mirror' root' w' = (Err e, w')) \<and>
    (\<forall>t. new_TUF T mirror root embedded w = Ret t \<longrightarrow> singletonTUFErr w' = None \<and> (\<exists>t'. singletonTUF w' = Some t' \<and>
      NewFromEnv T embedded' w' = (if has_fresh_timestamp T w' t' then (Ret (), w') else update_step T w') \<and>
      initializeTUF T mirror' root' embedded' True w' = update_step T w'))"
proof (intro conjI allI impI)
  fix e assume "new_TUF T mirror root embedded w = Err e"
  from first_failed [OF assms(1) this] have i: "initializeTUF T mirror root embedded force w =
      (Err e, w\<lparr>once_done := True, singletonTUFErr := Some e\<rparr>)" for force .
  have f: "x = Err e \<and> w1 = w\<lparr>once_done := True, singletonTUFErr := Some e\<rparr>"
    using assms(2)
  proof (elim disjE conjE)
    assume "first = NewFromEnv T embedded" "mirror = cached_mirror T w" "root = None"
    with assms(3) i [of False] show ?thesis by (simp add: NewFromEnv_def)
  next
    assume "first = Initialize T embedded mirror root"
    with assms(3) show ?thesis by (simp add: Initialize_def go_then_def i)
  qed
  with tuf_run_frame [OF assms(4)] have "once_done w'" "singletonTUFErr w' = Some e"
    by (simp_all add: call_frame_def same_once_def)
  note later = initializeTUF_failed [OF this]
  from f show "x = Err e" by simp
  show "NewFromEnv T embedded' w' = (Err e, w')" by (simp add: NewFromEnv_def later)
  show "Initialize T embedded' mirror' root' w' = (Err e, w')" by (simp add: Initialize_def go_then_def later)
next
  fix t assume n: "new_TUF T mirror root embedded w = Ret t"
  have "once_done w1 \<and> singletonTUFErr w1 = None \<and> singletonTUF w1 \<noteq> None"
    using assms(2)
  proof (elim disjE conjE)
    assume "first = NewFromEnv T embedded" "mirror = cached_mirror T w" "root = None"
    with assms(3) have "go_then (initializeTUF T mirror root embedded False) (\<lambda>_. go_ret ()) w = (x, w1)"
      by (auto simp: NewFromEnv_def go_then_def split: prod.splits outcome.splits)
    with first_made [OF assms(1) n] show ?thesis using call_stays(1) by blast
  next
    assume "first = Initialize T embedded mirror root"
    with assms(3) first_made [OF assms(1) n stays_store] show ?thesis by (auto simp: Initialize_def)
  qed
  with tuf_run_frame [OF assms(4)] have o: "once_done w'" "singletonTUFErr w' = None" "singletonTUF w' \<noteq> None"
    by (auto simp: call_frame_def same_once_def same_singleton_def)
  then obtain t' where t': "singletonTUF w' = Some t'" by blast
  note later = initializeTUF_made [OF o(1,2) t']
  from o show "singletonTUFErr w' = None" by simp
  from t' show "\<exists>t'. singletonTUF w' = Some t' \<and>
      NewFromEnv T embedded' w' = (if has_fresh_timestamp T w' t' then (Ret (), w') else update_step T w') \<and>
      initializeTUF T mirror' root' embedded' True w' = update_step T w'"
    by (simp add: NewFromEnv_def later)
qed

text \<open>An initialised process keeps its configuration: its mirror, its embedded repository and the place
  of its target cache are those of the first initialisation, whatever mirror later calls ask for.\<close>

theorem singleton_config_fixed:
  assumes "once_done w" "singletonTUF w = Some t" "tuf_run T w w'"
  shows "\<exists>t'. singletonTUF w' = Some t' \<and> tuf_mirror t' = tuf_mirror t \<and> tuf_embedded t' = tuf_embedded t \<and>
    cache_slot (tuf_targets t') = cache_slot (tuf_targets t) \<and> singletonTUFErr w' = singletonTUFErr w"
  using tuf_run_frame [OF assms(3)] assms(1,2)
  by (auto simp: call_frame_def same_once_def same_singleton_def same_config_def)

text \<open>C24: with \<open>SIGSTORE_NO_CACHE\<close> set a process never writes to disk or to a metadata database.\<close>

theorem no_cache_writes_nothing:
  assumes "noCache w" "singletonTUF w = None" "tuf_run T w w'"
  shows "disk w' = disk w \<and> databases w' = databases w"
  using tuf_run_frame [OF assms(3)] assms(1,2) by (simp add: call_frame_def mem_only_def disk_kept_def)

lemma initializeTUF_Ret:
  assumes "initializeTUF T mirror root embedded force w = (Ret (), w')"
  shows "\<exists>t. singletonTUF w' = Some t \<and> (\<not> once_done w \<longrightarrow> tuf_mirror t = mirror)"
proof -
  from assms obtain w1 m where o: "singleton_once T mirror root embedded w = (Ret (), w1)"
    and e: "singletonTUFErr w1 = None" and s: "stays obj_frame m" "on_singleton m w1 = (Ret (), w')"
  proof -
    assume *: "\<And>w1 m. singleton_once T mirror root embedded w = (Ret (), w1) \<Longrightarrow> singletonTUFErr w1 = None \<Longrightarrow>
      stays obj_frame m \<Longrightarrow> on_singleton m w1 = (Ret (), w') \<Longrightarrow> thesis"
    have "stays obj_frame (\<lambda>s. if b s then (Ret (), s) else go_wrap msg (updateMetadataAndDownloadTargets T) s)" for b msg
    proof -
      have "stays obj_frame (go_wrap msg (updateMetadataAndDownloadTargets T))" by (intro stays_wrap stays_update)
      then show ?thesis by (simp add: stays_def)
    qed
    with assms * show thesis
      unfolding initializeTUF_def go_then_Ret_iff Let_def by (fastforce split: option.splits)
  qed
  from s(2) obtain t t' w2 where t: "singletonTUF w1 = Some t" "m (t, w1) = (Ret (), t', w2)" "w' = w2\<lparr>singletonTUF := Some t'\<rparr>"
    by (auto simp: on_singleton_def split: option.splits prod.splits)
  have "tuf_mirror t' = tuf_mirror t" using staysD [OF s(1) t(2)] by (simp add: obj_frame_def same_config_def)
  moreover have "tuf_mirror t = mirror" if "\<not> once_done w"
    using o e t(1) that new_TUF_Ret(1) by (fastforce simp: singleton_once_def split: outcome.splits)
  ultimately show ?thesis using t(3) by simp
qed

text \<open>After a successful \<open>Initialize\<close> a later process without arguments will use the same mirror: the one
  this call named when it was the first, with the legacy names of the default replaced by it.\<close>

theorem Initialize_caches_mirror:
  assumes "remote_json_laws T" "Initialize T embedded mirror root w = (Ret (), w')" "\<not> noCache w"
  shows "\<exists>t. singletonTUF w' = Some t \<and> cached_mirror T w' = TUF_Mirror t \<and>
    (\<not> once_done w \<longrightarrow> cached_mirror T w' = mirror_url mirror)"
proof -
  from assms(2) obtain w1 where i: "initializeTUF T mirror root embedded True w = (Ret (), w1)"
    and r: "(if \<not> noCache w1 then
         (case singletonTUF w1 of
            None \<Rightarrow> (Panic ''nil pointer dereference'', w1)
          | Some tuf \<Rightarrow>
              go_then (go_lift (remote_Marshal T (TUF_Mirror tuf))) (\<lambda>b.
                go_wrap ''storing remote'' (on_disk (os_WriteFile (cachedRemote (rootCacheDir w1)) b))) w1)
       else (Ret (), w1)) = (Ret (), w')"
    unfolding Initialize_def go_then_Ret_iff by auto
  from initializeTUF_Ret [OF i] obtain t where t: "singletonTUF w1 = Some t" "\<not> once_done w \<longrightarrow> tuf_mirror t = mirror"
    by blast
  have "same_process w w1" using staysD [OF stays_initializeTUF i] by (simp add: call_frame_def)
  with assms(3) have nc: "\<not> noCache w1" by (simp add: noCache_same)
  with r t obtain b where b: "remote_Marshal T (TUF_Mirror t) = Ret b"
    "on_disk (os_WriteFile (cachedRemote (rootCacheDir w1)) b) w1 = (Ret (), w')"
    by (auto simp: go_then_Ret_iff simp del: go_then_lift)
  then have w': "singletonTUF w' = singletonTUF w1" "same_process w1 w'"
    "os_ReadFile (disk w') (cachedRemote (rootCacheDir w1)) = Ret b"
    by (auto simp: on_disk_def os_WriteFile_def os_ReadFile_def same_process_def split: option.splits)
  have "remote_Unmarshal T b = Ret (TUF_Mirror t)" using assms(1) b(1) by (simp add: remote_json_laws_def)
  with w' have "cached_mirror T w' = TUF_Mirror t" by (simp add: cached_mirror_def rootCacheDir_same)
  with w' t show ?thesis by (simp add: TUF_Mirror_def)
qed

section \<open>A concrete repository\<close>

definition ref_meta :: file_meta where
  "ref_meta = \<lparr>fm_Length = 3, fm_Hashes = [], fm_Custom = Some [1]\<rparr>"

definition ref_tuf :: "unit tuf_lib" where
  "ref_tuf = \<lparr>
     NewClient = (\<lambda>_. ()),
     client_Init = (\<lambda>root (c, m). (if root = [] then Err (Msg ''invalid root'') else Ret (), c, AList.update ''root.json'' root m)),
     client_Update = (\<lambda>(c, m). (Ret [(''rekor.pub'', ref_meta)], c, AList.update ''timestamp.json'' [1, 1] m)),
     client_Targets = (\<lambda>cm. (Ret [(''rekor.pub'', ref_meta)], cm)),
     client_Target = (\<lambda>n cm. (if n = ''rekor.pub'' then Ret ref_meta else Err (Msg ''unknown target''), cm)),
     client_Download = (\<lambda>n cm. (if n = ''rekor.pub'' then Ret [7, 8, 9] else Err (Msg ''unknown target''), cm)),
     GenerateTargetFileMeta = (\<lambda>b. Ret \<lparr>fm_Length = length b, fm_Hashes = [], fm_Custom = None\<rparr>),
     TargetFileMetaEqual = (\<lambda>a b. if fm_Length a = fm_Length b then Ret () else Err (Msg ''wrong length'')),
     parse_signed = (\<lambda>b. if b = [] then Err (Msg ''unexpected end of JSON input'') else Ret (int (length b) * 100, 1)),
     parse_custom = (\<lambda>b. if b = [1] then Ret (Some (bytes_of ''Rekor''), Some (bytes_of ''Active''), [])
                         else Err (Msg ''invalid character'')),
     ParseRequestURI = (\<lambda>s. Ret (''https'', s)),
     HTTPRemoteStore = (\<lambda>_. Ret ()),
     NewFileRemoteStore = (\<lambda>_. Ret ()),
     remote_Marshal = (\<lambda>m. Ret (bytes_of m)),
     remote_Unmarshal = (\<lambda>b. Ret (string_of b)),
     format_time = (\<lambda>_. [])\<rparr>"

definition ref_knows :: "unit \<times> meta_store \<Rightarrow> string \<Rightarrow> file_meta \<Rightarrow> bool" where
  "ref_knows cm n m \<longleftrightarrow> n = ''rekor.pub'' \<and> m = ref_meta"

text \<open>A fresh process, with or without the disk cache.\<close>

definition ref_process :: "string \<Rightarrow> unit tuf_world" where
  "ref_process no_cache = \<lparr>env_TUF_ROOT = ''/tuf'', env_SIGSTORE_NO_CACHE = no_cache, user_home = Ret ''/root'', goos = ''linux'',
     now = 0, disk = \<lparr>fs_files = (\<lambda>_. None), fs_mkdir_error = (\<lambda>_. None), fs_write_error = (\<lambda>_. None)\<rparr>,
     databases = (\<lambda>_. []), db_open_error = (\<lambda>_. None), db_get_error = (\<lambda>_. None), db_set_error = (\<lambda>_. None),
     once_done = False, singletonTUFErr = None, singletonTUF = None\<rparr>"

definition ref_object :: "unit tuf_state" where
  "ref_object = (\<lparr>tuf_mirror = ''m'', tuf_embedded = Some (\<lambda>_. Err (Msg ''no such file'')), tuf_targets = MemoryImpl \<lparr>mc_targets = None\<rparr>,
     tuf_local = [], tuf_client = ()\<rparr>, ref_process ''1'')"

lemma ref_tuf_laws: "tuf_laws ref_tuf ref_knows"
  by (auto simp: tuf_laws_def ref_tuf_def ref_knows_def isValidTarget_def ref_meta_def split: if_splits)

lemma ref_remote_json: "remote_json_laws ref_tuf"
  by (simp add: remote_json_laws_def ref_tuf_def)

lemma ref_isValid: "isValidTarget ref_tuf b ref_meta = (if length b = 3 then Ret True else Err (Msg ''wrong length''))"
  by (simp add: isValidTarget_def ref_tuf_def ref_meta_def)

definition ref_updated :: "unit outcome \<times> unit tuf_state" where
  "ref_updated = updateMetadataAndDownloadTargets ref_tuf ref_object"

lemma ref_updated_runs: "fst ref_updated = Ret ()" "cache_Get (snd ref_updated) ''rekor.pub'' = Ret [7, 8, 9]"
  by code_simp+

lemma ref_update_Ret: "updateMetadataAndDownloadTargets ref_tuf ref_object = (Ret (), snd ref_updated)"
  using ref_updated_runs(1) by (metis prod.collapse ref_updated_def)

lemma update_leaves_valid_targets_witness:
  "\<exists>b. cache_Get (snd ref_updated) ''rekor.pub'' = Ret b \<and> isValidTarget ref_tuf b ref_meta = Ret True"
  by (rule update_leaves_valid_targets [OF ref_tuf_laws ref_update_Ret, of "[(''rekor.pub'', ref_meta)]"])
    (simp_all add: ref_tuf_def)

lemma ref_get: "fst (GetTarget ref_tuf ''rekor.pub'' (snd ref_updated)) = Ret [7, 8, 9]"
  by code_simp

lemma GetTarget_valid_witness:
  "\<exists>m cm. client_Target ref_tuf ''rekor.pub'' (tuf_client (fst (snd ref_updated)), tuf_local (fst (snd ref_updated))) = (Ret m, cm) \<and>
    isValidTarget ref_tuf [7, 8, 9] m = Ret True"
  using GetTarget_valid [of ref_tuf "''rekor.pub''" "snd ref_updated" "[7, 8, 9]"] ref_get
  by (metis prod.collapse)

lemma ref_by_meta: "fst (GetTargetsByMeta ref_tuf Rekor [] (snd ref_updated)) =
    Ret [\<lparr>tf_Name = ''rekor.pub'', tf_Target = [7, 8, 9], tf_Status = Active\<rparr>]"
  by code_simp

lemma GetTargetsByMeta_sound_witness:
  "read_target ref_tuf \<lparr>tf_Name = ''rekor.pub'', tf_Target = [7, 8, 9], tf_Status = Active\<rparr>"
proof -
  have "GetTargetsByMeta ref_tuf Rekor [] (snd ref_updated) =
    (Ret [\<lparr>tf_Name = ''rekor.pub'', tf_Target = [7, 8, 9], tf_Status = Active\<rparr>], snd (GetTargetsByMeta ref_tuf Rekor [] (snd ref_updated)))"
    using ref_by_meta by (metis prod.collapse)
  from GetTargetsByMeta_sound [OF this] show ?thesis by simp
qed

definition ref_failed :: "unit tuf_world" where
  "ref_failed = snd (NewFromEnv ref_tuf None (ref_process []))"

lemma ref_failed_err: "once_done ref_failed" "singletonTUFErr ref_failed =
    Some (Wrap ''getting trusted root'' (Msg ''fs.ReadFileFS unimplemented for embedded repo''))"
  by code_simp+

theorem failed_init_is_final_witness:
  "Initialize ref_tuf None ''m'' (Some [1]) (ref_failed\<lparr>now := 9\<rparr>) =
    (Err (Wrap ''getting trusted root'' (Msg ''fs.ReadFileFS unimplemented for embedded repo'')), ref_failed\<lparr>now := 9\<rparr>)"
proof -
  have "tuf_run ref_tuf ref_failed (ref_failed\<lparr>now := 9\<rparr>)" by (intro r_into_rtranclp step_time)
  moreover have "NewFromEnv ref_tuf None (ref_process []) = (fst (NewFromEnv ref_tuf None (ref_process [])), ref_failed)"
    by (simp add: ref_failed_def)
  moreover have "\<not> once_done (ref_process [])" by (simp add: ref_process_def)
  moreover have "new_TUF ref_tuf (cached_mirror ref_tuf (ref_process [])) None None (ref_process []) =
      Err (Wrap ''getting trusted root'' (Msg ''fs.ReadFileFS unimplemented for embedded repo''))"
    by (simp add: new_TUF_def newLocalStore_def noCache_def ParseBool_def syncLocalMeta_def remoteFromMirror_def ref_tuf_def
        ref_process_def getRoot_def)
  ultimately show ?thesis
    using failed_init_is_final [of "ref_process []" "NewFromEnv ref_tuf None" ref_tuf None] by blast
qed

definition ref_first :: "unit outcome \<times> unit tuf_world" where
  "ref_first = Initialize ref_tuf (Some (\<lambda>_. Err (Msg ''no such file''))) ''https://m'' (Some [1]) (ref_process [])"

lemma ref_first_runs: "fst ref_first = Ret ()" "once_done (snd ref_first)" "\<not> noCache (ref_process [])"
  "\<not> once_done (ref_process [])" "map_option tuf_mirror (singletonTUF (snd ref_first)) = Some ''https://m''"
  by code_simp+

lemma singleton_config_fixed_witness:
  "map_option tuf_mirror (singletonTUF (snd (Initialize ref_tuf None ''https://other'' None (snd ref_first)))) = Some ''https://m''"
proof -
  obtain t where t: "singletonTUF (snd ref_first) = Some t" "tuf_mirror t = ''https://m''" using ref_first_runs(5) by auto
  have "tuf_run ref_tuf (snd ref_first) (snd (Initialize ref_tuf None ''https://other'' None (snd ref_first)))"
    by (intro r_into_rtranclp step_Initialize) (rule prod.collapse [symmetric])
  from singleton_config_fixed [OF ref_first_runs(2) t(1) this] t(2) show ?thesis by auto
qed

lemma no_cache_writes_nothing_witness:
  "disk (snd (Initialize ref_tuf None ''m'' (Some [1]) (ref_process ''1''))) = disk (ref_process ''1'')"
proof -
  have "tuf_run ref_tuf (ref_process ''1'') (snd (Initialize ref_tuf None ''m'' (Some [1]) (ref_process ''1'')))"
    by (intro r_into_rtranclp step_Initialize) (rule prod.collapse [symmetric])
  moreover have "noCache (ref_process ''1'')" "singletonTUF (ref_process ''1'') = None"
    by (simp_all add: noCache_def ref_process_def ParseBool_def)
  ultimately show ?thesis using no_cache_writes_nothing [of "ref_process ''1''" ref_tuf] by blast
qed

lemma Initialize_caches_mirror_witness: "cached_mirror ref_tuf (snd ref_first) = mirror_url ''https://m''"
proof -
  have "Initialize ref_tuf (Some (\<lambda>_. Err (Msg ''no such file''))) ''https://m'' (Some [1]) (ref_process []) = (Ret (), snd ref_first)"
    using ref_first_runs(1) by (metis prod.collapse ref_first_def)
  from Initialize_caches_mirror [OF ref_remote_json this ref_first_runs(3)] ref_first_runs(4) show ?thesis by blast
qed

end
