(* ===== verification/Kms.thy ===== *)
theory Kms
  imports Loaders "HOL-Library.AList" "HOL-Library.Multiset"
begin

text \<open>
  \<open>pkg/signature/kms\<close>: the registry of providers (\<open>kms.go\<close>), the in-memory provider
  (\<open>fake/signer.go\<close>), and what the cloud providers share: a state made of the process, a clock, a key
  cache and the remote service, and the wrapper that turns a provider into a \<open>crypto.Signer\<close>.
\<close>

section \<open>The registry of providers\<close>

text \<open>The type of the options is left open: a provider may bring options of its own.\<close>

type_synonym ('o, 'w, 'sv) ProviderInit = "go_context \<Rightarrow> string \<Rightarrow> hash \<Rightarrow> 'o list \<Rightarrow> ('w, 'sv) step"

text \<open>The map of providers, in the order an iteration meets them.\<close>

type_synonym ('o, 'w, 'sv) providersMap = "(string \<times> ('o, 'w, 'sv) ProviderInit) list"

definition AddProvider ::
  "string \<Rightarrow> ('o, 'w, 'sv) ProviderInit \<Rightarrow> ('o, 'w, 'sv) providersMap \<Rightarrow> ('o, 'w, 'sv) providersMap" where
  "AddProvider keyResourceID init providers = AList.update keyResourceID init providers"

definition exec_ErrNotFound :: goerr where
  "exec_ErrNotFound = Msg ''executable file not found in $PATH''"

definition ErrorInputKeyResourceID :: goerr where
  "ErrorInputKeyResourceID = Msg ''parsing input key resource id''"

text \<open>The last argument but one stands for the plugin system, \<open>cliplugin.LoadSignerVerifier\<close>.\<close>

definition kms_Get ::
  "('o, 'w, 'sv) providersMap \<Rightarrow> ('o, 'w, 'sv) ProviderInit \<Rightarrow> go_context \<Rightarrow> string \<Rightarrow> hash \<Rightarrow> 'o list \<Rightarrow> ('w, 'sv) step" where
  "kms_Get providers plugin ctx keyResourceID hashFunc opts =
     (case find (\<lambda>(ref, pi). HasPrefix keyResourceID ref) providers of
        Some (ref, pi) \<Rightarrow> pi ctx keyResourceID hashFunc opts
      | None \<Rightarrow> (\<lambda>w. (case plugin ctx keyResourceID hashFunc opts w of
            (Err e, w') \<Rightarrow>
              if errors_Is e exec_ErrNotFound \<or> errors_Is e ErrorInputKeyResourceID
              then (Err (Wrap2 (ProviderNotFoundError keyResourceID) e), w')
              else (Err e, w')
          | r \<Rightarrow> r)))"

definition SupportedProviders :: "('o, 'w, 'sv) providersMap \<Rightarrow> string list" where
  "SupportedProviders providers = map fst providers"

text \<open>No key reference belongs to two providers.\<close>

definition prefix_free :: "string list \<Rightarrow> bool" where
  "prefix_free refs \<longleftrightarrow> (\<forall>a \<in> set refs. \<forall>b \<in> set refs. HasPrefix a b \<longrightarrow> a = b)"

lemma prefix_free_unique:
  assumes "prefix_free refs" "a \<in> set refs" "b \<in> set refs" "HasPrefix s a" "HasPrefix s b"
  shows "a = b"
proof -
  have "HasPrefix a b \<or> HasPrefix b a"
    using assms(4,5) by (auto simp: HasPrefix_iff append_eq_append_conv2)
  with assms(1-3) show ?thesis unfolding prefix_free_def by blast
qed

lemma find_provider_unique:
  assumes "prefix_free (map fst ps)" "distinct (map fst ps)" "(ref, pi) \<in> set ps" "HasPrefix s ref"
  shows "find (\<lambda>(r, _). HasPrefix s r) ps = Some (ref, pi)"
proof -
  have "find (\<lambda>(r, _). HasPrefix s r) ps \<noteq> None" using assms(3,4) by (auto simp: find_None_iff)
  then obtain r p where f: "find (\<lambda>(r, _). HasPrefix s r) ps = Some (r, p)" by auto
  from find_Some_mem [OF f] have "(r, p) \<in> set ps" "HasPrefix s r" by auto
  with assms prefix_free_unique [OF assms(1), of r ref s] have "r = ref" by force
  with \<open>(r, p) \<in> set ps\<close> assms(2,3) f show ?thesis by (metis eq_key_imp_eq_value)
qed

section \<open>The state of a cloud provider\<close>

text \<open>
  The key cache is \<open>ttlcache\<close> with one key and no touching on a hit: a parameter with three
  operations.  An item stored at time \<open>t\<close> for \<open>ttl\<close> seconds is there until \<open>t + ttl\<close>, or for ever
  when the time to live is not positive.
\<close>

record ('k, 'i) ttl_lib =
  ttl_New :: 'k
  ttl_Live :: "'k \<Rightarrow> int \<Rightarrow> 'i option"
  ttl_Set :: "'i \<Rightarrow> int \<Rightarrow> int \<Rightarrow> 'k \<Rightarrow> 'k"
  ttl_Delete :: "'k \<Rightarrow> 'k"

definition ttl_laws :: "('k, 'i) ttl_lib \<Rightarrow> bool" where
  "ttl_laws C \<longleftrightarrow>
     (\<forall>t. ttl_Live C (ttl_New C) t = None) \<and>
     (\<forall>k t. ttl_Live C (ttl_Delete C k) t = None) \<and>
     (\<forall>i ttl t0 k t. t0 \<le> t \<longrightarrow>
        ttl_Live C (ttl_Set C i ttl t0 k) t = (if ttl \<le> 0 \<or> t < t0 + ttl then Some i else None))"

record ('k, 'v) kms_state =
  kms_world :: world
  kms_clock :: int
  kms_cache :: 'k
  kms_remote :: 'v

definition on_world :: "'a go \<Rightarrow> (('k, 'v) kms_state, 'a) step" where
  "on_world m s = (case m (kms_world s) of (x, w) \<Rightarrow> (x, s\<lparr>kms_world := w\<rparr>))"

definition on_remote :: "('v, 'a) step \<Rightarrow> (('k, 'v) kms_state, 'a) step" where
  "on_remote m s = (case m (kms_remote s) of (x, v) \<Rightarrow> (x, s\<lparr>kms_remote := v\<rparr>))"

lemma on_world_step: "m (kms_world s) = (x, w) \<Longrightarrow> on_world m s = (x, s\<lparr>kms_world := w\<rparr>)"
  by (simp add: on_world_def)

lemma on_remote_Ret: "on_remote m s = (Ret x, s') \<longleftrightarrow> (\<exists>r. m (kms_remote s) = (Ret x, r) \<and> s' = s\<lparr>kms_remote := r\<rparr>)"
  by (auto simp: on_remote_def split: prod.splits)

lemma on_world_Ret: "on_world m s = (Ret x, s') \<longleftrightarrow> (\<exists>w. m (kms_world s) = (Ret x, w) \<and> s' = s\<lparr>kms_world := w\<rparr>)"
  by (auto simp: on_world_def split: prod.splits)

text \<open>\<open>Cache.Get\<close> with a loader that stores what it loads.\<close>

definition cached ::
  "('k, 'i) ttl_lib \<Rightarrow> int \<Rightarrow> (('k, 'v) kms_state, 'i) step \<Rightarrow> (('k, 'v) kms_state, 'i) step" where
  "cached C ttl fetch s = (case ttl_Live C (kms_cache s) (kms_clock s) of
       Some i \<Rightarrow> (Ret i, s)
     | None \<Rightarrow> go_then fetch (\<lambda>i s'.
         (Ret i, s'\<lparr>kms_cache := ttl_Set C i ttl (kms_clock s') (kms_cache s')\<rparr>)) s)"

text \<open>A call of the service touches nothing else.\<close>

definition cache_kept :: "('k, 'v) kms_state \<Rightarrow> ('k, 'v) kms_state \<Rightarrow> bool" where
  "cache_kept s s' \<longleftrightarrow> kms_cache s' = kms_cache s \<and> kms_clock s' = kms_clock s \<and> kms_world s' = kms_world s"

lemma cache_kept_refl: "reflp cache_kept"
  by (simp add: reflpI cache_kept_def)

lemma cache_kept_trans: "transp cache_kept"
  by (rule transpI) (simp add: cache_kept_def)

lemma stays_if: "stays R m \<Longrightarrow> stays R m' \<Longrightarrow> stays R (if b then m else m')"
  by simp

lemmas cache_stays = stays_if stays_lift [OF cache_kept_refl] stays_read [OF cache_kept_refl]
  stays_then [OF cache_kept_trans] stays_wrap

lemma stays_on_remote: "stays cache_kept (on_remote m)"
  by (simp add: stays_def cache_kept_def on_remote_def split: prod.splits)

text \<open>
  A client that keeps what it fetches.  For the time to live, and for ever when that is not
  positive, the answer is the one fetched first and the service is left alone; what is returned was
  fetched no longer ago than that.
\<close>

locale caching_client =
  fixes ttl :: "'c \<Rightarrow> int"
    and fetch :: "'c \<Rightarrow> (('k, 'v) kms_state, 'i) step"
    and get :: "('k, 'i) ttl_lib \<Rightarrow> 'c \<Rightarrow> (('k, 'v) kms_state, 'i) step"
  assumes get_cached: "get C c = cached C (ttl c) (fetch c)"
    and fetch_keeps: "stays cache_kept (fetch c)"
begin

lemma get_hit: "ttl_Live C (kms_cache s) (kms_clock s) = Some i \<Longrightarrow> get C c s = (Ret i, s)"
  by (simp add: get_cached cached_def)

lemma get_miss:
  assumes "ttl_Live C (kms_cache s) (kms_clock s) = None" "get C c s = (Ret i, s')"
  obtains s1 where "fetch c s = (Ret i, s1)" "s' = s1\<lparr>kms_cache := ttl_Set C i (ttl c) (kms_clock s) (kms_cache s)\<rparr>"
proof -
  from assms obtain s1 where s1: "fetch c s = (Ret i, s1)"
    "s' = s1\<lparr>kms_cache := ttl_Set C i (ttl c) (kms_clock s1) (kms_cache s1)\<rparr>"
    by (auto simp: get_cached cached_def go_then_Ret_iff)
  moreover from staysD [OF fetch_keeps s1(1)] have "kms_cache s1 = kms_cache s" "kms_clock s1 = kms_clock s"
    by (simp_all add: cache_kept_def)
  ultimately show thesis using that by simp
qed

lemma get_fail:
  assumes "ttl_Live C (kms_cache s) (kms_clock s) = None" "fetch c s = (Err e, s1)"
  shows "get C c s = (Err e, s1)"
  using assms by (simp add: get_cached cached_def go_then_def)

lemma get_world: "get C c s = (x, s') \<Longrightarrow> kms_world s' = kms_world s"
proof -
  assume a: "get C c s = (x, s')"
  obtain y s1 where f: "fetch c s = (y, s1)" by (cases "fetch c s")
  from staysD [OF fetch_keeps f] have "kms_world s1 = kms_world s" by (simp add: cache_kept_def)
  with a f show ?thesis by (auto simp: get_cached cached_def go_then_def split: option.splits outcome.splits)
qed

lemma get_again:
  assumes laws: "ttl_laws C"
    and "ttl_Live C (kms_cache s) (kms_clock s) = None" "get C c s = (Ret i, s')"
    and "kms_cache s2 = kms_cache s'" "kms_clock s' \<le> kms_clock s2" "ttl c \<le> 0 \<or> kms_clock s2 < kms_clock s' + ttl c"
  shows "get C c s2 = (Ret i, s2)"
proof (rule get_hit)
  from get_miss [OF assms(2,3)] obtain s1 where s1: "fetch c s = (Ret i, s1)"
    "s' = s1\<lparr>kms_cache := ttl_Set C i (ttl c) (kms_clock s) (kms_cache s)\<rparr>" .
  moreover from staysD [OF fetch_keeps s1(1)] have "kms_clock s1 = kms_clock s" by (simp add: cache_kept_def)
  ultimately show "ttl_Live C (kms_cache s2) (kms_clock s2) = Some i"
    using assms(4-6) laws by (simp add: ttl_laws_def)
qed

text \<open>At the same moment the answer is the same, whether the first was cached or fetched.\<close>

lemma get_repeat:
  assumes "ttl_laws C" "get C c s = (Ret i, s')" "kms_cache s2 = kms_cache s'" "kms_clock s2 = kms_clock s'"
  shows "get C c s2 = (Ret i, s2)"
proof (cases "ttl_Live C (kms_cache s) (kms_clock s)")
  case None
  from get_again [OF assms(1) None assms(2,3)] assms(4) show ?thesis by (cases "ttl c \<le> 0") simp_all
next
  case (Some j)
  with assms show ?thesis by (auto simp: get_hit)
qed

lemma get_expired:
  assumes laws: "ttl_laws C"
    and "ttl_Live C (kms_cache s) (kms_clock s) = None" "get C c s = (Ret i, s')"
    and "kms_cache s2 = kms_cache s'" "0 < ttl c" "kms_clock s' + ttl c \<le> kms_clock s2" "get C c s2 = (Ret j, s3)"
  shows "\<exists>s4. fetch c s2 = (Ret j, s4)"
proof -
  from get_miss [OF assms(2,3)] obtain s1 where s1: "fetch c s = (Ret i, s1)"
    "s' = s1\<lparr>kms_cache := ttl_Set C i (ttl c) (kms_clock s) (kms_cache s)\<rparr>" .
  moreover from staysD [OF fetch_keeps s1(1)] have "kms_clock s1 = kms_clock s" by (simp add: cache_kept_def)
  ultimately have "ttl_Live C (kms_cache s2) (kms_clock s2) = None"
    using assms(4-6) laws by (simp add: ttl_laws_def)
  from get_miss [OF this assms(7)] show ?thesis by blast
qed

end

text \<open>A cache for witnesses: the item and its last instant.\<close>

definition ref_ttl :: "(('i \<times> int option) option, 'i) ttl_lib" where
  "ref_ttl = \<lparr>ttl_New = None,
     ttl_Live = (\<lambda>k t. case k of None \<Rightarrow> None | Some (i, e) \<Rightarrow> (case e of None \<Rightarrow> Some i | Some x \<Rightarrow> if t < x then Some i else None)),
     ttl_Set = (\<lambda>i ttl t k. Some (i, if ttl \<le> 0 then None else Some (t + ttl))),
     ttl_Delete = (\<lambda>k. None)\<rparr>"

lemma ref_ttl_laws: "ttl_laws ref_ttl"
  by (auto simp: ttl_laws_def ref_ttl_def)

section \<open>A provider as a crypto.Signer\<close>

text \<open>
  Each provider has its own copy of \<open>cryptoSignerWrapper\<close>; they differ only in the provider they
  hold.  \<open>Public\<close> returns the key, nil after an error, and the error it hands to the caller's
  function.
\<close>

record cryptoSignerWrapper =
  csw_ctx :: go_context
  csw_hashFunc :: hash

definition csw_Public ::
  "(sig_option list \<Rightarrow> ('s, public_key) step) \<Rightarrow> cryptoSignerWrapper \<Rightarrow> ('s, public_key \<times> goerr option) step" where
  "csw_Public sv_PublicKey c s = (case sv_PublicKey [WithContext (csw_ctx c)] s of
       (Ret pk, s') \<Rightarrow> (Ret (pk, None), s')
     | (Err e, s') \<Rightarrow> (Ret (Nil_public, Some e), s')
     | (Panic p, s') \<Rightarrow> (Panic p, s'))"

definition csw_Sign ::
  "(io_reader \<Rightarrow> sig_option list \<Rightarrow> ('s, bytes) step) \<Rightarrow> cryptoSignerWrapper \<Rightarrow> bytes \<Rightarrow> signer_opts option \<Rightarrow> ('s, bytes) step" where
  "csw_Sign sv_SignMessage c digest opts =
     (let hashFunc = (case opts of Some o1 \<Rightarrow> HashFunc o1 | None \<Rightarrow> csw_hashFunc c)
      in sv_SignMessage None [WithContext (csw_ctx c), WithDigest digest, WithCryptoSignerOpts (Some (SignerOpts hashFunc))])"

section \<open>The in-memory provider\<close>

definition FakeReferenceScheme :: string where "FakeReferenceScheme = ''fakekms://''"

record fake_SignerVerifier =
  fake_signer :: any_signer_verifier

definition fake_LoadSignerVerifier :: "crypto_lib \<Rightarrow> go_context \<Rightarrow> hash \<Rightarrow> fake_SignerVerifier outcome" where
  "fake_LoadSignerVerifier L ctx hf = (case ctx_priv ctx of
       None \<Rightarrow> and_then (NewDefaultECDSASignerVerifier L) (\<lambda>(signer, _). Ret \<lparr>fake_signer = Ecdsa_sv signer\<rparr>)
     | Some pk \<Rightarrow> and_then (LoadSignerVerifier pk hf) (\<lambda>signer. Ret \<lparr>fake_signer = signer\<rparr>))"

definition fake_SignMessage :: "crypto_lib \<Rightarrow> fake_SignerVerifier \<Rightarrow> io_reader \<Rightarrow> sig_option list \<Rightarrow> bytes go" where
  "fake_SignMessage L g message opts = SignMessage L (sv_signer (fake_signer g)) message opts"

definition fake_PublicKey :: "fake_SignerVerifier \<Rightarrow> sig_option list \<Rightarrow> public_key go" where
  "fake_PublicKey g opts = go_lift (SV_PublicKey (fake_signer g) opts)"

definition fake_VerifySignature ::
  "crypto_lib \<Rightarrow> fake_SignerVerifier \<Rightarrow> io_reader \<Rightarrow> io_reader \<Rightarrow> sig_option list \<Rightarrow> unit go" where
  "fake_VerifySignature L g signature message opts = VerifySignature L (sv_verifier (fake_signer g)) signature message opts"

definition fake_CreateKey :: "fake_SignerVerifier \<Rightarrow> go_context \<Rightarrow> string \<Rightarrow> public_key go" where
  "fake_CreateKey g ctx algorithm = go_then (fake_PublicKey g []) go_ret"

definition fake_Public :: "fake_SignerVerifier \<Rightarrow> cryptoSignerWrapper \<Rightarrow> (public_key \<times> goerr option) go" where
  "fake_Public g c = csw_Public (fake_PublicKey g) c"

definition fake_Sign :: "crypto_lib \<Rightarrow> fake_SignerVerifier \<Rightarrow> cryptoSignerWrapper \<Rightarrow> bytes \<Rightarrow> signer_opts option \<Rightarrow> bytes go" where
  "fake_Sign L g c digest opts = csw_Sign (fake_SignMessage L g) c digest opts"

definition fake_CryptoSigner :: "fake_SignerVerifier \<Rightarrow> go_context \<Rightarrow> (cryptoSignerWrapper \<times> hash) outcome" where
  "fake_CryptoSigner g ctx = Ret (\<lparr>csw_ctx = ctx, csw_hashFunc = SHA256\<rparr>, SHA256)"

definition fake_SupportedAlgorithms :: "string list" where
  "fake_SupportedAlgorithms = [''ecdsa-p256-sha256'']"

definition fake_DefaultAlgorithm :: string where
  "fake_DefaultAlgorithm = ''ecdsa-p256-sha256''"

definition fake_init :: "crypto_lib \<Rightarrow> ('o, world, fake_SignerVerifier) ProviderInit" where
  "fake_init L ctx keyResourceID hf opts = go_lift (fake_LoadSignerVerifier L ctx hf)"

section \<open>Properties\<close>

text \<open>Which provider serves a key reference does not depend on the order in which the map of providers
  is iterated, as long as no scheme is a prefix of another; and a provider that was added serves
  every reference that starts with its scheme.\<close>

theorem provider_choice_is_stable:
  assumes "distinct (map fst ps)" "prefix_free (map fst ps)" "mset ps' = mset ps"
  shows "kms_Get ps' plugin ctx ref hf opts = kms_Get ps plugin ctx ref hf opts \<and>
    (\<forall>scheme init. prefix_free (scheme # map fst ps) \<longrightarrow> HasPrefix ref scheme \<longrightarrow>
       kms_Get (AddProvider scheme init ps) plugin ctx ref hf opts = init ctx ref hf opts)"
proof -
  have ps': "set ps' = set ps" "mset (map fst ps') = mset (map fst ps)"
    using assms(3) by (metis set_mset_mset) (simp add: assms(3))
  then have d: "distinct (map fst ps')" "prefix_free (map fst ps')"
    using assms(1,2) mset_eq_imp_distinct_iff [OF ps'(2)] by (simp_all add: prefix_free_def ps'(1))
  have "find (\<lambda>(r, _). HasPrefix ref r) ps' = find (\<lambda>(r, _). HasPrefix ref r) ps"
  proof (cases "find (\<lambda>(r, _). HasPrefix ref r) ps")
    case None
    then have "find (\<lambda>(r, _). HasPrefix ref r) ps' = None" by (simp add: find_None_iff ps')
    with None show ?thesis by simp
  next
    case (Some rp)
    obtain r p where rp: "rp = (r, p)" by (cases rp)
    from find_Some_mem [OF Some] rp have "(r, p) \<in> set ps'" "HasPrefix ref r" by (auto simp: ps')
    from find_provider_unique [OF d(2,1) this] Some rp show ?thesis by simp
  qed
  then have "kms_Get ps' plugin ctx ref hf opts = kms_Get ps plugin ctx ref hf opts"
    by (simp add: kms_Get_def)
  moreover have "kms_Get (AddProvider scheme init ps) plugin ctx ref hf opts = init ctx ref hf opts"
    if a: "prefix_free (scheme # map fst ps)" "HasPrefix ref scheme" for scheme init
  proof -
    let ?ps = "AddProvider scheme init ps"
    have s: "set (map fst ?ps) = set (scheme # map fst ps)" by (simp add: AddProvider_def dom_update)
    then have "prefix_free (map fst ?ps)" using a(1) unfolding prefix_free_def by simp
    moreover have "distinct (map fst ?ps)" using assms(1) by (simp add: AddProvider_def distinct_update)
    moreover have "(scheme, init) \<in> set ?ps"
      unfolding AddProvider_def by (metis map_of_SomeD update_conv' fun_upd_same)
    ultimately show ?thesis using find_provider_unique [of ?ps scheme init ref] a(2) by (simp add: kms_Get_def)
  qed
  ultimately show ?thesis by blast
qed

definition no_service :: "('o, world, fake_SignerVerifier) ProviderInit" where
  "no_service ctx ref hf opts = go_lift (Err (Msg ''no such service''))"

lemma provider_choice_is_stable_witness:
  "kms_Get [(FakeReferenceScheme, fake_init ref_lib), (''gcpkms://'', no_service)] no_service Background ''fakekms://key'' SHA256 ([] :: sig_option list)
   = kms_Get [(''gcpkms://'', no_service), (FakeReferenceScheme, fake_init ref_lib)] no_service Background ''fakekms://key'' SHA256 ([] :: sig_option list)"
  by (rule provider_choice_is_stable [THEN conjunct1])
    (simp_all add: prefix_free_def HasPrefix_def FakeReferenceScheme_def)

end
