(* ===== verification/Regex.thy ===== *)
theory Regex
  imports Prelude
begin

text \<open>
  Regular expressions as far as the key references of \<open>pkg/signature/kms\<close> need them: \<open>matches\<close> is
  the anchored match of Go's \<open>regexp\<close>, computed by derivatives, and \<open>submatch\<close> the capturing groups
  of a pattern that is a sequence of segments, the earlier ones as long as possible.
\<close>

section \<open>Expressions\<close>

datatype re = Eps | Empty_set | Cls "char \<Rightarrow> bool" | Seq re re | Alt re re | Star re

primrec lit :: "string \<Rightarrow> re" where
  "lit [] = Eps"
| "lit (c # s) = Seq (Cls (\<lambda>x. x = c)) (lit s)"

definition opt_re :: "re \<Rightarrow> re" where "opt_re r = Alt r Eps"
definition plus_re :: "re \<Rightarrow> re" where "plus_re r = Seq r (Star r)"

primrec times_re :: "nat \<Rightarrow> re \<Rightarrow> re" where
  "times_re 0 r = Eps"
| "times_re (Suc n) r = Seq r (times_re n r)"

primrec nullable :: "re \<Rightarrow> bool" where
  "nullable Eps = True"
| "nullable Empty_set = False"
| "nullable (Cls p) = False"
| "nullable (Seq r s) = (nullable r \<and> nullable s)"
| "nullable (Alt r s) = (nullable r \<or> nullable s)"
| "nullable (Star r) = True"

primrec deriv :: "char \<Rightarrow> re \<Rightarrow> re" where
  "deriv c Eps = Empty_set"
| "deriv c Empty_set = Empty_set"
| "deriv c (Cls p) = (if p c then Eps else Empty_set)"
| "deriv c (Seq r s) = (if nullable r then Alt (Seq (deriv c r) s) (deriv c s) else Seq (deriv c r) s)"
| "deriv c (Alt r s) = Alt (deriv c r) (deriv c s)"
| "deriv c (Star r) = Seq (deriv c r) (Star r)"

fun matches :: "re \<Rightarrow> string \<Rightarrow> bool" where
  "matches r [] = nullable r"
| "matches r (c # s) = matches (deriv c r) s"

section \<open>The language of an expression\<close>

inductive in_re :: "re \<Rightarrow> string \<Rightarrow> bool" where
  in_Eps: "in_re Eps []"
| in_Cls: "p c \<Longrightarrow> in_re (Cls p) [c]"
| in_Seq: "in_re r s \<Longrightarrow> in_re r' s' \<Longrightarrow> in_re (Seq r r') (s @ s')"
| in_Alt1: "in_re r s \<Longrightarrow> in_re (Alt r r') s"
| in_Alt2: "in_re r' s \<Longrightarrow> in_re (Alt r r') s"
| in_Star0: "in_re (Star r) []"
| in_StarS: "in_re r s \<Longrightarrow> in_re (Star r) s' \<Longrightarrow> in_re (Star r) (s @ s')"

inductive_simps in_re_simps: "in_re Eps s" "in_re Empty_set s" "in_re (Cls p) s" "in_re (Seq r r') s" "in_re (Alt r r') s"

inductive_cases in_StarE: "in_re (Star r) s"

lemma nullable_iff: "nullable r \<longleftrightarrow> in_re r []"
  by (induction r) (auto simp: in_re_simps intro: in_Star0)

lemma in_Star_Cons:
  assumes "in_re (Star r) t" "t = c # s"
  shows "\<exists>s1 s2. s = s1 @ s2 \<and> in_re r (c # s1) \<and> in_re (Star r) s2"
  using assms
proof (induction "Star r" t arbitrary: s rule: in_re.induct)
  case (in_StarS s1 s2)
  then show ?case by (cases s1) auto
qed simp

lemma deriv_iff: "in_re (deriv c r) s \<longleftrightarrow> in_re r (c # s)"
proof (induction r arbitrary: s)
  case (Seq r1 r2)
  have "in_re (Seq r1 r2) (c # s) \<longleftrightarrow>
      (in_re r1 [] \<and> in_re r2 (c # s)) \<or> (\<exists>s1 s2. s = s1 @ s2 \<and> in_re r1 (c # s1) \<and> in_re r2 s2)"
    by (auto simp: in_re_simps Cons_eq_append_conv)
  then show ?case using Seq by (auto simp: in_re_simps nullable_iff)
next
  case (Star r)
  show ?case
  proof
    assume "in_re (deriv c (Star r)) s"
    then obtain s1 s2 where "s = s1 @ s2" "in_re r (c # s1)" "in_re (Star r) s2"
      using Star by (auto simp: in_re_simps)
    then show "in_re (Star r) (c # s)" using in_StarS [of r "c # s1" s2] by simp
  next
    assume "in_re (Star r) (c # s)"
    from in_Star_Cons [OF this refl] show "in_re (deriv c (Star r)) s"
      using Star by (auto simp: in_re_simps)
  qed
qed (auto simp: in_re_simps)

lemma matches_iff: "matches r s \<longleftrightarrow> in_re r s"
  by (induction s arbitrary: r) (simp_all add: nullable_iff deriv_iff)

lemma in_lit [simp]: "in_re (lit t) s \<longleftrightarrow> s = t"
  by (induction t arbitrary: s) (auto simp: in_re_simps)

lemma in_Seq_lit: "in_re (Seq (lit t) r) s \<longleftrightarrow> (\<exists>u. s = t @ u \<and> in_re r u)"
  by (auto simp: in_re_simps(4))

lemma in_Star_Cls [simp]: "in_re (Star (Cls p)) s \<longleftrightarrow> (\<forall>c \<in> set s. p c)"
proof
  assume "in_re (Star (Cls p)) s"
  then show "\<forall>c \<in> set s. p c"
    by (induction "Star (Cls p)" s rule: in_re.induct) (auto simp: in_re_simps)
next
  show "\<forall>c \<in> set s. p c \<Longrightarrow> in_re (Star (Cls p)) s"
  proof (induction s)
    case (Cons c s)
    then have "in_re (Cls p) [c]" "in_re (Star (Cls p)) s" by (auto intro: in_Cls)
    from in_StarS [OF this] show ?case by simp
  qed (rule in_Star0)
qed

lemma in_plus_Cls [simp]: "in_re (plus_re (Cls p)) s \<longleftrightarrow> s \<noteq> [] \<and> (\<forall>c \<in> set s. p c)"
proof
  show "in_re (plus_re (Cls p)) s \<Longrightarrow> s \<noteq> [] \<and> (\<forall>c \<in> set s. p c)"
    by (auto simp: plus_re_def in_re_simps)
next
  assume a: "s \<noteq> [] \<and> (\<forall>c \<in> set s. p c)"
  then obtain c s' where s: "s = c # s'" by (cases s) auto
  with a in_Seq [OF in_Cls [of p c], of "Star (Cls p)" s'] show "in_re (plus_re (Cls p)) s"
    by (simp add: plus_re_def)
qed

lemma in_opt [simp]: "in_re (opt_re r) s \<longleftrightarrow> s = [] \<or> in_re r s"
  by (auto simp: opt_re_def in_re_simps)

section \<open>Capturing groups\<close>

datatype segment = Group re | Skip re

primrec seg_re :: "segment \<Rightarrow> re" where
  "seg_re (Group r) = r"
| "seg_re (Skip r) = r"

primrec is_group :: "segment \<Rightarrow> bool" where
  "is_group (Group r) = True"
| "is_group (Skip r) = False"

text \<open>The texts of the segments, each as long as the later ones allow.\<close>

fun seg_texts :: "segment list \<Rightarrow> string \<Rightarrow> string list option" where
  "seg_texts [] s = (if s = [] then Some [] else None)"
| "seg_texts (g # gs) s = Option.bind
     (find (\<lambda>n. matches (seg_re g) (take n s) \<and> seg_texts gs (drop n s) \<noteq> None) (rev [0..<Suc (length s)]))
     (\<lambda>n. map_option (\<lambda>ts. take n s # ts) (seg_texts gs (drop n s)))"

definition submatch :: "segment list \<Rightarrow> string \<Rightarrow> string list option" where
  "submatch gs s = map_option (\<lambda>ts. map snd (filter (\<lambda>(g, t). is_group g) (zip gs ts))) (seg_texts gs s)"

text \<open>The texts put together are the whole string, and each matches its segment.\<close>

lemma seg_texts_sound: "seg_texts gs s = Some ts \<Longrightarrow> concat ts = s \<and> list_all2 (\<lambda>g t. in_re (seg_re g) t) gs ts"
proof (induction gs s arbitrary: ts rule: seg_texts.induct)
  case (2 g gs s)
  then obtain n where n: "find (\<lambda>n. matches (seg_re g) (take n s) \<and> seg_texts gs (drop n s) \<noteq> None)
      (rev [0..<Suc (length s)]) = Some n" by (auto simp: bind_eq_Some_conv)
  with 2 obtain ts' where ts': "ts = take n s # ts'" "seg_texts gs (drop n s) = Some ts'"
    by (auto simp: bind_eq_Some_conv)
  from find_Some_mem [OF n] have "matches (seg_re g) (take n s)" by blast
  moreover have "concat ts' = drop n s \<and> list_all2 (\<lambda>g t. in_re (seg_re g) t) gs ts'"
    by (rule "2.IH") (use n ts'(2) in auto)
  ultimately show ?case using ts'(1) by (simp add: matches_iff)
qed (simp split: if_splits)

lemma seg_texts_complete:
  assumes "list_all2 (\<lambda>g t. in_re (seg_re g) t) gs ts"
  shows "seg_texts gs (concat ts) \<noteq> None"
  using assms
proof (induction rule: list_all2_induct)
  case (Cons g gs t ts)
  define P where "P = (\<lambda>n. matches (seg_re g) (take n (t @ concat ts)) \<and> seg_texts gs (drop n (t @ concat ts)) \<noteq> None)"
  have "P (length t)" using Cons by (simp add: P_def matches_iff)
  moreover have "length t \<in> set (rev [0..<Suc (length (t @ concat ts))])" by (simp only: set_rev set_upt) simp
  ultimately have "find P (rev [0..<Suc (length (t @ concat ts))]) \<noteq> None" unfolding find_None_iff by blast
  then obtain n where n: "find P (rev [0..<Suc (length (t @ concat ts))]) = Some n" by blast
  from find_Some_mem [OF this] have "seg_texts gs (drop n (t @ concat ts)) \<noteq> None" by (simp add: P_def)
  with n show ?case by (auto simp: P_def)
qed simp

text \<open>Literals are kept folded when segments are taken apart.\<close>

lemmas segs_simps = list_all2_Cons1 in_Seq_lit seg_re.simps in_lit in_plus_Cls in_Star_Cls in_opt list_all2_Nil

text \<open>A text that can be divided in one way only is divided that way.\<close>

lemma seg_texts_unique:
  assumes "list_all2 (\<lambda>g t. in_re (seg_re g) t) gs ts"
    and "\<And>ts'. concat ts' = concat ts \<Longrightarrow> list_all2 (\<lambda>g t. in_re (seg_re g) t) gs ts' \<Longrightarrow> ts' = ts"
  shows "seg_texts gs (concat ts) = Some ts"
  using seg_texts_complete [OF assms(1)] seg_texts_sound [of gs "concat ts"] assms(2) by fastforce

lemma sep_unique:
  assumes "xs @ x # ys = xs' @ x # ys'" "x \<notin> set xs" "x \<notin> set xs'"
  shows "xs = xs' \<and> ys = ys'"
  using assms by (induction xs arbitrary: xs') (auto simp: Cons_eq_append_conv append_eq_Cons_conv)

text \<open>The expression that a list of segments spells.\<close>

definition segs_re :: "segment list \<Rightarrow> re" where
  "segs_re gs = foldr (\<lambda>g r. Seq (seg_re g) r) gs Eps"

lemma in_segs_re: "in_re (segs_re gs) s \<longleftrightarrow> (\<exists>ts. concat ts = s \<and> list_all2 (\<lambda>g t. in_re (seg_re g) t) gs ts)"
proof (induction gs arbitrary: s)
  case (Cons g gs)
  show ?case
  proof
    assume "in_re (segs_re (g # gs)) s"
    then obtain s1 s2 where "s = s1 @ s2" "in_re (seg_re g) s1" "in_re (segs_re gs) s2"
      by (auto simp: segs_re_def in_re_simps)
    with Cons show "\<exists>ts. concat ts = s \<and> list_all2 (\<lambda>g t. in_re (seg_re g) t) (g # gs) ts"
      by (metis concat.simps(2) list_all2_Cons)
  next
    assume "\<exists>ts. concat ts = s \<and> list_all2 (\<lambda>g t. in_re (seg_re g) t) (g # gs) ts"
    then obtain t ts where "s = t @ concat ts" "in_re (seg_re g) t" "list_all2 (\<lambda>g t. in_re (seg_re g) t) gs ts"
      by (auto simp: list_all2_Cons1)
    with Cons in_Seq [of "seg_re g" t "segs_re gs" "concat ts"] show "in_re (segs_re (g # gs)) s"
      by (auto simp: segs_re_def)
  qed
qed (auto simp: segs_re_def in_re_simps)

section \<open>Splitting a string\<close>

text \<open>\<open>strings.Split\<close> at a non-empty separator.\<close>

function split_str :: "string \<Rightarrow> string \<Rightarrow> string list" where
  "split_str sep s = (if sep = [] then map (\<lambda>c. [c]) s
     else case cut sep s of None \<Rightarrow> [s] | Some (a, b) \<Rightarrow> a # split_str sep b)"
  by pat_completeness auto
termination
  by (relation "measure (\<lambda>(sep, s). length s)") (auto dest!: cut_Some)

declare split_str.simps [simp del]

lemma cut_prefix: "sep \<noteq> [] \<Longrightarrow> cut sep (sep @ b) = Some ([], b)"
  using HasPrefix_append [of sep b] by (cases sep) simp_all

lemma split_str_prefix: "sep \<noteq> [] \<Longrightarrow> split_str sep (sep @ b) = [] # split_str sep b"
  by (subst split_str.simps) (simp add: cut_prefix)

lemma split_str_none: "sep \<noteq> [] \<Longrightarrow> (\<nexists>a b. s = a @ sep @ b) \<Longrightarrow> split_str sep s = [s]"
  by (subst split_str.simps) (simp add: cut_eq_None_iff [THEN iffD2])

lemma cut_single: "cut [c] s = Some (a, b) \<Longrightarrow> c \<notin> set a"
proof (induction s arbitrary: a)
  case (Cons x s)
  show ?case
  proof (cases "x = c")
    case True
    with Cons.prems show ?thesis by (simp add: HasPrefix_def)
  next
    case False
    with Cons.prems obtain a' where "cut [c] s = Some (a', b)" "a = x # a'" by (auto simp: HasPrefix_def)
    with Cons.IH [of a'] False show ?thesis by simp
  qed
qed simp

lemma split_on_str: "split_str [c] s = split_on c s"
proof (induction s rule: length_induct)
  case (1 s)
  show ?case
  proof (cases "cut [c] s")
    case None
    then have "\<nexists>a b. s = a @ [c] @ b" by (simp add: cut_eq_None_iff)
    then have "c \<notin> set s" using split_list [of c s] by auto
    with None show ?thesis by (subst split_str.simps) simp
  next
    case (Some ab)
    obtain a b where ab: "ab = (a, b)" by (cases ab)
    have s: "s = a @ c # b" using cut_Some [OF Some [unfolded ab]] by simp
    have "split_on c s = a # split_on c b" using cut_single [OF Some [unfolded ab]] by (simp add: s split_on_append)
    moreover have "split_str [c] b = split_on c b" using 1 s by simp
    ultimately show ?thesis by (subst split_str.simps) (simp add: Some ab)
  qed
qed

end
