(* ===== verification/Azure.thy ===== *)
theory Azure
  imports Kms Regex
begin

text \<open>
  \<open>pkg/signature/kms/azure\<close>: keys in an Azure Key Vault.  The vault, its credentials, JSON web keys
  and the ASN.1 coding of a pair of integers are parameters (\<open>az_lib\<close>); the calls to the vault are
  steps on the state of the service.  Contexts only cancel calls and are left out.
\<close>

section \<open>Parameters\<close>

text \<open>A key of the vault: its type, a pointer, and what else describes it.\<close>

record key_bundle =
  kb_Kty :: "string option"
  kb_material :: bytes

record create_key_parameters =
  ck_Enabled :: bool
  ck_KeySize :: nat
  ck_KeyOps :: "string list"
  ck_Kty :: string
  ck_Tags :: "(string \<times> string) list"

record 'v az_lib =
  NewDefaultAzureCredential :: "string \<Rightarrow> unit outcome"
  azkeys_NewClient :: "string \<Rightarrow> unit outcome"
  az_GetKey :: "string \<Rightarrow> string \<Rightarrow> ('v, key_bundle) step"
  az_CreateKey :: "string \<Rightarrow> create_key_parameters \<Rightarrow> ('v, unit) step"
  az_Sign :: "string \<Rightarrow> string \<Rightarrow> string \<Rightarrow> bytes \<Rightarrow> ('v, bytes) step"
  az_Verify :: "string \<Rightarrow> string \<Rightarrow> string \<Rightarrow> bytes \<Rightarrow> bytes \<Rightarrow> ('v, bool option) step"
  jwk_Marshal :: "key_bundle \<Rightarrow> bytes outcome"
  jwk_Unmarshal :: "bytes \<Rightarrow> public_key outcome"
  asn1_EncodeRS :: "nat \<Rightarrow> nat \<Rightarrow> bytes outcome"
  asn1_ReadRS :: "bytes \<Rightarrow> (int \<times> int) option"

definition asn1_laws :: "'v az_lib \<Rightarrow> bool" where
  "asn1_laws Z \<longleftrightarrow> (\<forall>r s b. asn1_EncodeRS Z r s = Ret b \<longrightarrow> asn1_ReadRS Z b = Some (int r, int s))"

type_synonym ('k, 'v, 'a) az_step = "(('k, 'v) kms_state, 'a) step"

section \<open>Key references\<close>

definition AzureReferenceScheme :: string where "AzureReferenceScheme = ''azurekms://''"

definition not_slash :: "char \<Rightarrow> bool" where "not_slash c \<longleftrightarrow> c \<noteq> CHR ''/''"

definition lower_or_digit :: "char \<Rightarrow> bool" where
  "lower_or_digit c \<longleftrightarrow> c \<in> set ''abcdefghijklmnopqrstuvwxyz0123456789''"

definition az_segments :: "segment list" where
  "az_segments = [Skip (lit ''azurekms://''), Group (plus_re (Cls not_slash)), Skip (lit ''/''),
     Group (plus_re (Cls not_slash)), Group (opt_re (Seq (lit ''/'') (Star (Cls lower_or_digit))))]"

definition az_referenceRegex :: re where "az_referenceRegex = segs_re az_segments"

definition az_ValidReference :: "string \<Rightarrow> unit outcome" where
  "az_ValidReference ref =
     (if \<not> matches az_referenceRegex ref
      then Err (Msg ''kms specification should be in the format azurekms://[VAULT_NAME][VAULT_URL]/[KEY_NAME]/[VERSION (optional)]'')
      else Ret ())"

definition index :: "'a list \<Rightarrow> nat \<Rightarrow> 'a outcome" where
  "index xs i = (if i < length xs then Ret (xs ! i) else Panic ''index out of range'')"

definition az_parseReference :: "string \<Rightarrow> (string \<times> string \<times> string) outcome" where
  "az_parseReference resourceID =
     (if \<not> matches az_referenceRegex resourceID then Err (Msg ''invalid azurekms format'')
      else
        and_then (index (split_str ''azurekms://'' resourceID) 1) (\<lambda>fullRef.
        let splitRef = split_str ''/'' fullRef
        in and_then (index splitRef 0) (\<lambda>host. and_then (index splitRef 1) (\<lambda>keyName.
           Ret (''https://'' @ host @ ''/'', keyName, if length splitRef = 3 then splitRef ! 2 else [])))))"

section \<open>The client\<close>

record azureVaultClient =
  az_vaultURL :: string
  az_keyName :: string
  az_keyVersion :: string

definition getAzClientOpts :: "string \<Rightarrow> string" where
  "getAzClientOpts envName =
     (if envName = ''AZUREUSGOVERNMENT'' \<or> envName = ''AZUREUSGOVERNMENTCLOUD'' then ''AzureGovernment''
      else if envName = ''AZURECHINACLOUD'' then ''AzureChina''
      else if envName = ''AZURECLOUD'' \<or> envName = ''AZUREPUBLICCLOUD'' then ''AzurePublic''
      else ''AzurePublic'')"

definition newAzureKMS :: "'v az_lib \<Rightarrow> string \<Rightarrow> string \<Rightarrow> azureVaultClient outcome" where
  "newAzureKMS Z env_AZURE_ENVIRONMENT keyResourceID =
     and_then (az_ValidReference keyResourceID) (\<lambda>_.
     and_then (az_parseReference keyResourceID) (\<lambda>(vaultURL, keyName, keyVersion).
     let opts = getAzClientOpts env_AZURE_ENVIRONMENT
     in and_then (NewDefaultAzureCredential Z opts) (\<lambda>_.
        and_then (wrap_outcome ''new azure kms client'' (azkeys_NewClient Z vaultURL)) (\<lambda>_.
        Ret \<lparr>az_vaultURL = vaultURL, az_keyName = keyName, az_keyVersion = keyVersion\<rparr>))))"

definition az_getKey :: "'v az_lib \<Rightarrow> azureVaultClient \<Rightarrow> ('k, 'v, key_bundle) az_step" where
  "az_getKey Z a = go_wrap ''public key'' (on_remote (az_GetKey Z (az_keyName a) (az_keyVersion a)))"

definition az_fetchPublicKey :: "'v az_lib \<Rightarrow> azureVaultClient \<Rightarrow> ('k, 'v, public_key) az_step" where
  "az_fetchPublicKey Z a =
     go_then (go_wrap ''public key'' (az_getKey Z a)) (\<lambda>key.
       (case kb_Kty key of
          None \<Rightarrow> go_panic ''nil pointer dereference''
        | Some kty \<Rightarrow>
            let key' = (if kty = ''EC-HSM'' then key\<lparr>kb_Kty := Some ''EC''\<rparr>
                        else if kty = ''RSA-HSM'' then key\<lparr>kb_Kty := Some ''RSA''\<rparr>
                        else key)
            in go_then (go_lift (wrap_outcome ''encoding the jsonWebKey'' (jwk_Marshal Z key'))) (\<lambda>jwkJSON.
               go_lift (wrap_outcome ''decoding the jsonWebKey'' (jwk_Unmarshal Z jwkJSON)))))"

definition az_public :: "('k, public_key) ttl_lib \<Rightarrow> 'v az_lib \<Rightarrow> azureVaultClient \<Rightarrow> ('k, 'v, public_key) az_step" where
  "az_public C Z a = cached C 300 (az_fetchPublicKey Z a)"

text \<open>\<open>errors.As(err, *azcore.ResponseError)\<close>, with the status code of the response.\<close>

primrec response_status :: "goerr \<Rightarrow> nat option" where
  "response_status (Msg s) = None"
| "response_status (Wrap s e) = response_status e"
| "response_status (Wrap2 a b) = (case response_status a of None \<Rightarrow> response_status b | Some n \<Rightarrow> Some n)"
| "response_status (ProviderNotFoundError r) = None"
| "response_status (StatusError n) = Some n"
| "response_status (ErrorTokenResponse d u e) = None"

definition az_createKey :: "('k, public_key) ttl_lib \<Rightarrow> 'v az_lib \<Rightarrow> azureVaultClient \<Rightarrow> ('k, 'v, public_key) az_step" where
  "az_createKey C Z a s = (case az_getKey Z a s of
       (Ret _, s') \<Rightarrow> az_public C Z a s'
     | (Panic p, s') \<Rightarrow> (Panic p, s')
     | (Err e, s') \<Rightarrow> (case response_status e of
           None \<Rightarrow> (Err (Wrap ''unexpected error returned by get key operation'' e), s')
         | Some code \<Rightarrow>
             if code \<noteq> 404 then (Err (Wrap ''unexpected status code returned by get key operation'' e), s')
             else go_then (on_remote (az_CreateKey Z (az_keyName a)
                    \<lparr>ck_Enabled = True, ck_KeySize = 2048, ck_KeyOps = [''sign'', ''verify''],
                     ck_Kty = ''EC'', ck_Tags = [(''use'', ''sigstore'')]\<rparr>)) (\<lambda>_. az_public C Z a) s'))"

definition key_hash_algorithm :: "public_key \<Rightarrow> (hash \<times> string) outcome" where
  "key_hash_algorithm publicKey = (case publicKey of
       Ecdsa_public None \<Rightarrow> Panic ''nil pointer dereference''
     | Ecdsa_public (Some k) \<Rightarrow>
         (if ecdsa_Curve k = P256 then Ret (SHA256, ''ES256'')
          else if ecdsa_Curve k = P384 then Ret (SHA384, ''ES384'')
          else if ecdsa_Curve k = P521 then Ret (SHA512, ''ES512'')
          else Err (Msg ''unsupported key size''))
     | Rsa_public None \<Rightarrow> Panic ''nil pointer dereference''
     | Rsa_public (Some k) \<Rightarrow>
         (if rsa_Size k = 256 then Ret (SHA256, ''RS256'')
          else if rsa_Size k = 384 then Ret (SHA384, ''RS384'')
          else if rsa_Size k = 512 then Ret (SHA512, ''RS512'')
          else Err (Msg ''unsupported key size''))
     | _ \<Rightarrow> Err (Msg ''unsupported public key type''))"

definition getKeyVaultHashFunc :: "('k, public_key) ttl_lib \<Rightarrow> 'v az_lib \<Rightarrow> azureVaultClient \<Rightarrow> ('k, 'v, hash \<times> string) az_step" where
  "getKeyVaultHashFunc C Z a =
     go_then (go_wrap ''failed to get public key'' (az_public C Z a)) (\<lambda>publicKey. go_lift (key_hash_algorithm publicKey))"

definition az_sign :: "('k, public_key) ttl_lib \<Rightarrow> 'v az_lib \<Rightarrow> azureVaultClient \<Rightarrow> bytes \<Rightarrow> ('k, 'v, bytes) az_step" where
  "az_sign C Z a digest =
     go_then (go_wrap ''failed to get KeyVaultSignatureAlgorithm'' (getKeyVaultHashFunc C Z a)) (\<lambda>(_, keyVaultAlgo).
     go_wrap ''signing the payload'' (on_remote (az_Sign Z (az_keyName a) (az_keyVersion a) keyVaultAlgo digest)))"

definition az_verify :: "('k, public_key) ttl_lib \<Rightarrow> 'v az_lib \<Rightarrow> azureVaultClient \<Rightarrow> bytes \<Rightarrow> bytes \<Rightarrow> ('k, 'v, unit) az_step" where
  "az_verify C Z a signature digest =
     go_then (go_wrap ''failed to get KeyVaultSignatureAlgorithm'' (getKeyVaultHashFunc C Z a)) (\<lambda>(_, keyVaultAlgo).
     go_then (go_wrap ''verify'' (on_remote (az_Verify Z (az_keyName a) (az_keyVersion a) keyVaultAlgo digest signature))) (\<lambda>result.
     (case result of
        None \<Rightarrow> go_panic ''nil pointer dereference''
      | Some v \<Rightarrow> if \<not> v then go_err (Msg ''failed vault verification'') else go_ret ())))"

section \<open>The signer and verifier\<close>

definition azureSupportedHashFuncs :: "hash list" where
  "azureSupportedHashFuncs = [SHA256, SHA384, SHA512]"

definition azureSupportedAlgorithms :: "string list" where
  "azureSupportedAlgorithms = [''ES256'', ''ES384'', ''ES512'']"

definition az_LoadSignerVerifier :: "'v az_lib \<Rightarrow> string \<Rightarrow> string \<Rightarrow> azureVaultClient outcome" where
  "az_LoadSignerVerifier Z env referenceStr = newAzureKMS Z env referenceStr"

definition az_SignMessage ::
  "crypto_lib \<Rightarrow> ('k, public_key) ttl_lib \<Rightarrow> 'v az_lib \<Rightarrow> azureVaultClient \<Rightarrow> io_reader \<Rightarrow> sig_option list \<Rightarrow> ('k, 'v, bytes) az_step" where
  "az_SignMessage L C Z a message opts =
     go_then (getKeyVaultHashFunc C Z a) (\<lambda>(hashFunc, _).
     go_then (on_world (ComputeDigestForSigning L message hashFunc (Some azureSupportedHashFuncs) opts)) (\<lambda>(digest, _).
     go_then (az_sign C Z a digest) (\<lambda>rawSig.
       let l = length rawSig;
           r = SetBytes (take (l div 2) rawSig);
           s = SetBytes (drop (l div 2) rawSig)
       in go_lift (asn1_EncodeRS Z r s))))"

definition az_VerifySignature ::
  "crypto_lib \<Rightarrow> ('k, public_key) ttl_lib \<Rightarrow> 'v az_lib \<Rightarrow> azureVaultClient \<Rightarrow> io_reader \<Rightarrow> io_reader \<Rightarrow> sig_option list \<Rightarrow> ('k, 'v, unit) az_step" where
  "az_VerifySignature L C Z a sg message opts =
     go_then (getKeyVaultHashFunc C Z a) (\<lambda>(hashFunc, _).
     go_then (on_world (ComputeDigestForVerifying L message hashFunc (Some azureSupportedHashFuncs) opts)) (\<lambda>(digest, _).
     go_then (go_wrap ''reading signature'' (on_world (ReadAll sg))) (\<lambda>sigBytes.
       (case asn1_ReadRS Z sigBytes of
          None \<Rightarrow> go_err (Msg ''parsing signature'')
        | Some (r, s) \<Rightarrow> az_verify C Z a (nat_Bytes (nat \<bar>r\<bar>) @ nat_Bytes (nat \<bar>s\<bar>)) digest))))"

definition az_PublicKey :: "('k, public_key) ttl_lib \<Rightarrow> 'v az_lib \<Rightarrow> azureVaultClient \<Rightarrow> sig_option list \<Rightarrow> ('k, 'v, public_key) az_step" where
  "az_PublicKey C Z a opts = az_public C Z a"

text \<open>The algorithm that is asked for is not looked at.\<close>

definition az_SV_CreateKey :: "('k, public_key) ttl_lib \<Rightarrow> 'v az_lib \<Rightarrow> azureVaultClient \<Rightarrow> string \<Rightarrow> ('k, 'v, public_key) az_step" where
  "az_SV_CreateKey C Z a algorithm = az_createKey C Z a"

definition az_csw_Public ::
  "('k, public_key) ttl_lib \<Rightarrow> 'v az_lib \<Rightarrow> azureVaultClient \<Rightarrow> cryptoSignerWrapper \<Rightarrow> ('k, 'v, public_key \<times> goerr option) az_step" where
  "az_csw_Public C Z a c = csw_Public (az_PublicKey C Z a) c"

definition az_csw_Sign ::
  "crypto_lib \<Rightarrow> ('k, public_key) ttl_lib \<Rightarrow> 'v az_lib \<Rightarrow> azureVaultClient \<Rightarrow> cryptoSignerWrapper \<Rightarrow> bytes \<Rightarrow> signer_opts option \<Rightarrow> ('k, 'v, bytes) az_step" where
  "az_csw_Sign L C Z a c digest opts = csw_Sign (az_SignMessage L C Z a) c digest opts"

definition az_CryptoSigner ::
  "('k, public_key) ttl_lib \<Rightarrow> 'v az_lib \<Rightarrow> azureVaultClient \<Rightarrow> go_context \<Rightarrow> ('k, 'v, cryptoSignerWrapper \<times> hash) az_step" where
  "az_CryptoSigner C Z a ctx =
     go_then (getKeyVaultHashFunc C Z a) (\<lambda>(hashFunc, _). go_ret (\<lparr>csw_ctx = ctx, csw_hashFunc = hashFunc\<rparr>, hashFunc))"

definition az_SupportedAlgorithms :: "string list" where
  "az_SupportedAlgorithms = azureSupportedAlgorithms"

definition az_DefaultAlgorithm :: string where
  "az_DefaultAlgorithm = ''ES256''"

section \<open>The cached key\<close>

lemma stays_az_fetch: "stays cache_kept (az_fetchPublicKey Z a)"
proof -
  have "stays cache_kept (go_then (go_lift x) (\<lambda>j. go_lift (f j)))" for x :: "'x outcome" and f :: "'x \<Rightarrow> public_key outcome"
    by (intro cache_stays)
  then show ?thesis
    unfolding az_fetchPublicKey_def az_getKey_def Let_def
    by (intro cache_stays stays_on_remote) (auto simp: cache_stays split: option.splits)
qed

interpretation az_key: caching_client "\<lambda>_. 300" "\<lambda>(Z, a). az_fetchPublicKey Z a" "\<lambda>C (Z, a). az_public C Z a"
  by unfold_locales (auto simp: az_public_def stays_az_fetch)

section \<open>What references look like\<close>

lemma not_slash_iff: "(\<forall>c \<in> set h. not_slash c) \<longleftrightarrow> CHR ''/'' \<notin> set h"
  by (auto simp: not_slash_def)

lemma slash_not_lower: "\<not> lower_or_digit CHR ''/''"
  by (simp add: lower_or_digit_def)

lemma lower_or_digit_no_slash: "\<forall>c \<in> set v. lower_or_digit c \<Longrightarrow> CHR ''/'' \<notin> set v"
  using slash_not_lower by blast

text \<open>A reference names a vault, a key and perhaps a version.\<close>

definition az_reference :: "string \<Rightarrow> string \<Rightarrow> string \<Rightarrow> string \<Rightarrow> bool" where
  "az_reference ref h n v \<longleftrightarrow> h \<noteq> [] \<and> CHR ''/'' \<notin> set h \<and> n \<noteq> [] \<and> CHR ''/'' \<notin> set n \<and>
     (\<forall>c \<in> set v. lower_or_digit c) \<and>
     (ref = ''azurekms://'' @ h @ ''/'' @ n @ ''/'' @ v \<or> v = [] \<and> ref = ''azurekms://'' @ h @ ''/'' @ n)"

lemma az_segments_iff:
  "list_all2 (\<lambda>g t. in_re (seg_re g) t) az_segments ts \<longleftrightarrow>
     (\<exists>h n t. ts = [''azurekms://'', h, ''/'', n, t] \<and> h \<noteq> [] \<and> (\<forall>c \<in> set h. not_slash c) \<and>
       n \<noteq> [] \<and> (\<forall>c \<in> set n. not_slash c) \<and>
       (t = [] \<or> (\<exists>v. t = ''/'' @ v \<and> (\<forall>c \<in> set v. lower_or_digit c))))"
  unfolding az_segments_def segs_simps by auto

lemma az_matches_iff: "matches az_referenceRegex ref \<longleftrightarrow> (\<exists>h n v. az_reference ref h n v)"
proof
  assume "matches az_referenceRegex ref"
  then obtain h n t where t: "concat [''azurekms://'', h, ''/'', n, t] = ref"
    "h \<noteq> []" "\<forall>c \<in> set h. not_slash c" "n \<noteq> []" "\<forall>c \<in> set n. not_slash c"
    "t = [] \<or> (\<exists>v. t = ''/'' @ v \<and> (\<forall>c \<in> set v. lower_or_digit c))"
    unfolding matches_iff az_referenceRegex_def in_segs_re az_segments_iff by blast
  then have "az_reference ref h n (if t = [] then [] else tl t)"
    by (auto simp: az_reference_def not_slash_iff)
  then show "\<exists>h n v. az_reference ref h n v" by blast
next
  assume "\<exists>h n v. az_reference ref h n v"
  then obtain h n v where a: "az_reference ref h n v" by blast
  then obtain t where t: "concat [''azurekms://'', h, ''/'', n, t] = ref" "t = [] \<or> t = ''/'' @ v"
    by (auto simp: az_reference_def)
  have "list_all2 (\<lambda>g t. in_re (seg_re g) t) az_segments [''azurekms://'', h, ''/'', n, t]"
    unfolding az_segments_iff using a t(2) by (auto simp: az_reference_def not_slash_iff)
  then show "matches az_referenceRegex ref"
    unfolding matches_iff az_referenceRegex_def in_segs_re using t(1) by blast
qed

text \<open>The scheme cannot come again in a reference: it has two slashes in a row.\<close>

lemma no_double_slash:
  assumes "CHR ''/'' \<notin> set h" "CHR ''/'' \<notin> set n" "n \<noteq> []" "CHR ''/'' \<notin> set v" "t = [] \<or> t = ''/'' @ v"
  shows "h @ ''/'' @ n @ t \<noteq> a @ (x @ ''//'') @ b"
proof
  assume e: "h @ ''/'' @ n @ t = a @ (x @ ''//'') @ b"
  have l: "split_on CHR ''/'' (h @ ''/'' @ n @ t) = h # split_on CHR ''/'' (n @ t)"
    using split_on_append [OF assms(1)] by simp
  have r: "split_on CHR ''/'' (n @ t) = (if t = [] then [n] else [n, v])"
    using assms(2,4,5) split_on_append [OF assms(2), of v] by auto
  have "split_on CHR ''/'' (a @ (x @ ''//'') @ b) = split_on CHR ''/'' (a @ x) @ [] # split_on CHR ''/'' b"
    using split_on_append_all [of "CHR ''/''" "a @ x" "CHR ''/'' # b"] by simp
  then have "h # (if t = [] then [n] else [n, v]) = split_on CHR ''/'' (a @ x) @ [] # split_on CHR ''/'' b"
    unfolding e [symmetric] l r by simp
  then obtain p q where pq: "h # (if t = [] then [n] else [n, v]) = p @ [] # q" "p \<noteq> []" "q \<noteq> []"
    by (rule that [OF _ split_on_nonempty split_on_nonempty])
  from pq(2) obtain x p' where "p = x # p'" by (cases p) auto
  with pq(1) have p': "(if t = [] then [n] else [n, v]) = p' @ [] # q" by simp
  have "length p' + length q < 2" using arg_cong [OF p', of length] by (auto split: if_splits)
  with pq(3) have "p' = []" by (cases q; cases p') auto
  with p' assms(3) show False by (auto split: if_splits)
qed

lemma az_parse:
  assumes a: "az_reference ref h n v"
  shows "az_parseReference ref = Ret (''https://'' @ h @ ''/'', n, v)"
proof -
  define t where "t = drop (length (''azurekms://'' @ h @ ''/'' @ n)) ref"
  have t: "ref = ''azurekms://'' @ h @ ''/'' @ n @ t" "t = [] \<and> v = [] \<or> t = ''/'' @ v"
    using a by (auto simp: az_reference_def t_def)
  have h: "CHR ''/'' \<notin> set h" "CHR ''/'' \<notin> set n" "n \<noteq> []" "CHR ''/'' \<notin> set v"
    using a lower_or_digit_no_slash by (auto simp: az_reference_def)
  have "h @ ''/'' @ n @ t \<noteq> a @ (''azurekms:'' @ ''//'') @ b" for a b
    by (rule no_double_slash [OF h(1,2,3,4)]) (use t(2) in blast)
  then have "split_str ''azurekms://'' (h @ ''/'' @ n @ t) = [h @ ''/'' @ n @ t]"
    by (intro split_str_none) simp_all
  moreover define F where "F = h @ ''/'' @ n @ t"
  ultimately have 1: "split_str ''azurekms://'' ref = [[], F]"
    unfolding t(1) by (subst split_str_prefix) simp_all
  have 2: "split_str ''/'' F = (if t = [] then [h, n] else [h, n, v])"
    using t(2) h split_on_append [OF h(1), of "n @ t"] split_on_append [OF h(2), of v]
    by (auto simp: split_on_str F_def)
  have m: "matches az_referenceRegex ref" using a az_matches_iff by blast
  from t(2) show ?thesis by (auto simp: az_parseReference_def m 1 2 index_def Let_def)
qed

text \<open>A key reference is valid exactly when it has the documented form, and then parsing it gives back
  the vault, the key and the version that were put in, whatever characters other than a slash the
  names contain.\<close>

theorem azure_reference_parse:
  "(az_ValidReference ref = Ret () \<longleftrightarrow> (\<exists>h n v. az_reference ref h n v)) \<and>
   (az_parseReference ref = Ret (url, n, v) \<longleftrightarrow> (\<exists>h. az_reference ref h n v \<and> url = ''https://'' @ h @ ''/''))"
proof -
  have "\<exists>h n v. az_reference ref h n v" if "az_parseReference ref = Ret (url, n, v)"
    using that az_matches_iff by (auto simp: az_parseReference_def split: if_splits)
  then have "az_parseReference ref = Ret (url, n, v) \<longleftrightarrow> (\<exists>h. az_reference ref h n v \<and> url = ''https://'' @ h @ ''/'')"
    using az_parse by fastforce
  then show ?thesis by (simp add: az_ValidReference_def az_matches_iff)
qed

lemma azure_reference_parse_witness:
  "az_parseReference ''azurekms://v.vault.azure.net/k/1a'' = Ret (''https://v.vault.azure.net/'', ''k'', ''1a'')"
  using azure_reference_parse [THEN conjunct2, THEN iffD2, OF exI [of _ "''v.vault.azure.net''"]]
  by (simp add: az_reference_def lower_or_digit_def)

section \<open>What the vault is asked to verify\<close>

definition strip :: "bytes \<Rightarrow> bytes" where
  "strip b = dropWhile (\<lambda>x. x = 0) b"

lemma strip_id_iff: "strip b = b \<longleftrightarrow> b = [] \<or> hd b \<noteq> 0"
  by (simp add: strip_def dropWhile_eq_self_iff)

lemma strip_append_id_iff: "strip a @ strip b = a @ b \<longleftrightarrow> strip a = a \<and> strip b = b"
proof
  assume e: "strip a @ strip b = a @ b"
  have "length (strip a) \<le> length a" "length (strip b) \<le> length b"
    by (simp_all add: strip_def length_dropWhile_le)
  moreover have "length (strip a) + length (strip b) = length a + length b"
    using arg_cong [OF e, of length] by simp
  ultimately have "length (strip a) = length a" by linarith
  with e show "strip a = a \<and> strip b = b" by simp
qed simp

lemma key_hash_supported:
  assumes "key_hash_algorithm pk = Ret (h, alg)"
  shows "h \<in> set azureSupportedHashFuncs" "h \<noteq> NoHash"
  using assms
  by (auto simp: key_hash_algorithm_def azureSupportedHashFuncs_def split: public_key.splits option.splits if_splits)

lemma az_Verify_asks:
  assumes "getKeyVaultHashFunc C Z a s = (Ret (h, alg), s)" "hash_linked L h"
    and "delivers (kms_world s) rm m" "delivers (kms_world s) rs sg" "rs \<noteq> rm" "asn1_ReadRS Z sg = Some (int r, int t)"
  shows "az_VerifySignature L C Z a rs rm [] s =
    az_verify C Z a (nat_Bytes r @ nat_Bytes t) (hash_sum L h m) (s\<lparr>kms_world := drain rs (drain rm (kms_world s))\<rparr>)"
proof -
  have h: "h \<in> set azureSupportedHashFuncs" "h \<noteq> NoHash"
    using assms(1) key_hash_supported by (auto simp: getKeyVaultHashFunc_def go_then_Ret_iff)
  let ?s = "s\<lparr>kms_world := drain rm (kms_world s)\<rparr>"
  have "ComputeDigestForVerifying L rm h (Some azureSupportedHashFuncs) [] (kms_world s) = (Ret (hash_sum L h m, h), drain rm (kms_world s))"
    using ComputeDigest_plain [OF assms(3), of h "Some azureSupportedHashFuncs" L] h assms(2) by (simp add: ComputeDigest_same)
  then have 1: "on_world (ComputeDigestForVerifying L rm h (Some azureSupportedHashFuncs) []) s = (Ret (hash_sum L h m, h), ?s)"
    by (rule on_world_step)
  have "delivers (kms_world ?s) rs sg" using assms(4,5) by simp
  then have 2: "on_world (ReadAll rs) ?s = (Ret sg, s\<lparr>kms_world := drain rs (drain rm (kms_world s))\<rparr>)"
    by (subst on_world_step [OF ReadAll_delivers]) simp_all
  show ?thesis
    unfolding az_VerifySignature_def
    by (simp add: go_then_step assms(1) 1 go_wrap_step 2 assms(6))
qed

text \<open>C33: the signature a vault is asked to verify is the one it made only if neither half of it begins with
  a zero byte: \<open>VerifySignature\<close> drops the leading zeros of both halves, so what it forwards is
  shorter than the fixed width the vault produced.\<close>

theorem azure_forwards_stripped_signature:
  assumes "asn1_laws Z" "az_SignMessage L C Z a r opts s = (Ret sg, s1)"
    and "getKeyVaultHashFunc C Z a s2 = (Ret (h, alg), s2)" "hash_linked L h"
    and "delivers (kms_world s2) rm m" "delivers (kms_world s2) rs sg" "rs \<noteq> rm"
  shows "\<exists>digest raw rr ss sA sB. az_sign C Z a digest sA = (Ret raw, sB) \<and> raw = rr @ ss \<and> length rr = length raw div 2 \<and>
    az_VerifySignature L C Z a rs rm [] s2 =
      az_verify C Z a (strip rr @ strip ss) (hash_sum L h m) (s2\<lparr>kms_world := drain rs (drain rm (kms_world s2))\<rparr>) \<and>
    (strip rr @ strip ss = raw \<longleftrightarrow> (rr = [] \<or> hd rr \<noteq> 0) \<and> (ss = [] \<or> hd ss \<noteq> 0))"
proof -
  from assms(2) obtain digest raw sA sB where raw: "az_sign C Z a digest sA = (Ret raw, sB)"
    and e: "asn1_EncodeRS Z (SetBytes (take (length raw div 2) raw)) (SetBytes (drop (length raw div 2) raw)) = Ret sg"
    by (auto simp: az_SignMessage_def go_then_Ret_iff Let_def split: prod.splits)
  define rr ss where "rr = take (length raw div 2) raw" and "ss = drop (length raw div 2) raw"
  have rs: "raw = rr @ ss" "length rr = length raw div 2" by (simp_all add: rr_def ss_def)
  have "asn1_ReadRS Z sg = Some (int (SetBytes rr), int (SetBytes ss))"
    using assms(1) e by (simp add: asn1_laws_def rr_def ss_def)
  from az_Verify_asks [OF assms(3-7) this]
  have "az_VerifySignature L C Z a rs rm [] s2 =
      az_verify C Z a (strip rr @ strip ss) (hash_sum L h m) (s2\<lparr>kms_world := drain rs (drain rm (kms_world s2))\<rparr>)"
    by (simp add: nat_Bytes_SetBytes strip_def)
  moreover have "strip rr @ strip ss = raw \<longleftrightarrow> (rr = [] \<or> hd rr \<noteq> 0) \<and> (ss = [] \<or> hd ss \<noteq> 0)"
    by (simp add: rs(1) strip_append_id_iff strip_id_iff)
  ultimately show ?thesis using raw rs by blast
qed

text \<open>A vault with one key, whose signatures begin with a zero byte, and its client.\<close>

definition ref_az_key :: public_key where
  "ref_az_key = Ecdsa_public (Some \<lparr>ecdsa_Curve = P256, ecdsa_X = 1, ecdsa_Y = 1\<rparr>)"

definition ref_az :: "unit az_lib" where
  "ref_az = \<lparr>
     NewDefaultAzureCredential = (\<lambda>_. Ret ()),
     azkeys_NewClient = (\<lambda>_. Ret ()),
     az_GetKey = (\<lambda>_ _ v. (Ret \<lparr>kb_Kty = Some ''EC-HSM'', kb_material = []\<rparr>, v)),
     az_CreateKey = (\<lambda>_ _ v. (Ret (), v)),
     az_Sign = (\<lambda>_ _ _ d v. (Ret [0, 1, 2, 3], v)),
     az_Verify = (\<lambda>_ _ _ d sg v. (Ret (Some (sg = [0, 1, 2, 3])), v)),
     jwk_Marshal = (\<lambda>k. if kb_Kty k = Some ''EC'' then Ret [] else Err (Msg ''unknown key type'')),
     jwk_Unmarshal = (\<lambda>_. Ret ref_az_key),
     asn1_EncodeRS = (\<lambda>r s. Ret (0x30 # replicate r 1 @ [0] @ replicate s 1)),
     asn1_ReadRS = (\<lambda>b. case b of [] \<Rightarrow> None | x # b' \<Rightarrow>
        Some (int (length (takeWhile (\<lambda>y. y = 1) b')), int (length (tl (dropWhile (\<lambda>y. y = 1) b')))))\<rparr>"

lemma unary_prefix: "takeWhile (\<lambda>y. y = 1) (replicate r 1 @ 0 # ys) = replicate r (1 :: 8 word)"
    "dropWhile (\<lambda>y. y = 1) (replicate r 1 @ 0 # ys) = 0 # (ys :: bytes)"
  by (induction r) simp_all

lemma ref_asn1_laws: "asn1_laws ref_az"
  by (simp add: asn1_laws_def ref_az_def unary_prefix)

definition ref_az_client :: azureVaultClient where
  "ref_az_client = \<lparr>az_vaultURL = ''https://v/'', az_keyName = ''k'', az_keyVersion = []\<rparr>"

definition ref_az_sig :: bytes where
  "ref_az_sig = 0x30 # replicate 1 1 @ [0] @ replicate 515 1"

definition ref_az_state :: "((public_key \<times> int option) option, unit) kms_state" where
  "ref_az_state = \<lparr>kms_world = two_readers ref_az_sig [5], kms_clock = 0,
     kms_cache = Some (ref_az_key, Some 300), kms_remote = ()\<rparr>"

lemma ref_az_hash: "getKeyVaultHashFunc ref_ttl ref_az ref_az_client ref_az_state = (Ret (SHA256, ''ES256''), ref_az_state)"
  by (simp add: getKeyVaultHashFunc_def az_public_def cached_def ref_ttl_def ref_az_state_def go_then_def
      go_wrap_def key_hash_algorithm_def ref_az_key_def)

lemma ref_az_signs: "\<exists>s1. az_SignMessage ref_lib ref_ttl ref_az ref_az_client (Some 1) [] ref_az_state =
    (Ret ref_az_sig, s1)"
proof -
  have d: "delivers (kms_world ref_az_state) (Some 1) [5]" by (simp add: ref_az_state_def)
  have "ComputeDigestForSigning ref_lib (Some 1) SHA256 (Some azureSupportedHashFuncs) [] (kms_world ref_az_state) =
      (Ret (hash_sum ref_lib SHA256 [5], SHA256), drain (Some 1) (kms_world ref_az_state))"
    using ComputeDigest_plain [OF d, of SHA256] by (simp add: azureSupportedHashFuncs_def ref_lib_def)
  then have "on_world (ComputeDigestForSigning ref_lib (Some 1) SHA256 (Some azureSupportedHashFuncs) []) ref_az_state =
      (Ret (hash_sum ref_lib SHA256 [5], SHA256), ref_az_state\<lparr>kms_world := drain (Some 1) (kms_world ref_az_state)\<rparr>)"
    by (rule on_world_step)
  moreover have "getKeyVaultHashFunc ref_ttl ref_az ref_az_client (ref_az_state\<lparr>kms_world := w\<rparr>) =
      (Ret (SHA256, ''ES256''), ref_az_state\<lparr>kms_world := w\<rparr>)" for w
    by (simp add: getKeyVaultHashFunc_def az_public_def cached_def ref_ttl_def ref_az_state_def go_then_def
        go_wrap_def key_hash_algorithm_def ref_az_key_def)
  moreover have "on_remote (az_Sign ref_az k v alg d) s = (Ret [0, 1, 2, 3], s)"
    for k v alg d and s :: "((public_key \<times> int option) option, unit) kms_state"
    by (simp add: on_remote_def ref_az_def)
  moreover have "asn1_EncodeRS ref_az (SetBytes [0, 1]) (SetBytes [2, 3]) = Ret ref_az_sig"
    by (simp add: ref_az_def ref_az_sig_def SetBytes_def)
  ultimately show ?thesis
    by (simp add: az_SignMessage_def az_sign_def go_then_def ref_az_hash go_wrap_def Let_def)
qed

lemma azure_forwards_stripped_signature_witness:
  "\<exists>raw rr ss. raw = rr @ ss \<and> length rr = length raw div 2 \<and>
     az_VerifySignature ref_lib ref_ttl ref_az ref_az_client (Some 0) (Some 1) [] ref_az_state =
       az_verify ref_ttl ref_az ref_az_client (strip rr @ strip ss) (hash_sum ref_lib SHA256 [5])
         (ref_az_state\<lparr>kms_world := drain (Some 0) (drain (Some 1) (kms_world ref_az_state))\<rparr>)"
proof -
  obtain s1 where s1: "az_SignMessage ref_lib ref_ttl ref_az ref_az_client (Some 1) [] ref_az_state =
      (Ret ref_az_sig, s1)" using ref_az_signs by blast
  have "hash_linked ref_lib SHA256" "delivers (kms_world ref_az_state) (Some 1) [5]"
    "delivers (kms_world ref_az_state) (Some 0) ref_az_sig"
    by (simp_all add: ref_lib_def ref_az_state_def)
  moreover have "Some 0 \<noteq> (Some 1 :: io_reader)" by simp
  ultimately show ?thesis using azure_forwards_stripped_signature [OF ref_asn1_laws s1 ref_az_hash] by blast
qed

end
