(* ===== verification/Gcp.thy ===== *)
theory Gcp
  imports Kms Regex CryptoUtils
begin

text \<open>
  \<open>pkg/signature/kms/gcp\<close>: keys in Google Cloud KMS.  The service is a parameter whose calls are
  steps on its state; contexts and client options only reach the service and are left out.
\<close>

section \<open>CRC-32C\<close>

text \<open>\<open>hash/crc32\<close> with the Castagnoli polynomial, bit by bit, least significant bit first.\<close>

unbundle bit_operations_syntax

definition crc_shift :: "32 word \<Rightarrow> 32 word" where
  "crc_shift c = (if bit c 0 then drop_bit 1 c XOR 0x82F63B78 else drop_bit 1 c)"

definition crc_byte :: "8 word \<Rightarrow> 32 word \<Rightarrow> 32 word" where
  "crc_byte b c = (crc_shift ^^ 8) (c XOR ucast b)"

definition crc32c :: "bytes \<Rightarrow> 32 word" where
  "crc32c bs = NOT (fold crc_byte bs (NOT 0))"

section \<open>The service\<close>

datatype gcp_algorithm =
    EC_SIGN_P256_SHA256 | EC_SIGN_P384_SHA384
  | RSA_SIGN_PKCS1_2048_SHA256 | RSA_SIGN_PKCS1_3072_SHA256 | RSA_SIGN_PKCS1_4096_SHA256 | RSA_SIGN_PKCS1_4096_SHA512
  | RSA_SIGN_PSS_2048_SHA256 | RSA_SIGN_PSS_3072_SHA256 | RSA_SIGN_PSS_4096_SHA256 | RSA_SIGN_PSS_4096_SHA512
  | Other_algorithm nat

record key_version =
  kv_Name :: string
  kv_Algorithm :: gcp_algorithm

datatype gcp_digest = Digest_Sha256 bytes | Digest_Sha384 bytes | Digest_Sha512 bytes

record sign_request =
  sr_Name :: string
  sr_Digest :: gcp_digest
  sr_DigestCrc32C :: "int option"

record sign_response =
  sp_Signature :: bytes
  sp_VerifiedDigestCrc32C :: bool
  sp_SignatureCrc32C :: "int option"

record list_request =
  lr_Parent :: string
  lr_Filter :: string
  lr_OrderBy :: string

record 'v gcp_lib =
  NewKeyManagementClient :: "unit outcome"
  gcp_GetCryptoKey :: "string \<Rightarrow> ('v, bool) step"
  gcp_GetCryptoKeyVersion :: "string \<Rightarrow> ('v, key_version) step"
  gcp_ListCryptoKeyVersions_Next :: "list_request \<Rightarrow> ('v, key_version) step"
  gcp_GetPublicKey :: "string \<Rightarrow> ('v, bytes) step"
  gcp_AsymmetricSign :: "sign_request \<Rightarrow> ('v, sign_response) step"
  gcp_CreateCryptoKey :: "string \<Rightarrow> string \<Rightarrow> gcp_algorithm \<Rightarrow> ('v, unit) step"
  gcp_GetKeyRing :: "string \<Rightarrow> ('v, unit) step"
  gcp_CreateKeyRing :: "string \<Rightarrow> string \<Rightarrow> ('v, unit) step"

section \<open>Algorithms\<close>

definition algorithmMap :: "(string \<times> gcp_algorithm) list" where
  "algorithmMap = [
     (''ecdsa-p256-sha256'', EC_SIGN_P256_SHA256),
     (''ecdsa-p384-sha384'', EC_SIGN_P384_SHA384),
     (''rsa-pkcs1v15-2048-sha256'', RSA_SIGN_PKCS1_2048_SHA256),
     (''rsa-pkcs1v15-3072-sha256'', RSA_SIGN_PKCS1_3072_SHA256),
     (''rsa-pkcs1v15-4096-sha256'', RSA_SIGN_PKCS1_4096_SHA256),
     (''rsa-pkcs1v15-4096-sha512'', RSA_SIGN_PKCS1_4096_SHA512),
     (''rsa-pss-2048-sha256'', RSA_SIGN_PSS_2048_SHA256),
     (''rsa-pss-3072-sha256'', RSA_SIGN_PSS_3072_SHA256),
     (''rsa-pss-4096-sha256'', RSA_SIGN_PSS_4096_SHA256),
     (''rsa-pss-4096-sha512'', RSA_SIGN_PSS_4096_SHA512)]"

section \<open>Key references\<close>

definition GcpReferenceScheme :: string where "GcpReferenceScheme = ''gcpkms://''"

definition path_part :: re where "path_part = plus_re (Cls (\<lambda>c. c \<noteq> CHR ''/''))"

definition gcp_segments :: "segment list" where
  "gcp_segments = [Skip (lit ''gcpkms://projects/''), Group path_part, Skip (lit ''/locations/''), Group path_part,
     Skip (lit ''/keyRings/''), Group path_part, Skip (lit ''/cryptoKeys/''), Group path_part]"

definition gcp_version_segments :: "segment list" where
  "gcp_version_segments = gcp_segments @
     [Skip (Seq (lit ''/'') (Seq (Alt (lit ''cryptoKeyVersions'') (lit ''versions'')) (lit ''/''))), Group path_part]"

definition gcp_re :: re where
  "gcp_re = Alt (segs_re gcp_version_segments) (segs_re gcp_segments)"

text \<open>The five groups; the last one is empty when its optional part is missing.\<close>

definition gcp_FindStringSubmatch :: "string \<Rightarrow> string list option" where
  "gcp_FindStringSubmatch s = (case submatch gcp_version_segments s of
       Some v \<Rightarrow> Some v
     | None \<Rightarrow> map_option (\<lambda>v. v @ [[]]) (submatch gcp_segments s))"

definition gcp_ValidReference :: "string \<Rightarrow> unit outcome" where
  "gcp_ValidReference ref =
     (if \<not> matches gcp_re ref
      then Err (Msg ''kms specification should be in the format gcpkms://projects/[PROJECT_ID]/locations/[LOCATION]/keyRings/[KEY_RING]/cryptoKeys/[KEY]/cryptoKeyVersions/[VERSION]'')
      else Ret ())"

definition gcp_parseReference :: "string \<Rightarrow> (string \<times> string \<times> string \<times> string \<times> string) outcome" where
  "gcp_parseReference resourceID = (case gcp_FindStringSubmatch resourceID of
       Some [p, l, r, k, v] \<Rightarrow> Ret (p, l, r, k, v)
     | _ \<Rightarrow> Err (Msg ''invalid gcpkms format''))"

section \<open>The client\<close>

record gcpClient =
  gcp_refString :: string
  gcp_projectID :: string
  gcp_locationID :: string
  gcp_keyRing :: string
  gcp_keyName :: string
  gcp_version :: string

record cryptoKeyVersion =
  ckv_CryptoKeyVersion :: key_version
  ckv_Verifier :: any_verifier
  ckv_HashFunc :: hash

type_synonym ('k, 'v, 'a) gcp_step = "(('k, 'v) kms_state, 'a) step"

definition newGCPClient :: "'v gcp_lib \<Rightarrow> string \<Rightarrow> gcpClient outcome" where
  "newGCPClient G refStr =
     and_then (gcp_ValidReference refStr) (\<lambda>_.
     and_then (gcp_parseReference refStr) (\<lambda>(projectID, locationID, keyRing, keyName, version).
     and_then (wrap_outcome ''new gcp kms client'' (NewKeyManagementClient G)) (\<lambda>_.
     Ret \<lparr>gcp_refString = refStr, gcp_projectID = projectID, gcp_locationID = locationID,
          gcp_keyRing = keyRing, gcp_keyName = keyName, gcp_version = version\<rparr>)))"

definition key_ring_name :: "gcpClient \<Rightarrow> string" where
  "key_ring_name g = ''projects/'' @ gcp_projectID g @ ''/locations/'' @ gcp_locationID g @ ''/keyRings/'' @ gcp_keyRing g"

definition crypto_key_name :: "gcpClient \<Rightarrow> string" where
  "crypto_key_name g = key_ring_name g @ ''/cryptoKeys/'' @ gcp_keyName g"

definition gcp_fetchPublicKey :: "'v gcp_lib \<Rightarrow> pki \<Rightarrow> string \<Rightarrow> ('k, 'v, public_key) gcp_step" where
  "gcp_fetchPublicKey G P name =
     go_then (go_wrap ''public key'' (on_remote (gcp_GetPublicKey G name))) (\<lambda>pem.
     go_lift (UnmarshalPEMToPublicKey P pem))"

text \<open>The type switch on the algorithm: the verifier of the key and the hash it is used with.\<close>

definition ckv_ecdsa :: "public_key \<Rightarrow> hash \<Rightarrow> (any_verifier \<times> hash) outcome" where
  "ckv_ecdsa pubKey h = (case pubKey of
       Ecdsa_public pk \<Rightarrow> and_then (wrap_outcome ''initializing internal verifier'' (LoadECDSAVerifier pk h)) (\<lambda>v. Ret (Ecdsa_verifier v, h))
     | _ \<Rightarrow> Err (Msg ''asserting public key type ecdsa.PublicKey''))"

definition ckv_pkcs1 :: "public_key \<Rightarrow> hash \<Rightarrow> (any_verifier \<times> hash) outcome" where
  "ckv_pkcs1 pubKey h = (case pubKey of
       Rsa_public pk \<Rightarrow> and_then (wrap_outcome ''initializing internal verifier'' (LoadRSAPKCS1v15Verifier pk h)) (\<lambda>v. Ret (Pkcs_verifier v, h))
     | _ \<Rightarrow> Err (Msg ''asserting public key type rsa.PublicKey''))"

definition ckv_pss :: "public_key \<Rightarrow> hash \<Rightarrow> (any_verifier \<times> hash) outcome" where
  "ckv_pss pubKey h = (case pubKey of
       Rsa_public pk \<Rightarrow> and_then (wrap_outcome ''initializing internal verifier'' (LoadRSAPSSVerifier pk h None)) (\<lambda>v. Ret (Pss_verifier v, h))
     | _ \<Rightarrow> Err (Msg ''asserting public key type rsa.PublicKey''))"

definition ckv_verifier :: "gcp_algorithm \<Rightarrow> public_key \<Rightarrow> (any_verifier \<times> hash) outcome" where
  "ckv_verifier alg pubKey = (case alg of
       EC_SIGN_P256_SHA256 \<Rightarrow> ckv_ecdsa pubKey SHA256
     | EC_SIGN_P384_SHA384 \<Rightarrow> ckv_ecdsa pubKey SHA384
     | RSA_SIGN_PKCS1_2048_SHA256 \<Rightarrow> ckv_pkcs1 pubKey SHA256
     | RSA_SIGN_PKCS1_3072_SHA256 \<Rightarrow> ckv_pkcs1 pubKey SHA256
     | RSA_SIGN_PKCS1_4096_SHA256 \<Rightarrow> ckv_pkcs1 pubKey SHA256
     | RSA_SIGN_PKCS1_4096_SHA512 \<Rightarrow> ckv_pkcs1 pubKey SHA512
     | RSA_SIGN_PSS_2048_SHA256 \<Rightarrow> ckv_pss pubKey SHA256
     | RSA_SIGN_PSS_3072_SHA256 \<Rightarrow> ckv_pss pubKey SHA256
     | RSA_SIGN_PSS_4096_SHA256 \<Rightarrow> ckv_pss pubKey SHA256
     | RSA_SIGN_PSS_4096_SHA512 \<Rightarrow> ckv_pss pubKey SHA512
     | Other_algorithm n \<Rightarrow> Err (Msg ''unknown algorithm specified by KMS''))"

definition keyVersionName :: "'v gcp_lib \<Rightarrow> pki \<Rightarrow> gcpClient \<Rightarrow> ('k, 'v, cryptoKeyVersion) gcp_step" where
  "keyVersionName G P g =
     (let parent = crypto_key_name g
      in go_then (on_remote (gcp_GetCryptoKey G parent)) (\<lambda>asymmetric_sign.
         if \<not> asymmetric_sign then go_err (Msg ''specified key cannot be used to sign'')
         else
           go_then (if gcp_version g \<noteq> []
                    then on_remote (gcp_GetCryptoKeyVersion G (parent @ ''/cryptoKeyVersions/'' @ gcp_version g))
                    else go_wrap ''unable to find an enabled key version in GCP KMS''
                      (on_remote (gcp_ListCryptoKeyVersions_Next G
                        \<lparr>lr_Parent = parent, lr_Filter = ''state=ENABLED'', lr_OrderBy = ''name desc''\<rparr>))) (\<lambda>kv.
           go_then (go_wrap ''unable to fetch public key while creating signer'' (gcp_fetchPublicKey G P (kv_Name kv))) (\<lambda>pubKey.
           go_lift (and_then (ckv_verifier (kv_Algorithm kv) pubKey) (\<lambda>(v, h).
             Ret \<lparr>ckv_CryptoKeyVersion = kv, ckv_Verifier = v, ckv_HashFunc = h\<rparr>))))))"

text \<open>A key pinned to a version is cached for ever, any other for five minutes.\<close>

definition getCKV :: "('k, cryptoKeyVersion) ttl_lib \<Rightarrow> 'v gcp_lib \<Rightarrow> pki \<Rightarrow> gcpClient \<Rightarrow> ('k, 'v, cryptoKeyVersion) gcp_step" where
  "getCKV C G P g = cached C (if gcp_version g \<noteq> [] then 0 else 300) (keyVersionName G P g)"

definition gcp_getHashFunc :: "('k, cryptoKeyVersion) ttl_lib \<Rightarrow> 'v gcp_lib \<Rightarrow> pki \<Rightarrow> gcpClient \<Rightarrow> ('k, 'v, hash) gcp_step" where
  "gcp_getHashFunc C G P g = go_then (getCKV C G P g) (\<lambda>ckv. go_ret (ckv_HashFunc ckv))"

definition gcp_sign ::
  "('k, cryptoKeyVersion) ttl_lib \<Rightarrow> 'v gcp_lib \<Rightarrow> pki \<Rightarrow> gcpClient \<Rightarrow> bytes \<Rightarrow> hash \<Rightarrow> 32 word \<Rightarrow> ('k, 'v, bytes) gcp_step" where
  "gcp_sign C G P g digest alg crc =
     go_then (getCKV C G P g) (\<lambda>ckv.
     go_then (go_lift (if alg = SHA256 then Ret (Digest_Sha256 digest)
                       else if alg = SHA384 then Ret (Digest_Sha384 digest)
                       else if alg = SHA512 then Ret (Digest_Sha512 digest)
                       else Err (Msg ''unsupported hash function''))) (\<lambda>d.
     let req = \<lparr>sr_Name = kv_Name (ckv_CryptoKeyVersion ckv), sr_Digest = d,
                sr_DigestCrc32C = (if crc \<noteq> 0 then Some (uint crc) else None)\<rparr>
     in go_then (go_wrap ''calling GCP AsymmetricSign'' (on_remote (gcp_AsymmetricSign G req))) (\<lambda>resp.
        if crc \<noteq> 0 \<and> \<not> sp_VerifiedDigestCrc32C resp
        then go_err (Msg ''AsymmetricSign: request corrupted in-transit'')
        else (case sp_SignatureCrc32C resp of
            None \<Rightarrow> go_panic ''nil pointer dereference''
          | Some value \<Rightarrow>
              if uint (crc32c (sp_Signature resp)) \<noteq> value
              then go_err (Msg ''AsymmetricSign: response corrupted in-transit'')
              else go_ret (sp_Signature resp)))))"

definition gcp_public :: "('k, cryptoKeyVersion) ttl_lib \<Rightarrow> 'v gcp_lib \<Rightarrow> pki \<Rightarrow> gcpClient \<Rightarrow> go_context \<Rightarrow> ('k, 'v, public_key) gcp_step" where
  "gcp_public C G P g ctx =
     go_then (go_wrap ''transient error getting info from KMS'' (getCKV C G P g)) (\<lambda>crv.
     go_lift (Verifier_PublicKey (ckv_Verifier crv) [WithContext ctx]))"

definition gcp_verify ::
  "crypto_lib \<Rightarrow> ('k, cryptoKeyVersion) ttl_lib \<Rightarrow> 'v gcp_lib \<Rightarrow> pki \<Rightarrow> gcpClient \<Rightarrow> io_reader \<Rightarrow> io_reader \<Rightarrow> sig_option list \<Rightarrow> ('k, 'v, unit) gcp_step" where
  "gcp_verify L C G P g sg message opts =
     go_then (go_wrap ''transient error getting info from KMS'' (getCKV C G P g)) (\<lambda>crv s.
       (case on_world (VerifySignature L (ckv_Verifier crv) sg message opts) s of
          (Ret _, s') \<Rightarrow> (Ret (), s')
        | (Panic p, s') \<Rightarrow> (Panic p, s')
        | (Err e, s') \<Rightarrow>
            if gcp_version g = [] then
              go_then (go_wrap ''transient error getting info from KMS'' (getCKV C G P g)) (\<lambda>crv'.
                on_world (VerifySignature L (ckv_Verifier crv') sg message opts))
                (s'\<lparr>kms_cache := ttl_Delete C (kms_cache s')\<rparr>)
            else (Err (Wrap ''failed to verify for fixed version'' e), s')))"

definition createKeyRing :: "'v gcp_lib \<Rightarrow> gcpClient \<Rightarrow> ('k, 'v, unit) gcp_step" where
  "createKeyRing G g s = (case on_remote (gcp_GetKeyRing G (key_ring_name g)) s of
       (Ret _, s') \<Rightarrow> (Ret (), s')
     | (Panic p, s') \<Rightarrow> (Panic p, s')
     | (Err e, s') \<Rightarrow> go_wrap ''creating keyring'' (on_remote (gcp_CreateKeyRing G
           (''projects/'' @ gcp_projectID g @ ''/locations/'' @ gcp_locationID g) (gcp_keyRing g))) s')"

definition gcp_createKey ::
  "('k, cryptoKeyVersion) ttl_lib \<Rightarrow> 'v gcp_lib \<Rightarrow> pki \<Rightarrow> gcpClient \<Rightarrow> go_context \<Rightarrow> string \<Rightarrow> ('k, 'v, public_key) gcp_step" where
  "gcp_createKey C G P g ctx algorithm =
     go_then (go_wrap ''creating key ring'' (createKeyRing G g)) (\<lambda>_ s.
       (case on_remote (gcp_GetCryptoKey G (crypto_key_name g)) s of
          (Ret _, s') \<Rightarrow> gcp_public C G P g ctx s'
        | (Panic p, s') \<Rightarrow> (Panic p, s')
        | (Err e, s') \<Rightarrow> (case map_of algorithmMap algorithm of
              None \<Rightarrow> (Err (Msg ''unknown algorithm requested''), s')
            | Some alg \<Rightarrow>
                go_then (go_wrap ''creating crypto key'' (on_remote (gcp_CreateCryptoKey G (key_ring_name g) (gcp_keyName g) alg)))
                  (\<lambda>_. gcp_public C G P g ctx) s')))"

section \<open>The signer and verifier\<close>

definition gcpSupportedHashFuncs :: "hash list" where
  "gcpSupportedHashFuncs = [SHA256, SHA512, SHA384]"

definition gcp_LoadSignerVerifier :: "'v gcp_lib \<Rightarrow> string \<Rightarrow> gcpClient outcome" where
  "gcp_LoadSignerVerifier G referenceStr = newGCPClient G referenceStr"

definition gcp_SignMessage ::
  "crypto_lib \<Rightarrow> ('k, cryptoKeyVersion) ttl_lib \<Rightarrow> 'v gcp_lib \<Rightarrow> pki \<Rightarrow> gcpClient \<Rightarrow> io_reader \<Rightarrow> sig_option list \<Rightarrow> ('k, 'v, bytes) gcp_step" where
  "gcp_SignMessage L C G P g message opts =
     go_then (go_wrap ''getting fetching default hash function'' (gcp_getHashFunc C G P g)) (\<lambda>hf0.
       let signerOpts = fold ApplyCryptoSignerOpts opts (SignerOpts hf0)
       in go_then (on_world (ComputeDigestForSigning L message (HashFunc signerOpts) (Some gcpSupportedHashFuncs) opts)) (\<lambda>(digest, hf).
          gcp_sign C G P g digest hf (crc32c digest)))"

definition gcp_PublicKey ::
  "('k, cryptoKeyVersion) ttl_lib \<Rightarrow> 'v gcp_lib \<Rightarrow> pki \<Rightarrow> gcpClient \<Rightarrow> sig_option list \<Rightarrow> ('k, 'v, public_key) gcp_step" where
  "gcp_PublicKey C G P g opts = gcp_public C G P g (fold ApplyContext opts Background)"

definition gcp_VerifySignature ::
  "crypto_lib \<Rightarrow> ('k, cryptoKeyVersion) ttl_lib \<Rightarrow> 'v gcp_lib \<Rightarrow> pki \<Rightarrow> gcpClient \<Rightarrow> io_reader \<Rightarrow> io_reader \<Rightarrow> sig_option list \<Rightarrow> ('k, 'v, unit) gcp_step" where
  "gcp_VerifySignature L C G P g signature message opts = gcp_verify L C G P g signature message opts"

definition gcp_CreateKey ::
  "('k, cryptoKeyVersion) ttl_lib \<Rightarrow> 'v gcp_lib \<Rightarrow> pki \<Rightarrow> gcpClient \<Rightarrow> go_context \<Rightarrow> string \<Rightarrow> ('k, 'v, public_key) gcp_step" where
  "gcp_CreateKey C G P g ctx algorithm = gcp_createKey C G P g ctx algorithm"

definition gcp_csw_Public ::
  "('k, cryptoKeyVersion) ttl_lib \<Rightarrow> 'v gcp_lib \<Rightarrow> pki \<Rightarrow> gcpClient \<Rightarrow> cryptoSignerWrapper \<Rightarrow> ('k, 'v, public_key \<times> goerr option) gcp_step" where
  "gcp_csw_Public C G P g c = csw_Public (gcp_PublicKey C G P g) c"

definition gcp_csw_Sign ::
  "crypto_lib \<Rightarrow> ('k, cryptoKeyVersion) ttl_lib \<Rightarrow> 'v gcp_lib \<Rightarrow> pki \<Rightarrow> gcpClient \<Rightarrow> cryptoSignerWrapper \<Rightarrow> bytes \<Rightarrow> signer_opts option \<Rightarrow> ('k, 'v, bytes) gcp_step" where
  "gcp_csw_Sign L C G P g c digest opts = csw_Sign (gcp_SignMessage L C G P g) c digest opts"

definition gcp_CryptoSigner ::
  "('k, cryptoKeyVersion) ttl_lib \<Rightarrow> 'v gcp_lib \<Rightarrow> pki \<Rightarrow> gcpClient \<Rightarrow> go_context \<Rightarrow> ('k, 'v, cryptoSignerWrapper \<times> hash) gcp_step" where
  "gcp_CryptoSigner C G P g ctx =
     go_then (go_wrap ''getting fetching default hash function'' (gcp_getHashFunc C G P g)) (\<lambda>defaultHf.
     go_ret (\<lparr>csw_ctx = ctx, csw_hashFunc = defaultHf\<rparr>, defaultHf))"

definition gcp_SupportedAlgorithms :: "string list" where
  "gcp_SupportedAlgorithms = map fst algorithmMap"

definition gcp_DefaultAlgorithm :: string where
  "gcp_DefaultAlgorithm = ''ecdsa-p256-sha256''"

section \<open>The cached key version\<close>

lemma stays_keyVersionName: "stays cache_kept (keyVersionName G P g)"
  unfolding keyVersionName_def gcp_fetchPublicKey_def Let_def
  by (intro cache_stays stays_on_remote)

interpretation gcp_key: caching_client "\<lambda>(G, P, g). if gcp_version g \<noteq> [] then 0 else 300"
  "\<lambda>(G, P, g). keyVersionName G P g" "\<lambda>C (G, P, g). getCKV C G P g"
  by unfold_locales (auto simp: getCKV_def stays_keyVersionName)

lemma ckv_verifier_wf:
  assumes "lib_laws L" "hashes_linked L" "ckv_verifier alg pk = Ret (v, h)"
  shows "wf_any_verifier L v"
  using assms hashes_linkedD [OF assms(2)]
  by (auto simp: ckv_verifier_def ckv_ecdsa_def ckv_pkcs1_def ckv_pss_def load_defs outcome_simps wf_any_verifier_def
      wf_rsapss_verifier_def wf_rsapkcs_verifier_def wf_ecdsa_verifier_def hashes_linked_def
      split: gcp_algorithm.splits public_key.splits if_splits)

text \<open>Only verifiers that meet the contract get into the cache.\<close>

definition wf_ckv_cache :: "crypto_lib \<Rightarrow> ('k, cryptoKeyVersion) ttl_lib \<Rightarrow> ('k, 'v) kms_state \<Rightarrow> bool" where
  "wf_ckv_cache L C s \<longleftrightarrow> (\<forall>i. ttl_Live C (kms_cache s) (kms_clock s) = Some i \<longrightarrow> wf_any_verifier L (ckv_Verifier i))"

lemma getCKV_wf:
  assumes "lib_laws L" "hashes_linked L" "wf_ckv_cache L C s" "getCKV C G P g s = (Ret crv, s')"
  shows "wf_any_verifier L (ckv_Verifier crv)"
proof (cases "ttl_Live C (kms_cache s) (kms_clock s)")
  case None
  from gcp_key.get_miss [of C s "(G, P, g)" crv s'] None assms(4)
  obtain s1 where "keyVersionName G P g s = (Ret crv, s1)" by auto
  then obtain alg pk v h where "ckv_verifier alg pk = Ret (v, h)" "ckv_Verifier crv = v"
    by (auto simp: keyVersionName_def go_then_Ret_iff Let_def and_then_Ret_iff split: if_splits)
  with ckv_verifier_wf [OF assms(1,2)] show ?thesis by blast
next
  case (Some i)
  with gcp_key.get_hit [of C s i "(G, P, g)"] assms(3,4) show ?thesis by (simp add: wf_ckv_cache_def)
qed

text \<open>C34: when the first attempt to verify a signature fails, the second attempt, with the key fetched anew
  after a rotation, never succeeds: the readers of the signature and of the message have been used up.
  So an unpinned key accepts a signature exactly when the key that was cached does.\<close>

theorem gcp_retry_never_recovers:
  assumes "lib_laws L" "hashes_linked L" "ttl_laws C" "gcp_version g = []" "wf_ckv_cache L C s"
    and "delivers (kms_world s) rs sg" "delivers (kms_world s) rm m" "rs \<noteq> rm"
    and "getCKV C G P g s = (Ret crv, s1)"
  shows "fst (gcp_VerifySignature L C G P g rs rm [] s) = Ret () \<longleftrightarrow>
    fst (VerifySignature L (ckv_Verifier crv) rs rm [] (kms_world s)) = Ret ()"
proof -
  note wf = getCKV_wf [OF assms(1,2,5,9)]
  have w1: "kms_world s1 = kms_world s" using gcp_key.get_world [of C "(G, P, g)"] assms(9) by simp
  obtain x w2 where v: "VerifySignature L (ckv_Verifier crv) rs rm [] (kms_world s) = (x, w2)"
    by (cases "VerifySignature L (ckv_Verifier crv) rs rm [] (kms_world s)")
  let ?s2 = "s1\<lparr>kms_world := w2\<rparr>" let ?s3 = "?s2\<lparr>kms_cache := ttl_Delete C (kms_cache ?s2)\<rparr>"
  have ov: "on_world (VerifySignature L (ckv_Verifier crv) rs rm []) s1 = (x, ?s2)"
    by (simp add: on_world_def w1 v)
  show ?thesis
  proof (cases x)
    case (Err e)
    have "fst (go_then (go_wrap ''transient error getting info from KMS'' (getCKV C G P g)) (\<lambda>crv'.
        on_world (VerifySignature L (ckv_Verifier crv') rs rm [])) ?s3) \<noteq> Ret ()" (is "fst ?retry \<noteq> _")
    proof
      assume "fst ?retry = Ret ()"
      then obtain s5 where "?retry = (Ret (), s5)" by (metis prod.collapse)
      then obtain crv' s4 where g: "getCKV C G P g ?s3 = (Ret crv', s4)"
        and v': "on_world (VerifySignature L (ckv_Verifier crv') rs rm []) s4 = (Ret (), s5)"
        unfolding go_then_Ret_iff go_wrap_Ret_iff by blast
      have "wf_ckv_cache L C ?s3" using assms(3) by (simp add: wf_ckv_cache_def ttl_laws_def)
      note wf' = getCKV_wf [OF assms(1,2) this g]
      have "kms_world s4 = w2" using gcp_key.get_world [of C "(G, P, g)"] g by simp
      with v' have "fst (VerifySignature L (ckv_Verifier crv') rs rm [] w2) = Ret ()"
        by (simp add: on_world_def split: prod.splits)
      with any.retry_fails [OF wf wf' assms(6-8), of "[]"] v show False by simp
    qed
    then show ?thesis
      by (simp add: gcp_VerifySignature_def gcp_verify_def go_then_step go_wrap_step assms(4,9) ov Err v)
  qed (simp_all add: gcp_VerifySignature_def gcp_verify_def go_then_step go_wrap_step assms(9) ov v)
qed

text \<open>An unpinned client whose key version is in the cache, for the witness.\<close>

definition ref_gcp :: "unit gcp_lib" where
  "ref_gcp = \<lparr>
     NewKeyManagementClient = Ret (),
     gcp_GetCryptoKey = (\<lambda>_ v. (Ret True, v)),
     gcp_GetCryptoKeyVersion = (\<lambda>_ v. (Err (Msg ''no such version''), v)),
     gcp_ListCryptoKeyVersions_Next = (\<lambda>_ v. (Err (Msg ''no more items in iterator''), v)),
     gcp_GetPublicKey = (\<lambda>_ v. (Err (Msg ''no such key''), v)),
     gcp_AsymmetricSign = (\<lambda>_ v. (Err (Msg ''no such key''), v)),
     gcp_CreateCryptoKey = (\<lambda>_ _ _ v. (Ret (), v)),
     gcp_GetKeyRing = (\<lambda>_ v. (Ret (), v)),
     gcp_CreateKeyRing = (\<lambda>_ _ v. (Ret (), v))\<rparr>"

definition ref_gcp_client :: gcpClient where
  "ref_gcp_client = \<lparr>gcp_refString = [], gcp_projectID = ''p'', gcp_locationID = ''l'', gcp_keyRing = ''r'',
     gcp_keyName = ''k'', gcp_version = []\<rparr>"

definition ref_ckv :: cryptoKeyVersion where
  "ref_ckv = \<lparr>ckv_CryptoKeyVersion = \<lparr>kv_Name = ''v'', kv_Algorithm = EC_SIGN_P256_SHA256\<rparr>,
     ckv_Verifier = Ecdsa_verifier \<lparr>ev_publicKey = Some \<lparr>ecdsa_Curve = P256, ecdsa_X = 1, ecdsa_Y = 1\<rparr>, ev_hashFunc = SHA256\<rparr>,
     ckv_HashFunc = SHA256\<rparr>"

definition ref_gcp_state :: "((cryptoKeyVersion \<times> int option) option, unit) kms_state" where
  "ref_gcp_state = \<lparr>kms_world = two_readers [1] [5], kms_clock = 0, kms_cache = Some (ref_ckv, Some 300), kms_remote = ()\<rparr>"

lemma ref_gcp_cached: "getCKV ref_ttl ref_gcp P ref_gcp_client ref_gcp_state = (Ret ref_ckv, ref_gcp_state)"
  by (simp add: getCKV_def cached_def ref_ttl_def ref_gcp_state_def)

lemma gcp_retry_never_recovers_witness:
  "fst (gcp_VerifySignature ref_lib ref_ttl ref_gcp ref_pki ref_gcp_client (Some 0) (Some 1) [] ref_gcp_state) = Ret () \<longleftrightarrow>
   fst (VerifySignature ref_lib (ckv_Verifier ref_ckv) (Some 0) (Some 1) [] (kms_world ref_gcp_state)) = Ret ()"
proof -
  have "hashes_linked ref_lib" by (simp add: hashes_linked_def ref_lib_def)
  moreover have "hash_linked ref_lib SHA256" by (simp add: ref_lib_def)
  then have "wf_ckv_cache ref_lib ref_ttl ref_gcp_state"
    by (simp add: wf_ckv_cache_def ref_ttl_def ref_gcp_state_def ref_ckv_def wf_any_verifier_def wf_ecdsa_verifier_def
        ecdsaSupportedHashFuncs_def)
  moreover have "delivers (kms_world ref_gcp_state) (Some 0) [1]" "delivers (kms_world ref_gcp_state) (Some 1) [5]"
    by (simp_all add: ref_gcp_state_def)
  moreover have "gcp_version ref_gcp_client = []" "Some 0 \<noteq> (Some 1 :: io_reader)" by (simp_all add: ref_gcp_client_def)
  ultimately show ?thesis
    using gcp_retry_never_recovers [OF ref_lib_laws _ ref_ttl_laws _ _ _ _ _ ref_gcp_cached] by blast
qed

end
