(* ===== verification/Aws.thy ===== *)
theory Aws
  imports Kms Regex CryptoUtils
begin

text \<open>
  \<open>pkg/signature/kms/aws\<close>: keys in AWS KMS.  The service is a parameter whose calls are steps on its
  state; contexts and configuration options only reach the service and are left out.
\<close>

section \<open>The service\<close>

datatype signing_algorithm =
    RSASSA_PSS_SHA_256 | RSASSA_PSS_SHA_384 | RSASSA_PSS_SHA_512
  | RSASSA_PKCS1_V1_5_SHA_256 | RSASSA_PKCS1_V1_5_SHA_384 | RSASSA_PKCS1_V1_5_SHA_512
  | ECDSA_SHA_256 | ECDSA_SHA_384 | ECDSA_SHA_512 | Other_signing nat

record key_metadata =
  km_KeyId :: string
  km_SigningAlgorithms :: "signing_algorithm list"

record 'v aws_lib =
  aws_LoadDefaultConfig :: "bool \<Rightarrow> unit outcome"
  aws_GetPublicKey :: "string \<Rightarrow> ('v, bytes) step"
  aws_DescribeKey :: "string \<Rightarrow> ('v, key_metadata) step"
  aws_Sign :: "string \<Rightarrow> bytes \<Rightarrow> signing_algorithm \<Rightarrow> ('v, bytes) step"
  aws_Verify :: "string \<Rightarrow> bytes \<Rightarrow> bytes \<Rightarrow> signing_algorithm \<Rightarrow> ('v, unit) step"
  aws_CreateKey :: "string \<Rightarrow> string \<Rightarrow> ('v, key_metadata) step"
  aws_CreateAlias :: "string \<Rightarrow> string \<Rightarrow> ('v, unit) step"
  aws_is_NotFoundException :: "goerr \<Rightarrow> bool"

type_synonym ('k, 'v, 'a) aws_step = "(('k, 'v) kms_state, 'a) step"

section \<open>Key references\<close>

definition AwsReferenceScheme :: string where "AwsReferenceScheme = ''awskms://''"

definition hex_char :: re where "hex_char = Cls (\<lambda>c. c \<in> set ''ABCDEFabcdef0123456789'')"

definition uuidRE :: re where
  "uuidRE = foldr Seq [opt_re (lit ''m''), opt_re (lit ''r''), opt_re (lit ''k''), opt_re (lit ''-''), times_re 8 hex_char,
     opt_re (lit ''-''), times_re 4 hex_char, opt_re (lit ''-''), times_re 4 hex_char, opt_re (lit ''-''), times_re 4 hex_char,
     opt_re (lit ''-'')] (times_re 12 hex_char)"

definition arnRE :: re where
  "arnRE = foldr Seq [lit ''arn:'', Alt (lit ''aws'') (Alt (lit ''aws-us-gov'') (lit ''aws-cn'')), lit '':kms:'',
     plus_re (Cls (\<lambda>c. c \<in> set ''abcdefghijklmnopqrstuvwxyz0123456789-'')), lit '':'',
     times_re 12 (Cls (\<lambda>c. c \<in> set ''0123456789''))] (lit '':'')"

definition hostRE :: "segment list" where
  "hostRE = [Skip (lit ''awskms://''), Group (Star (Cls (\<lambda>c. c \<noteq> CHR ''/''))), Skip (lit ''/'')]"

definition aliasRE :: re where
  "aliasRE = Seq (lit ''alias/'') (Star (Cls (\<lambda>c. c \<noteq> CHR ''\<newline>'')))"

definition keyIDRE :: "segment list" where "keyIDRE = hostRE @ [Group uuidRE]"
definition keyARNRE :: "segment list" where "keyARNRE = hostRE @ [Group (Seq arnRE (Seq (lit ''key/'') uuidRE))]"
definition aliasNameRE :: "segment list" where "aliasNameRE = hostRE @ [Group aliasRE]"
definition aliasARNRE :: "segment list" where "aliasARNRE = hostRE @ [Group arnRE, Group aliasRE]"

text \<open>
  The groups of the four expressions: host, key and, for the last two, alias.  A group inside
  another is part of it: the alias name is the whole key, an alias ARN is its prefix and its alias.
\<close>

definition keyIDRE_FindStringSubmatch :: "string \<Rightarrow> string list option" where
  "keyIDRE_FindStringSubmatch = submatch keyIDRE"

definition keyARNRE_FindStringSubmatch :: "string \<Rightarrow> string list option" where
  "keyARNRE_FindStringSubmatch = submatch keyARNRE"

definition aliasNameRE_FindStringSubmatch :: "string \<Rightarrow> string list option" where
  "aliasNameRE_FindStringSubmatch s = map_option (\<lambda>v. [v ! 0, v ! 1, v ! 1]) (submatch aliasNameRE s)"

definition aliasARNRE_FindStringSubmatch :: "string \<Rightarrow> string list option" where
  "aliasARNRE_FindStringSubmatch s = map_option (\<lambda>v. [v ! 0, v ! 1 @ v ! 2, v ! 2]) (submatch aliasARNRE s)"

definition allREs :: "(re \<times> (string \<Rightarrow> string list option)) list" where
  "allREs = [(segs_re keyIDRE, keyIDRE_FindStringSubmatch), (segs_re keyARNRE, keyARNRE_FindStringSubmatch),
     (segs_re aliasNameRE, aliasNameRE_FindStringSubmatch), (segs_re aliasARNRE, aliasARNRE_FindStringSubmatch)]"

definition aws_ValidReference :: "string \<Rightarrow> unit outcome" where
  "aws_ValidReference ref = (case find (\<lambda>(re, _). matches re ref) allREs of
       Some _ \<Rightarrow> Ret ()
     | None \<Rightarrow> Err (Msg ''kms specification should be in the format awskms://[ENDPOINT]/[ID/ALIAS/ARN] (endpoint optional)''))"

fun aws_parse_loop :: "(re \<times> (string \<Rightarrow> string list option)) list \<Rightarrow> string \<Rightarrow> (string \<times> string \<times> string) outcome" where
  "aws_parse_loop [] resourceID = Err (Msg ''invalid awskms format'')"
| "aws_parse_loop ((_, submatches) # res) resourceID = (case submatches resourceID of
       None \<Rightarrow> aws_parse_loop res resourceID
     | Some v \<Rightarrow> Ret (v ! 0, v ! 1, if length v = 3 then v ! 2 else []))"

definition aws_ParseReference :: "string \<Rightarrow> (string \<times> string \<times> string) outcome" where
  "aws_ParseReference resourceID = aws_parse_loop allREs resourceID"

section \<open>The client\<close>

record awsClient =
  aws_BaseEndpoint :: "string option"
  aws_endpoint :: string
  aws_keyID :: string
  aws_alias :: string

definition setupClient :: "'v aws_lib \<Rightarrow> string \<Rightarrow> string \<Rightarrow> string option outcome" where
  "setupClient A env_AWS_TLS_INSECURE_SKIP_VERIFY endpoint =
     and_then (wrap_outcome ''loading AWS config'' (aws_LoadDefaultConfig A (env_AWS_TLS_INSECURE_SKIP_VERIFY = ''1''))) (\<lambda>_.
     Ret (if endpoint \<noteq> [] then Some (''https://'' @ endpoint) else None))"

definition newAWSClient :: "'v aws_lib \<Rightarrow> string \<Rightarrow> string \<Rightarrow> awsClient outcome" where
  "newAWSClient A env keyResourceID =
     and_then (aws_ValidReference keyResourceID) (\<lambda>_.
     and_then (aws_ParseReference keyResourceID) (\<lambda>(endpoint, keyID, alias).
     and_then (setupClient A env endpoint) (\<lambda>base.
     Ret \<lparr>aws_BaseEndpoint = base, aws_endpoint = endpoint, aws_keyID = keyID, aws_alias = alias\<rparr>)))"

record cmk =
  cmk_KeyMetadata :: key_metadata
  cmk_PublicKey :: public_key

text \<open>Every use of the key takes its first signing algorithm.\<close>

definition first_algorithm :: "cmk \<Rightarrow> signing_algorithm outcome" where
  "first_algorithm c = (case km_SigningAlgorithms (cmk_KeyMetadata c) of
       [] \<Rightarrow> Panic ''index out of range'' | a # _ \<Rightarrow> Ret a)"

definition alg_HashFunc :: "signing_algorithm \<Rightarrow> hash" where
  "alg_HashFunc a =
     (if a \<in> {RSASSA_PSS_SHA_256, RSASSA_PKCS1_V1_5_SHA_256, ECDSA_SHA_256} then SHA256
      else if a \<in> {RSASSA_PSS_SHA_384, RSASSA_PKCS1_V1_5_SHA_384, ECDSA_SHA_384} then SHA384
      else if a \<in> {RSASSA_PSS_SHA_512, RSASSA_PKCS1_V1_5_SHA_512, ECDSA_SHA_512} then SHA512
      else NoHash)"

definition cmk_HashFunc :: "cmk \<Rightarrow> hash outcome" where
  "cmk_HashFunc c = and_then (first_algorithm c) (\<lambda>a. Ret (alg_HashFunc a))"

definition cmk_Verifier :: "cmk \<Rightarrow> any_verifier outcome" where
  "cmk_Verifier c = and_then (first_algorithm c) (\<lambda>a.
     if a \<in> {RSASSA_PSS_SHA_256, RSASSA_PSS_SHA_384, RSASSA_PSS_SHA_512} then
       (case cmk_PublicKey c of
          Rsa_public pub \<Rightarrow> and_then (LoadRSAPSSVerifier pub (alg_HashFunc a) None) (\<lambda>v. Ret (Pss_verifier v))
        | _ \<Rightarrow> Err (Msg ''public key is not rsa''))
     else if a \<in> {RSASSA_PKCS1_V1_5_SHA_256, RSASSA_PKCS1_V1_5_SHA_384, RSASSA_PKCS1_V1_5_SHA_512} then
       (case cmk_PublicKey c of
          Rsa_public pub \<Rightarrow> and_then (LoadRSAPKCS1v15Verifier pub (alg_HashFunc a)) (\<lambda>v. Ret (Pkcs_verifier v))
        | _ \<Rightarrow> Err (Msg ''public key is not rsa''))
     else if a \<in> {ECDSA_SHA_256, ECDSA_SHA_384, ECDSA_SHA_512} then
       (case cmk_PublicKey c of
          Ecdsa_public pub \<Rightarrow> and_then (LoadECDSAVerifier pub (alg_HashFunc a)) (\<lambda>v. Ret (Ecdsa_verifier v))
        | _ \<Rightarrow> Err (Msg ''public key is not ecdsa''))
     else Err (Msg ''signing algorithm unsupported''))"

definition aws_fetchPublicKey :: "'v aws_lib \<Rightarrow> pki \<Rightarrow> awsClient \<Rightarrow> ('k, 'v, public_key) aws_step" where
  "aws_fetchPublicKey A P a =
     go_then (go_wrap ''getting public key'' (on_remote (aws_GetPublicKey A (aws_keyID a)))) (\<lambda>out.
     go_lift (wrap_outcome ''parsing public key'' (ParsePKIXPublicKey P out)))"

definition fetchKeyMetadata :: "'v aws_lib \<Rightarrow> awsClient \<Rightarrow> ('k, 'v, key_metadata) aws_step" where
  "fetchKeyMetadata A a = go_wrap ''getting key metadata'' (on_remote (aws_DescribeKey A (aws_keyID a)))"

definition fetchCMK :: "'v aws_lib \<Rightarrow> pki \<Rightarrow> awsClient \<Rightarrow> ('k, 'v, cmk) aws_step" where
  "fetchCMK A P a =
     go_then (aws_fetchPublicKey A P a) (\<lambda>pk.
     go_then (fetchKeyMetadata A a) (\<lambda>md.
     go_ret \<lparr>cmk_KeyMetadata = md, cmk_PublicKey = pk\<rparr>))"

definition getCMK :: "('k, cmk) ttl_lib \<Rightarrow> 'v aws_lib \<Rightarrow> pki \<Rightarrow> awsClient \<Rightarrow> ('k, 'v, cmk) aws_step" where
  "getCMK C A P a = cached C 300 (fetchCMK A P a)"

definition aws_getHashFunc :: "('k, cmk) ttl_lib \<Rightarrow> 'v aws_lib \<Rightarrow> pki \<Rightarrow> awsClient \<Rightarrow> ('k, 'v, hash) aws_step" where
  "aws_getHashFunc C A P a = go_then (getCMK C A P a) (\<lambda>c. go_lift (cmk_HashFunc c))"

definition aws_createKey :: "('k, cmk) ttl_lib \<Rightarrow> 'v aws_lib \<Rightarrow> pki \<Rightarrow> awsClient \<Rightarrow> string \<Rightarrow> ('k, 'v, public_key) aws_step" where
  "aws_createKey C A P a algorithm s =
     (if aws_alias a = [] then (Err (Msg ''must use alias key format''), s)
      else (case getCMK C A P a s of
          (Ret c, s') \<Rightarrow> (Ret (cmk_PublicKey c), s')
        | (Panic p, s') \<Rightarrow> (Panic p, s')
        | (Err e, s') \<Rightarrow>
            if \<not> aws_is_NotFoundException A e then (Err (Wrap ''looking up key'' e), s')
            else
              go_then (go_wrap ''creating key'' (on_remote (aws_CreateKey A algorithm ''Created by Sigstore''))) (\<lambda>key.
              go_then (go_wrap ''creating alias'' (on_remote (aws_CreateAlias A (aws_alias a) (km_KeyId key)))) (\<lambda>_.
              go_then (go_wrap ''retrieving PublicKey from cache'' (getCMK C A P a)) (\<lambda>c.
              go_ret (cmk_PublicKey c)))) s'))"

definition aws_verify ::
  "crypto_lib \<Rightarrow> ('k, cmk) ttl_lib \<Rightarrow> 'v aws_lib \<Rightarrow> pki \<Rightarrow> awsClient \<Rightarrow> io_reader \<Rightarrow> io_reader \<Rightarrow> sig_option list \<Rightarrow> ('k, 'v, unit) aws_step" where
  "aws_verify L C A P a sg message opts =
     go_then (getCMK C A P a) (\<lambda>c.
     go_then (go_lift (cmk_Verifier c)) (\<lambda>verifier.
     on_world (VerifySignature L verifier sg message opts)))"

definition verifyRemotely :: "('k, cmk) ttl_lib \<Rightarrow> 'v aws_lib \<Rightarrow> pki \<Rightarrow> awsClient \<Rightarrow> bytes \<Rightarrow> bytes \<Rightarrow> ('k, 'v, unit) aws_step" where
  "verifyRemotely C A P a sg digest =
     go_then (getCMK C A P a) (\<lambda>c.
     go_then (go_lift (first_algorithm c)) (\<lambda>alg.
     go_wrap ''unable to verify signature'' (on_remote (aws_Verify A (aws_keyID a) digest sg alg))))"

definition aws_sign :: "('k, cmk) ttl_lib \<Rightarrow> 'v aws_lib \<Rightarrow> pki \<Rightarrow> awsClient \<Rightarrow> bytes \<Rightarrow> hash \<Rightarrow> ('k, 'v, bytes) aws_step" where
  "aws_sign C A P a digest hf =
     go_then (getCMK C A P a) (\<lambda>c.
     go_then (go_lift (first_algorithm c)) (\<lambda>alg.
     go_wrap ''signing with kms'' (on_remote (aws_Sign A (aws_keyID a) digest alg))))"

section \<open>The signer and verifier\<close>

definition awsSupportedAlgorithms :: "string list" where
  "awsSupportedAlgorithms = [''RSA_2048'', ''RSA_3072'', ''RSA_4096'', ''ECC_NIST_P256'', ''ECC_NIST_P384'', ''ECC_NIST_P521'']"

definition awsSupportedHashFuncs :: "hash list" where
  "awsSupportedHashFuncs = [SHA256, SHA384, SHA512]"

definition aws_LoadSignerVerifier :: "'v aws_lib \<Rightarrow> string \<Rightarrow> string \<Rightarrow> awsClient outcome" where
  "aws_LoadSignerVerifier A env referenceStr = newAWSClient A env referenceStr"

definition aws_SignMessage ::
  "crypto_lib \<Rightarrow> ('k, cmk) ttl_lib \<Rightarrow> 'v aws_lib \<Rightarrow> pki \<Rightarrow> awsClient \<Rightarrow> io_reader \<Rightarrow> sig_option list \<Rightarrow> ('k, 'v, bytes) aws_step" where
  "aws_SignMessage L C A P a message opts =
     (let digest = fold ApplyDigest opts []
      in go_then (go_wrap ''getting fetching default hash function'' (aws_getHashFunc C A P a)) (\<lambda>hf0.
         let hf = HashFunc (fold ApplyCryptoSignerOpts opts (SignerOpts hf0))
         in go_then (if length digest = 0
                     then on_world (ComputeDigestForSigning L message hf (Some awsSupportedHashFuncs) opts)
                     else go_ret (digest, hf)) (\<lambda>(digest', hf').
            aws_sign C A P a digest' hf')))"

definition aws_PublicKey :: "('k, cmk) ttl_lib \<Rightarrow> 'v aws_lib \<Rightarrow> pki \<Rightarrow> awsClient \<Rightarrow> sig_option list \<Rightarrow> ('k, 'v, public_key) aws_step" where
  "aws_PublicKey C A P a opts = go_then (getCMK C A P a) (\<lambda>c. go_ret (cmk_PublicKey c))"

definition aws_VerifySignature ::
  "crypto_lib \<Rightarrow> ('k, cmk) ttl_lib \<Rightarrow> 'v aws_lib \<Rightarrow> pki \<Rightarrow> awsClient \<Rightarrow> io_reader \<Rightarrow> io_reader \<Rightarrow> sig_option list \<Rightarrow> ('k, 'v, unit) aws_step" where
  "aws_VerifySignature L C A P a sg message opts =
     (let digest = fold ApplyDigest opts []; remoteVerification = fold ApplyRemoteVerification opts False
      in if \<not> remoteVerification then aws_verify L C A P a sg message opts
         else go_then (go_wrap ''getting hash func'' (aws_getHashFunc C A P a)) (\<lambda>hf0.
           let hf = HashFunc (fold ApplyCryptoSignerOpts opts (SignerOpts hf0))
           in go_then (if length digest = 0
                       then go_then (on_world (ComputeDigestForVerifying L message hf (Some awsSupportedHashFuncs) opts)) (\<lambda>(d, _). go_ret d)
                       else go_ret digest) (\<lambda>digest'.
              go_then (go_wrap ''reading signature'' (on_world (ReadAll sg))) (\<lambda>sigBytes.
              verifyRemotely C A P a sigBytes digest'))))"

definition aws_SV_CreateKey :: "('k, cmk) ttl_lib \<Rightarrow> 'v aws_lib \<Rightarrow> pki \<Rightarrow> awsClient \<Rightarrow> string \<Rightarrow> ('k, 'v, public_key) aws_step" where
  "aws_SV_CreateKey C A P a algorithm = aws_createKey C A P a algorithm"

definition aws_csw_Public ::
  "('k, cmk) ttl_lib \<Rightarrow> 'v aws_lib \<Rightarrow> pki \<Rightarrow> awsClient \<Rightarrow> cryptoSignerWrapper \<Rightarrow> ('k, 'v, public_key \<times> goerr option) aws_step" where
  "aws_csw_Public C A P a c = csw_Public (aws_PublicKey C A P a) c"

definition aws_csw_Sign ::
  "crypto_lib \<Rightarrow> ('k, cmk) ttl_lib \<Rightarrow> 'v aws_lib \<Rightarrow> pki \<Rightarrow> awsClient \<Rightarrow> cryptoSignerWrapper \<Rightarrow> bytes \<Rightarrow> signer_opts option \<Rightarrow> ('k, 'v, bytes) aws_step" where
  "aws_csw_Sign L C A P a c digest opts = csw_Sign (aws_SignMessage L C A P a) c digest opts"

definition aws_CryptoSigner ::
  "('k, cmk) ttl_lib \<Rightarrow> 'v aws_lib \<Rightarrow> pki \<Rightarrow> awsClient \<Rightarrow> go_context \<Rightarrow> ('k, 'v, cryptoSignerWrapper \<times> hash) aws_step" where
  "aws_CryptoSigner C A P a ctx =
     go_then (go_wrap ''getting fetching default hash function'' (aws_getHashFunc C A P a)) (\<lambda>defaultHf.
     go_ret (\<lparr>csw_ctx = ctx, csw_hashFunc = defaultHf\<rparr>, defaultHf))"

definition aws_SupportedAlgorithms :: "string list" where
  "aws_SupportedAlgorithms = map id awsSupportedAlgorithms"

definition aws_DefaultAlgorithm :: string where
  "aws_DefaultAlgorithm = ''ECC_NIST_P256''"

section \<open>The cached key\<close>

lemma stays_fetchCMK: "stays cache_kept (fetchCMK A P a)"
  unfolding fetchCMK_def aws_fetchPublicKey_def fetchKeyMetadata_def
  by (intro cache_stays stays_on_remote)

interpretation aws_key: caching_client "\<lambda>_. 300" "\<lambda>(A, P, a). fetchCMK A P a" "\<lambda>C (A, P, a). getCMK C A P a"
  by unfold_locales (auto simp: getCMK_def stays_fetchCMK)

section \<open>Properties\<close>

lemma getHashFunc_hit:
  assumes "ttl_Live C (kms_cache s) (kms_clock s) = Some c" "km_SigningAlgorithms (cmk_KeyMetadata c) = alg # algs"
  shows "aws_getHashFunc C A P a s = (Ret (alg_HashFunc alg), s)"
  using aws_key.get_hit [of C s c "(A, P, a)"] assms
  by (simp add: aws_getHashFunc_def go_then_step cmk_HashFunc_def first_algorithm_def)

lemma aws_sign_hit:
  assumes "ttl_Live C (kms_cache s) (kms_clock s) = Some c" "km_SigningAlgorithms (cmk_KeyMetadata c) = alg # algs"
  shows "aws_sign C A P a digest hf s = go_wrap ''signing with kms'' (on_remote (aws_Sign A (aws_keyID a) digest alg)) s"
  using aws_key.get_hit [of C s c "(A, P, a)"] assms
  by (simp add: aws_sign_def go_then_step first_algorithm_def)

lemma getHashFunc_fetched:
  assumes "getCMK C A P a s = (Ret c, s')" "km_SigningAlgorithms (cmk_KeyMetadata c) = alg # algs"
  shows "aws_getHashFunc C A P a s = (Ret (alg_HashFunc alg), s')"
  using assms by (simp add: aws_getHashFunc_def go_then_step cmk_HashFunc_def first_algorithm_def)

lemma ComputeDigest_plain_sum:
  assumes "ComputeDigestForSigning L r h (Some awsSupportedHashFuncs) [] w = (Ret (d, hf), w')" "delivers w r m"
  shows "h \<in> set awsSupportedHashFuncs \<and> d = hash_sum L h m \<and> hash_linked L h"
  using ComputeDigest_Ret [OF assms(1)] delivers_unique [OF assms(2)]
  by (auto simp: awsSupportedHashFuncs_def)

lemma alg_HashFunc_supported: "alg_HashFunc alg \<noteq> NoHash \<Longrightarrow> alg_HashFunc alg \<in> set awsSupportedHashFuncs"
  by (auto simp: alg_HashFunc_def awsSupportedHashFuncs_def split: if_splits)

text \<open>A fetched key is used for five minutes without asking the service; after that it is whatever the
  service then says.\<close>

theorem aws_key_cached:
  assumes "ttl_laws C" "ttl_Live C (kms_cache s) (kms_clock s) = None" "getCMK C A P a s = (Ret c, s')"
    and "kms_cache s2 = kms_cache s'" "kms_clock s' \<le> kms_clock s2"
  shows "if kms_clock s2 < kms_clock s' + 300 then getCMK C A P a s2 = (Ret c, s2)
    else \<forall>d s3. getCMK C A P a s2 = (Ret d, s3) \<longrightarrow> (\<exists>s4. fetchCMK A P a s2 = (Ret d, s4))"
  using aws_key.get_again [of C s "(A, P, a)" c s' s2] aws_key.get_expired [of C s "(A, P, a)" c s' s2] assms by simp

text \<open>A digest given by the caller is signed as it is, with the first algorithm of the key: its length
  and the hash option are not looked at.\<close>

theorem aws_digest_unchecked:
  assumes "ttl_Live C (kms_cache s) (kms_clock s) = Some c" "km_SigningAlgorithms (cmk_KeyMetadata c) = alg # algs"
    and "last_set set_digest opts = Some d" "d \<noteq> []"
  shows "aws_SignMessage L C A P a r opts s = go_wrap ''signing with kms'' (on_remote (aws_Sign A (aws_keyID a) d alg)) s"
  using getHashFunc_hit [OF assms(1,2)] aws_sign_hit [OF assms(1,2)] assms(3,4)
  by (simp add: aws_SignMessage_def digest_opt.fold_last go_then_step go_wrap_step)

text \<open>C32: when both calls find the same first algorithm, in a cached key or in one they fetch, what
  \<open>SignMessage\<close> returns for a message is the service's signature, by that algorithm, of the message's digest
  under the algorithm's hash, and \<open>VerifySignature\<close> for the same message and this signature, with verification
  left to the service, asks the service about exactly that digest, signature and algorithm, once, and answers
  what the service then answers: acceptance, or its error.\<close>

theorem aws_remote_roundtrip:
  assumes "ttl_laws C" "getCMK C A P a s = (Ret c, sA)" "getCMK C A P a s2 = (Ret c2, sB)"
    and "km_SigningAlgorithms (cmk_KeyMetadata c) = alg # algs" "km_SigningAlgorithms (cmk_KeyMetadata c2) = alg # algs2"
    and "delivers (kms_world s) r m" "aws_SignMessage L C A P a r [] s = (Ret sg, s1)"
    and "delivers (kms_world s2) rm m" "delivers (kms_world s2) rs sg" "rs \<noteq> rm"
  shows "fst (aws_Sign A (aws_keyID a) (hash_sum L (alg_HashFunc alg) m) alg (kms_remote sA)) = Ret sg \<and>
    aws_VerifySignature L C A P a rs rm [WithRemoteVerification True] s2 =
      go_wrap ''unable to verify signature''
        (on_remote (aws_Verify A (aws_keyID a) (hash_sum L (alg_HashFunc alg) m) sg alg))
        (sB\<lparr>kms_world := drain rs (drain rm (kms_world s2))\<rparr>)"
proof -
  let ?o = "[WithRemoteVerification True]" let ?h = "alg_HashFunc alg" let ?d = "hash_sum L ?h m"
  note world = aws_key.get_world [of C "(A, P, a)", simplified]
  note h = getHashFunc_fetched [OF assms(2,4)] getHashFunc_fetched [OF assms(3,5)]
  from assms(7) obtain digest hf s3
    where d: "on_world (ComputeDigestForSigning L r ?h (Some awsSupportedHashFuncs) []) sA = (Ret (digest, hf), s3)"
      and sg: "aws_sign C A P a digest hf s3 = (Ret sg, s1)"
    by (auto simp: aws_SignMessage_def go_then_step go_wrap_step h(1) go_then_Ret_iff)
  from d obtain w where w: "ComputeDigestForSigning L r ?h (Some awsSupportedHashFuncs) [] (kms_world s) = (Ret (digest, hf), w)"
    "s3 = sA\<lparr>kms_world := w\<rparr>" by (auto simp: on_world_Ret world [OF assms(2)])
  from ComputeDigest_plain_sum [OF w(1) assms(6)]
  have dm: "?h \<in> set awsSupportedHashFuncs" "digest = ?d" "hash_linked L ?h" by simp_all
  have "aws_sign C A P a digest hf s3 = go_wrap ''signing with kms'' (on_remote (aws_Sign A (aws_keyID a) digest alg)) s3"
    using aws_key.get_repeat [OF assms(1), of "(A, P, a)" s c sA s3] assms(2,4) w(2)
    by (simp add: aws_sign_def go_then_step first_algorithm_def)
  with sg have "go_wrap ''signing with kms'' (on_remote (aws_Sign A (aws_keyID a) digest alg)) s3 = (Ret sg, s1)" by simp
  with w(2) dm(2) have 0: "fst (aws_Sign A (aws_keyID a) ?d alg (kms_remote sA)) = Ret sg"
    by (auto simp: on_remote_Ret)
  let ?s3 = "sB\<lparr>kms_world := drain rm (kms_world s2)\<rparr>" let ?s4 = "sB\<lparr>kms_world := drain rs (drain rm (kms_world s2))\<rparr>"
  have "msg_options ?h ?o = ([], SignerOpts ?h)"
    by (simp add: msg_options_eq WithRemoteVerification_def set_digest_def set_signer_opts_def)
  then have "ComputeDigestForVerifying L rm ?h (Some awsSupportedHashFuncs) ?o (kms_world sB) = (Ret (?d, ?h), drain rm (kms_world s2))"
    using hashMessage_delivers [OF assms(8), of ?h L] dm(1,3) world [OF assms(3)]
    by (auto simp: ComputeDigest_same ComputeDigestForSigning_def Let_def go_then_step awsSupportedHashFuncs_def)
  from on_world_step [of "ComputeDigestForVerifying L rm ?h (Some awsSupportedHashFuncs) ?o", OF this]
  have 1: "on_world (ComputeDigestForVerifying L rm ?h (Some awsSupportedHashFuncs) ?o) sB = (Ret (?d, ?h), ?s3)" .
  have "delivers (kms_world ?s3) rs sg" using assms(9,10) by simp
  then have 2: "on_world (ReadAll rs) ?s3 = (Ret sg, ?s4)" by (subst on_world_step [OF ReadAll_delivers]) simp_all
  have 3: "verifyRemotely C A P a sg ?d ?s4 =
      go_wrap ''unable to verify signature'' (on_remote (aws_Verify A (aws_keyID a) ?d sg alg)) ?s4"
    using aws_key.get_repeat [OF assms(1), of "(A, P, a)" s2 c2 sB ?s4] assms(3,5)
    by (simp add: verifyRemotely_def go_then_step first_algorithm_def)
  have o: "ApplyDigest (WithRemoteVerification True) d = d" "ApplyRemoteVerification (WithRemoteVerification True) b = True"
    "ApplyCryptoSignerOpts (WithRemoteVerification True) x = x" for d b x
    by (simp_all add: WithRemoteVerification_def apply_defs)
  show ?thesis
    using 0 by (simp add: aws_VerifySignature_def o go_then_step go_wrap_step h(2) 1 2 3)
qed

text \<open>A service whose signatures are the digest behind a byte, for the witnesses.\<close>

definition ref_aws :: "unit aws_lib" where
  "ref_aws = \<lparr>aws_LoadDefaultConfig = (\<lambda>_. Ret ()),
     aws_GetPublicKey = (\<lambda>_ v. (Ret [], v)),
     aws_DescribeKey = (\<lambda>k v. (Ret \<lparr>km_KeyId = k, km_SigningAlgorithms = [ECDSA_SHA_256]\<rparr>, v)),
     aws_Sign = (\<lambda>_ d _ v. (Ret (1 # d), v)),
     aws_Verify = (\<lambda>_ d sg _ v. (if sg = 1 # d then Ret () else Err (Msg ''KMSInvalidSignatureException''), v)),
     aws_CreateKey = (\<lambda>_ _ v. (Err (Msg ''AccessDeniedException''), v)),
     aws_CreateAlias = (\<lambda>_ _ v. (Ret (), v)),
     aws_is_NotFoundException = (\<lambda>_. False)\<rparr>"

definition ref_aws_client :: awsClient where
  "ref_aws_client = \<lparr>aws_BaseEndpoint = None, aws_endpoint = [], aws_keyID = ''k'', aws_alias = []\<rparr>"

definition ref_cmk :: cmk where
  "ref_cmk = \<lparr>cmk_KeyMetadata = \<lparr>km_KeyId = ''k'', km_SigningAlgorithms = [ECDSA_SHA_256]\<rparr>,
     cmk_PublicKey = Ecdsa_public (Some \<lparr>ecdsa_Curve = P256, ecdsa_X = 1, ecdsa_Y = 1\<rparr>)\<rparr>"

definition ref_aws_state :: "bytes \<Rightarrow> (cmk \<times> int option) option \<Rightarrow> ((cmk \<times> int option) option, unit) kms_state" where
  "ref_aws_state sg k = \<lparr>kms_world = two_readers sg [5], kms_clock = 0, kms_cache = k, kms_remote = ()\<rparr>"

lemma ref_aws_live: "ttl_Live ref_ttl (kms_cache (ref_aws_state sg (Some (ref_cmk, Some 300)))) (kms_clock (ref_aws_state sg (Some (ref_cmk, Some 300)))) = Some ref_cmk"
  by (simp add: ref_ttl_def ref_aws_state_def)

lemma ref_aws_delivers: "delivers (kms_world (ref_aws_state sg k)) (Some 0) sg" "delivers (kms_world (ref_aws_state sg k)) (Some 1) [5]"
  by (simp_all add: ref_aws_state_def)

lemma ref_aws_algorithms: "km_SigningAlgorithms (cmk_KeyMetadata ref_cmk) = ECDSA_SHA_256 # []"
  by (simp add: ref_cmk_def)

text \<open>What \<open>ParsePKIXPublicKey\<close> makes of the service's answer is the only part of the key library the next
  witness needs.\<close>

definition ref_aws_pki :: pki where
  "ref_aws_pki = ref_pki\<lparr>ParsePKIXPublicKey := (\<lambda>_. Ret (cmk_PublicKey ref_cmk))\<rparr>"

lemma ref_aws_fetch: "getCMK ref_ttl ref_aws ref_aws_pki ref_aws_client (ref_aws_state sg None) =
    (Ret ref_cmk, ref_aws_state sg (Some (ref_cmk, Some 300)))"
  by (simp add: getCMK_def cached_def fetchCMK_def aws_fetchPublicKey_def fetchKeyMetadata_def go_then_def go_wrap_def on_remote_def
      ref_aws_state_def ref_aws_def ref_ttl_def ref_aws_pki_def ref_cmk_def ref_aws_client_def)

lemma aws_key_cached_witness:
  "getCMK ref_ttl ref_aws ref_aws_pki ref_aws_client ((ref_aws_state [] (Some (ref_cmk, Some 300)))\<lparr>kms_clock := 299\<rparr>) =
     (Ret ref_cmk, (ref_aws_state [] (Some (ref_cmk, Some 300)))\<lparr>kms_clock := 299\<rparr>)"
proof -
  have "ttl_Live ref_ttl (kms_cache (ref_aws_state [] None)) (kms_clock (ref_aws_state [] None)) = None"
    by (simp add: ref_ttl_def ref_aws_state_def)
  from aws_key_cached [OF ref_ttl_laws this ref_aws_fetch, of "(ref_aws_state [] (Some (ref_cmk, Some 300)))\<lparr>kms_clock := 299\<rparr>"]
  show ?thesis by (simp add: ref_aws_state_def)
qed

lemma aws_digest_unchecked_witness:
  "fst (aws_SignMessage ref_lib ref_ttl ref_aws ref_aws_pki ref_aws_client None [WithDigest [7], WithCryptoSignerOpts (Some (SignerOpts SHA512))]
     (ref_aws_state [] (Some (ref_cmk, Some 300)))) = Ret [1, 7]"
proof -
  have "last_set set_digest [WithDigest [7], WithCryptoSignerOpts (Some (SignerOpts SHA512))] = Some [7]" "[7] \<noteq> ([] :: bytes)"
    by (simp_all add: WithDigest_def WithCryptoSignerOpts_def set_digest_def)
  from aws_digest_unchecked [OF ref_aws_live ref_aws_algorithms this, of ref_lib ref_aws] show ?thesis
    by (simp add: go_wrap_def on_remote_def ref_aws_def)
qed

lemma aws_remote_roundtrip_witness:
  "fst (aws_VerifySignature ref_lib ref_ttl ref_aws ref_aws_pki ref_aws_client (Some 0) (Some 1) [WithRemoteVerification True]
     (ref_aws_state (1 # hash_sum ref_lib SHA256 [5]) None)) = Ret ()"
proof -
  let ?k = "Some (ref_cmk, Some (300 :: int))" let ?s = "ref_aws_state [] ?k"
  have l: "hash_linked ref_lib SHA256" by (simp add: ref_lib_def)
  have h: "alg_HashFunc ECDSA_SHA_256 = SHA256" by (simp add: alg_HashFunc_def)
  have "ComputeDigestForSigning ref_lib (Some 1) SHA256 (Some awsSupportedHashFuncs) [] (kms_world ?s) =
      (Ret (hash_sum ref_lib SHA256 [5], SHA256), drain (Some 1) (kms_world ?s))"
    using ComputeDigest_plain [OF ref_aws_delivers(2), of SHA256] l by (simp add: awsSupportedHashFuncs_def)
  then have "on_world (ComputeDigestForSigning ref_lib (Some 1) SHA256 (Some awsSupportedHashFuncs) []) ?s =
      (Ret (hash_sum ref_lib SHA256 [5], SHA256), ?s\<lparr>kms_world := drain (Some 1) (kms_world ?s)\<rparr>)" by (rule on_world_step)
  moreover have "aws_sign ref_ttl ref_aws ref_aws_pki ref_aws_client d hf (?s\<lparr>kms_world := w\<rparr>) = (Ret (1 # d), ?s\<lparr>kms_world := w\<rparr>)" for d hf w
    using ref_aws_live by (subst aws_sign_hit [OF _ ref_aws_algorithms]) (simp_all add: go_wrap_def on_remote_def ref_aws_def ref_aws_state_def)
  ultimately have sg: "aws_SignMessage ref_lib ref_ttl ref_aws ref_aws_pki ref_aws_client (Some 1) [] (ref_aws_state [] None) =
      (Ret (1 # hash_sum ref_lib SHA256 [5]), ?s\<lparr>kms_world := drain (Some 1) (kms_world ?s)\<rparr>)"
    using getHashFunc_fetched [OF ref_aws_fetch ref_aws_algorithms]
    by (simp add: aws_SignMessage_def h go_then_step go_wrap_step)
  have "Some 0 \<noteq> (Some 1 :: io_reader)" by simp
  from aws_remote_roundtrip [OF ref_ttl_laws ref_aws_fetch ref_aws_fetch ref_aws_algorithms ref_aws_algorithms
      ref_aws_delivers(2) sg ref_aws_delivers(2) ref_aws_delivers(1) this]
  show ?thesis by (simp add: h go_wrap_def on_remote_def ref_aws_def ref_aws_state_def)
qed

end
