(* ===== verification/Decimal.thy ===== *)
theory Decimal
  imports Prelude
begin

text \<open>
  Decimal numerals: \<open>fmt\<close>'s \<open>%d\<close> for a natural number and \<open>strconv.ParseUint(s, 10, 64)\<close>.
\<close>

definition digit :: "nat \<Rightarrow> char" where "digit n = char_of (48 + n)"
definition is_digit :: "char \<Rightarrow> bool" where "is_digit c \<longleftrightarrow> 48 \<le> (of_char c :: nat) \<and> (of_char c :: nat) \<le> 57"

fun dec :: "nat \<Rightarrow> string" where
  "dec n = (if n < 10 then [digit n] else dec (n div 10) @ [digit (n mod 10)])"

declare dec.simps [simp del]

definition dec_value :: "string \<Rightarrow> nat" where
  "dec_value s = fold (\<lambda>c v. v * 10 + (of_char c - 48)) s 0"

definition ParseUint :: "string \<Rightarrow> 64 word outcome" where
  "ParseUint s =
     (if s = [] \<or> \<not> list_all is_digit s then Err (Msg ''invalid syntax'')
      else if dec_value s < 2 ^ 64 then Ret (word_of_nat (dec_value s))
      else Err (Msg ''value out of range''))"

lemma of_char_digit: "n < 10 \<Longrightarrow> (of_char (digit n) :: nat) = 48 + n"
  by (simp add: digit_def)

lemma is_digit_digit [simp]: "n < 10 \<Longrightarrow> is_digit (digit n)"
  by (simp add: is_digit_def of_char_digit)

lemma dec_digits: "list_all is_digit (dec n)"
  by (induction n rule: dec.induct) (subst dec.simps, simp)

lemma dec_nonempty [simp]: "dec n \<noteq> []"
  by (subst dec.simps) simp

lemma dec_value_dec [simp]: "dec_value (dec n) = n"
proof (induction n rule: dec.induct)
  case (1 n)
  show ?case
  proof (cases "n < 10")
    case True
    then show ?thesis by (subst dec.simps) (simp add: dec_value_def of_char_digit)
  next
    case False
    then have "dec_value (dec n) = dec_value (dec (n div 10)) * 10 + n mod 10"
      by (subst dec.simps) (simp add: dec_value_def of_char_digit)
    with 1 False show ?thesis by simp
  qed
qed

lemma dec_inj [simp]: "dec m = dec n \<longleftrightarrow> m = n"
  by (metis dec_value_dec)

lemma ParseUint_dec [simp]: "n < 2 ^ 64 \<Longrightarrow> ParseUint (dec n) = Ret (word_of_nat n)"
  by (simp add: ParseUint_def dec_digits)

lemma ParseUint_dec_word [simp]: "ParseUint (dec (unat (w :: 64 word))) = Ret w"
  using ParseUint_dec [of "unat w"] unsigned_less [of w, where ?'a = nat] by simp

lemma ParseUint_not_digit: "c \<in> set s \<Longrightarrow> \<not> is_digit c \<Longrightarrow> ParseUint s = Err (Msg ''invalid syntax'')"
  by (auto simp: ParseUint_def list_all_iff)

end
