(* ===== verification/Vault.thy ===== *)
theory Vault
  imports Kms Regex Decimal Base64 Paths CryptoUtils
begin

text \<open>
  \<open>pkg/signature/kms/hashivault\<close>: keys of the transit engine of a Vault server.  The server and the
  process environment are a parameter; reads and writes are steps on the server's state, and the
  JSON objects they carry are association lists.
\<close>

section \<open>The server\<close>

datatype jvalue = J_string string | J_number string | J_bool bool | J_map "(string \<times> jvalue) list" | J_other

type_synonym secret = "(string \<times> jvalue) list option"

record api_client =
  api_Address :: string
  api_Token :: string

record 'v vault_lib =
  hv_Getenv :: "string \<Rightarrow> string"
  hv_NewClient :: "string \<Rightarrow> unit outcome"
  homedir_Dir :: "string outcome"
  hv_ReadFile :: "string \<Rightarrow> bytes outcome"
  logical_Read :: "api_client \<Rightarrow> string \<Rightarrow> ('v, secret) step"
  logical_Write :: "api_client \<Rightarrow> string \<Rightarrow> (string \<times> jvalue) list \<Rightarrow> ('v, secret) step"
  secret_TokenID :: "secret \<Rightarrow> string outcome"

type_synonym ('k, 'v, 'a) hv_step = "(('k, 'v) kms_state, 'a) step"

record hashivaultClient =
  hv_client :: api_client
  hv_keyPath :: string
  hv_transitSecretEnginePath :: string
  hv_keyVersion :: "64 word"

section \<open>Key references\<close>

definition HashivaultReferenceScheme :: string where "HashivaultReferenceScheme = ''hashivault://''"

definition word_char :: "char \<Rightarrow> bool" where
  "word_char c \<longleftrightarrow> c \<in> set ''ABCDEFGHIJKLMNOPQRSTUVWXYZabcdefghijklmnopqrstuvwxyz0123456789_''"

definition hv_path_re :: re where
  "hv_path_re = Seq (Cls word_char) (opt_re (Seq
     (opt_re (plus_re (Cls (\<lambda>c. word_char c \<or> c = CHR ''-'' \<or> c = CHR ''.'')))) (Cls word_char)))"

definition hv_referenceRegex :: "segment list" where
  "hv_referenceRegex = [Skip (lit ''hashivault://''), Group hv_path_re]"

definition prefixRegex :: re where
  "prefixRegex = Seq (lit ''vault:v'') (Seq (plus_re (Cls is_digit)) (lit '':''))"

text \<open>The expression is anchored, so \<open>FindString\<close> finds a prefix, the longest one that matches, or nothing.\<close>

definition prefix_length :: "string \<Rightarrow> nat" where
  "prefix_length s = (case find (\<lambda>n. matches prefixRegex (take n s)) (rev [0..<Suc (length s)]) of None \<Rightarrow> 0 | Some n \<Rightarrow> n)"

definition prefixRegex_FindString :: "string \<Rightarrow> string" where
  "prefixRegex_FindString s = take (prefix_length s) s"

definition prefixRegex_ReplaceAllString :: "string \<Rightarrow> string" where
  "prefixRegex_ReplaceAllString s = drop (prefix_length s) s"

definition hv_ValidReference :: "string \<Rightarrow> unit outcome" where
  "hv_ValidReference ref =
     (if \<not> matches (segs_re hv_referenceRegex) ref
      then Err (Msg ''kms specification should be in the format hashivault://<key>'') else Ret ())"

definition hv_parseReference :: "string \<Rightarrow> string outcome" where
  "hv_parseReference resourceID = (case submatch hv_referenceRegex resourceID of
       Some [keyPath] \<Rightarrow> Ret keyPath
     | _ \<Rightarrow> Err (Msg ''invalid vault format''))"

section \<open>Creating a client\<close>

text \<open>A setting, or the environment variable that stands in for an empty one.\<close>

definition or_env :: "'v vault_lib \<Rightarrow> string \<Rightarrow> string \<Rightarrow> string" where
  "or_env V x name = (if x = [] then hv_Getenv V name else x)"

definition newHashivaultClient ::
  "'v vault_lib \<Rightarrow> string \<Rightarrow> string \<Rightarrow> string \<Rightarrow> string \<Rightarrow> 64 word \<Rightarrow> hashivaultClient outcome" where
  "newHashivaultClient V address token transitSecretEnginePath keyResourceID keyVersion =
     and_then (hv_ValidReference keyResourceID) (\<lambda>_.
     and_then (hv_parseReference keyResourceID) (\<lambda>keyPath.
     let address = or_env V address ''VAULT_ADDR''
     in if address = [] then Err (Msg ''VAULT_ADDR is not set'')
        else
          and_then (wrap_outcome ''new vault client'' (hv_NewClient V address)) (\<lambda>_.
          let token = or_env V token ''VAULT_TOKEN''
          in and_then (if token = [] then
                 and_then (wrap_outcome ''get home directory'' (homedir_Dir V)) (\<lambda>homeDir.
                 and_then (wrap_outcome ''read .vault-token file'' (hv_ReadFile V (path_Join [homeDir, ''.vault-token'']))) (\<lambda>tokenFromFile.
                 Ret (string_of tokenFromFile)))
               else Ret token) (\<lambda>token.
             let path = or_env V transitSecretEnginePath ''TRANSIT_SECRET_ENGINE_PATH''
             in Ret \<lparr>hv_client = \<lparr>api_Address = address, api_Token = token\<rparr>, hv_keyPath = keyPath,
                  hv_transitSecretEnginePath = (if path = [] then ''transit'' else path), hv_keyVersion = keyVersion\<rparr>))))"

definition oidcLogin :: "'v vault_lib \<Rightarrow> string \<Rightarrow> string \<Rightarrow> string \<Rightarrow> string \<Rightarrow> ('k, 'v, string) hv_step" where
  "oidcLogin V address path role token =
     (let address = or_env V address ''VAULT_ADDR'';
          path = (if path = [] then ''jwt'' else path)
      in if address = [] then go_err (Msg ''VAULT_ADDR is not set'')
         else
           go_then (go_lift (wrap_outcome ''new vault client'' (hv_NewClient V address))) (\<lambda>_.
           go_then (go_wrap ''vault oidc login'' (on_remote (logical_Write V \<lparr>api_Address = address, api_Token = []\<rparr>
               (''auth/'' @ path @ ''/login'') [(''role'', J_string role), (''jwt'', J_string token)]))) (\<lambda>resp.
           go_lift (secret_TokenID V resp))))"

section \<open>The public key\<close>

definition transit_key_path :: "hashivaultClient \<Rightarrow> string" where
  "transit_key_path h = ''/'' @ hv_transitSecretEnginePath h @ ''/keys/'' @ hv_keyPath h"

definition key_of_entry :: "pki \<Rightarrow> (string \<times> jvalue) list \<Rightarrow> public_key outcome" where
  "key_of_entry P keyMap = (case map_of keyMap ''public_key'' of
       None \<Rightarrow> Err (Msg ''failed to read transit key keys: corrupted response'')
     | Some (J_string strPublicKey) \<Rightarrow>
         if map_of keyMap ''name'' = Some (J_string ''ed25519'') then
           and_then (wrap_outcome ''failed to base64 decode ed25519 public key'' (DecodeString StdEncoding strPublicKey)) (\<lambda>b.
             if length b \<noteq> 32 then Err (Msg ''decoded ed25519 public key has the wrong length'')
             else Ret (Ed25519_public (Some b)))
         else UnmarshalPEMToPublicKey P (bytes_of strPublicKey)
     | Some _ \<Rightarrow> Err (Msg ''could not parse public key pem as string''))"

definition key_of_response :: "pki \<Rightarrow> secret \<Rightarrow> public_key outcome" where
  "key_of_response P keyResult = (case keyResult of
       None \<Rightarrow> Err (Msg ''could not read data from transit key path'')
     | Some d \<Rightarrow> (case (map_of d ''keys'', map_of d ''latest_version'') of
           (Some keysData, Some latestVersion) \<Rightarrow> (case keysData of
               J_map keys \<Rightarrow> (case latestVersion of
                   J_number keyVersion \<Rightarrow> (case map_of keys keyVersion of
                       None \<Rightarrow> Err (Msg ''failed to read transit key keys: corrupted response'')
                     | Some (J_map keyMap) \<Rightarrow> key_of_entry P keyMap
                     | Some _ \<Rightarrow> Err (Msg ''could not parse transit key keys data as map[string]interface{}''))
                 | _ \<Rightarrow> Err (Msg ''format of latest_version is not json.Number''))
             | _ \<Rightarrow> Err (Msg ''failed to read transit key keys: Invalid keys map''))
         | _ \<Rightarrow> Err (Msg ''failed to read transit key keys: corrupted response'')))"

definition hv_fetchPublicKey :: "'v vault_lib \<Rightarrow> pki \<Rightarrow> hashivaultClient \<Rightarrow> ('k, 'v, public_key) hv_step" where
  "hv_fetchPublicKey V P h =
     go_then (go_wrap ''public key'' (on_remote (logical_Read V (hv_client h) (transit_key_path h)))) (\<lambda>r.
     go_lift (key_of_response P r))"

definition hv_public :: "('k, public_key) ttl_lib \<Rightarrow> 'v vault_lib \<Rightarrow> pki \<Rightarrow> hashivaultClient \<Rightarrow> ('k, 'v, public_key) hv_step" where
  "hv_public C V P h = cached C 300 (hv_fetchPublicKey V P h)"

section \<open>Signing and verifying\<close>

definition hashString :: "hash \<Rightarrow> string" where
  "hashString h =
     (if h = SHA224 then ''/sha2-224'' else if h = SHA256 then ''/sha2-256''
      else if h = SHA384 then ''/sha2-384'' else if h = SHA512 then ''/sha2-512'' else [])"

text \<open>Whether the server is told that the input is a digest.\<close>

definition is_prehashed :: "hash \<Rightarrow> public_key \<Rightarrow> bool" where
  "is_prehashed alg pub = (case pub of
       Ed25519_public _ \<Rightarrow> alg = SHA512
     | _ \<Rightarrow> alg \<noteq> NoHash)"

definition vaultDecode :: "jvalue \<Rightarrow> nat option \<Rightarrow> bytes go" where
  "vaultDecode data keyVersionUsed = (case data of
       J_string encoded \<Rightarrow> (\<lambda>w. (DecodeString StdEncoding (prefixRegex_ReplaceAllString encoded),
         (case keyVersionUsed of
            None \<Rightarrow> w
          | Some p \<Rightarrow> w\<lparr>str_cells := (str_cells w)(p := prefixRegex_FindString encoded)\<rparr>)))
     | _ \<Rightarrow> go_err (Msg ''received non-string data''))"

definition hv_sign ::
  "('k, public_key) ttl_lib \<Rightarrow> 'v vault_lib \<Rightarrow> pki \<Rightarrow> hashivaultClient \<Rightarrow> bytes \<Rightarrow> hash \<Rightarrow> sig_option list \<Rightarrow> ('k, 'v, bytes) hv_step" where
  "hv_sign C V P h digest alg opts =
     (let keyVersion = fold ApplyKeyVersion opts (dec (unat (hv_keyVersion h)));
          keyVersionUsedPtr = fold ApplyKeyVersionUsed opts None
      in go_then (go_lift (if keyVersion \<noteq> [] then wrap_outcome ''parsing requested key version'' (ParseUint keyVersion) else Ret 0)) (\<lambda>_.
         go_then (go_wrap ''determining key type'' (hv_public C V P h)) (\<lambda>pub.
         go_then (go_wrap ''transit: failed to sign payload'' (on_remote (logical_Write V (hv_client h)
             (''/'' @ hv_transitSecretEnginePath h @ ''/sign/'' @ hv_keyPath h @ hashString alg)
             [(''input'', J_string (EncodeToString StdEncoding digest)),
              (''prehashed'', J_bool (is_prehashed alg pub)),
              (''key_version'', J_string keyVersion),
              (''signature_algorithm'', J_string ''pkcs1v15'')]))) (\<lambda>signResult.
         (case signResult of
            None \<Rightarrow> go_panic ''nil pointer dereference''
          | Some d \<Rightarrow> (case map_of d ''signature'' of
                None \<Rightarrow> go_err (Msg ''transit: response corrupted in-transit'')
              | Some encodedSignature \<Rightarrow> on_world (vaultDecode encodedSignature keyVersionUsedPtr)))))))"

definition vaultV1DataPrefix :: string where "vaultV1DataPrefix = ''vault:v1:''"

definition version_prefix :: "64 word \<Rightarrow> string" where
  "version_prefix v = ''vault:v'' @ dec (unat v) @ '':''"

text \<open>The prefix that is put before a signature to be verified.\<close>

definition verify_prefix :: "'v vault_lib \<Rightarrow> hashivaultClient \<Rightarrow> string \<Rightarrow> string outcome" where
  "verify_prefix V h keyVersion =
     (if keyVersion \<noteq> [] then
        and_then (wrap_outcome ''parsing requested key version'' (ParseUint keyVersion)) (\<lambda>kvUint.
          if kvUint = 0 then Err (Msg ''key version must be >= 1'') else Ret (version_prefix kvUint))
      else
        (let env = hv_Getenv V ''VAULT_KEY_PREFIX''
         in Ret (if env = [] then (if hv_keyVersion h > 0 then version_prefix (hv_keyVersion h) else vaultV1DataPrefix) else env)))"

definition hv_verify ::
  "('k, public_key) ttl_lib \<Rightarrow> 'v vault_lib \<Rightarrow> pki \<Rightarrow> hashivaultClient \<Rightarrow> bytes \<Rightarrow> bytes \<Rightarrow> hash \<Rightarrow> sig_option list \<Rightarrow> ('k, 'v, unit) hv_step" where
  "hv_verify C V P h sg digest alg opts =
     go_then (go_lift (verify_prefix V h (fold ApplyKeyVersion opts []))) (\<lambda>vaultDataPrefix.
     go_then (go_wrap ''determining key type'' (hv_public C V P h)) (\<lambda>pub.
     go_then (go_wrap ''verify'' (on_remote (logical_Write V (hv_client h)
         (''/'' @ hv_transitSecretEnginePath h @ ''/verify/'' @ hv_keyPath h @ ''/'' @ hashString alg)
         [(''input'', J_string (EncodeToString StdEncoding digest)),
          (''prehashed'', J_bool (is_prehashed alg pub)),
          (''signature'', J_string (vaultDataPrefix @ EncodeToString StdEncoding sg))]))) (\<lambda>result.
     (case result of
        None \<Rightarrow> go_panic ''nil pointer dereference''
      | Some d \<Rightarrow> (case map_of d ''valid'' of
            None \<Rightarrow> go_err (Msg ''corrupted response'')
          | Some (J_bool isValid) \<Rightarrow> if \<not> isValid then go_err (Msg ''failed vault verification'') else go_ret ()
          | Some _ \<Rightarrow> go_err (Msg ''received non-bool value from valid key''))))))"

definition hv_createKey :: "('k, public_key) ttl_lib \<Rightarrow> 'v vault_lib \<Rightarrow> pki \<Rightarrow> hashivaultClient \<Rightarrow> string \<Rightarrow> ('k, 'v, public_key) hv_step" where
  "hv_createKey C V P h typeStr =
     go_then (go_wrap ''failed to create transit key'' (on_remote (logical_Write V (hv_client h) (transit_key_path h)
         [(''type'', J_string typeStr)]))) (\<lambda>_. hv_public C V P h)"

section \<open>The signer and verifier\<close>

definition hvSupportedAlgorithms :: "string list" where
  "hvSupportedAlgorithms = [''ecdsa-p256'', ''ecdsa-p384'', ''ecdsa-p521'', ''ed25519'', ''rsa-2048'', ''rsa-3072'', ''rsa-4096'']"

definition hvSupportedHashFuncs :: "hash list" where
  "hvSupportedHashFuncs = [SHA224, SHA256, SHA384, SHA512, NoHash]"

record hv_SignerVerifier =
  hv_hashFunc :: hash
  hv_sv_client :: hashivaultClient

definition no_rpc_auth :: rpc_auth where
  "no_rpc_auth = \<lparr>auth_Address = [], auth_Path = [], auth_Token = [],
     auth_OIDC = \<lparr>oidc_Path = [], oidc_Role = [], oidc_Token = []\<rparr>\<rparr>"

definition hv_LoadSignerVerifier ::
  "('k, public_key) ttl_lib \<Rightarrow> 'v vault_lib \<Rightarrow> string \<Rightarrow> hash \<Rightarrow> sig_option list \<Rightarrow> ('k, 'v, hv_SignerVerifier) hv_step" where
  "hv_LoadSignerVerifier C V referenceStr hf opts =
     (let rpcAuth = fold ApplyRPCAuthOpts opts no_rpc_auth;
          keyVersion = fold ApplyKeyVersion opts [];
          oidc = auth_OIDC rpcAuth
      in go_then (go_lift (if keyVersion \<noteq> [] then wrap_outcome ''parsing key version'' (ParseUint keyVersion) else Ret 0)) (\<lambda>keyVersionUint.
         go_then (if oidc_Token oidc \<noteq> []
                  then oidcLogin V (auth_Address rpcAuth) (oidc_Path oidc) (oidc_Role oidc) (oidc_Token oidc)
                  else go_ret (auth_Token rpcAuth)) (\<lambda>token.
         go_then (go_lift (newHashivaultClient V (auth_Address rpcAuth) token (auth_Path rpcAuth) referenceStr keyVersionUint)) (\<lambda>client s.
           (if hf \<in> {NoHash, SHA224, SHA256, SHA384, SHA512} then Ret \<lparr>hv_hashFunc = hf, hv_sv_client = client\<rparr>
            else Err (Msg ''hash function not supported by Hashivault''),
            s\<lparr>kms_cache := ttl_New C\<rparr>)))))"

definition hv_SignMessage ::
  "crypto_lib \<Rightarrow> ('k, public_key) ttl_lib \<Rightarrow> 'v vault_lib \<Rightarrow> pki \<Rightarrow> hv_SignerVerifier \<Rightarrow> io_reader \<Rightarrow> sig_option list \<Rightarrow> ('k, 'v, bytes) hv_step" where
  "hv_SignMessage L C V P h message opts =
     (let signerOpts = fold ApplyCryptoSignerOpts opts (SignerOpts (hv_hashFunc h))
      in go_then (on_world (ComputeDigestForSigning L message (HashFunc signerOpts) (Some hvSupportedHashFuncs) opts)) (\<lambda>(digest, hf).
         hv_sign C V P (hv_sv_client h) digest hf opts))"

definition hv_PublicKey ::
  "('k, public_key) ttl_lib \<Rightarrow> 'v vault_lib \<Rightarrow> pki \<Rightarrow> hv_SignerVerifier \<Rightarrow> sig_option list \<Rightarrow> ('k, 'v, public_key) hv_step" where
  "hv_PublicKey C V P h opts = hv_public C V P (hv_sv_client h)"

definition hv_VerifySignature ::
  "crypto_lib \<Rightarrow> ('k, public_key) ttl_lib \<Rightarrow> 'v vault_lib \<Rightarrow> pki \<Rightarrow> hv_SignerVerifier \<Rightarrow> io_reader \<Rightarrow> io_reader \<Rightarrow> sig_option list \<Rightarrow> ('k, 'v, unit) hv_step" where
  "hv_VerifySignature L C V P h sg message opts =
     (let signerOpts = fold ApplyCryptoSignerOpts opts (SignerOpts (hv_hashFunc h))
      in go_then (on_world (ComputeDigestForVerifying L message (HashFunc signerOpts) (Some hvSupportedHashFuncs) opts)) (\<lambda>(digest, hf).
         go_then (go_wrap ''reading signature'' (on_world (ReadAll sg))) (\<lambda>sigBytes.
         hv_verify C V P (hv_sv_client h) sigBytes digest hf opts)))"

definition hv_CreateKey ::
  "('k, public_key) ttl_lib \<Rightarrow> 'v vault_lib \<Rightarrow> pki \<Rightarrow> hv_SignerVerifier \<Rightarrow> go_context \<Rightarrow> string \<Rightarrow> ('k, 'v, public_key) hv_step" where
  "hv_CreateKey C V P h ctx algorithm = hv_createKey C V P (hv_sv_client h) algorithm"

definition hv_csw_Public ::
  "('k, public_key) ttl_lib \<Rightarrow> 'v vault_lib \<Rightarrow> pki \<Rightarrow> hv_SignerVerifier \<Rightarrow> cryptoSignerWrapper \<Rightarrow> ('k, 'v, public_key \<times> goerr option) hv_step" where
  "hv_csw_Public C V P h c = csw_Public (hv_PublicKey C V P h) c"

definition hv_csw_Sign ::
  "crypto_lib \<Rightarrow> ('k, public_key) ttl_lib \<Rightarrow> 'v vault_lib \<Rightarrow> pki \<Rightarrow> hv_SignerVerifier \<Rightarrow> cryptoSignerWrapper \<Rightarrow> bytes \<Rightarrow> signer_opts option \<Rightarrow> ('k, 'v, bytes) hv_step" where
  "hv_csw_Sign L C V P h c digest opts = csw_Sign (hv_SignMessage L C V P h) c digest opts"

definition hv_CryptoSigner :: "hv_SignerVerifier \<Rightarrow> go_context \<Rightarrow> (cryptoSignerWrapper \<times> hash) outcome" where
  "hv_CryptoSigner h ctx = Ret (\<lparr>csw_ctx = ctx, csw_hashFunc = hv_hashFunc h\<rparr>, hv_hashFunc h)"

definition hv_SupportedAlgorithms :: "string list" where
  "hv_SupportedAlgorithms = hvSupportedAlgorithms"

definition hv_DefaultAlgorithm :: string where
  "hv_DefaultAlgorithm = ''ecdsa-p256''"

section \<open>The cached key\<close>

lemma stays_hv_fetch: "stays cache_kept (hv_fetchPublicKey V P h)"
  unfolding hv_fetchPublicKey_def by (intro cache_stays stays_on_remote)

interpretation hv_key: caching_client "\<lambda>_. 300" "\<lambda>(V, P, h). hv_fetchPublicKey V P h" "\<lambda>C (V, P, h). hv_public C V P h"
  by unfold_locales (auto simp: hv_public_def stays_hv_fetch)

section \<open>Version prefixes\<close>

lemma in_prefixRegex: "in_re prefixRegex t \<longleftrightarrow> (\<exists>ds. t = ''vault:v'' @ ds @ '':'' \<and> ds \<noteq> [] \<and> (\<forall>c \<in> set ds. is_digit c))"
  unfolding prefixRegex_def in_Seq_lit in_re_simps(4) in_plus_Cls in_lit by blast

lemma colon_no_digit: "\<not> is_digit CHR '':''"
  by (simp add: is_digit_def)

lemma prefix_length_some:
  assumes "s = ''vault:v'' @ ds @ '':'' @ rest" "ds \<noteq> []" "\<forall>c \<in> set ds. is_digit c"
  shows "prefix_length s = length (''vault:v'' @ ds @ '':'')"
proof -
  let ?n = "length (''vault:v'' @ ds @ '':'')"
  have "in_re prefixRegex (take ?n s)" using assms unfolding in_prefixRegex by auto
  moreover have "?n \<in> set (rev [0..<Suc (length s)])" using assms(1) by (simp only: set_rev set_upt) simp
  ultimately have "find (\<lambda>n. matches prefixRegex (take n s)) (rev [0..<Suc (length s)]) \<noteq> None"
    unfolding find_None_iff matches_iff by blast
  then obtain n where n: "find (\<lambda>n. matches prefixRegex (take n s)) (rev [0..<Suc (length s)]) = Some n" by blast
  from find_Some_mem [OF n] obtain ds' where ds': "take n s = ''vault:v'' @ ds' @ '':''" "\<forall>c \<in> set ds'. is_digit c" "n \<le> length s"
    unfolding matches_iff in_prefixRegex by (simp only: set_rev set_upt) auto
  obtain u where "s = take n s @ u" by (metis append_take_drop_id)
  then have "s = (''vault:v'' @ ds' @ '':'') @ u" unfolding ds'(1) .
  then have "''vault:v'' @ ds @ '':'' @ rest = (''vault:v'' @ ds' @ '':'') @ u" using assms(1) by metis
  then have "ds @ CHR '':'' # rest = ds' @ CHR '':'' # u" by simp
  then have "ds = ds'" using sep_unique [of ds "CHR '':''" rest ds' u] assms(3) ds'(2) colon_no_digit by blast
  with arg_cong [OF ds'(1), of length] ds'(3) have "n = ?n" by simp
  with n show ?thesis by (simp add: prefix_length_def)
qed

lemma prefix_version:
  "prefixRegex_FindString (version_prefix v @ t) = version_prefix v"
  "prefixRegex_ReplaceAllString (version_prefix v @ t) = t"
proof -
  have "prefix_length (version_prefix v @ t) = length (''vault:v'' @ dec (unat v) @ '':'')"
    by (rule prefix_length_some) (use dec_digits [of "unat v"] in \<open>auto simp: version_prefix_def list_all_iff\<close>)
  then show "prefixRegex_FindString (version_prefix v @ t) = version_prefix v"
    "prefixRegex_ReplaceAllString (version_prefix v @ t) = t"
    by (simp_all add: prefixRegex_FindString_def prefixRegex_ReplaceAllString_def version_prefix_def)
qed

lemma FindString_letter: "prefixRegex_FindString s \<noteq> [] \<Longrightarrow> CHR ''v'' \<in> set (prefixRegex_FindString s)"
proof -
  assume "prefixRegex_FindString s \<noteq> []"
  then obtain n where n: "find (\<lambda>n. matches prefixRegex (take n s)) (rev [0..<Suc (length s)]) = Some n"
    "prefixRegex_FindString s = take n s"
    by (auto simp: prefixRegex_FindString_def prefix_length_def split: option.splits)
  from find_Some_mem [OF n(1)] show ?thesis unfolding n(2) matches_iff in_prefixRegex by auto
qed

lemma version_prefix_inj [simp]: "version_prefix v = version_prefix u \<longleftrightarrow> v = u"
  by (simp add: version_prefix_def word_unat_eq_iff)

lemma verify_prefix_given: "v \<noteq> 0 \<Longrightarrow> verify_prefix V h (dec (unat v)) = Ret (version_prefix v)"
  by (simp add: verify_prefix_def)

lemma vaultV1: "vaultV1DataPrefix = version_prefix 1"
proof -
  have "(of_char CHR ''1'' :: nat) = 49" by simp
  then have "char_of (49 :: nat) = CHR ''1''" by (metis char_of_char)
  then show ?thesis by (simp add: vaultV1DataPrefix_def version_prefix_def dec.simps digit_def)
qed

section \<open>What a call asks of the server\<close>

definition sign_request :: "public_key \<Rightarrow> bytes \<Rightarrow> hash \<Rightarrow> string \<Rightarrow> (string \<times> jvalue) list" where
  "sign_request pub digest alg keyVersion =
     [(''input'', J_string (EncodeToString StdEncoding digest)), (''prehashed'', J_bool (is_prehashed alg pub)),
      (''key_version'', J_string keyVersion), (''signature_algorithm'', J_string ''pkcs1v15'')]"

definition verify_request :: "public_key \<Rightarrow> bytes \<Rightarrow> hash \<Rightarrow> string \<Rightarrow> (string \<times> jvalue) list" where
  "verify_request pub digest alg text =
     [(''input'', J_string (EncodeToString StdEncoding digest)), (''prehashed'', J_bool (is_prehashed alg pub)),
      (''signature'', J_string text)]"

lemma vaultDecode_Ret:
  "vaultDecode data p w = (Ret b, w') \<longleftrightarrow> (\<exists>text. data = J_string text \<and>
     DecodeString StdEncoding (prefixRegex_ReplaceAllString text) = Ret b \<and>
     w' = (case p of None \<Rightarrow> w | Some q \<Rightarrow> w\<lparr>str_cells := (str_cells w)(q := prefixRegex_FindString text)\<rparr>))"
  by (auto simp: vaultDecode_def split: jvalue.splits)

lemma hv_sign_Ret:
  assumes "hv_sign C V P h digest alg opts s = (Ret sg, s')"
  obtains pub s1 d t r where "hv_public C V P h s = (Ret pub, s1)"
    "logical_Write V (hv_client h) (''/'' @ hv_transitSecretEnginePath h @ ''/sign/'' @ hv_keyPath h @ hashString alg)
       (sign_request pub digest alg (fold ApplyKeyVersion opts (dec (unat (hv_keyVersion h))))) (kms_remote s1) = (Ret (Some d), r)"
    "map_of d ''signature'' = Some (J_string t)"
    "vaultDecode (J_string t) (fold ApplyKeyVersionUsed opts None) (kms_world s1) = (Ret sg, kms_world s')"
proof -
  from assms obtain pub s1 r res where a: "hv_public C V P h s = (Ret pub, s1)"
    "logical_Write V (hv_client h) (''/'' @ hv_transitSecretEnginePath h @ ''/sign/'' @ hv_keyPath h @ hashString alg)
       (sign_request pub digest alg (fold ApplyKeyVersion opts (dec (unat (hv_keyVersion h))))) (kms_remote s1) = (Ret res, r)"
    and v: "(case res of None \<Rightarrow> go_panic ''nil pointer dereference''
        | Some d \<Rightarrow> (case map_of d ''signature'' of None \<Rightarrow> go_err (Msg ''transit: response corrupted in-transit'')
            | Some e \<Rightarrow> on_world (vaultDecode e (fold ApplyKeyVersionUsed opts None)))) (s1\<lparr>kms_remote := r\<rparr>) = (Ret sg, s')"
    unfolding hv_sign_def Let_def go_then_Ret_iff go_wrap_Ret_iff on_remote_Ret sign_request_def [symmetric]
      go_lift_apply prod.inject by blast
  from v obtain d data where d: "res = Some d" "map_of d ''signature'' = Some data"
    "on_world (vaultDecode data (fold ApplyKeyVersionUsed opts None)) (s1\<lparr>kms_remote := r\<rparr>) = (Ret sg, s')"
    by (auto split: option.splits)
  from d(3) have e: "vaultDecode data (fold ApplyKeyVersionUsed opts None) (kms_world s1) = (Ret sg, kms_world s')"
    by (auto simp: on_world_Ret)
  then obtain t where "data = J_string t" by (auto simp: vaultDecode_Ret)
  with a d e show thesis using that by blast
qed

lemma hv_verify_Ret:
  assumes "hv_verify C V P h sg digest alg opts s = (Ret (), s')"
  obtains pre pub s1 d r where "verify_prefix V h (fold ApplyKeyVersion opts []) = Ret pre" "hv_public C V P h s = (Ret pub, s1)"
    "logical_Write V (hv_client h) (''/'' @ hv_transitSecretEnginePath h @ ''/verify/'' @ hv_keyPath h @ ''/'' @ hashString alg)
       (verify_request pub digest alg (pre @ EncodeToString StdEncoding sg)) (kms_remote s1) = (Ret (Some d), r)"
    "map_of d ''valid'' = Some (J_bool True)"
proof -
  from assms obtain pre pub s1 r res where a: "verify_prefix V h (fold ApplyKeyVersion opts []) = Ret pre" "hv_public C V P h s = (Ret pub, s1)"
    "logical_Write V (hv_client h) (''/'' @ hv_transitSecretEnginePath h @ ''/verify/'' @ hv_keyPath h @ ''/'' @ hashString alg)
       (verify_request pub digest alg (pre @ EncodeToString StdEncoding sg)) (kms_remote s1) = (Ret res, r)"
    and v: "(case res of None \<Rightarrow> go_panic ''nil pointer dereference''
        | Some d \<Rightarrow> (case map_of d ''valid'' of None \<Rightarrow> go_err (Msg ''corrupted response'')
            | Some (J_bool isValid) \<Rightarrow> if \<not> isValid then go_err (Msg ''failed vault verification'') else go_ret ()
            | Some _ \<Rightarrow> go_err (Msg ''received non-bool value from valid key''))) (s1\<lparr>kms_remote := r\<rparr>) = (Ret (), s')"
    unfolding hv_verify_def go_then_Ret_iff go_wrap_Ret_iff on_remote_Ret verify_request_def [symmetric] go_lift_apply
    by blast
  from v obtain d where "res = Some d" "map_of d ''valid'' = Some (J_bool True)"
    by (auto split: option.splits jvalue.splits if_splits)
  with a show thesis using that by blast
qed

section \<open>Properties\<close>

text \<open>C31: a verified signature is one the server declared valid: it was asked about the digest of the message
  that was given and about the bytes of the signature that was given, under the version the options,
  the environment or the client name.\<close>

theorem vault_accepts_what_the_server_accepts:
  assumes "hv_VerifySignature L C V P h rs rm opts s = (Ret (), s')"
  shows "\<exists>digest hf w sg pre pub r d r'.
    ComputeDigestForVerifying L rm (HashFunc (fold ApplyCryptoSignerOpts opts (SignerOpts (hv_hashFunc h))))
      (Some hvSupportedHashFuncs) opts (kms_world s) = (Ret (digest, hf), w) \<and>
    delivers w rs sg \<and>
    verify_prefix V (hv_sv_client h) (fold ApplyKeyVersion opts []) = Ret pre \<and>
    logical_Write V (hv_client (hv_sv_client h))
      (''/'' @ hv_transitSecretEnginePath (hv_sv_client h) @ ''/verify/'' @ hv_keyPath (hv_sv_client h) @ ''/'' @ hashString hf)
      (verify_request pub digest hf (pre @ EncodeToString StdEncoding sg)) r = (Ret (Some d), r') \<and>
    map_of d ''valid'' = Some (J_bool True)"
proof -
  from assms obtain digest hf s1 sg s2
    where 1: "on_world (ComputeDigestForVerifying L rm (HashFunc (fold ApplyCryptoSignerOpts opts (SignerOpts (hv_hashFunc h))))
      (Some hvSupportedHashFuncs) opts) s = (Ret (digest, hf), s1)"
      and 2: "on_world (ReadAll rs) s1 = (Ret sg, s2)"
      and 3: "hv_verify C V P (hv_sv_client h) sg digest hf opts s2 = (Ret (), s')"
    by (auto simp: hv_VerifySignature_def Let_def go_then_Ret_iff)
  from 1 have "ComputeDigestForVerifying L rm (HashFunc (fold ApplyCryptoSignerOpts opts (SignerOpts (hv_hashFunc h))))
      (Some hvSupportedHashFuncs) opts (kms_world s) = (Ret (digest, hf), kms_world s1)" by (auto simp: on_world_Ret)
  moreover from 2 have "delivers (kms_world s1) rs sg" by (auto simp: on_world_Ret ReadAll_Ret_iff)
  ultimately show ?thesis using hv_verify_Ret [OF 3] by metis
qed

text \<open>Which version a signature is verified under.  A version that is asked for is used; otherwise the
  environment decides, then the client's version, and a client that follows the latest version when it
  signs asks about version 1 when it verifies.\<close>

theorem vault_version_asked:
  assumes "v \<noteq> 0"
  shows "verify_prefix V h (dec (unat v)) = Ret (version_prefix v) \<and>
    (verify_prefix V h [] = Ret (version_prefix v) \<longleftrightarrow>
       hv_Getenv V ''VAULT_KEY_PREFIX'' = version_prefix v \<or>
       hv_Getenv V ''VAULT_KEY_PREFIX'' = [] \<and> (hv_keyVersion h = v \<or> hv_keyVersion h = 0 \<and> v = 1))"
proof -
  have "version_prefix v \<noteq> []" by (simp add: version_prefix_def)
  then show ?thesis using assms
    by (auto simp: verify_prefix_given verify_prefix_def vaultV1 word_greater_zero_iff Let_def)
qed

text \<open>The version a signer reports is the whole prefix of the server's answer, and asking for it when
  verifying is an error: \<open>WithKeyVersion\<close> wants the bare number.  Whatever the version, the signature is
  returned without the prefix.\<close>

theorem vault_reported_version:
  assumes "fold ApplyKeyVersionUsed opts None = Some p" "hv_SignMessage L C V P h r opts s = (Ret sg, s')"
  shows "\<exists>path req v v' d t. logical_Write V (hv_client (hv_sv_client h)) path req v = (Ret (Some d), v') \<and>
    map_of d ''signature'' = Some (J_string t) \<and>
    str_cells (kms_world s') p = prefixRegex_FindString t \<and>
    (\<forall>n raw. t = version_prefix n @ EncodeToString StdEncoding raw \<longrightarrow> sg = raw \<and> str_cells (kms_world s') p = version_prefix n) \<and>
    (str_cells (kms_world s') p \<noteq> [] \<longrightarrow>
       fst (hv_VerifySignature L C V P h rs rm [WithKeyVersion (str_cells (kms_world s') p)] s2) \<noteq> Ret ())"
proof -
  from assms(2) obtain digest hf s1 where "hv_sign C V P (hv_sv_client h) digest hf opts s1 = (Ret sg, s')"
    by (auto simp: hv_SignMessage_def Let_def go_then_Ret_iff)
  then obtain path req v v' d t w3 where
    w: "logical_Write V (hv_client (hv_sv_client h)) path req v = (Ret (Some d), v')" "map_of d ''signature'' = Some (J_string t)"
    and "vaultDecode (J_string t) (fold ApplyKeyVersionUsed opts None) w3 = (Ret sg, kms_world s')"
    by (rule hv_sign_Ret) (rule that)
  with assms(1) have t: "DecodeString StdEncoding (prefixRegex_ReplaceAllString t) = Ret sg"
    "str_cells (kms_world s') p = prefixRegex_FindString t"
    by (auto simp: vaultDecode_Ret)
  have "fst (hv_VerifySignature L C V P h rs rm [WithKeyVersion k] s2) \<noteq> Ret ()"
    if k: "k = prefixRegex_FindString t" "k \<noteq> []" for k
  proof
    assume "fst (hv_VerifySignature L C V P h rs rm [WithKeyVersion k] s2) = Ret ()"
    then obtain s5 where "hv_VerifySignature L C V P h rs rm [WithKeyVersion k] s2 = (Ret (), s5)" by (metis prod.collapse)
    then obtain digest hf sg s4 where "hv_verify C V P (hv_sv_client h) sg digest hf [WithKeyVersion k] s4 = (Ret (), s5)"
      by (auto simp: hv_VerifySignature_def Let_def go_then_Ret_iff)
    from hv_verify_Ret [OF this] obtain pre where "verify_prefix V (hv_sv_client h) k = Ret pre"
      by (auto simp: WithKeyVersion_def ApplyKeyVersion_def)
    moreover have "ParseUint k = Err (Msg ''invalid syntax'')"
      using FindString_letter [of t] k by (intro ParseUint_not_digit [of "CHR ''v''"]) (simp_all add: is_digit_def)
    ultimately show False using k(2) by (simp add: verify_prefix_def)
  qed
  moreover have "sg = raw \<and> prefixRegex_FindString t = version_prefix n" if "t = version_prefix n @ EncodeToString StdEncoding raw" for n raw
    using t(1) unfolding that prefix_version DecodeString_EncodeToString [OF wf_encodings(1)] by simp
  ultimately show ?thesis using w t(2) by metis
qed

text \<open>A server that signs with version 2 of its key, for the witnesses.\<close>

definition ref_vault :: "unit vault_lib" where
  "ref_vault = \<lparr>hv_Getenv = (\<lambda>_. []), hv_NewClient = (\<lambda>_. Ret ()), homedir_Dir = Ret ''/home'', hv_ReadFile = (\<lambda>_. Ret []),
     logical_Read = (\<lambda>_ _ v. (Ret None, v)),
     logical_Write = (\<lambda>_ _ _ v. (Ret (Some [(''signature'', J_string (version_prefix 2 @ EncodeToString StdEncoding [1, 2, 3])),
        (''valid'', J_bool True)]), v)),
     secret_TokenID = (\<lambda>_. Ret [])\<rparr>"

lemma ref_vault_env: "hv_Getenv ref_vault x = []"
  by (simp add: ref_vault_def)

definition ref_hv :: hv_SignerVerifier where
  "ref_hv = \<lparr>hv_hashFunc = SHA256, hv_sv_client = \<lparr>hv_client = \<lparr>api_Address = ''a'', api_Token = ''t''\<rparr>, hv_keyPath = ''k'',
     hv_transitSecretEnginePath = ''transit'', hv_keyVersion = 0\<rparr>\<rparr>"

definition ref_hv_state :: "((public_key \<times> int option) option, unit) kms_state" where
  "ref_hv_state = \<lparr>kms_world = two_readers [1, 2, 3] [5], kms_clock = 0,
     kms_cache = Some (Ecdsa_public (Some \<lparr>ecdsa_Curve = P256, ecdsa_X = 1, ecdsa_Y = 1\<rparr>), Some 300), kms_remote = ()\<rparr>"

lemma ref_hv_public: "hv_public ref_ttl ref_vault P h (ref_hv_state\<lparr>kms_world := w\<rparr>) =
    (Ret (Ecdsa_public (Some \<lparr>ecdsa_Curve = P256, ecdsa_X = 1, ecdsa_Y = 1\<rparr>)), ref_hv_state\<lparr>kms_world := w\<rparr>)"
  by (simp add: hv_public_def cached_def ref_ttl_def ref_hv_state_def)

lemma ref_hv_digest:
  assumes "h \<in> {[], [ReturnKeyVersionUsed (Some 0)]}"
  shows "on_world (ComputeDigestForSigning ref_lib (Some 1) SHA256 (Some hvSupportedHashFuncs) h) ref_hv_state =
    (Ret (hash_sum ref_lib SHA256 [5], SHA256), ref_hv_state\<lparr>kms_world := drain (Some 1) (kms_world ref_hv_state)\<rparr>)"
proof (rule on_world_step)
  have d: "delivers (kms_world ref_hv_state) (Some 1) [5]" by (simp add: ref_hv_state_def)
  have "msg_options SHA256 h = ([], SignerOpts SHA256)"
    using assms by (auto simp: msg_options_eq ReturnKeyVersionUsed_def set_digest_def set_signer_opts_def)
  moreover have "hash_linked ref_lib SHA256" by (simp add: ref_lib_def)
  ultimately show "ComputeDigestForSigning ref_lib (Some 1) SHA256 (Some hvSupportedHashFuncs) h (kms_world ref_hv_state) =
      (Ret (hash_sum ref_lib SHA256 [5], SHA256), drain (Some 1) (kms_world ref_hv_state))"
    using hashMessage_delivers [OF d, of SHA256 ref_lib]
    by (simp add: ComputeDigestForSigning_def hvSupportedHashFuncs_def go_then_step)
qed

lemma ref_hv_verify: "\<exists>s'. hv_VerifySignature ref_lib ref_ttl ref_vault P ref_hv (Some 0) (Some 1) [] ref_hv_state = (Ret (), s')"
proof -
  have "delivers (drain (Some 1) (kms_world ref_hv_state)) (Some 0) [1, 2, 3]" by (simp add: ref_hv_state_def)
  then have "on_world (ReadAll (Some 0)) (ref_hv_state\<lparr>kms_world := drain (Some 1) (kms_world ref_hv_state)\<rparr>) =
      (Ret [1, 2, 3], ref_hv_state\<lparr>kms_world := drain (Some 0) (drain (Some 1) (kms_world ref_hv_state))\<rparr>)"
    by (subst on_world_step [OF ReadAll_delivers]) simp_all
  moreover have "hv_verify ref_ttl ref_vault P (hv_sv_client ref_hv) sg d hf [] (ref_hv_state\<lparr>kms_world := w\<rparr>) =
      (Ret (), ref_hv_state\<lparr>kms_world := w\<rparr>)" for sg d hf w
    by (simp add: hv_verify_def verify_prefix_def Let_def ref_vault_env ref_hv_def go_then_step go_wrap_step ref_hv_public)
      (simp add: ref_vault_def go_then_def go_wrap_def on_remote_def ref_hv_state_def)
  ultimately show ?thesis
    using ref_hv_digest [of "[]"] by (simp add: hv_VerifySignature_def ComputeDigest_same ref_hv_def go_then_step go_wrap_step)
qed

lemma ref_hv_sign:
  "\<exists>s'. hv_SignMessage ref_lib ref_ttl ref_vault P ref_hv (Some 1) [ReturnKeyVersionUsed (Some 0)] ref_hv_state = (Ret [1, 2, 3], s') \<and>
     str_cells (kms_world s') 0 = version_prefix 2"
proof -
  let ?o = "[ReturnKeyVersionUsed (Some 0)]"
  have o: "fold ApplyKeyVersion ?o k = k" "fold ApplyKeyVersionUsed ?o None = Some 0" "ApplyCryptoSignerOpts (ReturnKeyVersionUsed q) c = c" for k c q
    by (simp_all add: ReturnKeyVersionUsed_def apply_defs)
  have "hv_sign ref_ttl ref_vault P (hv_sv_client ref_hv) d hf ?o (ref_hv_state\<lparr>kms_world := w\<rparr>) =
      (Ret [1, 2, 3], ref_hv_state\<lparr>kms_world := w\<lparr>str_cells := (str_cells w)(0 := version_prefix 2)\<rparr>\<rparr>)" for d hf w
    by (simp only: hv_sign_def Let_def o, simp add: ref_hv_def go_then_step go_wrap_step ref_hv_public)
      (simp add: ref_vault_def go_then_def go_wrap_def on_remote_def on_world_def vaultDecode_def prefix_version
        ref_hv_state_def del: EncodeToString.simps)
  with ref_hv_digest [of ?o] show ?thesis
    by (simp add: hv_SignMessage_def o ref_hv_def go_then_step)
qed

lemma vault_accepts_what_the_server_accepts_witness:
  "\<exists>v r d r'. logical_Write ref_vault (hv_client (hv_sv_client ref_hv)) ''/transit/verify/k//sha2-256'' v r = (Ret (Some d), r') \<and>
    map_of d ''valid'' = Some (J_bool True)"
proof -
  obtain s' where "hv_VerifySignature ref_lib ref_ttl ref_vault ref_pki ref_hv (Some 0) (Some 1) [] ref_hv_state = (Ret (), s')"
    using ref_hv_verify by blast
  from vault_accepts_what_the_server_accepts [OF this] ref_hv_digest [of "[]"] show ?thesis
    by (simp add: ref_hv_def ComputeDigest_same on_world_Ret) (clarsimp simp: hashString_def, blast)
qed

lemma vault_version_asked_witness:
  "verify_prefix ref_vault (hv_sv_client ref_hv) (dec (unat (2 :: 64 word))) = Ret (version_prefix 2) \<and>
   verify_prefix ref_vault (hv_sv_client ref_hv) [] \<noteq> Ret (version_prefix 2)"
proof -
  have "(2 :: 64 word) \<noteq> 0" by simp
  from vault_version_asked [OF this, of ref_vault "hv_sv_client ref_hv"] show ?thesis
    by (simp add: ref_vault_def ref_hv_def version_prefix_def)
qed

lemma vault_reported_version_witness:
  "fst (hv_VerifySignature ref_lib ref_ttl ref_vault ref_pki ref_hv (Some 0) (Some 1) [WithKeyVersion (version_prefix 2)] ref_hv_state) \<noteq> Ret ()"
proof -
  obtain s' where s': "hv_SignMessage ref_lib ref_ttl ref_vault ref_pki ref_hv (Some 1) [ReturnKeyVersionUsed (Some 0)] ref_hv_state = (Ret [1, 2, 3], s')"
    "str_cells (kms_world s') 0 = version_prefix 2" using ref_hv_sign by blast
  have "fold ApplyKeyVersionUsed [ReturnKeyVersionUsed (Some 0)] None = Some 0"
    by (simp add: ReturnKeyVersionUsed_def apply_defs)
  from vault_reported_version [OF this s'(1)] s'(2) show ?thesis by (auto simp: version_prefix_def)
qed

end
