(* ===== verification/CliPlugin.thy ===== *)
theory CliPlugin
  imports Kms CryptoUtils
begin

text \<open>
  \<open>pkg/signature/kms/cliplugin\<close>: providers that live in another program.  The client packs a call and
  its options into JSON, runs the program and reads the answer; the handler does the reverse on the
  other side.  JSON, the texts of errors and the running of a program are parameters.  A plugin program
  is modelled after \<open>test/cliplugin/localkms\<close>, so that client, program and handler can be composed.
\<close>

section \<open>The protocol\<close>

record rpc_options =
  ro_CtxDeadline :: "int option"
  ro_KeyVersion :: "string option"
  ro_RemoteVerification :: "bool option"

record message_options =
  mo_Digest :: "bytes option"
  mo_HashFunc :: "hash option"

record sign_options =
  so_RPCOptions :: rpc_options
  so_MessageOptions :: message_options

record init_options =
  io_CtxDeadline :: "int option"
  io_ProtocolVersion :: string
  io_KeyResourceID :: string
  io_HashFunc :: hash
  io_RPCOptions :: rpc_options

record create_key_args =
  ck_CtxDeadline :: "int option"
  ck_Algorithm :: string

record verify_signature_args =
  vs_Signature :: bytes
  vs_VerifyOptions :: "sign_options option"

text \<open>The arguments of a method are pointers: all but those of the named method are nil.  The options of
  \<open>PublicKey\<close>, \<open>SignMessage\<close> and \<open>VerifySignature\<close> are pointers inside them.\<close>

record method_args =
  ma_MethodName :: string
  ma_DefaultAlgorithm :: "unit option"
  ma_SupportedAlgorithms :: "unit option"
  ma_CreateKey :: "create_key_args option"
  ma_PublicKey :: "rpc_options option option"
  ma_SignMessage :: "sign_options option option"
  ma_VerifySignature :: "verify_signature_args option"

text \<open>The arguments of the method are embedded by a pointer, which JSON leaves nil when it finds none of
  their fields.\<close>

record plugin_args =
  pa_InitOptions :: "init_options option"
  pa_MethodArgs :: "method_args option"

record plugin_resp =
  pr_ErrorMessage :: string
  pr_DefaultAlgorithm :: "string option"
  pr_SupportedAlgorithms :: "string list option"
  pr_CreateKey :: "bytes option"
  pr_PublicKey :: "bytes option"
  pr_SignMessage :: "bytes option"
  pr_VerifySignature :: "unit option"

definition ProtocolVersion :: string where "ProtocolVersion = ''v1''"
definition DefaultAlgorithmMethodName :: string where "DefaultAlgorithmMethodName = ''defaultAlgorithm''"
definition SupportedAlgorithmsMethodName :: string where "SupportedAlgorithmsMethodName = ''supportedAlgorithms''"
definition CreateKeyMethodName :: string where "CreateKeyMethodName = ''createKey''"
definition PublicKeyMethodName :: string where "PublicKeyMethodName = ''publicKey''"
definition SignMessageMethodName :: string where "SignMessageMethodName = ''signMessage''"
definition VerifySignatureMethodName :: string where "VerifySignatureMethodName = ''verifySignature''"

lemmas method_names = DefaultAlgorithmMethodName_def SupportedAlgorithmsMethodName_def CreateKeyMethodName_def
  PublicKeyMethodName_def SignMessageMethodName_def VerifySignatureMethodName_def

definition method_call :: "string \<Rightarrow> method_args" where
  "method_call name = \<lparr>ma_MethodName = name, ma_DefaultAlgorithm = None, ma_SupportedAlgorithms = None, ma_CreateKey = None,
     ma_PublicKey = None, ma_SignMessage = None, ma_VerifySignature = None\<rparr>"

definition empty_resp :: plugin_resp where
  "empty_resp = \<lparr>pr_ErrorMessage = [], pr_DefaultAlgorithm = None, pr_SupportedAlgorithms = None, pr_CreateKey = None,
     pr_PublicKey = None, pr_SignMessage = None, pr_VerifySignature = None\<rparr>"

section \<open>Packing and unpacking options\<close>

definition PackRPCOptions :: "sig_option list \<Rightarrow> rpc_options" where
  "PackRPCOptions opts =
     (let ctx = fold ApplyContext opts Background
      in \<lparr>ro_CtxDeadline = ctx_deadline ctx, ro_KeyVersion = Some (fold ApplyKeyVersion opts []),
          ro_RemoteVerification = Some (fold ApplyRemoteVerification opts False)\<rparr>)"

text \<open>A context whose deadline has passed is cancelled from the start.\<close>

definition DeadlineExceeded :: goerr where "DeadlineExceeded = Msg ''context deadline exceeded''"

definition context_WithDeadline :: "int \<Rightarrow> int \<Rightarrow> go_context" where
  "context_WithDeadline now d = Background\<lparr>ctx_deadline := Some d, ctx_err := (if d \<le> now then Some DeadlineExceeded else None)\<rparr>"

definition UnpackRPCOptions :: "int \<Rightarrow> rpc_options \<Rightarrow> sig_option list" where
  "UnpackRPCOptions now ro =
     (case ro_CtxDeadline ro of None \<Rightarrow> [] | Some d \<Rightarrow> [WithContext (context_WithDeadline now d)]) @
     (case ro_KeyVersion ro of None \<Rightarrow> [] | Some v \<Rightarrow> [WithKeyVersion v]) @
     (case ro_RemoteVerification ro of None \<Rightarrow> [] | Some b \<Rightarrow> [WithRemoteVerification b])"

text \<open>\<open>ApplyCryptoSignerOpts\<close> on a variable that starts as the nil interface.\<close>

definition apply_signer_opts :: "sig_option \<Rightarrow> signer_opts option \<Rightarrow> signer_opts option" where
  "apply_signer_opts opt s = (case opt of RequestCryptoSignerOpts s' \<Rightarrow> Some s' | _ \<Rightarrow> s)"

definition PackMessageOptions :: "sig_option list \<Rightarrow> message_options" where
  "PackMessageOptions opts =
     \<lparr>mo_Digest = Some (fold ApplyDigest opts []), mo_HashFunc = map_option HashFunc (fold apply_signer_opts opts None)\<rparr>"

definition UnpackMessageOptions :: "message_options \<Rightarrow> sig_option list" where
  "UnpackMessageOptions mo =
     (case mo_Digest mo of None \<Rightarrow> [] | Some d \<Rightarrow> [WithDigest d]) @
     (case mo_HashFunc mo of None \<Rightarrow> [] | Some h \<Rightarrow> [WithCryptoSignerOpts (Some (SignerOpts h))])"

definition PackPublicKeyOptions :: "sig_option list \<Rightarrow> rpc_options" where
  "PackPublicKeyOptions opts = PackRPCOptions opts"

definition UnpackPublicKeyOptions :: "int \<Rightarrow> rpc_options \<Rightarrow> sig_option list" where
  "UnpackPublicKeyOptions now ro = UnpackRPCOptions now ro"

definition PackSignOptions :: "sig_option list \<Rightarrow> sign_options" where
  "PackSignOptions opts = \<lparr>so_RPCOptions = PackRPCOptions opts, so_MessageOptions = PackMessageOptions opts\<rparr>"

definition UnpackSignOptions :: "int \<Rightarrow> sign_options \<Rightarrow> sig_option list" where
  "UnpackSignOptions now so = UnpackRPCOptions now (so_RPCOptions so) @ UnpackMessageOptions (so_MessageOptions so)"

definition PackVerifyOptions :: "sig_option list \<Rightarrow> sign_options" where
  "PackVerifyOptions opts = \<lparr>so_RPCOptions = PackRPCOptions opts, so_MessageOptions = PackMessageOptions opts\<rparr>"

definition UnpackVerifyOptions :: "int \<Rightarrow> sign_options \<Rightarrow> sig_option list" where
  "UnpackVerifyOptions now so = UnpackRPCOptions now (so_RPCOptions so) @ UnpackMessageOptions (so_MessageOptions so)"

section \<open>JSON\<close>

record json_lib =
  json_MarshalArgs :: "plugin_args \<Rightarrow> string outcome"
  json_UnmarshalArgs :: "string \<Rightarrow> plugin_args outcome"
  json_MarshalResp :: "plugin_resp \<Rightarrow> bytes outcome"
  json_UnmarshalResp :: "bytes \<Rightarrow> plugin_resp outcome"
  err_Error :: "goerr \<Rightarrow> string"

text \<open>A pointer to a nil slice becomes \<open>null\<close> and comes back as a nil pointer; a pointer to an empty slice
  comes back as it was.  The model has one empty byte string, so a digest is known up to that.\<close>

definition drop_empty :: "bytes option \<Rightarrow> bytes option" where
  "drop_empty d = (if d = Some [] then None else d)"

definition norm_options :: "sign_options \<Rightarrow> sign_options" where
  "norm_options so = so\<lparr>so_MessageOptions := (so_MessageOptions so)\<lparr>mo_Digest := drop_empty (mo_Digest (so_MessageOptions so))\<rparr>\<rparr>"

definition norm_method :: "method_args \<Rightarrow> method_args" where
  "norm_method a = a\<lparr>
     ma_SignMessage := map_option (map_option norm_options) (ma_SignMessage a),
     ma_VerifySignature := map_option (\<lambda>v. v\<lparr>vs_VerifyOptions := map_option norm_options (vs_VerifyOptions v)\<rparr>)
       (ma_VerifySignature a)\<rparr>"

definition norm_args :: "plugin_args \<Rightarrow> plugin_args" where
  "norm_args a = a\<lparr>pa_MethodArgs := map_option norm_method (pa_MethodArgs a)\<rparr>"

text \<open>What JSON keeps: ASCII text and times of the years 0 to 9999.\<close>

definition ascii :: "string \<Rightarrow> bool" where
  "ascii s \<longleftrightarrow> (\<forall>c \<in> set s. (of_char c :: nat) < 128)"

definition plain_time :: "int \<Rightarrow> bool" where
  "plain_time t \<longleftrightarrow> - 62167219200 \<le> t \<and> t < 253402300800"

definition plain_rpc :: "rpc_options \<Rightarrow> bool" where
  "plain_rpc ro \<longleftrightarrow> pred_option plain_time (ro_CtxDeadline ro) \<and> pred_option ascii (ro_KeyVersion ro)"

definition plain_init :: "init_options \<Rightarrow> bool" where
  "plain_init i \<longleftrightarrow> pred_option plain_time (io_CtxDeadline i) \<and> ascii (io_ProtocolVersion i) \<and> ascii (io_KeyResourceID i) \<and>
     plain_rpc (io_RPCOptions i)"

definition plain_method :: "method_args \<Rightarrow> bool" where
  "plain_method a \<longleftrightarrow> ascii (ma_MethodName a) \<and>
     pred_option (\<lambda>c. pred_option plain_time (ck_CtxDeadline c) \<and> ascii (ck_Algorithm c)) (ma_CreateKey a) \<and>
     pred_option (pred_option plain_rpc) (ma_PublicKey a) \<and>
     pred_option (pred_option (\<lambda>so. plain_rpc (so_RPCOptions so))) (ma_SignMessage a) \<and>
     pred_option (\<lambda>v. pred_option (\<lambda>so. plain_rpc (so_RPCOptions so)) (vs_VerifyOptions v)) (ma_VerifySignature a)"

definition plain_args :: "plugin_args \<Rightarrow> bool" where
  "plain_args a \<longleftrightarrow> pred_option plain_init (pa_InitOptions a) \<and> pred_option plain_method (pa_MethodArgs a)"

text \<open>What becomes of a text in a response: JSON keeps ASCII, and replaces what is no UTF-8 by a character that
  says so; a text is never lost, and none appears.  Everything else in a response is kept.\<close>

definition text_kept :: "string \<Rightarrow> string \<Rightarrow> bool" where
  "text_kept t t' \<longleftrightarrow> (t' = [] \<longleftrightarrow> t = []) \<and> (ascii t \<longrightarrow> t' = t)"

definition resp_kept :: "plugin_resp \<Rightarrow> plugin_resp \<Rightarrow> bool" where
  "resp_kept r r' \<longleftrightarrow> text_kept (pr_ErrorMessage r) (pr_ErrorMessage r') \<and>
     rel_option text_kept (pr_DefaultAlgorithm r) (pr_DefaultAlgorithm r') \<and>
     rel_option (list_all2 text_kept) (pr_SupportedAlgorithms r) (pr_SupportedAlgorithms r') \<and>
     pr_CreateKey r' = pr_CreateKey r \<and> pr_PublicKey r' = pr_PublicKey r \<and> pr_SignMessage r' = pr_SignMessage r \<and>
     pr_VerifySignature r' = pr_VerifySignature r"

lemma text_kept_refl [simp]: "text_kept t t"
  by (simp add: text_kept_def)

lemma resp_kept_refl [simp]: "resp_kept r r"
  by (auto simp: resp_kept_def option.rel_refl list_all2_refl)

definition json_laws :: "json_lib \<Rightarrow> bool" where
  "json_laws J \<longleftrightarrow>
     (\<forall>a. plain_args a \<longrightarrow> (\<exists>s a'. json_MarshalArgs J a = Ret s \<and> json_UnmarshalArgs J s = Ret a' \<and> norm_args a' = norm_args a)) \<and>
     (\<forall>r. \<exists>b r'. json_MarshalResp J r = Ret b \<and> json_UnmarshalResp J b = Ret r' \<and> resp_kept r r') \<and>
     (\<exists>e. json_UnmarshalResp J [] = Err e)"

section \<open>Running a program\<close>

datatype cmd_error = ExitError int | Other_cmd_error goerr

type_synonym 's makeCmdFunc = "go_context \<Rightarrow> io_reader \<Rightarrow> string \<Rightarrow> string list \<Rightarrow> ('s, bytes \<times> cmd_error option) step"

type_synonym 'p exec = "go_context \<Rightarrow> string \<Rightarrow> string list \<Rightarrow> stream \<Rightarrow> 'p \<Rightarrow> (bytes \<times> cmd_error option) \<times> 'p"

text \<open>\<open>exec.CommandContext\<close> with a reader as standard input, which running the command copies to the program
  to the end.  The outside world is the remote part of the state.\<close>

definition makeCmd :: "'p exec \<Rightarrow> ('k, 'p) kms_state makeCmdFunc" where
  "makeCmd exec ctx stdin name args s =
     (let input = (case stdin of None \<Rightarrow> Stream [] None | Some i \<Rightarrow> readers (kms_world s) i)
      in case exec ctx name args input (kms_remote s) of (r, p) \<Rightarrow>
           (Ret r, s\<lparr>kms_world := drain stdin (kms_world s), kms_remote := p\<rparr>))"

text \<open>Exit codes from 1 on are not errors: the program speaks through its output.\<close>

definition cmd_failed :: "cmd_error option \<Rightarrow> goerr option" where
  "cmd_failed err = (case err of
       None \<Rightarrow> None
     | Some (ExitError n) \<Rightarrow> if n < 1 then Some (Msg ''exit status'') else None
     | Some (Other_cmd_error e) \<Rightarrow> Some e)"

section \<open>The client\<close>

definition PluginBinaryPrefix :: string where "PluginBinaryPrefix = ''sigstore-kms-''"

record 's PluginClient =
  pc_executable :: string
  pc_initOptions :: init_options
  pc_makeCmdFunc :: "'s makeCmdFunc"

definition newPluginClient :: "string \<Rightarrow> init_options \<Rightarrow> 's makeCmdFunc \<Rightarrow> 's PluginClient" where
  "newPluginClient executable initOptions mk = \<lparr>pc_executable = executable, pc_initOptions = initOptions, pc_makeCmdFunc = mk\<rparr>"

definition getPluginExecutableAndKeyResourceID :: "string \<Rightarrow> (string \<times> string) outcome" where
  "getPluginExecutableAndKeyResourceID inputKeyResourceID = (case cut ''://'' inputKeyResourceID of
       None \<Rightarrow> Err (Wrap ''expected format: [plugin name]://[key ref]'' ErrorInputKeyResourceID)
     | Some (pluginName, keyResourceID) \<Rightarrow> Ret (PluginBinaryPrefix @ pluginName, keyResourceID))"

definition plugin_LoadSignerVerifier ::
  "(string \<Rightarrow> unit outcome) \<Rightarrow> 's makeCmdFunc \<Rightarrow> go_context \<Rightarrow> string \<Rightarrow> hash \<Rightarrow> sig_option list \<Rightarrow> 's PluginClient outcome" where
  "plugin_LoadSignerVerifier exec_LookPath mk ctx inputKeyResourceID hashFunc opts = (case ctx_err ctx of
       Some e \<Rightarrow> Err e
     | None \<Rightarrow>
         and_then (getPluginExecutableAndKeyResourceID inputKeyResourceID) (\<lambda>(executable, keyResourceID).
         and_then (exec_LookPath executable) (\<lambda>_.
         Ret (newPluginClient executable
           \<lparr>io_CtxDeadline = ctx_deadline ctx, io_ProtocolVersion = ProtocolVersion, io_KeyResourceID = keyResourceID,
            io_HashFunc = hashFunc, io_RPCOptions = PackRPCOptions opts\<rparr> mk))))"

definition ErrorExecutingPlugin :: goerr where "ErrorExecutingPlugin = Msg ''error executing plugin program''"
definition ErrorResponseParse :: goerr where "ErrorResponseParse = Msg ''parsing plugin response''"
definition ErrorPluginReturnError :: goerr where "ErrorPluginReturnError = Msg ''plugin returned error''"

definition read_response :: "json_lib \<Rightarrow> bytes \<times> cmd_error option \<Rightarrow> plugin_resp outcome" where
  "read_response J r = (case r of (stdout, err) \<Rightarrow>
     (case cmd_failed err of
        Some e \<Rightarrow> Err (Wrap2 ErrorExecutingPlugin e)
      | None \<Rightarrow> (case json_UnmarshalResp J stdout of
            Err e \<Rightarrow> Err (Wrap2 ErrorResponseParse e)
          | Panic p \<Rightarrow> Panic p
          | Ret resp \<Rightarrow> if pr_ErrorMessage resp \<noteq> [] then Err (Wrap (pr_ErrorMessage resp) ErrorPluginReturnError) else Ret resp)))"

definition invokePlugin ::
  "json_lib \<Rightarrow> 's PluginClient \<Rightarrow> go_context \<Rightarrow> io_reader \<Rightarrow> method_args \<Rightarrow> ('s, plugin_resp) step" where
  "invokePlugin J c ctx stdin methodArgs =
     go_then (go_lift (json_MarshalArgs J \<lparr>pa_InitOptions = Some (pc_initOptions c), pa_MethodArgs = Some methodArgs\<rparr>)) (\<lambda>argsEnc.
     go_then (pc_makeCmdFunc c ctx stdin (pc_executable c) [ProtocolVersion, argsEnc]) (\<lambda>r. go_lift (read_response J r)))"

text \<open>A field of the response that is not there is a nil pointer; \<open>log.Fatal\<close> ends the process.\<close>

definition deref :: "'a option \<Rightarrow> 'a outcome" where
  "deref x = (case x of None \<Rightarrow> Panic ''nil pointer dereference'' | Some v \<Rightarrow> Ret v)"

definition log_Fatal :: "('s, 'a) step \<Rightarrow> ('s, 'a) step" where
  "log_Fatal m s = (case m s of (Err e, s') \<Rightarrow> (Panic ''log.Fatal'', s') | r \<Rightarrow> r)"

definition pc_DefaultAlgorithm :: "json_lib \<Rightarrow> 's PluginClient \<Rightarrow> ('s, string) step" where
  "pc_DefaultAlgorithm J c =
     go_then (log_Fatal (invokePlugin J c Background None
       ((method_call DefaultAlgorithmMethodName)\<lparr>ma_DefaultAlgorithm := Some ()\<rparr>))) (\<lambda>resp.
     go_lift (deref (pr_DefaultAlgorithm resp)))"

definition pc_SupportedAlgorithms :: "json_lib \<Rightarrow> 's PluginClient \<Rightarrow> ('s, string list) step" where
  "pc_SupportedAlgorithms J c =
     go_then (log_Fatal (invokePlugin J c Background None
       ((method_call SupportedAlgorithmsMethodName)\<lparr>ma_SupportedAlgorithms := Some ()\<rparr>))) (\<lambda>resp.
     go_lift (deref (pr_SupportedAlgorithms resp)))"

definition pc_CreateKey :: "json_lib \<Rightarrow> pki \<Rightarrow> 's PluginClient \<Rightarrow> go_context \<Rightarrow> string \<Rightarrow> ('s, public_key) step" where
  "pc_CreateKey J P c ctx algorithm =
     go_then (invokePlugin J c ctx None ((method_call CreateKeyMethodName)
       \<lparr>ma_CreateKey := Some \<lparr>ck_CtxDeadline = ctx_deadline ctx, ck_Algorithm = algorithm\<rparr>\<rparr>)) (\<lambda>resp.
     go_then (go_lift (deref (pr_CreateKey resp))) (\<lambda>pem. go_lift (UnmarshalPEMToPublicKey P pem)))"

definition pc_PublicKey :: "json_lib \<Rightarrow> pki \<Rightarrow> 's PluginClient \<Rightarrow> sig_option list \<Rightarrow> ('s, public_key) step" where
  "pc_PublicKey J P c opts =
     go_then (invokePlugin J c (fold ApplyContext opts Background) None
       ((method_call PublicKeyMethodName)\<lparr>ma_PublicKey := Some (Some (PackPublicKeyOptions opts))\<rparr>)) (\<lambda>resp.
     go_then (go_lift (deref (pr_PublicKey resp))) (\<lambda>pem. go_lift (UnmarshalPEMToPublicKey P pem)))"

definition sign_call :: "sig_option list \<Rightarrow> method_args" where
  "sign_call opts = (method_call SignMessageMethodName)\<lparr>ma_SignMessage := Some (Some (PackSignOptions opts))\<rparr>"

definition pc_SignMessage :: "json_lib \<Rightarrow> 's PluginClient \<Rightarrow> io_reader \<Rightarrow> sig_option list \<Rightarrow> ('s, bytes) step" where
  "pc_SignMessage J c message opts =
     go_then (invokePlugin J c (fold ApplyContext opts Background) message (sign_call opts)) (\<lambda>resp.
     go_lift (deref (pr_SignMessage resp)))"

definition verify_call :: "bytes \<Rightarrow> sig_option list \<Rightarrow> method_args" where
  "verify_call sg opts = (method_call VerifySignatureMethodName)
     \<lparr>ma_VerifySignature := Some \<lparr>vs_Signature = sg, vs_VerifyOptions = Some (PackVerifyOptions opts)\<rparr>\<rparr>"

definition pc_VerifySignature ::
  "json_lib \<Rightarrow> ('k, 'p) kms_state PluginClient \<Rightarrow> io_reader \<Rightarrow> io_reader \<Rightarrow> sig_option list \<Rightarrow> (('k, 'p) kms_state, unit) step" where
  "pc_VerifySignature J c signature message opts =
     go_then (on_world (ReadAll signature)) (\<lambda>signatureBytes.
     go_then (invokePlugin J c (fold ApplyContext opts Background) message (verify_call signatureBytes opts)) (\<lambda>_.
     go_ret ()))"

text \<open>\<open>CryptoSigner\<close>: the wrapper holds the client; its \<open>Sign\<close> calls \<open>HashFunc\<close> on the options it is given,
  which may be the nil interface.\<close>

definition pc_CryptoSigner :: "'s PluginClient \<Rightarrow> go_context \<Rightarrow> ('s PluginClient \<times> hash) outcome" where
  "pc_CryptoSigner c ctx = (case ctx_err ctx of Some e \<Rightarrow> Err e | None \<Rightarrow> Ret (c, io_HashFunc (pc_initOptions c)))"

definition plugin_crypto_Sign ::
  "json_lib \<Rightarrow> ('k, 'p) kms_state PluginClient \<Rightarrow> bytes \<Rightarrow> signer_opts option \<Rightarrow> (('k, 'p) kms_state, bytes) step" where
  "plugin_crypto_Sign J c digest cryptoSignerOpts =
     go_then (on_world (NewReader [])) (\<lambda>emptyMessage. (case cryptoSignerOpts of
         None \<Rightarrow> go_panic ''nil pointer dereference''
       | Some o1 \<Rightarrow> pc_SignMessage J c emptyMessage
           [WithCryptoSignerOpts (Some (SignerOpts (HashFunc o1))), WithDigest digest]))"

definition plugin_crypto_Public :: "json_lib \<Rightarrow> pki \<Rightarrow> 's PluginClient \<Rightarrow> ('s, public_key \<times> goerr option) step" where
  "plugin_crypto_Public J P c s = (case pc_PublicKey J P c [] s of
       (Ret pk, s') \<Rightarrow> (Ret (pk, None), s')
     | (Err e, s') \<Rightarrow> (Ret (Nil_public, Some e), s')
     | (Panic p, s') \<Rightarrow> (Panic p, s'))"

end
