(* ===== verification/Providers.thy ===== *)
theory Providers
  imports CliPlugin Azure Gcp Aws Vault
begin

text \<open>
  \<open>kms.Get\<close> in a program that links every provider: the \<open>init\<close> functions of the provider packages, the
  option of \<open>gcp/option.go\<close> that only one of them understands, and the plugin system behind them.  What
  the providers are linked against is one record of parameters, and a value of the interface
  \<open>kms.SignerVerifier\<close> says which provider made it.
\<close>

section \<open>Options\<close>

text \<open>An RPC option is one of the options every provider knows, or a client option of Google Cloud.\<close>

datatype 'o rpc_option = RPC sig_option | requestGoogleAPIClientOption 'o

definition WithGoogleAPIClientOption :: "'o \<Rightarrow> 'o rpc_option" where
  "WithGoogleAPIClientOption opt = requestGoogleAPIClientOption opt"

text \<open>The variable behind the pointer is nil (\<open>None\<close>) before it is set.\<close>

definition ApplyGoogleAPIClientOption :: "'o \<Rightarrow> 'o option \<Rightarrow> 'o option" where
  "ApplyGoogleAPIClientOption r opt = Some r"

text \<open>The client options of Google Cloud embed \<open>NoOpOptionImpl\<close>: for every other purpose they are not there.\<close>

fun rpc_options :: "'o rpc_option list \<Rightarrow> sig_option list" where
  "rpc_options [] = []"
| "rpc_options (RPC o1 # opts) = o1 # rpc_options opts"
| "rpc_options (requestGoogleAPIClientOption _ # opts) = rpc_options opts"

section \<open>What the providers are linked against\<close>

record ('k, 'v, 'o) kms_libs =
  lib_crypto :: crypto_lib
  lib_aws :: "'v aws_lib"
  lib_azure :: "'v az_lib"
  lib_gcp :: "'o option list \<Rightarrow> 'v gcp_lib"
  lib_ttl :: "('k, public_key) ttl_lib"
  lib_vault :: "'v vault_lib"
  env_AWS_TLS_INSECURE_SKIP_VERIFY :: string
  env_AZURE_ENVIRONMENT :: string

datatype ('o, 'p) kms_SignerVerifier =
    Aws_SV awsClient
  | Azure_SV azureVaultClient
  | Gcp_SV "'o option list" gcpClient
  | Vault_SV hv_SignerVerifier
  | Fake_SV fake_SignerVerifier
  | Plugin_SV "'p PluginClient"

type_synonym ('k, 'v, 'o, 'p) kms_init = "('o rpc_option, ('k, 'v) kms_state, ('o, 'p) kms_SignerVerifier) ProviderInit"

definition as_interface :: "('a \<Rightarrow> 'b) \<Rightarrow> ('s, 'a) step \<Rightarrow> ('s, 'b) step" where
  "as_interface f m = go_then m (\<lambda>x. go_ret (f x))"

lemma as_interface_Ret [simp]:
  "as_interface f m s = (Ret y, s') \<longleftrightarrow> (\<exists>x. m s = (Ret x, s') \<and> y = f x)"
  by (auto simp: as_interface_def go_then_Ret_iff)

section \<open>The functions the packages register\<close>

definition aws_init :: "('k, 'v, 'o) kms_libs \<Rightarrow> ('k, 'v, 'o, 'p) kms_init" where
  "aws_init B ctx keyResourceID _ opts =
     as_interface Aws_SV (go_lift (aws_LoadSignerVerifier (lib_aws B) (env_AWS_TLS_INSECURE_SKIP_VERIFY B) keyResourceID))"

definition az_init :: "('k, 'v, 'o) kms_libs \<Rightarrow> ('k, 'v, 'o, 'p) kms_init" where
  "az_init B ctx keyResourceID _ opts =
     as_interface Azure_SV (go_lift (az_LoadSignerVerifier (lib_azure B) (env_AZURE_ENVIRONMENT B) keyResourceID))"

text \<open>The loop that picks the client options of Google Cloud out of the options.\<close>

fun gcp_clientOpts :: "'o rpc_option list \<Rightarrow> 'o option list \<Rightarrow> 'o option list" where
  "gcp_clientOpts [] clientOpts = clientOpts"
| "gcp_clientOpts (opt # opts) clientOpts = (case opt of
     requestGoogleAPIClientOption r \<Rightarrow> gcp_clientOpts opts (clientOpts @ [ApplyGoogleAPIClientOption r None])
   | _ \<Rightarrow> gcp_clientOpts opts clientOpts)"

definition gcp_init :: "('k, 'v, 'o) kms_libs \<Rightarrow> ('k, 'v, 'o, 'p) kms_init" where
  "gcp_init B ctx keyResourceID _ opts =
     (let clientOpts = gcp_clientOpts opts []
      in as_interface (Gcp_SV clientOpts) (go_lift (gcp_LoadSignerVerifier (lib_gcp B clientOpts) keyResourceID)))"

definition hv_init :: "('k, 'v, 'o) kms_libs \<Rightarrow> ('k, 'v, 'o, 'p) kms_init" where
  "hv_init B _ keyResourceID hashFunc opts =
     as_interface Vault_SV (hv_LoadSignerVerifier (lib_ttl B) (lib_vault B) keyResourceID hashFunc (rpc_options opts))"

text \<open>The in-memory provider only touches the process.\<close>

definition fake_registered :: "('k, 'v, 'o) kms_libs \<Rightarrow> ('k, 'v, 'o, 'p) kms_init" where
  "fake_registered B ctx keyResourceID hf opts =
     as_interface Fake_SV (on_world (fake_init (lib_crypto B) ctx keyResourceID hf opts))"

text \<open>The map after the \<open>init\<close> functions have run.\<close>

definition registered :: "('k, 'v, 'o) kms_libs \<Rightarrow>
    ('o rpc_option, ('k, 'v) kms_state, ('o, 'p) kms_SignerVerifier) providersMap" where
  "registered B =
     AddProvider HashivaultReferenceScheme (hv_init B)
      (AddProvider GcpReferenceScheme (gcp_init B)
      (AddProvider FakeReferenceScheme (fake_registered B)
      (AddProvider AzureReferenceScheme (az_init B)
      (AddProvider AwsReferenceScheme (aws_init B) []))))"

text \<open>The plugin system, which \<open>kms.Get\<close> falls back to.\<close>

definition plugin_init :: "(string \<Rightarrow> unit outcome) \<Rightarrow> 'p makeCmdFunc \<Rightarrow> ('k, 'v, 'o, 'p) kms_init" where
  "plugin_init look mk ctx keyResourceID hashFunc opts =
     as_interface Plugin_SV (go_lift (plugin_LoadSignerVerifier look mk ctx keyResourceID hashFunc (rpc_options opts)))"

section \<open>Algorithms behind the interface\<close>

text \<open>The calls of two methods through the interface: a built-in provider answers from a table, a plugin is
  started.\<close>

definition kms_SV_SupportedAlgorithms :: "json_lib \<Rightarrow> ('o, 'p) kms_SignerVerifier \<Rightarrow> ('p, string list) step" where
  "kms_SV_SupportedAlgorithms J sv = (case sv of
       Aws_SV _ \<Rightarrow> go_ret aws_SupportedAlgorithms
     | Azure_SV _ \<Rightarrow> go_ret az_SupportedAlgorithms
     | Gcp_SV _ _ \<Rightarrow> go_ret gcp_SupportedAlgorithms
     | Vault_SV _ \<Rightarrow> go_ret hv_SupportedAlgorithms
     | Fake_SV _ \<Rightarrow> go_ret fake_SupportedAlgorithms
     | Plugin_SV c \<Rightarrow> pc_SupportedAlgorithms J c)"

definition kms_SV_DefaultAlgorithm :: "json_lib \<Rightarrow> ('o, 'p) kms_SignerVerifier \<Rightarrow> ('p, string) step" where
  "kms_SV_DefaultAlgorithm J sv = (case sv of
       Aws_SV _ \<Rightarrow> go_ret aws_DefaultAlgorithm
     | Azure_SV _ \<Rightarrow> go_ret az_DefaultAlgorithm
     | Gcp_SV _ _ \<Rightarrow> go_ret gcp_DefaultAlgorithm
     | Vault_SV _ \<Rightarrow> go_ret hv_DefaultAlgorithm
     | Fake_SV _ \<Rightarrow> go_ret fake_DefaultAlgorithm
     | Plugin_SV c \<Rightarrow> pc_DefaultAlgorithm J c)"

lemma builtin_default_supported:
  assumes "\<forall>c. sv \<noteq> Plugin_SV c"
  obtains d ds where "kms_SV_DefaultAlgorithm J sv s = (Ret d, s)" "kms_SV_SupportedAlgorithms J sv s = (Ret ds, s)" "d \<in> set ds"
  using assms
  by (cases sv)
    (auto simp: kms_SV_DefaultAlgorithm_def kms_SV_SupportedAlgorithms_def aws_DefaultAlgorithm_def aws_SupportedAlgorithms_def
      awsSupportedAlgorithms_def az_DefaultAlgorithm_def az_SupportedAlgorithms_def azureSupportedAlgorithms_def
      gcp_DefaultAlgorithm_def gcp_SupportedAlgorithms_def algorithmMap_def hv_DefaultAlgorithm_def
      hv_SupportedAlgorithms_def hvSupportedAlgorithms_def fake_DefaultAlgorithm_def fake_SupportedAlgorithms_def)

section \<open>Which provider serves a reference\<close>

lemma errors_Is_refl [simp]: "errors_Is e e"
  by (cases e) simp_all

lemmas reference_schemes = AwsReferenceScheme_def AzureReferenceScheme_def FakeReferenceScheme_def
  GcpReferenceScheme_def HashivaultReferenceScheme_def

lemma registered_list:
  "registered B = [(AwsReferenceScheme, aws_init B), (AzureReferenceScheme, az_init B),
     (FakeReferenceScheme, fake_registered B), (GcpReferenceScheme, gcp_init B), (HashivaultReferenceScheme, hv_init B)]"
  by (simp add: registered_def AddProvider_def reference_schemes)

lemma registered_distinct: "distinct (map fst (registered B))"
  by (simp add: registered_list reference_schemes)

lemma registered_prefix_free: "prefix_free (map fst (registered B))"
  by (simp add: registered_list prefix_free_def reference_schemes HasPrefix_def)

text \<open>A provider that is registered serves every reference of its scheme, in whatever order the map is
  iterated.\<close>

lemma kms_Get_registered:
  assumes "mset ps = mset (registered B)" "(scheme, init) \<in> set (registered B)" "HasPrefix ref scheme"
  shows "kms_Get ps plugin ctx ref hf opts = init ctx ref hf opts"
proof -
  have ps: "set ps = set (registered B)" using assms(1) by (metis set_mset_mset)
  have d: "mset (map fst ps) = mset (map fst (registered B)) \<Longrightarrow> distinct (map fst ps)"
    using registered_distinct mset_eq_imp_distinct_iff by blast
  have "distinct (map fst ps)" by (rule d) (use arg_cong [OF assms(1), of "image_mset fst"] in \<open>simp only: mset_map\<close>)
  moreover have "prefix_free (map fst ps)"
    using registered_prefix_free by (simp add: prefix_free_def ps)
  ultimately show ?thesis
    using find_provider_unique [of ps scheme init ref] assms(2,3) by (simp add: ps kms_Get_def)
qed

lemma kms_Get_Ret:
  assumes "mset ps = mset (registered B)" "kms_Get ps plugin ctx ref hf opts s = (Ret sv, s')"
  obtains scheme init where "(scheme, init) \<in> set (registered B)" "HasPrefix ref scheme"
      "init ctx ref hf opts s = (Ret sv, s')"
    | "\<forall>scheme \<in> set (SupportedProviders ps). \<not> HasPrefix ref scheme" "plugin ctx ref hf opts s = (Ret sv, s')"
proof (cases "find (\<lambda>(r, _). HasPrefix ref r) ps")
  case None
  then have "\<forall>scheme \<in> set (SupportedProviders ps). \<not> HasPrefix ref scheme"
    by (auto simp: find_None_iff SupportedProviders_def)
  moreover have "plugin ctx ref hf opts s = (Ret sv, s')"
    using assms(2) None by (auto simp: kms_Get_def split: prod.splits outcome.splits if_splits)
  ultimately show thesis by (rule that(2))
next
  case (Some rp)
  obtain scheme init where rp: "rp = (scheme, init)" by (cases rp)
  from find_Some_mem [OF Some] rp have "(scheme, init) \<in> set ps" "HasPrefix ref scheme" by auto
  moreover have "set ps = set (registered B)" using assms(1) by (metis set_mset_mset)
  ultimately show thesis using that(1) [of scheme init] assms(2) Some rp by (simp add: kms_Get_def)
qed

section \<open>What each provider loads\<close>

lemma gcp_clientOpts_append:
  "gcp_clientOpts opts acc = acc @ map Some [r. requestGoogleAPIClientOption r \<leftarrow> opts]"
  by (induction opts arbitrary: acc) (auto simp: ApplyGoogleAPIClientOption_def split: rpc_option.splits)

lemma aws_init_Ret:
  "aws_init B ctx ref hf opts s = (Ret sv, s') \<Longrightarrow>
   \<exists>a. sv = Aws_SV a \<and> s' = s \<and> aws_ParseReference ref = Ret (aws_endpoint a, aws_keyID a, aws_alias a)"
  by (auto simp: aws_init_def aws_LoadSignerVerifier_def newAWSClient_def outcome_simps)

lemma az_init_Ret:
  "az_init B ctx ref hf opts s = (Ret sv, s') \<Longrightarrow>
   \<exists>a. sv = Azure_SV a \<and> s' = s \<and> az_parseReference ref = Ret (az_vaultURL a, az_keyName a, az_keyVersion a)"
  by (auto simp: az_init_def az_LoadSignerVerifier_def newAzureKMS_def outcome_simps Let_def)

lemma gcp_init_Ret:
  "gcp_init B ctx ref hf opts s = (Ret sv, s') \<Longrightarrow>
   \<exists>g. sv = Gcp_SV (gcp_clientOpts opts []) g \<and> s' = s \<and>
     gcp_parseReference ref = Ret (gcp_projectID g, gcp_locationID g, gcp_keyRing g, gcp_keyName g, gcp_version g)"
  by (auto simp: gcp_init_def gcp_LoadSignerVerifier_def newGCPClient_def outcome_simps Let_def)

text \<open>The credentials among the options: for each field the last one that is not empty.\<close>

definition given_address :: "sig_option \<Rightarrow> string option" where
  "given_address opt = (case opt of RPCAuthOpts r \<Rightarrow> if auth_Address r = [] then None else Some (auth_Address r) | _ \<Rightarrow> None)"

definition given_path :: "sig_option \<Rightarrow> string option" where
  "given_path opt = (case opt of RPCAuthOpts r \<Rightarrow> if auth_Path r = [] then None else Some (auth_Path r) | _ \<Rightarrow> None)"

definition given_token :: "sig_option \<Rightarrow> string option" where
  "given_token opt = (case opt of RPCAuthOpts r \<Rightarrow> if auth_Token r = [] then None else Some (auth_Token r) | _ \<Rightarrow> None)"

definition given_oidc :: "sig_option \<Rightarrow> rpc_auth_oidc option" where
  "given_oidc opt = (case opt of RPCAuthOpts r \<Rightarrow> if oidc_Token (auth_OIDC r) = [] then None else Some (auth_OIDC r) | _ \<Rightarrow> None)"

definition last_or :: "'b \<Rightarrow> ('a \<Rightarrow> 'b option) \<Rightarrow> 'a list \<Rightarrow> 'b" where
  "last_or d f opts = (case last_set f opts of None \<Rightarrow> d | Some x \<Rightarrow> x)"

lemma fold_ApplyRPCAuthOpts:
  "auth_Address (fold ApplyRPCAuthOpts opts a) = last_or (auth_Address a) given_address opts"
  "auth_Path (fold ApplyRPCAuthOpts opts a) = last_or (auth_Path a) given_path opts"
  "auth_Token (fold ApplyRPCAuthOpts opts a) = last_or (auth_Token a) given_token opts"
  "auth_OIDC (fold ApplyRPCAuthOpts opts a) = last_or (auth_OIDC a) given_oidc opts"
  by (induction opts arbitrary: a)
    (auto simp: last_or_def ApplyRPCAuthOpts_def Let_def given_address_def given_path_def given_token_def given_oidc_def
      split: sig_option.splits option.splits)

text \<open>The token of a Vault client: the one it was given, or that of the environment, or that of the file in the
  home directory.\<close>

definition token_in_use :: "'v vault_lib \<Rightarrow> string \<Rightarrow> string \<Rightarrow> bool" where
  "token_in_use V given token \<longleftrightarrow>
     (if or_env V given ''VAULT_TOKEN'' \<noteq> [] then token = or_env V given ''VAULT_TOKEN''
      else \<exists>homeDir b. homedir_Dir V = Ret homeDir \<and> hv_ReadFile V (path_Join [homeDir, ''.vault-token'']) = Ret b \<and> token = string_of b)"

lemma newHashivaultClient_Ret:
  "newHashivaultClient V address token path ref v = Ret h \<Longrightarrow>
   hv_parseReference ref = Ret (hv_keyPath h) \<and> hv_keyVersion h = v \<and>
   api_Address (hv_client h) = or_env V address ''VAULT_ADDR'' \<and> api_Address (hv_client h) \<noteq> [] \<and>
   token_in_use V token (api_Token (hv_client h)) \<and>
   hv_transitSecretEnginePath h = (if or_env V path ''TRANSIT_SECRET_ENGINE_PATH'' = [] then ''transit''
     else or_env V path ''TRANSIT_SECRET_ENGINE_PATH'')"
  by (auto simp: newHashivaultClient_def token_in_use_def outcome_simps Let_def split: if_splits)

text \<open>What the options say of a Vault client that was loaded in state \<open>s\<close>.\<close>

definition vault_configured ::
  "'v vault_lib \<Rightarrow> sig_option list \<Rightarrow> hashivaultClient \<Rightarrow> ('k, 'v) kms_state \<Rightarrow> bool" where
  "vault_configured V opts h s \<longleftrightarrow>
     (let address = last_or [] given_address opts; path = or_env V (last_or [] given_path opts) ''TRANSIT_SECRET_ENGINE_PATH'';
          version = last_or [] set_key_version opts
      in (if version = [] then hv_keyVersion h = 0 else ParseUint version = Ret (hv_keyVersion h)) \<and>
         api_Address (hv_client h) = or_env V address ''VAULT_ADDR'' \<and> api_Address (hv_client h) \<noteq> [] \<and>
         hv_transitSecretEnginePath h = (if path = [] then ''transit'' else path) \<and>
         (case last_set given_oidc opts of
            None \<Rightarrow> token_in_use V (last_or [] given_token opts) (api_Token (hv_client h))
          | Some oidc \<Rightarrow> \<exists>token s1. oidcLogin V address (oidc_Path oidc) (oidc_Role oidc) (oidc_Token oidc) s = (Ret token, s1) \<and>
              token_in_use V token (api_Token (hv_client h))))"

lemma given_oidc_token: "last_set given_oidc opts = Some oidc \<Longrightarrow> oidc_Token oidc \<noteq> []"
  by (induction opts) (auto simp: given_oidc_def split: option.splits sig_option.splits if_splits)

lemma hv_init_Ret:
  "hv_init B ctx ref hf opts s = (Ret sv, s') \<Longrightarrow>
   \<exists>h. sv = Vault_SV h \<and> hv_hashFunc h = hf \<and> hf \<in> set hvSupportedHashFuncs \<and>
     hv_parseReference ref = Ret (hv_keyPath (hv_sv_client h)) \<and>
     vault_configured (lib_vault B) (rpc_options opts) (hv_sv_client h) s \<and>
     (last_set given_oidc (rpc_options opts) = None \<longrightarrow> s' = s\<lparr>kms_cache := ttl_New (lib_ttl B)\<rparr>)"
proof -
  let ?o = "rpc_options opts" let ?V = "lib_vault B"
  assume "hv_init B ctx ref hf opts s = (Ret sv, s')"
  then obtain h where h: "sv = Vault_SV h" "hv_LoadSignerVerifier (lib_ttl B) ?V ref hf ?o s = (Ret h, s')"
    by (auto simp: hv_init_def)
  have v: "fold ApplyKeyVersion ?o [] = last_or [] set_key_version ?o"
    by (simp add: last_or_def keyversion_opt.fold_last)
  have z: "auth_Address no_rpc_auth = []" "auth_Path no_rpc_auth = []" "auth_Token no_rpc_auth = []" "oidc_Token (auth_OIDC no_rpc_auth) = []"
    by (simp_all add: no_rpc_auth_def)
  show ?thesis
  proof (cases "last_set given_oidc ?o")
    case None
    with h z show ?thesis
      by (auto simp: hv_LoadSignerVerifier_def hvSupportedHashFuncs_def Let_def go_then_Ret_iff fold_ApplyRPCAuthOpts v
          vault_configured_def last_or_def dest!: newHashivaultClient_Ret split: if_splits)
  next
    case (Some oidc)
    with h z given_oidc_token [OF Some] show ?thesis
      by (auto simp: hv_LoadSignerVerifier_def hvSupportedHashFuncs_def Let_def go_then_Ret_iff fold_ApplyRPCAuthOpts v
          vault_configured_def last_or_def dest!: newHashivaultClient_Ret split: if_splits)
  qed
qed

lemma fake_registered_Ret:
  "fake_registered B ctx ref hf opts s = (Ret sv, s') \<Longrightarrow>
   \<exists>f. sv = Fake_SV f \<and> s' = s \<and> fake_LoadSignerVerifier (lib_crypto B) ctx hf = Ret f"
  by (auto simp: fake_registered_def fake_init_def on_world_Ret)

lemma plugin_init_Ret:
  "plugin_init look mk ctx ref hf opts s = (Ret sv, s') \<Longrightarrow>
   \<exists>c name. sv = Plugin_SV c \<and> s' = s \<and> ref = name @ ''://'' @ io_KeyResourceID (pc_initOptions c) \<and>
     pc_executable c = PluginBinaryPrefix @ name \<and> look (pc_executable c) = Ret () \<and> pc_makeCmdFunc c = mk \<and> ctx_err ctx = None \<and>
     io_HashFunc (pc_initOptions c) = hf \<and> io_CtxDeadline (pc_initOptions c) = ctx_deadline ctx \<and>
     io_RPCOptions (pc_initOptions c) = PackRPCOptions (rpc_options opts)"
  by (auto simp: plugin_init_def plugin_LoadSignerVerifier_def newPluginClient_def
      getPluginExecutableAndKeyResourceID_def outcome_simps dest: cut_Some split: option.splits prod.splits)

section \<open>Properties\<close>

text \<open>C11: what \<open>kms.Get\<close> returns, whatever the order of the map, is a value of the provider whose scheme the
  reference has, for the key its grammar finds there: the client of Google Cloud gets exactly the client
  options among the options, in order, the Vault client keeps the hash function it was asked for, and only a
  supported one, and has the key version, the address, the path and the token or OIDC login the options give last, with
  the environment and the defaults in place of what they leave out.  A plugin is returned for references of no
  registered scheme, after its program was found, and gets what follows the first separator, the hash function, the
  deadline of the context and the options packed.  Only Vault may be contacted on the way, and only to log in.\<close>

theorem get_loads_what_is_named:
  assumes "mset ps = mset (registered B)"
    and "kms_Get ps (plugin_init look mk) ctx ref hf opts s = (Ret sv, s')"
  shows "((\<forall>h. sv \<noteq> Vault_SV h) \<longrightarrow> s' = s) \<and>
    (case sv of
       Aws_SV a \<Rightarrow> HasPrefix ref ''awskms://'' \<and> aws_ParseReference ref = Ret (aws_endpoint a, aws_keyID a, aws_alias a)
     | Azure_SV a \<Rightarrow> HasPrefix ref ''azurekms://'' \<and>
         az_parseReference ref = Ret (az_vaultURL a, az_keyName a, az_keyVersion a)
     | Gcp_SV clientOpts g \<Rightarrow> HasPrefix ref ''gcpkms://'' \<and>
         gcp_parseReference ref = Ret (gcp_projectID g, gcp_locationID g, gcp_keyRing g, gcp_keyName g, gcp_version g) \<and>
         clientOpts = map Some [r. requestGoogleAPIClientOption r \<leftarrow> opts]
     | Vault_SV h \<Rightarrow> HasPrefix ref ''hashivault://'' \<and> hv_parseReference ref = Ret (hv_keyPath (hv_sv_client h)) \<and>
         hv_hashFunc h = hf \<and> hf \<in> {SHA224, SHA256, SHA384, SHA512, NoHash} \<and>
         vault_configured (lib_vault B) (rpc_options opts) (hv_sv_client h) s \<and>
         (last_set given_oidc (rpc_options opts) = None \<longrightarrow> s' = s\<lparr>kms_cache := ttl_New (lib_ttl B)\<rparr>)
     | Fake_SV f \<Rightarrow> HasPrefix ref ''fakekms://'' \<and> fake_LoadSignerVerifier (lib_crypto B) ctx hf = Ret f
     | Plugin_SV c \<Rightarrow> (\<forall>scheme \<in> set (SupportedProviders ps). \<not> HasPrefix ref scheme) \<and>
         (\<exists>name. ref = name @ ''://'' @ io_KeyResourceID (pc_initOptions c) \<and>
            pc_executable c = ''sigstore-kms-'' @ name \<and> look (pc_executable c) = Ret ()) \<and> pc_makeCmdFunc c = mk \<and>
         io_HashFunc (pc_initOptions c) = hf \<and> io_CtxDeadline (pc_initOptions c) = ctx_deadline ctx \<and>
         io_RPCOptions (pc_initOptions c) = PackRPCOptions (rpc_options opts))"
  using assms
proof (cases rule: kms_Get_Ret)
  case (1 scheme init)
  from 1(1) show ?thesis
    unfolding registered_list using 1(2,3)
    by (auto simp: reference_schemes hvSupportedHashFuncs_def gcp_clientOpts_append
        dest!: aws_init_Ret az_init_Ret gcp_init_Ret hv_init_Ret fake_registered_Ret)
next
  case 2
  then show ?thesis by (auto simp: PluginBinaryPrefix_def dest!: plugin_init_Ret)
qed

definition ref_libs :: "((public_key \<times> int option) option, unit, string) kms_libs" where
  "ref_libs = \<lparr>lib_crypto = ref_lib, lib_aws = ref_aws, lib_azure = ref_az, lib_gcp = (\<lambda>_. ref_gcp), lib_ttl = ref_ttl,
     lib_vault = ref_vault, env_AWS_TLS_INSECURE_SKIP_VERIFY = [], env_AZURE_ENVIRONMENT = []\<rparr>"

definition no_process :: "unit makeCmdFunc" where
  "no_process ctx stdin name args s = (Ret ([], None), s)"

lemma ref_gcp_reference:
  "gcp_ValidReference ''gcpkms://projects/p/locations/l/keyRings/r/cryptoKeys/k'' = Ret ()"
  "gcp_parseReference ''gcpkms://projects/p/locations/l/keyRings/r/cryptoKeys/k'' = Ret (''p'', ''l'', ''r'', ''k'', [])"
  by code_simp+

lemma get_loads_what_is_named_witness:
  "\<exists>g s'. kms_Get (registered ref_libs) (plugin_init (\<lambda>_. Ret ()) no_process) Background
       ''gcpkms://projects/p/locations/l/keyRings/r/cryptoKeys/k'' SHA256
       [WithGoogleAPIClientOption ''endpoint'', RPC (WithKeyVersion ''1''), WithGoogleAPIClientOption ''quota''] ref_az_state =
       (Ret (Gcp_SV [Some ''endpoint'', Some ''quota''] g), s') \<and> s' = ref_az_state \<and> gcp_keyName g = ''k''"
proof -
  let ?ref = "''gcpkms://projects/p/locations/l/keyRings/r/cryptoKeys/k''"
  let ?opts = "[WithGoogleAPIClientOption ''endpoint'', RPC (WithKeyVersion ''1''), WithGoogleAPIClientOption ''quota'']"
  have "kms_Get (registered ref_libs) (plugin_init (\<lambda>_. Ret ()) no_process) Background ?ref SHA256 ?opts ref_az_state =
      gcp_init ref_libs Background ?ref SHA256 ?opts ref_az_state"
    by (rule kms_Get_registered [THEN fun_cong, OF refl, of GcpReferenceScheme])
      (simp_all add: registered_list GcpReferenceScheme_def HasPrefix_def)
  also have "\<exists>os g. \<dots> = (Ret (Gcp_SV os g), ref_az_state)"
    by (simp add: gcp_init_def gcp_LoadSignerVerifier_def newGCPClient_def ref_gcp_reference ref_libs_def
        ref_gcp_def as_interface_def)
  finally obtain os g where r: "kms_Get (registered ref_libs) (plugin_init (\<lambda>_. Ret ()) no_process) Background ?ref SHA256 ?opts
      ref_az_state = (Ret (Gcp_SV os g), ref_az_state)" by blast
  from get_loads_what_is_named [OF refl r] r show ?thesis
    by (auto simp: ref_gcp_reference WithGoogleAPIClientOption_def)
qed

text \<open>For a reference of no registered scheme the plugin system decides.  A reference with no separator, and
  one whose plugin program is not installed, give a \<open>ProviderNotFoundError\<close> that keeps the cause; every other
  error of the search is passed on; a program that is found is not started yet.\<close>

theorem get_without_provider:
  assumes "mset ps = mset (registered B)" "\<forall>scheme \<in> set (SupportedProviders ps). \<not> HasPrefix ref scheme"
  shows "kms_Get ps (plugin_init look mk) ctx ref hf opts s =
    (let not_found = (\<lambda>e. if errors_Is e exec_ErrNotFound \<or> errors_Is e ErrorInputKeyResourceID
                          then Wrap2 (ProviderNotFoundError ref) e else e)
     in (case ctx_err ctx of
       Some e \<Rightarrow> Err (not_found e)
     | None \<Rightarrow> (case cut ''://'' ref of
         None \<Rightarrow> Err (Wrap2 (ProviderNotFoundError ref) (Wrap ''expected format: [plugin name]://[key ref]'' ErrorInputKeyResourceID))
       | Some (name, key) \<Rightarrow> (case look (''sigstore-kms-'' @ name) of
           Ret _ \<Rightarrow> Ret (Plugin_SV (newPluginClient (''sigstore-kms-'' @ name)
             \<lparr>io_CtxDeadline = ctx_deadline ctx, io_ProtocolVersion = ProtocolVersion, io_KeyResourceID = key,
              io_HashFunc = hf, io_RPCOptions = PackRPCOptions (rpc_options opts)\<rparr> mk))
         | Err e \<Rightarrow> Err (not_found e)
         | Panic p \<Rightarrow> Panic p)), s))"
proof -
  have "find (\<lambda>(r, _). HasPrefix ref r) ps = None"
    using assms(2) by (auto simp: find_None_iff SupportedProviders_def)
  then show ?thesis
    by (auto simp: kms_Get_def plugin_init_def plugin_LoadSignerVerifier_def as_interface_def PluginBinaryPrefix_def
        getPluginExecutableAndKeyResourceID_def Let_def split: option.splits outcome.splits)
qed

lemma get_without_provider_witness:
  "kms_Get (registered ref_libs) (plugin_init (\<lambda>_. Err (Wrap ''exec'' exec_ErrNotFound)) no_process) Background
     ''mykms://key'' SHA256 ([] :: string rpc_option list) ref_az_state =
   (Err (Wrap2 (ProviderNotFoundError ''mykms://key'') (Wrap ''exec'' exec_ErrNotFound)), ref_az_state)"
  by (subst get_without_provider [OF refl])
    (simp_all add: SupportedProviders_def registered_list reference_schemes HasPrefix_def Background_def Let_def)

end
