(* ===== verification/OAuthToken.thy ===== *)
theory OAuthToken
  imports World Decimal
begin

text \<open>
  \<open>pkg/oauth/internal/token.go\<close>: reading the response of a token endpoint.  Responses are values;
  query strings, JSON and media types are parameters.  Times are nanoseconds, and a
  \<open>time.Duration\<close> is a 64-bit integer, so a product of durations wraps.
\<close>

section \<open>HTTP responses and form values\<close>

record http_response =
  resp_StatusCode :: int
  resp_Status :: string
  resp_ContentType :: string
  resp_Body :: stream

definition StatusOK :: int where "StatusOK = 200"

definition body_bytes :: "stream \<Rightarrow> bytes outcome" where
  "body_bytes st = (case st of Stream b e \<Rightarrow> (case e of None \<Rightarrow> Ret b | Some x \<Rightarrow> Err x))"

definition LimitReader :: "nat \<Rightarrow> stream \<Rightarrow> stream" where
  "LimitReader n st = (case st of Stream b e \<Rightarrow> if n \<le> length b then Stream (take n b) None else st)"

type_synonym url_values = "string \<rightharpoonup> string list"

definition values_Get :: "url_values \<Rightarrow> string \<Rightarrow> string" where
  "values_Get v k = (case v k of Some (x # xs) \<Rightarrow> x | _ \<Rightarrow> [])"

section \<open>Tokens\<close>

text \<open>What \<open>WithExtra\<close> keeps beside the fields of a token; \<open>'j\<close> is a decoded JSON object.\<close>

datatype 'j token_raw = Form_raw url_values | Json_raw 'j

record 'j oauth2_token =
  ot_AccessToken :: string
  ot_TokenType :: string
  ot_RefreshToken :: string
  ot_Expiry :: "int option"
  ot_raw :: "'j token_raw option"

record tokenRespJSON =
  tj_AccessToken :: string
  tj_TokenType :: string
  tj_RefreshToken :: string
  tj_ExpiresIn :: "64 word"
  tj_Scope :: string

record 'j token_lib =
  url_ParseQuery :: "string \<Rightarrow> url_values outcome"
  json_tokenRespJSON :: "bytes \<Rightarrow> tokenRespJSON outcome"
  json_object :: "bytes \<Rightarrow> 'j outcome"
  json_ErrorTokenResponse :: "bytes \<Rightarrow> (string \<times> string \<times> string) outcome"
  mime_ParseMediaType :: "string \<Rightarrow> string"

text \<open>\<open>strconv.Atoi\<close> on a 64-bit machine.\<close>

definition Atoi :: "string \<Rightarrow> 64 word outcome" where
  "Atoi s =
     (let neg = (case s of c # _ \<Rightarrow> c = CHR ''-'' | [] \<Rightarrow> False);
          t = (case s of c # r \<Rightarrow> (if c = CHR ''-'' \<or> c = CHR ''+'' then r else s) | [] \<Rightarrow> [])
      in if t = [] \<or> \<not> list_all is_digit t then Err (Msg ''invalid syntax'')
         else if neg then (if dec_value t \<le> 2 ^ 63 then Ret (- word_of_nat (dec_value t)) else Err (Msg ''value out of range''))
         else (if dec_value t < 2 ^ 63 then Ret (word_of_nat (dec_value t)) else Err (Msg ''value out of range'')))"

text \<open>\<open>currentTime().Add(time.Duration(n) * time.Second)\<close>.\<close>

definition time_Second :: "64 word" where "time_Second = 1000000000"

definition time_Add_seconds :: "int \<Rightarrow> 64 word \<Rightarrow> int" where
  "time_Add_seconds now n = now + sint (n * time_Second)"

definition expiry_in :: "int \<Rightarrow> 64 word \<Rightarrow> int option" where
  "expiry_in now n = (if n \<noteq> 0 then Some (time_Add_seconds now n) else None)"

definition parseFormURLEncodedAccessTokenSuccess :: "'j token_lib \<Rightarrow> int \<Rightarrow> bytes \<Rightarrow> 'j oauth2_token outcome" where
  "parseFormURLEncodedAccessTokenSuccess T now body =
     and_then (url_ParseQuery T (string_of body)) (\<lambda>vals.
     let token = \<lparr>ot_AccessToken = values_Get vals ''access_token'', ot_TokenType = values_Get vals ''token_type'',
           ot_RefreshToken = values_Get vals ''refresh_token'', ot_Expiry = None, ot_raw = None\<rparr>;
         ei = values_Get vals ''expires_in''
     in and_then (if ei \<noteq> [] then
            and_then (wrap_outcome ''failed to parse \"expires_in\"'' (Atoi ei)) (\<lambda>expires.
            Ret (token\<lparr>ot_Expiry := expiry_in now expires\<rparr>))
          else Ret token) (\<lambda>token. Ret (token\<lparr>ot_raw := Some (Form_raw vals)\<rparr>)))"

definition parseJSONAccessTokenSuccess :: "'j token_lib \<Rightarrow> int \<Rightarrow> bytes \<Rightarrow> 'j oauth2_token outcome" where
  "parseJSONAccessTokenSuccess T now body =
     and_then (json_tokenRespJSON T body) (\<lambda>tj.
     and_then (json_object T body) (\<lambda>raw.
     Ret \<lparr>ot_AccessToken = tj_AccessToken tj, ot_TokenType = tj_TokenType tj, ot_RefreshToken = tj_RefreshToken tj,
          ot_Expiry = expiry_in now (tj_ExpiresIn tj), ot_raw = Some (Json_raw raw)\<rparr>))"

definition form_content_type :: string where "form_content_type = ''application/x-www-form-urlencoded''"

definition parseAccessTokenSuccess :: "'j token_lib \<Rightarrow> int \<Rightarrow> bytes \<Rightarrow> string \<Rightarrow> 'j oauth2_token outcome" where
  "parseAccessTokenSuccess T now body contentType =
     (if contentType = form_content_type then parseFormURLEncodedAccessTokenSuccess T now body
      else parseJSONAccessTokenSuccess T now body)"

section \<open>Error responses\<close>

definition parseFormURLEncodedAccessTokenError :: "'j token_lib \<Rightarrow> bytes \<Rightarrow> goerr outcome" where
  "parseFormURLEncodedAccessTokenError T body =
     and_then (url_ParseQuery T (string_of body)) (\<lambda>vals.
     Ret (ErrorTokenResponse (values_Get vals ''error'') (values_Get vals ''error_description'') (values_Get vals ''error_uri'')))"

definition parseJSONAccessTokenError :: "'j token_lib \<Rightarrow> bytes \<Rightarrow> goerr outcome" where
  "parseJSONAccessTokenError T body =
     and_then (json_ErrorTokenResponse T body) (\<lambda>(code, description, uri). Ret (ErrorTokenResponse code description uri))"

definition parseAccessTokenError :: "'j token_lib \<Rightarrow> bytes \<Rightarrow> string \<Rightarrow> goerr outcome" where
  "parseAccessTokenError T body contentType =
     (if contentType = form_content_type then parseFormURLEncodedAccessTokenError T body
      else parseJSONAccessTokenError T body)"

definition ParseAccessTokenResponse :: "'j token_lib \<Rightarrow> int \<Rightarrow> http_response \<Rightarrow> 'j oauth2_token outcome" where
  "ParseAccessTokenResponse T now tokenResp =
     and_then (body_bytes (LimitReader (2 ^ 20) (resp_Body tokenResp))) (\<lambda>body.
     let contentType = mime_ParseMediaType T (resp_ContentType tokenResp)
     in if resp_StatusCode tokenResp \<noteq> StatusOK then and_then (parseAccessTokenError T body contentType) Err
        else and_then (parseAccessTokenSuccess T now body contentType) (\<lambda>token.
          if ot_AccessToken token = [] then Err (Msg ''response did not contain \"access_token\"'') else Ret token))"

section \<open>Lifetimes\<close>

lemma sint_seconds: "sint (n * time_Second) = signed_take_bit 63 (sint n * 1000000000)" for n :: "64 word"
  by (simp add: time_Second_def sint_word_ariths)

lemma signed_wrap: "signed_take_bit 63 k = (k + 2 ^ 63) mod 2 ^ 64 - 2 ^ 63" for k :: int
  by (simp add: signed_take_bit_eq_take_bit_shift take_bit_eq_mod)

lemma time_Add_seconds_exact:
  assumes "\<bar>sint n\<bar> \<le> 9223372036"
  shows "time_Add_seconds now n = now + sint n * 1000000000"
proof -
  have "(sint n * 1000000000 + 2 ^ 63) mod 2 ^ 64 = sint n * 1000000000 + 2 ^ 63"
    using assms by (intro mod_pos_pos_trivial) auto
  then show ?thesis unfolding time_Add_seconds_def sint_seconds signed_wrap by simp
qed

lemma time_Add_seconds_wraps:
  assumes "9223372036 < sint n" "sint n \<le> 18446744073"
  shows "time_Add_seconds now n = now + sint n * 1000000000 - 2 ^ 64"
proof -
  have "(sint n * 1000000000 + 2 ^ 63) mod 2 ^ 64 = (sint n * 1000000000 + 2 ^ 63 - 2 ^ 64) mod 2 ^ 64"
    by (metis minus_mod_self2)
  also have "\<dots> = sint n * 1000000000 + 2 ^ 63 - 2 ^ 64"
    using assms by (intro mod_pos_pos_trivial) auto
  finally show ?thesis unfolding time_Add_seconds_def sint_seconds signed_wrap by simp
qed

lemma body_limited: "body_bytes (LimitReader n st) = Ret b \<Longrightarrow> length b \<le> n"
  by (auto simp: body_bytes_def LimitReader_def split: stream.splits option.splits if_splits)

text \<open>The number of seconds a body announces.\<close>

definition announced :: "'j token_lib \<Rightarrow> bytes \<Rightarrow> string \<Rightarrow> 64 word outcome" where
  "announced T body contentType =
     (if contentType = form_content_type
      then and_then (url_ParseQuery T (string_of body)) (\<lambda>vals.
        if values_Get vals ''expires_in'' = [] then Ret 0 else Atoi (values_Get vals ''expires_in''))
      else and_then (json_tokenRespJSON T body) (\<lambda>tj. Ret (tj_ExpiresIn tj)))"

lemma form_announced:
  assumes "parseFormURLEncodedAccessTokenSuccess T now body = Ret token"
  shows "\<exists>n. announced T body form_content_type = Ret n \<and> ot_Expiry token = expiry_in now n"
proof -
  from assms obtain vals where v: "url_ParseQuery T (string_of body) = Ret vals"
    unfolding parseFormURLEncodedAccessTokenSuccess_def by (cases "url_ParseQuery T (string_of body)") simp_all
  let ?ei = "values_Get vals ''expires_in''"
  show ?thesis
  proof (cases "?ei = []")
    case True
    with assms v show ?thesis by (auto simp: parseFormURLEncodedAccessTokenSuccess_def announced_def expiry_in_def)
  next
    case False
    from assms v False obtain n where n: "Atoi ?ei = Ret n"
      unfolding parseFormURLEncodedAccessTokenSuccess_def Let_def by (cases "Atoi ?ei") simp_all
    with assms v False show ?thesis
      unfolding parseFormURLEncodedAccessTokenSuccess_def announced_def Let_def by (intro exI [of _ n]) auto
  qed
qed

lemma json_announced:
  "parseJSONAccessTokenSuccess T now body = Ret token \<Longrightarrow> ct \<noteq> form_content_type \<Longrightarrow>
   \<exists>n. announced T body ct = Ret n \<and> ot_Expiry token = expiry_in now n"
  unfolding parseJSONAccessTokenSuccess_def announced_def
  by (cases "json_tokenRespJSON T body") (auto simp: outcome_simps)

lemma success_announced:
  "parseAccessTokenSuccess T now body ct = Ret token \<Longrightarrow>
   \<exists>n. announced T body ct = Ret n \<and> ot_Expiry token = expiry_in now n"
  unfolding parseAccessTokenSuccess_def
  by (cases "ct = form_content_type") (simp_all add: form_announced json_announced)

lemma sint_eq_0: "sint n = 0 \<longleftrightarrow> n = 0" for n :: "64 word"
  by (metis signed_0 signed_word_eqI)

lemma ParseAccessTokenResponse_Ret:
  assumes "ParseAccessTokenResponse T now resp = Ret token"
  obtains body where "body_bytes (LimitReader (2 ^ 20) (resp_Body resp)) = Ret body" "resp_StatusCode resp = StatusOK"
    "parseAccessTokenSuccess T now body (mime_ParseMediaType T (resp_ContentType resp)) = Ret token" "ot_AccessToken token \<noteq> []"
  using assms unfolding ParseAccessTokenResponse_def Let_def by (auto simp: outcome_simps split: if_splits)

section \<open>Properties\<close>

text \<open>C35: the token of a response comes from at most the first mebibyte of a response with status 200,
  carries a non-empty access token, and expires the announced number of seconds after the response was
  read.  That holds up to 9223372036 seconds; the product is a 64-bit number of nanoseconds, and beyond
  that bound (up to twice as much) it wraps: the token has expired before it arrives.\<close>

theorem token_expiry:
  assumes "ParseAccessTokenResponse T now resp = Ret token"
  shows "\<exists>body n. body_bytes (LimitReader (2 ^ 20) (resp_Body resp)) = Ret body \<and> length body \<le> 2 ^ 20 \<and>
    resp_StatusCode resp = StatusOK \<and> ot_AccessToken token \<noteq> [] \<and>
    announced T body (mime_ParseMediaType T (resp_ContentType resp)) = Ret n \<and>
    (sint n = 0 \<longrightarrow> ot_Expiry token = None) \<and>
    (sint n \<noteq> 0 \<and> \<bar>sint n\<bar> \<le> 9223372036 \<longrightarrow> ot_Expiry token = Some (now + sint n * 1000000000)) \<and>
    (9223372036 < sint n \<and> sint n \<le> 18446744073 \<longrightarrow> (\<exists>t. ot_Expiry token = Some t \<and> t < now))"
proof -
  obtain body where b: "body_bytes (LimitReader (2 ^ 20) (resp_Body resp)) = Ret body" "resp_StatusCode resp = StatusOK"
    "parseAccessTokenSuccess T now body (mime_ParseMediaType T (resp_ContentType resp)) = Ret token" "ot_AccessToken token \<noteq> []"
    using assms by (rule ParseAccessTokenResponse_Ret)
  from success_announced [OF b(3)] obtain n where
    n: "announced T body (mime_ParseMediaType T (resp_ContentType resp)) = Ret n" "ot_Expiry token = expiry_in now n" by blast
  have "9223372036 < sint n \<and> sint n \<le> 18446744073 \<longrightarrow> (\<exists>t. ot_Expiry token = Some t \<and> t < now)"
    using time_Add_seconds_wraps [of n now] by (auto simp: n(2) expiry_in_def)
  with b n body_limited [OF b(1)] show ?thesis
    by (intro exI [of _ body] exI [of _ n]) (auto simp: expiry_in_def time_Add_seconds_exact sint_eq_0)
qed

text \<open>A response in JSON, with a lifetime of three hundred years.\<close>

definition ref_token_lib :: "unit token_lib" where
  "ref_token_lib = \<lparr>url_ParseQuery = (\<lambda>_. Ret (\<lambda>_. None)),
     json_tokenRespJSON = (\<lambda>b. Ret \<lparr>tj_AccessToken = ''token'', tj_TokenType = ''bearer'', tj_RefreshToken = [],
       tj_ExpiresIn = (if b = [] then 3600 else 9467280000), tj_Scope = []\<rparr>),
     json_object = (\<lambda>_. Ret ()), json_ErrorTokenResponse = (\<lambda>_. Ret (''invalid_grant'', [], [])),
     mime_ParseMediaType = (\<lambda>_. ''application/json'')\<rparr>"

definition ref_response :: "bytes \<Rightarrow> http_response" where
  "ref_response b = \<lparr>resp_StatusCode = 200, resp_Status = ''200 OK'', resp_ContentType = [], resp_Body = Stream b None\<rparr>"

lemma ref_token_parse:
  "ParseAccessTokenResponse ref_token_lib now (ref_response [1]) =
     Ret \<lparr>ot_AccessToken = ''token'', ot_TokenType = ''bearer'', ot_RefreshToken = [],
       ot_Expiry = expiry_in now 9467280000, ot_raw = Some (Json_raw ())\<rparr>"
  by (simp add: ParseAccessTokenResponse_def ref_response_def body_bytes_def LimitReader_def StatusOK_def Let_def
      ref_token_lib_def parseAccessTokenSuccess_def form_content_type_def parseJSONAccessTokenSuccess_def)

lemma token_expiry_witness:
  "\<exists>t. expiry_in 0 9467280000 = Some t \<and> t < 0"
proof -
  from token_expiry [OF ref_token_parse [of 0]] obtain body n where
    n: "body_bytes (LimitReader (2 ^ 20) (resp_Body (ref_response [1]))) = Ret body"
       "announced ref_token_lib body (mime_ParseMediaType ref_token_lib (resp_ContentType (ref_response [1]))) = Ret n"
       "9223372036 < sint n \<and> sint n \<le> 18446744073 \<longrightarrow> (\<exists>t. expiry_in 0 9467280000 = Some t \<and> t < 0)" by auto
  then have "n = 9467280000"
    by (auto simp: announced_def ref_token_lib_def ref_response_def body_bytes_def LimitReader_def form_content_type_def)
  moreover have "sint (9467280000 :: 64 word) = 9467280000" by simp
  ultimately show ?thesis using n(3) by simp
qed

end
