(* ===== verification/SuccessPage.thy ===== *)
theory SuccessPage
  imports Decimal
begin

text \<open>
  \<open>pkg/oauth/interactive.go\<close>: the page a browser shows after a successful flow.  The template is a list of
  its texts and actions; parsing it and executing it are the parts of \<open>text/template\<close> it uses: conditionals,
  fields and the trim markers.
\<close>

section \<open>Templates\<close>

datatype action = Act_if string | Act_else | Act_end | Act_field string

text \<open>An action has a trim marker on its left, on its right, on both sides or on none.\<close>

datatype item = Text string | Action bool action bool

datatype node = TextNode string | FieldNode string | IfNode string "node list" "node list"

definition is_space :: "char \<Rightarrow> bool" where
  "is_space c \<longleftrightarrow> c \<in> {CHR '' '', CHR 0x09, CHR 0x0D, CHR 0x0A}"

definition trim_left_space :: "string \<Rightarrow> string" where "trim_left_space s = dropWhile is_space s"
definition trim_right_space :: "string \<Rightarrow> string" where "trim_right_space s = rev (dropWhile is_space (rev s))"

text \<open>A marker removes the white space of the text next to it.\<close>

definition trims_before :: "item list \<Rightarrow> bool" where
  "trims_before is = (case is of Action l _ _ # _ \<Rightarrow> l | _ \<Rightarrow> False)"

fun trim_items :: "bool \<Rightarrow> item list \<Rightarrow> item list" where
  "trim_items _ [] = []"
| "trim_items _ (Action l a r # is) = Action l a r # trim_items r is"
| "trim_items after (Text s # is) =
     (let s = (if after then trim_left_space s else s);
          s = (if trims_before is then trim_right_space s else s)
      in (if s = [] then trim_items False is else Text s # trim_items False is))"

text \<open>The enclosing conditionals: what precedes each of them, its field, and its first branch once that is
  complete.\<close>

type_synonym open_if = "node list \<times> string \<times> node list option"

fun parse_items :: "item list \<Rightarrow> open_if list \<Rightarrow> node list \<Rightarrow> node list outcome" where
  "parse_items [] [] acc = Ret acc"
| "parse_items [] (_ # _) acc = Err (Msg ''unexpected EOF'')"
| "parse_items (Text s # is) st acc = parse_items is st (acc @ [TextNode s])"
| "parse_items (Action _ (Act_field f) _ # is) st acc = parse_items is st (acc @ [FieldNode f])"
| "parse_items (Action _ (Act_if f) _ # is) st acc = parse_items is ((acc, f, None) # st) []"
| "parse_items (Action _ Act_else _ # is) st acc = (case st of
     (outer, f, None) # st' \<Rightarrow> parse_items is ((outer, f, Some acc) # st') []
   | _ \<Rightarrow> Err (Msg ''unexpected {{else}}''))"
| "parse_items (Action _ Act_end _ # is) st acc = (case st of
     (outer, f, None) # st' \<Rightarrow> parse_items is st' (outer @ [IfNode f acc []])
   | (outer, f, Some yes) # st' \<Rightarrow> parse_items is st' (outer @ [IfNode f yes acc])
   | [] \<Rightarrow> Err (Msg ''unexpected {{end}}''))"

definition template_Parse :: "item list \<Rightarrow> node list outcome" where
  "template_Parse is = parse_items (trim_items False is) [] []"

section \<open>Execution\<close>

datatype field_value = Bool_value bool | Int_value int

type_synonym template_data = "(string \<times> field_value) list"

fun truth :: "field_value \<Rightarrow> bool" where
  "truth (Bool_value b) = b"
| "truth (Int_value n) = (n \<noteq> 0)"

definition int_dec :: "int \<Rightarrow> string" where
  "int_dec n = (if n < 0 then ''-'' @ dec (nat (- n)) else dec (nat n))"

fun print_value :: "field_value \<Rightarrow> string" where
  "print_value (Bool_value b) = (if b then ''true'' else ''false'')"
| "print_value (Int_value n) = int_dec n"

definition get_field :: "template_data \<Rightarrow> string \<Rightarrow> field_value outcome" where
  "get_field d f = (case map_of d f of None \<Rightarrow> Err (Msg (''can't evaluate field '' @ f)) | Some v \<Rightarrow> Ret v)"

fun exec_node :: "template_data \<Rightarrow> node \<Rightarrow> string outcome" and exec_nodes :: "template_data \<Rightarrow> node list \<Rightarrow> string outcome" where
  "exec_node d (TextNode s) = Ret s"
| "exec_node d (FieldNode f) = and_then (get_field d f) (\<lambda>v. Ret (print_value v))"
| "exec_node d (IfNode f yes no) =
     and_then (get_field d f) (\<lambda>v. if truth v then exec_nodes d yes else exec_nodes d no)"
| "exec_nodes d [] = Ret []"
| "exec_nodes d (n # ns) = and_then (exec_node d n) (\<lambda>s. and_then (exec_nodes d ns) (\<lambda>t. Ret (s @ t)))"

section \<open>The text of the page\<close>

definition tabs :: "nat \<Rightarrow> string" where "tabs n = replicate n (CHR 0x09)"

definition newline :: string where "newline = [CHR 0x0A]"

text \<open>A line of the page with its indentation.\<close>

definition line :: "nat \<Rightarrow> string \<Rightarrow> string" where "line n s = tabs n @ s @ newline"

text \<open>The arrow of the links, in UTF-8.\<close>

definition arrow :: string where "arrow = [CHR 0xE2, CHR 0x86, CHR 0x92]"

definition page_style :: string where
  "page_style = concat
    [line 0 ''<!DOCTYPE html>'',
     line 0 ''<html>'',
     line 1 ''<head>'',
     line 2 ''<title>Sigstore Authentication</title>'',
     line 2 ''<link id=\"favicon\" rel=\"icon\" type=\"image/svg\"/>'',
     line 2 ''<style>'',
     line 3 '':root { font-family: \"Trebuchet MS\", sans-serif; height: 100%; color: #444444; overflow: hidden; }'',
     line 3 ''body { display: flex; justify-content: center; height: 100%; margin: 0 10%; background: #FFEAD7; }'',
     line 3 ''.container { display: flex; flex-direction: column; justify-content: space-between; }'',
     line 3 ''.sigstore { color: #2F2E71; font-weight: bold; }'',
     line 3 ''.header { position: absolute; top: 30px; left: 22px; }'',
     line 3 ''.title { font-size: 3.5em; margin-bottom: 30px; animation: 750ms ease-in-out 0s 1 show; }'',
     line 3 ''.content { font-size: 1.5em; animation: 250ms hide, 750ms ease-in-out 250ms 1 show; }'',
     line 3 ''.anchor { position: relative; }'',
     line 3 (''.links { display: flex; justify-content: space-between; font-size: 1.2em; padding: 60px 0; position:'' @ '' absolute; bottom: 0; left: 0; right: 0; animation: 500ms hide, 750ms ease-in-out 500ms 1 show; }''),
     line 3 ''.link { color: #444444; text-decoration: none; user-select: none; }'',
     line 3 ''.link:hover { color: #6349FF; }'',
     line 3 ''.link:hover>.arrow { transform: scaleX(1.5) translateX(3px); }'',
     line 3 ''.link:hover>.sigstore { color: inherit; }'',
     line 3 ''.link, .arrow { transition: 200ms; }'',
     line 3 ''.arrow { display: inline-block; margin-left: 6px; transform: scaleX(1.5); }'',
     line 3 (''@keyframes hide { 0%, 100% { opacity: 0; } }''),
     line 3 (''@keyframes show { 0% { opacity: 0; transform: translateY(40px); } 100% { opacity: 1; } }''),
     line 2 ''</style>'',
     line 1 ''</head>'']"

definition page_header :: string where
  "page_header = concat
    [line 1 ''<body>'',
     line 2 ''<div class=\"container\">'',
     line 3 ''<div>'',
     line 4 ''<a class=\"header\" href=\"https://sigstore.dev\">'',
     line 5 ''<svg id=\"logo\" xmlns=\"http://www.w3.org/2000/svg\" xml:space=\"preserve\" width=\"28.14\" height=\"30.3\">'',
     line 6 ''<circle r=\"7\" cx=\"14\" cy=\"15\" fill=\"#FFEAD7\"></circle>'',
     line 6 (''<path fill=\"#2F2E71\" d=\"M27.8 10.9c-.3-1.2-.9-2.2-1.7-3.1-.6-.7-1.3-1.3-2-2-.7-.6-1.2-1.3-1.5-2.1-.2'' @
       ''-.4-.4-.8-.7-1.2-.5-.7-1.3-1.2-2.1-1.6-1.3-.7-2.7-.9-4.2-.9-.8 0-1.6.1-2.4.3-1.2.2-2.3.7-3.4 1.3-.7.'' @
       ''4-1.3.9-1.9 1.4-1 .8-2 1.6-2.8 2.6-.6.8-1.4 1.3-2.2 1.8-.8.4-1.4 1-2 1.6-.6.6-.9 1.3-.9 2.1 0 .6.1 1'' @
       ''.2.2 1.7.2.9.6 1.7.9 2.6.2.5.3 1 .3 1.5s0 1-.1 1.5c-.1 1.1 0 2.3.2 3.4.2 1 .8 1.8 1.8 2.2.1.1.3.1.4.'' @
       ''1.2.1.2.2.1.3l-.1.1c-.4.5-.7 1.1-.6 1.8.1 1.1 1.3 1.8 2.3 1.3.6-.2 1.2 0 1.4.4.1.1.1.2.2.3.2.5.4.9.7'' @
       '' 1.3.4.5.9.7 1.6.6.4-.1.8-.2 1.2-.4.7-.4 1.3-.9 2-1.5.2-.2.4-.2.7-.2.4 0 .8.2 1.2.5.6.4 1.2.7 1.9.9 '' @
       ''1.3.4 2.5.5 3.8.2 1.3-.3 2.4-.9 3.4-1.6.7-.5 1.2-1 1.6-1.7.4-.7.6-1.4.8-2.2.3-1.1.4-2.2.4-3.4.1-1 .2'' @
       ''-1.9.5-2.8.2-.7.5-1.4.8-2.1.2-.6.4-1.2.5-1.9.1-1.1 0-2.1-.3-3.1zM14.9.8c.3-.1.7-.1 1-.1h.3c1.1 0 2.1'' @
       ''.2 3.1.5.6.2 1.2.6 1.7 1s.7.9.9 1.4v.1c0 .1 0 .2-.1.2s-.1 0-.2-.1c-.4-.4-.7-.8-1.1-1.1-.6-.5-1.2-.9-'' @
       ''2-1.1-1.1-.3-2.1-.5-3.2-.7h-.6c.1 0 .1 0 .2-.1-.1 0 0 0 0 0zm-4.5 12.4c.6 0 1.1.5 1.2 1.2 0 .6-.5 1.'' @
       ''2-1.2 1.2-.6 0-1.2-.5-1.1-1.2 0-.7.5-1.2 1.1-1.2zm3.8 1.3v-3.4c0-2.3 2-3.1 3.6-2.5.3.1.6.3.9.5.2.2.2'' @
       ''.5.1.8-.2.2-.4.3-.7.1-.2-.1-.5-.2-.7-.3-.6-.2-1.3 0-1.6.4-.1.2-.2.4-.2.7-.1.5 0 .9 0 1.4v5.9c0 1.2-.'' @
       ''6 2.1-1.8 2.4-1 .3-1.9.2-2.7-.6-.2-.2-.3-.5-.1-.7.1-.2.4-.3.7-.2.3.1.6.3.9.4 1 .1 1.7-.3 1.7-1.4-.1-'' @
       ''1.2-.1-2.3-.1-3.5zm-8.8 7.6h-.1c-.1-.1-.2-.1-.3-.2-.2-.2-.4-.3-.6-.5-.3-.3-.5-.6-.7-1-.4-.8-.8-1.7-1'' @
       ''-2.7-.1-.5-.2-1-.2-1.5s-.1-1-.2-1.4c-.1-.7-.2-1.5-.2-2.2 0-.9.1-1.7.4-2.5.3-.9.7-1.7 1.4-2.4.6-.6 1.'' @
       ''1-1.2 1.7-1.8.1-.1.3-.2.4-.2 0 .1-.1.3-.2.4-.3.4-.6.7-.9 1.1-.5.6-.9 1.2-1.2 1.8-.4.7-.7 1.4-.9 2.2-'' @
       ''.1.4-.2.8-.2 1.2 0 .4-.1.8 0 1.3 0 .6.1 1.1.2 1.6.1.6.2 1.1.2 1.7 0 .7.2 1.4.4 2.1 0 .2.2.3.2.5.3.6.'' @
       ''6 1.1 1.1 1.5.2.2.4.5.6.7 0 0 0 .1.1.1v.2zM8 24.6c-.4 0-.7.1-1.1.2-.4.1-.6-.1-.7-.5 0-.1-.1-.3 0-.4.'' @
       ''1-.3.3-.3.5-.1.2.2.5.4.7.5.1.1.2.1.4.1.1 0 .2.1.4.2H8zm7.6 2.1c-.3.2-.7.3-1.1.3-.3 0-.6-.1-.9-.1h-.2'' @
       ''c-.4.1-.7.1-1.1.2-.1 0-.3 0-.4.1H11c-.4 0-.7-.2-1-.5-.1-.1-.2-.3-.3-.5-.1-.1-.1-.2-.1-.4 0-.1.1-.1.2'' @
       ''-.1h.1c.5.3 1.1.4 1.6.5.7.1 1.4.2 2.1.2.4 0 .7.1 1.1.1h.8c.2.1.1.1.1.2zm3.7-2.5c-.7.4-1.5.7-2.3.9-.2'' @
       '' 0-.5.1-.7.1-.2 0-.5 0-.7.1-.4.1-.8 0-1.2 0-.3 0-.6-.1-.9 0h-.2c-.4-.1-.9-.2-1.3-.3-.5-.1-1-.3-1.4-.'' @
       ''5-.4-.1-.8-.3-1.1-.5-.2-.1-.4-.3-.6-.4-.6-.6-1.2-1.1-1.7-1.6-.4-.5-.8-.9-1.2-1.4-.4-.6-.7-1.2-1-1.9l'' @
       ''-.3-.9c-.1-.3-.2-.5-.2-.8v-.8c.3.8.5 1.7.9 2.5.7 1.6 1.7 3 3 4.1 1.4 1.1 2.9 1.8 4.6 2.1.9.2 1.8.2 2'' @
       ''.7.2 1.1-.1 2.2-.3 3.2-.8.2-.1.3-.2.5-.2 0 .1 0 .1-.1.1zm.1-8.7c-.6 0-1.1-.5-1.1-1.2 0-.6.5-1.2 1.2-'' @
       ''1.2.6 0 1.1.5 1.1 1.2s-.5 1.3-1.2 1.2zm6.2 5.7c0 .4-.1.8-.2 1.2-.1.4-.1.9-.3 1.3-.1.4-.2.7-.4 1.1-.1'' @
       ''.3-.3.6-.6.8-.3.2-.5.4-.9.5-.4.2-.7.3-1.2.3h-.9c-.2-.1-.2-.1-.1-.3.1-.2.3-.3.5-.4.3-.2.6-.5.8-.7.7-.'' @
       ''7 1.3-1.6 1.9-2.4.4-.4.6-1 .9-1.5.1-.1.1-.2.2-.3.3.2.3.3.3.4zm-15-16.8c1.7-.8 3.5-1.1 5.3-.9.4 0 .8.'' @
       ''1 1.1.3l1.8.6c.6.2 1.2.5 1.7.8.7.4 1.3.9 1.9 1.5.8.8 1.5 1.6 2 2.6.3.6.5 1.2.7 1.8.2.7.4 1.5.4 2.2v.'' @
       ''9c0 .4-.1.8-.1 1.2v-1c0-1.2-.3-2.3-.6-3.4l-.6-1.5c-.2-.6-.5-1.1-.9-1.6-.1-.1-.3-.1-.4-.2-.1 0-.1 0-.'' @
       ''2-.1-.5-.5-1.1-1-1.7-1.5-.8-.6-1.7-1.1-2.6-1.4-.4-.2-.8-.3-1.2-.4-.9-.2-1.8-.4-2.7-.3h-.9c-.3 0-.6.1'' @
       ''-1 .2-.6.1-1.2.3-1.7.5h-.1s-.1 0 0-.1c0 0 0-.1-.1-.2m16.2 11.1c-.1-.8 0-1.7 0-2.5-.1-.8-.2-1.6-.4-2.'' @
       ''4.5.7.6 1.6.7 2.4 0 .8 0 1.7-.3 2.5zm.6.5c0-.3.1-.7.2-1.1.1-.4.1-.9.1-1.3v-.4c0-.8-.2-1.6-.4-2.4-.4-'' @
       ''.9-.8-1.6-1.4-2.4-.5-.6-.9-1.2-1.4-1.8l-.2-.2c.1 0 .1 0 .1.1 1 .8 1.8 1.6 2.4 2.7.5 1 .9 2 1 3.1.3 1'' @
       ''.3.1 2.5-.4 3.7z\"/>''),
     line 5 (''</svg><svg xmlns=\"http://www.w3.org/2000/svg\" xml:space=\"preserve\" width=\"120\" height=\"30.3\" viewBox'' @ ''=\"28.14 0 120 30.3\">''),
     line 6 (''<path fill=\"#2F2E71\" d=\"M57.7 18c.9 0 1.9-.1 2.9.3.9.3 1.5.9 1.7 2 .1 1-.2 1.9-1.1 2.5-1.1.8-2.3.9-3'' @
       ''.6 1-1.4 0-2.9 0-4.3-.6-1.6-.7-1.8-2.6-.4-3.6.3-.2.2-.3.1-.5-.7-.8-.7-2.2.3-2.8.3-.2.2-.3 0-.6-1.4-1'' @
       ''.6-.7-4.1 1.3-4.8 1.6-.6 3.2-.6 4.8-.1.2.1.3.1.5-.1.3-.3.6-.5.9-.7.5-.3 1.1-.3 1.4 0 .3.4.3.9-.2 1.3'' @
       ''-.7.5-.8 1-.6 1.9.4 1.5-.6 2.9-2.1 3.4-1.3.5-2.7.5-4 .2-.3-.1-.5-.1-.6.2-.1.3-.1.6.2.8.2.1.5.2.8.2h2'' @
       ''zm-.6-2.7c.3 0 .5 0 .7-.1.8-.2 1.3-.7 1.4-1.4.1-.7-.3-1.3-.9-1.6-.8-.3-1.6-.3-2.4 0-1 .4-1.2 1.7-.6 '' @
       ''2.4.5.6 1.2.7 1.8.7zm-.2 4.6h-1.8c-.4 0-.6.2-.7.5-.3.7.1 1.2.9 1.4 1.2.2 2.5.2 3.7-.1l.6-.3c.5-.3.4-'' @
       ''1.1-.1-1.3-.2-.1-.5-.2-.7-.2h-1.9zm58.6-3.3h-3.2c-.3 0-.3.1-.3.4.2 1.2 1.3 2.1 2.8 2.3 1.1.1 2.1-.1 '' @
       ''2.9-.9.2-.2.4-.3.6-.4.4-.2.8-.2 1.1.1.4.3.4.7.3 1.1-.3.9-.9 1.4-1.7 1.8-2.3 1-4.5.9-6.5-.6-1-.7-1.5-'' @
       ''1.8-1.7-3-.3-1.7-.2-3.3.8-4.7 1.3-1.8 3.1-2.4 5.2-2.1 2 .3 3.4 1.3 4 3.2.2.6.3 1.2.2 1.8-.1.8-.4 1.1'' @
       ''-1.2 1.1-1.1-.1-2.2-.1-3.3-.1zm-.7-1.9h2.4c.4 0 .4-.1.4-.5-.3-1.1-1.2-1.9-2.5-2-1.5-.1-2.6.6-3.1 1.9'' @
       ''-.2.5-.1.6.4.6h2.4zm-23 6.7c-3.3 0-5.5-2.2-5.6-5.5 0-3.2 2.2-5.6 5.4-5.6 3.4 0 5.7 2.2 5.8 5.5 0 3.4'' @
       ''-2.2 5.6-5.6 5.6zm0-2.1c1.9 0 3.2-1.3 3.3-3.3.1-2-1.3-3.4-3.2-3.4-1.8 0-3.2 1.4-3.2 3.3-.1 1.9 1.2 3'' @
       ''.4 3.1 3.4zm-22.6 2.1c-1.1 0-2.4-.3-3.5-1.4-.3-.4-.6-.8-.7-1.3 0-.4.1-.7.4-.9.3-.2.7-.2 1 0 .3.2.6.4'' @
       ''.8.6.9.9 2 1.1 3.2.9.6-.1 1-.5 1-1 .1-.5-.2-1-.8-1.2-.7-.3-1.4-.3-2.1-.5-.8-.2-1.6-.4-2.2-.9-1.5-1.2'' @
       ''-1.4-3.5.2-4.6 1.2-.8 2.6-.9 4-.7 1 .1 1.9.5 2.6 1.2.3.3.4.6.5.9.1.4 0 .7-.3 1-.3.3-.7.3-1 .1-.4-.2-'' @
       ''.7-.5-1.1-.8-.8-.6-1.7-.8-2.7-.5-.6.1-.9.5-.9 1s.3.9.8 1.1c.9.3 1.9.4 2.9.7.6.2 1.1.4 1.5.8 1.5 1.4 '' @
       ''1.1 4.1-.9 5.1-.7.3-1.5.4-2.7.4zm-30.3 0c-1.5 0-3-.3-4.1-1.5-.3-.3-.4-.6-.5-1-.1-.4-.1-.8.3-1.1.4-.2'' @
       ''.9-.2 1.3.1.3.2.6.5.8.7.9.8 1.9.9 3 .7.6-.1.9-.5.9-1.1 0-.5-.3-1-.8-1.2l-2.7-.6c-1.1-.3-2-.8-2.4-2-.'' @
       ''6-1.7.4-3.4 2.2-3.9 1.7-.5 3.3-.3 4.8.5.6.3 1 .8 1.2 1.4.1.4.1.9-.3 1.1-.4.3-.8.2-1.2-.1-.4-.3-.7-.7'' @
       ''-1.2-.9-.8-.4-1.5-.5-2.4-.3-.5.1-.8.4-.8.9s.2.8.7 1c.7.3 1.4.3 2.1.5.8.2 1.5.3 2.2.8 1.2.8 1.5 2.5.9'' @
       '' 3.8-.7 1.4-1.9 1.8-3.3 2-.3.2-.5.2-.7.2zM78 15.8v-2.6c0-.3-.1-.4-.4-.4h-1.3c-.6-.1-.9-.5-.9-1s.4-1 '' @
       ''.9-1h1.3c.3 0 .4-.1.4-.4V8.9c0-.7.5-1.1 1.1-1.2.6 0 1.1.4 1.2 1v.6c0 .4-.2 1 .1 1.3.3.3.9.1 1.3.1h1.'' @
       ''6c.4 0 .7.3.8.8.1.4-.1.8-.4 1.1-.3.2-.6.2-.9.2h-2.1c-.3 0-.4 0-.4.4v4.7c0 1.1.9 1.6 1.9 1.1.3-.1.5-.'' @
       ''3.7-.5.4-.3.8-.3 1.2 0 .4.3.4.8.2 1.2-.3.7-.9 1.1-1.5 1.3-1.3.5-2.6.5-3.8-.4-.7-.6-1-1.4-1.1-2.4.1-.'' @
       ''7.1-1.6.1-2.4zm24.7-4.1c.8-1 1.8-1.4 3-1.3.7.1 1.4.3 1.9.9.3.4.5.9.4 1.5-.1.4-.3.7-.7.9-.5.2-.9 0-1.'' @
       ''3-.3-.7-.7-1.3-.9-2.1-.5-.5.3-.8.7-1 1.3-.2.5-.3 1.1-.3 1.6v4.5c0 .5-.2.9-.6 1.1-.4.2-.8.2-1.2-.1-.4'' @
       ''-.3-.5-.7-.5-1.1v-8.4c0-.7.4-1.2 1-1.3.7-.1 1.1.3 1.3 1.1.1-.1.1 0 .1.1zm-54 4.2v4.3c0 .8-.6 1.3-1.4'' @
       '' 1.2-.5-.1-.9-.5-.9-1.1v-8.7c0-.7.5-1.1 1.2-1.1s1.1.4 1.2 1.2c-.1 1.3-.1 2.8-.1 4.2zm.3-8.2c0 .8-.6 '' @
       ''1.4-1.4 1.4-.8 0-1.5-.6-1.5-1.4 0-.8.7-1.4 1.5-1.4s1.4.6 1.4 1.4z\"/>''),
     line 5 ''</svg>'',
     line 4 ''</a>'',
     line 3 ''</div>'',
     line 3 ''<div>'',
     line 4 ''<div class=\"title\">'',
     line 5 ''<span class=\"sigstore\">sigstore </span>'',
     line 5 ''<span>authentication successful!</span>'',
     line 4 ''</div>'']"

definition page_autoclose :: string where
  "page_autoclose = concat
    [line 4 ''<small name=\"autoclose\"></small>'',
     line 4 ''<noscript>'',
     line 5 ''<div class=\"content\">'',
     line 6 ''<span>You may now close this page.</span>'',
     line 5 ''</div>'',
     line 4 ''</noscript>'']"

definition page_notice :: string where
  "page_notice = concat
    [line 4 ''<div class=\"content\">'',
     line 5 ''<span>You may now close this page.</span>'',
     line 4 ''</div>'']"

definition page_links :: string where
  "page_links = concat
    [line 3 ''</div>'',
     line 3 ''<div class=\"anchor\">'',
     line 4 ''<div class=\"links\">'',
     line 5 (''<a href=\"https://sigstore.dev/\" class=\"link login\"><span class=\"sigstore\">sigstore</span> home <span'' @
       '' class=\"arrow\">'' @
       arrow @
       ''</span></a>''),
     line 5 (''<a href=\"https://docs.sigstore.dev/\" class=\"link login\"><span class=\"sigstore\">sigstore</span> docum'' @
       ''entation <span class=\"arrow\">'' @
       arrow @
       ''</span></a>''),
     line 5 (''<a href=\"https://blog.sigstore.dev/\" class=\"link\"><span class=\"sigstore\">sigstore</span> blog <span '' @
       ''class=\"arrow\">'' @
       arrow @
       ''</span></a>''),
     line 4 ''</div>'',
     line 3 ''</div>'',
     line 2 ''</div>'',
     line 2 ''<script>'',
     line 3 (''document.getElementById(\"favicon\").setAttribute(\"href\", \"data:image/svg+xml,\" + encodeURIComponent(d'' @ ''ocument.getElementById(\"logo\").outerHTML));''),
     line 2 ''</script>'']"

definition page_end :: string where
  "page_end = concat
    [line 1 ''</body>'',
     line 0 ''</html>'']"

definition page_timer :: string where
  "page_timer = concat
    [line 3 ''setTimeout(function() { this.close(); }, timeout*1000);'',
     line 3 ''setInterval(function() {'',
     line 4 ''timeout--;'',
     line 4 (''document.getElementsByName(\"autoclose\")[0].innerHTML = \"This page will close automatically in \" + ti'' @ ''meout + \" seconds...\";''),
     line 4 ''if (timeout <= 0) {'',
     line 5 ''document.getElementsByName(\"autoclose\")[0].innerHTML = \"This page will close now, thank you!\";'',
     line 4 ''}'',
     line 3 ''}, 1000);'',
     line 2 ''</script>'']"

text \<open>The template: around the actions are their own indentation and the ends of their lines.\<close>

definition successTemplate :: "item list" where
  "successTemplate =
     [Text (page_style @ page_header @ tabs 4),
      Action False (Act_if ''Autoclose'') True,
      Text (newline @ page_autoclose @ tabs 4),
      Action True Act_else True,
      Text (newline @ page_notice @ tabs 4),
      Action True Act_end False,
      Text (newline @ page_links @ line 0 [] @ tabs 2),
      Action False (Act_if ''Autoclose'') True,
      Text (newline @ line 2 ''<script>'' @ tabs 3 @ ''var timeout = ''),
      Action False (Act_field ''Timeout'') False,
      Text ('';'' @ newline @ page_timer @ tabs 2),
      Action True Act_end False,
      Text (newline @ page_end)]"

definition GetInteractiveSuccessHTML :: "bool \<Rightarrow> int \<Rightarrow> string outcome" where
  "GetInteractiveSuccessHTML autoclose timeout =
     and_then (wrap_outcome ''error parsing success template'' (template_Parse successTemplate)) (\<lambda>tmpl.
     wrap_outcome ''error executing template''
       (exec_nodes [(''Autoclose'', Bool_value autoclose), (''Timeout'', Int_value timeout)] tmpl))"

text \<open>The static page repeats the lines of the template that are not conditional, with the plain notice.\<close>

definition InteractiveSuccessHTML :: string where
  "InteractiveSuccessHTML = page_style @ page_header @ page_notice @ page_links @ page_end"

section \<open>Trimming the texts of the page\<close>

definition spaces :: "string \<Rightarrow> bool" where "spaces s \<longleftrightarrow> list_all is_space s"

definition solid :: "string \<Rightarrow> bool" where "solid s \<longleftrightarrow> s \<noteq> [] \<and> \<not> is_space (hd s) \<and> \<not> is_space (last s)"

lemma spaces_simps [simp]: "spaces (s @ t) \<longleftrightarrow> spaces s \<and> spaces t" "spaces (tabs n)" "spaces newline" "spaces []"
  by (auto simp: spaces_def tabs_def newline_def is_space_def list_all_iff)

lemma dropWhile_solid: "spaces ws \<Longrightarrow> s \<noteq> [] \<Longrightarrow> \<not> is_space (hd s) \<Longrightarrow> dropWhile is_space (ws @ s @ t) = s @ t"
  by (cases s) (auto simp: spaces_def list_all_iff dropWhile_append2)

lemma trim_left_solid: "spaces ws \<Longrightarrow> solid s \<Longrightarrow> trim_left_space (ws @ s @ t) = s @ t"
  by (simp add: trim_left_space_def solid_def dropWhile_solid)

lemma trim_right_solid: "spaces ws \<Longrightarrow> solid s \<Longrightarrow> trim_right_space (t @ s @ ws) = t @ s"
  using dropWhile_solid [of "rev ws" "rev s" "rev t"]
  by (simp add: trim_right_space_def solid_def spaces_def list_all_iff hd_rev)

lemma trim_both_solid: "spaces ws \<Longrightarrow> spaces ws' \<Longrightarrow> solid s \<Longrightarrow> trim_right_space (trim_left_space (ws @ s @ ws')) = s"
  using trim_right_solid [of ws' s "[]"] by (simp add: trim_left_solid)

text \<open>The conditional texts: indentation, what is solid, and the end of the last line.\<close>

lemma page_notice_solid: "\<exists>s. page_notice = tabs 4 @ s @ newline \<and> solid s"
  by (rule exI [of _ "''<div class=\"content\">'' @ newline @ line 5 ''<span>You may now close this page.</span>'' @ tabs 4 @ ''</div>''"])
    (simp add: page_notice_def line_def solid_def is_space_def)

lemma page_autoclose_solid: "\<exists>s. page_autoclose = tabs 4 @ s @ newline \<and> solid s"
  by (rule exI [of _ "''<small name=\"autoclose\"></small>'' @ newline @ line 4 ''<noscript>'' @
        line 5 ''<div class=\"content\">'' @ line 6 ''<span>You may now close this page.</span>'' @ line 5 ''</div>'' @
        tabs 4 @ ''</noscript>''"])
    (simp add: page_autoclose_def line_def solid_def is_space_def)

lemma last_line_solid:
  assumes "ls \<noteq> []" "last ls = line n s"
  shows "\<exists>t. concat ls = t @ s @ newline"
  using arg_cong [OF append_butlast_last_id [OF assms(1)], of concat] assms(2)
  by (auto simp: line_def intro!: exI [of _ "concat (butlast ls) @ tabs n"])

lemma page_timer_solid: "\<exists>t. page_timer = t @ ''</script>'' @ newline"
  unfolding page_timer_def by (rule last_line_solid [of _ 2]) simp_all

text \<open>The parsed template, up to the trimmed texts.\<close>

definition page_nodes :: "string \<Rightarrow> string \<Rightarrow> string \<Rightarrow> node list" where
  "page_nodes closing notice timer =
     [TextNode (page_style @ page_header @ tabs 4),
      IfNode ''Autoclose'' [TextNode closing] [TextNode notice],
      TextNode (newline @ page_links @ line 0 [] @ tabs 2),
      IfNode ''Autoclose''
        [TextNode (''<script>'' @ newline @ tabs 3 @ ''var timeout = ''), FieldNode ''Timeout'', TextNode ('';'' @ timer)] [],
      TextNode (newline @ page_end)]"

lemma template_parses:
  obtains closing notice timer where
    "template_Parse successTemplate = Ret (page_nodes closing notice timer)"
    "page_autoclose = tabs 4 @ closing @ newline" "page_notice = tabs 4 @ notice @ newline" "newline @ page_timer = timer @ newline"
proof -
  obtain a where a: "page_autoclose = tabs 4 @ a @ newline" "solid a" using page_autoclose_solid by blast
  obtain n where n: "page_notice = tabs 4 @ n @ newline" "solid n" using page_notice_solid by blast
  obtain t where t: "page_timer = t @ ''</script>'' @ newline" using page_timer_solid by blast
  have nonempty: "tabs 4 \<noteq> []" "tabs 3 \<noteq> []" "tabs 2 \<noteq> []" "newline \<noteq> []" by (simp_all add: tabs_def newline_def)
  have script: "solid ''<script>''" "solid ''</script>''" by (simp_all add: solid_def is_space_def)
  have trimmed:
    "trim_right_space (trim_left_space (newline @ page_autoclose @ tabs 4)) = a"
    "trim_right_space (trim_left_space (newline @ page_notice @ tabs 4)) = n"
    using trim_both_solid [of "newline @ tabs 4" "newline @ tabs 4"] a(2) n(2) unfolding a(1) n(1)
    by (simp_all only: append_assoc spaces_simps simp_thms)
  have opened: "trim_left_space (newline @ line 2 ''<script>'' @ tabs 3 @ ''var timeout = '') =
      ''<script>'' @ newline @ tabs 3 @ ''var timeout = ''"
    using trim_left_solid [OF _ script(1), of "newline @ tabs 2"] unfolding line_def
    by (simp only: append_assoc spaces_simps simp_thms)
  have closed: "trim_right_space ('';'' @ newline @ page_timer @ tabs 2) = '';'' @ newline @ t @ ''</script>''"
    using trim_right_solid [OF _ script(2), of "newline @ tabs 2" "'';'' @ newline @ t"] unfolding t
    by (simp only: append_assoc spaces_simps simp_thms)
  have items: "trim_items False successTemplate =
     [Text (page_style @ page_header @ tabs 4), Action False (Act_if ''Autoclose'') True, Text a, Action True Act_else True,
      Text n, Action True Act_end False, Text (newline @ page_links @ line 0 [] @ tabs 2),
      Action False (Act_if ''Autoclose'') True, Text (''<script>'' @ newline @ tabs 3 @ ''var timeout = ''),
      Action False (Act_field ''Timeout'') False, Text ('';'' @ newline @ t @ ''</script>''), Action True Act_end False,
      Text (newline @ page_end)]"
    using a(2) n(2) unfolding successTemplate_def solid_def
    by (simp only: trim_items.simps trims_before_def trimmed opened closed Let_def list.case item.case if_True if_False
        append_is_Nil_conv nonempty list.distinct not_False_eq_True simp_thms)
  show thesis
    by (rule that [of a n "newline @ t @ ''</script>''", OF _ a(1) n(1)], unfold template_Parse_def items) (simp_all add: page_nodes_def t)
qed

section \<open>Properties\<close>

lemma dec_no_minus [simp]: "dec n \<noteq> CHR ''-'' # s"
proof
  assume "dec n = CHR ''-'' # s"
  with dec_digits [of n] show False by (simp add: is_digit_def)
qed

lemma int_dec_inj [simp]: "int_dec i = int_dec j \<longleftrightarrow> i = j"
  using dec_no_minus [THEN not_sym] by (auto simp: int_dec_def nat_eq_iff2 split: if_splits)

text \<open>The two pages: the lines of the template that are not conditional, around those of the branch taken.  The
  line of the second conditional is left with its indentation when the branch is not taken.\<close>

lemma plain_page:
  "GetInteractiveSuccessHTML False timeout =
     Ret (page_style @ page_header @ page_notice @ page_links @ line 0 [] @ line 2 [] @ page_end)"
proof (rule template_parses)
  fix closing notice timer
  assume "template_Parse successTemplate = Ret (page_nodes closing notice timer)" "page_notice = tabs 4 @ notice @ newline"
  then show ?thesis by (simp add: GetInteractiveSuccessHTML_def page_nodes_def get_field_def line_def tabs_def)
qed

lemma timed_page:
  "GetInteractiveSuccessHTML True timeout =
     Ret (page_style @ page_header @ page_autoclose @ page_links @ line 0 [] @ line 2 ''<script>'' @
       line 3 (''var timeout = '' @ int_dec timeout @ '';'') @ page_timer @ page_end)"
proof (rule template_parses)
  fix closing notice timer
  assume p: "template_Parse successTemplate = Ret (page_nodes closing notice timer)" "page_autoclose = tabs 4 @ closing @ newline"
    and t: "newline @ page_timer = timer @ newline"
  from t have "timer @ newline @ page_end = newline @ page_timer @ page_end" by (metis append_assoc)
  then show ?thesis by (simp add: GetInteractiveSuccessHTML_def p page_nodes_def get_field_def line_def)
qed

lemma page_is_made: "\<exists>page. GetInteractiveSuccessHTML False timeout = Ret page"
  by (simp add: plain_page)

text \<open>C38: making the page never fails.  Without automatic closing the timeout does not matter, and the page is the
  static one with two more lines before its end, an empty one and one of two tabs.  With automatic closing it has
  the closing notice in place of the plain one and, where those two lines were, an empty line and a script that
  sets its timer to the timeout, in decimal, so that different timeouts give different pages.\<close>

theorem success_page:
  "InteractiveSuccessHTML = page_style @ page_header @ page_notice @ page_links @ page_end \<and>
   GetInteractiveSuccessHTML False t =
      Ret (page_style @ page_header @ page_notice @ page_links @ line 0 [] @ line 2 [] @ page_end) \<and>
   GetInteractiveSuccessHTML True t =
      Ret (page_style @ page_header @ page_autoclose @ page_links @ line 0 [] @ line 2 ''<script>'' @
        line 3 (''var timeout = '' @ int_dec t @ '';'') @ page_timer @ page_end) \<and>
   (GetInteractiveSuccessHTML True t = GetInteractiveSuccessHTML True t' \<longleftrightarrow> t = t')"
  unfolding plain_page timed_page by (simp add: InteractiveSuccessHTML_def line_def)

end
