(* ===== verification/Oidc.thy ===== *)
theory Oidc
  imports OAuthToken CryptoLib Base64 Regex SuccessPage
begin

text \<open>
  \<open>pkg/oauth/oidc\<close>: proof keys for code exchange (\<open>pkce.go\<close>), checking an ID token (\<open>token.go\<close>) and
  the interactive flow (\<open>interactive.go\<close>).  The provider, the OAuth client, the browser, the local
  listener and the terminal are parameters; every call of them is a step on the remote part of the
  state.  Messages for the user are left out, the link of the out-of-band flow excepted.  How the
  goroutines of the flow interleave is the subject of the theory \<open>Redirect\<close>.
\<close>

section \<open>The outside world\<close>

record id_token =
  it_Nonce :: string
  it_AccessTokenHash :: string
  it_VerifyAccessToken :: "string \<Rightarrow> unit outcome"
  it_claims :: bytes

text \<open>A provider as its discovery document describes it; \<open>pv_methods\<close> is the list
  \<open>code_challenge_methods_supported\<close>.  The verifier of a client is made from the client's identifier.\<close>

record 'v oidc_provider =
  pv_AuthURL :: string
  pv_TokenURL :: string
  pv_methods :: "string list outcome"
  pv_Verify :: "string \<Rightarrow> string \<Rightarrow> ('v, id_token) step"

record oauth2_config =
  cfg_ClientID :: string
  cfg_ClientSecret :: string
  cfg_AuthURL :: string
  cfg_TokenURL :: string
  cfg_Scopes :: "string list"
  cfg_RedirectURL :: string

type_synonym auth_option = "string \<times> string"

definition SetAuthURLParam :: "string \<Rightarrow> string \<Rightarrow> auth_option" where "SetAuthURLParam k v = (k, v)"
definition AccessTypeOnline :: auth_option where "AccessTypeOnline = SetAuthURLParam ''access_type'' ''online''"
definition oidc_Nonce :: "string \<Rightarrow> auth_option" where "oidc_Nonce n = SetAuthURLParam ''nonce'' n"

record url =
  url_Scheme :: string
  url_Host :: string
  url_Path :: string
  url_rest :: string

text \<open>What can happen first at the local listener: a request with its form values, or the end of serving.\<close>

datatype redirect_event = Callback "string \<Rightarrow> string" | ServeError goerr

record ('v, 'j) flow_lib =
  url_Parse :: "string \<Rightarrow> url outcome"
  url_String :: "url \<Rightarrow> string"
  net_Listen :: "string \<Rightarrow> ('v, nat) step"
  first_event :: "url \<Rightarrow> nat \<Rightarrow> ('v, redirect_event option) step"
  open_browser :: "string \<Rightarrow> ('v, unit) step"
  ask_code :: "string \<Rightarrow> ('v, string) step"
  AuthCodeURL :: "oauth2_config \<Rightarrow> string \<Rightarrow> auth_option list \<Rightarrow> string"
  cfg_Exchange :: "oauth2_config \<Rightarrow> string \<Rightarrow> auth_option list \<Rightarrow> ('v, 'j oauth2_token) step"
  token_Extra :: "'j token_raw option \<Rightarrow> string \<Rightarrow> string option"

text \<open>The state: the identifiers \<open>ksuid.New\<close> is going to return, and the rest of the world.\<close>

record 'v flow_state =
  fs_ids :: "nat \<Rightarrow> string"
  fs_next :: nat
  fs_remote :: 'v

definition on_net :: "('v, 'a) step \<Rightarrow> ('v flow_state, 'a) step" where
  "on_net m s = (case m (fs_remote s) of (x, v) \<Rightarrow> (x, s\<lparr>fs_remote := v\<rparr>))"

definition newKSUID :: "('v flow_state, string) step" where
  "newKSUID s = (Ret (fs_ids s (fs_next s)), s\<lparr>fs_next := Suc (fs_next s)\<rparr>)"

text \<open>A KSUID is 27 characters of the base-62 alphabet.\<close>

definition base62 :: string where
  "base62 = ''0123456789ABCDEFGHIJKLMNOPQRSTUVWXYZabcdefghijklmnopqrstuvwxyz''"

definition ksuid_laws :: "(nat \<Rightarrow> string) \<Rightarrow> bool" where
  "ksuid_laws ids \<longleftrightarrow> (\<forall>n. length (ids n) = 27 \<and> set (ids n) \<subseteq> set base62)"

section \<open>Proof keys for code exchange\<close>

definition PKCES256 :: string where "PKCES256 = ''S256''"

record PKCE =
  pkce_Challenge :: string
  pkce_Method :: string
  pkce_Value :: string

definition azureregex :: re where
  "azureregex = Seq (lit ''https://login.microsoftonline.'') (Seq (Alt (lit ''com'') (lit ''us'')) (lit ''/''))"

text \<open>The expression is anchored at the start only.\<close>

definition azureregex_MatchString :: "string \<Rightarrow> bool" where
  "azureregex_MatchString s = matches (Seq azureregex (Star (Cls (\<lambda>_. True)))) s"

definition providerIsAzureBacked :: "'v oidc_provider option \<Rightarrow> bool" where
  "providerIsAzureBacked p = (case p of None \<Rightarrow> False | Some p \<Rightarrow> azureregex_MatchString (pv_AuthURL p))"

text \<open>The loop over the advertised methods stops at the first \<open>S256\<close>.\<close>

primrec choose_method :: "string list \<Rightarrow> string \<Rightarrow> string" where
  "choose_method [] chosenMethod = chosenMethod"
| "choose_method (method # ms) chosenMethod =
     (if method = PKCES256 \<and> chosenMethod \<noteq> PKCES256 then PKCES256 else choose_method ms chosenMethod)"

definition provider_Claims :: "'v oidc_provider option \<Rightarrow> string list outcome" where
  "provider_Claims p = (case p of None \<Rightarrow> Panic ''nil pointer dereference'' | Some p \<Rightarrow> pv_methods p)"

definition PKCENotSupported :: goerr where "PKCENotSupported = Msg ''PKCE is not supported by OIDC provider''"

definition NewPKCE :: "crypto_lib \<Rightarrow> 'v oidc_provider option \<Rightarrow> ('v flow_state, PKCE) step" where
  "NewPKCE L provider =
     go_then (go_lift (provider_Claims provider)) (\<lambda>methods.
     let chosenMethod = choose_method methods [] in
     go_then (if chosenMethod = [] then (if providerIsAzureBacked provider then go_ret PKCES256 else go_err PKCENotSupported)
              else go_ret chosenMethod) (\<lambda>chosenMethod.
     go_then newKSUID (\<lambda>a. go_then newKSUID (\<lambda>b.
     let value = a @ b;
         challenge = EncodeToString RawURLEncoding (hash_sum L SHA256 (bytes_of value))
     in go_ret \<lparr>pkce_Challenge = challenge, pkce_Method = chosenMethod, pkce_Value = value\<rparr>))))"

definition AuthURLOpts :: "PKCE \<Rightarrow> auth_option list" where
  "AuthURLOpts p = [SetAuthURLParam ''code_challenge_method'' (pkce_Method p), SetAuthURLParam ''code_challenge'' (pkce_Challenge p)]"

definition TokenURLOpts :: "PKCE \<Rightarrow> auth_option list" where
  "TokenURLOpts p = [SetAuthURLParam ''code_verifier'' (pkce_Value p)]"

section \<open>Checking an ID token\<close>

definition extractAndVerifyIDToken ::
  "('v, 'j) flow_lib \<Rightarrow> 'j oauth2_token \<Rightarrow> (string \<Rightarrow> ('v, id_token) step) \<Rightarrow> string \<Rightarrow> ('v flow_state, id_token) step" where
  "extractAndVerifyIDToken F t verify nonce = (case token_Extra F (ot_raw t) ''id_token'' of
       None \<Rightarrow> go_err (Msg ''id_token not present'')
     | Some unverifiedIDToken \<Rightarrow>
         go_then (on_net (verify unverifiedIDToken)) (\<lambda>idToken.
         if it_Nonce idToken \<noteq> nonce then go_err (Msg ''nonce does not match value sent'')
         else if it_AccessTokenHash idToken \<noteq> []
         then go_then (go_lift (it_VerifyAccessToken idToken (ot_AccessToken t))) (\<lambda>_. go_ret idToken)
         else go_ret idToken))"

text \<open>A source that always gives the same token.\<close>

definition StaticIDTokenSource :: "id_token \<Rightarrow> ('v flow_state, id_token) step" where
  "StaticIDTokenSource idt = go_ret idt"

section \<open>The interactive flow\<close>

definition oobRedirectURI :: string where "oobRedirectURI = ''urn:ietf:wg:oauth:2.0:oob''"

text \<open>The flow changes the redirect URL of the configuration it is handed.\<close>

definition doOobFlow ::
  "('v, 'j) flow_lib \<Rightarrow> oauth2_config \<Rightarrow> string \<Rightarrow> auth_option list \<Rightarrow> ('v flow_state, string \<times> oauth2_config) step" where
  "doOobFlow F cfg stateToken opts =
     (let cfg = cfg\<lparr>cfg_RedirectURL := oobRedirectURI\<rparr>
      in go_then (on_net (ask_code F (AuthCodeURL F cfg stateToken opts))) (\<lambda>code. go_ret (code, cfg)))"

definition startRedirectListener :: "('v, 'j) flow_lib \<Rightarrow> string \<Rightarrow> ('v flow_state, url) step" where
  "startRedirectListener F redirectURL =
     (if redirectURL = [] then
        go_then (on_net (net_Listen F ''localhost:0'')) (\<lambda>port.
        go_ret \<lparr>url_Scheme = ''http'', url_Host = ''localhost:'' @ dec port, url_Path = ''/auth/callback'', url_rest = []\<rparr>)
      else
        go_then (go_lift (url_Parse F redirectURL)) (\<lambda>urlListener.
        go_then (on_net (net_Listen F (url_Host urlListener))) (\<lambda>_. go_ret urlListener)))"

text \<open>What the handler of a request, or the serving goroutine, sends.\<close>

definition redirect_send :: "string \<Rightarrow> redirect_event \<Rightarrow> string outcome" where
  "redirect_send state ev = (case ev of
       Callback form \<Rightarrow> if form ''state'' \<noteq> state then Err (Msg ''invalid state token'') else Ret (form ''code'')
     | ServeError e \<Rightarrow> Err e)"

definition getCode :: "('v, 'j) flow_lib \<Rightarrow> string \<Rightarrow> url \<Rightarrow> ('v flow_state, string) step" where
  "getCode F state urlListener =
     go_then (on_net (first_event F urlListener 120)) (\<lambda>ev.
     go_lift (case ev of None \<Rightarrow> Err (Msg ''timeout'') | Some ev \<Rightarrow> redirect_send state ev))"

record 'v interactiveIDTokenSource =
  ids_cfg :: oauth2_config
  ids_oidp :: "'v oidc_provider option"
  ids_extraAuthCodeOpts :: "auth_option list"
  ids_browser :: "string \<Rightarrow> ('v, unit) step"
  ids_autoclose :: bool
  ids_autocloseTimeout :: int

definition errWontOpenBrowser :: goerr where "errWontOpenBrowser = Msg ''not opening that browser''"

definition failBrowser :: "string \<Rightarrow> ('v, unit) step" where
  "failBrowser url = go_err errWontOpenBrowser"

text \<open>Trying one thing and, when it fails, another.\<close>

definition or_else :: "('s, 'a) step \<Rightarrow> ('s, 'a) step \<Rightarrow> ('s, 'a) step" where
  "or_else m m' s = (case m s of (Err e, s') \<Rightarrow> m' s' | r \<Rightarrow> r)"

text \<open>The code: from the listener when the browser opens and the code arrives, else from the user.\<close>

definition obtain_code ::
  "('v, 'j) flow_lib \<Rightarrow> (string \<Rightarrow> ('v, unit) step) \<Rightarrow> oauth2_config \<Rightarrow> url \<Rightarrow> string \<Rightarrow> auth_option list \<Rightarrow>
     ('v flow_state, string \<times> oauth2_config) step" where
  "obtain_code F browse cfg urlListener stateToken opts =
     or_else (go_then (on_net (browse (AuthCodeURL F cfg stateToken opts))) (\<lambda>_.
              go_then (getCode F stateToken urlListener) (\<lambda>code. go_ret (code, cfg))))
       (doOobFlow F cfg stateToken opts)"

text \<open>The verifier of a nil provider cannot be made, but \<open>NewPKCE\<close> has panicked by then.\<close>

definition provider_Verifier :: "'v oidc_provider option \<Rightarrow> string \<Rightarrow> string \<Rightarrow> ('v, id_token) step" where
  "provider_Verifier p clientID = (case p of None \<Rightarrow> (\<lambda>_. go_panic ''nil pointer dereference'') | Some p \<Rightarrow> pv_Verify p clientID)"

definition interactive_IDToken ::
  "crypto_lib \<Rightarrow> ('v, 'j) flow_lib \<Rightarrow> 'v interactiveIDTokenSource \<Rightarrow> ('v flow_state, id_token) step" where
  "interactive_IDToken L F idts =
     go_then newKSUID (\<lambda>stateToken. go_then newKSUID (\<lambda>nonce.
     go_then (go_lift (GetInteractiveSuccessHTML (ids_autoclose idts) (ids_autocloseTimeout idts))) (\<lambda>htmlPage.
     go_then (go_wrap ''starting redirect listener'' (startRedirectListener F (cfg_RedirectURL (ids_cfg idts)))) (\<lambda>redirectURL.
     let cfg = (ids_cfg idts)\<lparr>cfg_RedirectURL := url_String F redirectURL\<rparr>
     in go_then (NewPKCE L (ids_oidp idts)) (\<lambda>pkce.
     let opts = AuthURLOpts pkce @ [AccessTypeOnline, oidc_Nonce nonce] @ ids_extraAuthCodeOpts idts
     in go_then (obtain_code F (ids_browser idts) cfg redirectURL stateToken opts) (\<lambda>(code, cfg).
     go_then (on_net (cfg_Exchange F cfg code (TokenURLOpts pkce @ [oidc_Nonce nonce]))) (\<lambda>token.
     extractAndVerifyIDToken F token (provider_Verifier (ids_oidp idts) (cfg_ClientID cfg)) nonce)))))))"

definition InteractiveIDTokenSource ::
  "('v, 'j) flow_lib \<Rightarrow> oauth2_config \<Rightarrow> 'v oidc_provider option \<Rightarrow> auth_option list \<Rightarrow> bool \<Rightarrow> bool \<Rightarrow> int \<Rightarrow> 'v interactiveIDTokenSource" where
  "InteractiveIDTokenSource F cfg oidp extraAuthCodeOpts allowBrowser autoclose autocloseTimeout =
     \<lparr>ids_cfg = cfg, ids_oidp = oidp, ids_extraAuthCodeOpts = extraAuthCodeOpts,
      ids_browser = (if allowBrowser then open_browser F else failBrowser),
      ids_autoclose = autoclose, ids_autocloseTimeout = autocloseTimeout\<rparr>"

section \<open>Steps of the flow\<close>

lemma on_net_Ret: "on_net m s = (Ret x, s') \<longleftrightarrow> (\<exists>v. m (fs_remote s) = (Ret x, v) \<and> s' = s\<lparr>fs_remote := v\<rparr>)"
  by (auto simp: on_net_def split: prod.splits)

lemma newKSUID_Ret: "newKSUID s = (Ret x, s') \<longleftrightarrow> x = fs_ids s (fs_next s) \<and> s' = s\<lparr>fs_next := Suc (fs_next s)\<rparr>"
  by (auto simp: newKSUID_def)

lemma on_net_lift [simp]: "on_net (go_lift x) = go_lift x"
  by (simp add: fun_eq_iff on_net_def)

lemma go_then_Pair [simp]: "go_then (Pair (Ret a)) f = f a"
  by (simp add: fun_eq_iff go_then_def)

lemma or_else_ret [simp]: "or_else (go_ret x) m = go_ret x"
  by (simp add: fun_eq_iff or_else_def)

lemma go_then_newKSUID: "go_then newKSUID f s = f (fs_ids s (fs_next s)) (s\<lparr>fs_next := Suc (fs_next s)\<rparr>)"
  by (simp add: go_then_def newKSUID_def)

lemma or_else_Ret:
  "or_else m m' s = (Ret x, s') \<longleftrightarrow> m s = (Ret x, s') \<or> (\<exists>e s1. m s = (Err e, s1) \<and> m' s1 = (Ret x, s'))"
  by (auto simp: or_else_def split: prod.splits outcome.splits)

text \<open>Talking to the rest of the world takes no identifiers.\<close>

definition same_ids :: "'v flow_state \<Rightarrow> 'v flow_state \<Rightarrow> bool" where
  "same_ids s s' \<longleftrightarrow> fs_ids s' = fs_ids s \<and> fs_next s' = fs_next s"

lemma same_ids_refl: "reflp same_ids" by (simp add: reflpI same_ids_def)
lemma same_ids_trans: "transp same_ids" by (rule transpI) (simp add: same_ids_def)

lemma stays_on_net: "stays same_ids (on_net m)"
  by (simp add: stays_def same_ids_def on_net_def split: prod.splits)

lemma stays_or_else: "transp R \<Longrightarrow> stays R m \<Longrightarrow> stays R m' \<Longrightarrow> stays R (or_else m m')"
  unfolding stays_def or_else_def by (auto split: prod.splits outcome.splits dest: transpD) (metis snd_conv transpD)+

lemmas ids_stay = stays_lift [OF same_ids_refl] stays_then [OF same_ids_trans] stays_or_else [OF same_ids_trans] stays_on_net stays_wrap

lemma startRedirectListener_ids: "stays same_ids (startRedirectListener F r)"
  unfolding startRedirectListener_def by (auto intro!: ids_stay)

lemma obtain_code_ids: "stays same_ids (obtain_code F browse cfg url state opts)"
  unfolding obtain_code_def doOobFlow_def getCode_def Let_def by (intro ids_stay)

section \<open>Keys\<close>

lemma choose_method_eq: "choose_method ms [] = (if PKCES256 \<in> set ms then PKCES256 else [])"
  by (induction ms) (auto simp: PKCES256_def)

definition supports_S256 :: "'v oidc_provider option \<Rightarrow> bool" where
  "supports_S256 p \<longleftrightarrow> (\<exists>pv ms. p = Some pv \<and> pv_methods pv = Ret ms \<and> (PKCES256 \<in> set ms \<or> azureregex_MatchString (pv_AuthURL pv)))"

definition key_of_ids :: "crypto_lib \<Rightarrow> string \<Rightarrow> string \<Rightarrow> PKCE" where
  "key_of_ids L a b = \<lparr>pkce_Challenge = EncodeToString RawURLEncoding (hash_sum L SHA256 (bytes_of (a @ b))),
     pkce_Method = PKCES256, pkce_Value = a @ b\<rparr>"

lemma NewPKCE_Ret:
  "NewPKCE L p s = (Ret k, s') \<longleftrightarrow> supports_S256 p \<and> k = key_of_ids L (fs_ids s (fs_next s)) (fs_ids s (Suc (fs_next s))) \<and>
     s' = s\<lparr>fs_next := Suc (Suc (fs_next s))\<rparr>"
  by (auto simp: NewPKCE_def go_then_Ret_iff choose_method_eq supports_S256_def provider_Claims_def providerIsAzureBacked_def
      newKSUID_Ret key_of_ids_def PKCES256_def Let_def split: option.splits if_splits)

lemma length_RawURL:
  "length (EncodeToString RawURLEncoding b) = length b div 3 * 4 + (if length b mod 3 = 0 then 0 else length b mod 3 + 1)"
proof -
  have "(3 + n) div 3 = Suc (n div 3)" "Suc (Suc (Suc n)) div 3 = Suc (n div 3)" for n :: nat by simp_all
  then have "\<not> padded e \<Longrightarrow> length (EncodeToString e b) = length b div 3 * 4 + (if length b mod 3 = 0 then 0 else length b mod 3 + 1)" for e
    by (induction e b rule: EncodeToString.induct) auto
  then show ?thesis by (simp add: RawURLEncoding_def)
qed

lemma set_RawURL: "set (EncodeToString RawURLEncoding b) \<subseteq> set url_alphabet"
proof -
  have "n < 64 \<Longrightarrow> sextet RawURLEncoding n \<in> set url_alphabet" for n
    using wf_encodings(3) by (simp add: sextet_def wf_encoding_def RawURLEncoding_def)
  then have "e = RawURLEncoding \<Longrightarrow> set (EncodeToString e b) \<subseteq> set url_alphabet" for e
    by (induction e b rule: EncodeToString.induct) (simp_all add: RawURLEncoding_def [THEN arg_cong [of _ _ padded]])
  then show ?thesis by simp
qed

text \<open>C36: a proof key is made exactly when the provider advertises \<open>S256\<close> or is one of Azure's, and then
  always for \<open>S256\<close>.  Its verifier has 54 characters, all of them letters and digits, so it keeps the
  bounds of RFC 7636 (43 to 128 unreserved characters); the challenge is the 43 characters that encode
  the SHA-256 digest of the verifier; and the next key has another verifier when its identifiers are new.\<close>

theorem pkce_key:
  assumes "hash_laws L" "hash_linked L SHA256" "ksuid_laws (fs_ids s)" "NewPKCE L p s = (Ret k, s')"
    and "fs_ids s (fs_next s + 2) \<noteq> fs_ids s (fs_next s)"
  shows "supports_S256 p \<and> pkce_Method k = PKCES256 \<and>
    length (pkce_Value k) = 54 \<and> set (pkce_Value k) \<subseteq> set base62 \<and>
    length (pkce_Challenge k) = 43 \<and> set (pkce_Challenge k) \<subseteq> set url_alphabet \<and>
    DecodeString RawURLEncoding (pkce_Challenge k) = Ret (hash_sum L SHA256 (bytes_of (pkce_Value k))) \<and>
    (\<exists>k' s''. NewPKCE L p s' = (Ret k', s'') \<and> pkce_Value k' \<noteq> pkce_Value k)"
proof -
  let ?n = "fs_next s"
  from assms(4) have p: "supports_S256 p" and k: "k = key_of_ids L (fs_ids s ?n) (fs_ids s (Suc ?n))"
    and s': "s' = s\<lparr>fs_next := Suc (Suc ?n)\<rparr>" by (auto simp: NewPKCE_Ret)
  have l: "length (fs_ids s i) = 27" "set (fs_ids s i) \<subseteq> set base62" for i using assms(3) by (simp_all add: ksuid_laws_def)
  have "length (hash_sum L SHA256 m) = 32" for m using assms(1,2) by (auto simp: hash_laws_def)
  moreover have "fs_ids s (Suc (Suc ?n)) \<noteq> fs_ids s ?n" using assms(5) by simp
  then have "fs_ids s (Suc (Suc ?n)) @ fs_ids s (Suc (Suc (Suc ?n))) \<noteq> fs_ids s ?n @ fs_ids s (Suc ?n)"
    using l(1) by (simp add: append_eq_append_conv)
  then have "\<exists>k' s''. NewPKCE L p s' = (Ret k', s'') \<and> pkce_Value k' \<noteq> pkce_Value k"
    using p by (simp add: NewPKCE_Ret s' k key_of_ids_def)
  ultimately show ?thesis using p l by (simp add: k key_of_ids_def length_RawURL set_RawURL)
qed

text \<open>Identifiers for the witnesses: a letter, twenty-seven times, the first twenty-six before the rest.\<close>

definition ref_ids :: "nat \<Rightarrow> string" where
  "ref_ids n = replicate 27 (base62 ! (n mod 62))"

lemma ref_ids_laws: "ksuid_laws ref_ids"
proof -
  have "base62 ! (n mod 62) \<in> set base62" for n by (rule nth_mem) (simp add: base62_def)
  then show ?thesis by (auto simp: ksuid_laws_def ref_ids_def)
qed

definition ref_provider :: "'v oidc_provider" where
  "ref_provider = \<lparr>pv_AuthURL = ''https://issuer.test/auth'', pv_TokenURL = ''https://issuer.test/token'',
     pv_methods = Ret [''plain'', ''S256''],
     pv_Verify = (\<lambda>client raw. go_ret \<lparr>it_Nonce = raw, it_AccessTokenHash = [],
       it_VerifyAccessToken = (\<lambda>_. Ret ()), it_claims = bytes_of client\<rparr>)\<rparr>"

lemma ref_supports: "supports_S256 (Some ref_provider)"
  by (simp add: supports_S256_def ref_provider_def PKCES256_def)

definition ref_flow_state :: "unit flow_state" where
  "ref_flow_state = \<lparr>fs_ids = ref_ids, fs_next = 0, fs_remote = ()\<rparr>"

lemma ref_first_key: "NewPKCE L (Some ref_provider) ref_flow_state =
    (Ret (key_of_ids L (ref_ids 0) (ref_ids 1)), ref_flow_state\<lparr>fs_next := 2\<rparr>)"
  by (simp add: NewPKCE_Ret ref_supports ref_flow_state_def numeral_2_eq_2)

lemma ref_ids_differ: "ref_ids 2 \<noteq> ref_ids 0"
  by (simp add: ref_ids_def base62_def)

lemma pkce_key_witness:
  "length (pkce_Value (key_of_ids ref_lib (ref_ids 0) (ref_ids 1))) = 54"
proof -
  have "hash_linked ref_lib SHA256" by (simp add: ref_lib_def)
  moreover have "ksuid_laws (fs_ids ref_flow_state)" by (simp add: ref_flow_state_def ref_ids_laws)
  moreover have "fs_ids ref_flow_state (fs_next ref_flow_state + 2) \<noteq> fs_ids ref_flow_state (fs_next ref_flow_state)"
    using ref_ids_differ by (simp add: ref_flow_state_def numeral_2_eq_2)
  ultimately show ?thesis using pkce_key [OF lib_lawsD(1) [OF ref_lib_laws] _ _ ref_first_key] by blast
qed

section \<open>The interactive flow\<close>

text \<open>Where a code comes from: a request that carries the state token, or the user, who was shown the link.\<close>

definition code_from ::
  "('v, 'j) flow_lib \<Rightarrow> oauth2_config \<Rightarrow> url \<Rightarrow> string \<Rightarrow> auth_option list \<Rightarrow> string \<Rightarrow> oauth2_config \<Rightarrow> bool" where
  "code_from F cfg urlListener stateToken opts code cfg' \<longleftrightarrow>
     cfg' = cfg \<and> (\<exists>form v v'. first_event F urlListener 120 v = (Ret (Some (Callback form)), v') \<and>
       form ''state'' = stateToken \<and> form ''code'' = code) \<or>
     cfg' = cfg\<lparr>cfg_RedirectURL := oobRedirectURI\<rparr> \<and>
       (\<exists>v v'. ask_code F (AuthCodeURL F cfg' stateToken opts) v = (Ret code, v'))"

lemma obtain_code_Ret:
  assumes "obtain_code F browse cfg urlListener stateToken opts s = (Ret (code, cfg'), s')"
  shows "code_from F cfg urlListener stateToken opts code cfg'"
proof -
  let ?listen = "go_then (on_net (browse (AuthCodeURL F cfg stateToken opts))) (\<lambda>_.
    go_then (getCode F stateToken urlListener) (\<lambda>code. go_ret (code, cfg)))"
  from assms consider "?listen s = (Ret (code, cfg'), s')" | s1 where "doOobFlow F cfg stateToken opts s1 = (Ret (code, cfg'), s')"
    unfolding obtain_code_def or_else_Ret by blast
  then show ?thesis
  proof cases
    case 1
    then obtain s1 where "getCode F stateToken urlListener s1 = (Ret code, s')" "cfg' = cfg" by (auto simp: go_then_Ret_iff)
    then obtain v ev v' where "first_event F urlListener 120 v = (Ret (Some ev), v')" "redirect_send stateToken ev = Ret code"
      unfolding getCode_def by (auto simp: go_then_Ret_iff on_net_Ret split: option.splits)
    moreover from this(2) obtain form where "ev = Callback form" "form ''state'' = stateToken" "form ''code'' = code"
      by (auto simp: redirect_send_def split: redirect_event.splits if_splits)
    ultimately show ?thesis using \<open>cfg' = cfg\<close> unfolding code_from_def by blast
  next
    case 2
    then show ?thesis unfolding doOobFlow_def code_from_def Let_def by (auto simp: go_then_Ret_iff on_net_Ret)
  qed
qed

text \<open>What is checked of an ID token.\<close>

definition token_checked ::
  "('v, 'j) flow_lib \<Rightarrow> (string \<Rightarrow> ('v, id_token) step) \<Rightarrow> 'j oauth2_token \<Rightarrow> string \<Rightarrow> string \<Rightarrow> id_token \<Rightarrow> bool" where
  "token_checked F verify token nonce raw idt \<longleftrightarrow>
     token_Extra F (ot_raw token) ''id_token'' = Some raw \<and> (\<exists>v v'. verify raw v = (Ret idt, v')) \<and> it_Nonce idt = nonce \<and>
     (it_AccessTokenHash idt \<noteq> [] \<longrightarrow> it_VerifyAccessToken idt (ot_AccessToken token) = Ret ())"

lemma extractAndVerifyIDToken_Ret:
  "extractAndVerifyIDToken F t verify nonce s = (Ret idt, s') \<Longrightarrow> \<exists>raw. token_checked F verify t nonce raw idt"
  unfolding extractAndVerifyIDToken_def token_checked_def
  by (auto simp: go_then_Ret_iff on_net_Ret split: option.splits if_splits)

text \<open>An ID token of the interactive flow was verified by the provider's verifier for the client, carries
  the nonce of this run, and was part of a token that was exchanged for a code together with this run's
  proof key, the key whose challenge was in the link.  The code came with this run's state token to the
  listener, or from the user who had been shown the link.\<close>

theorem interactive_id_token:
  assumes "interactive_IDToken L F idts s = (Ret idt, s')"
  shows "\<exists>urlListener code cfg' token raw v v'.
    let id = (\<lambda>i. fs_ids s (fs_next s + i)); pkce = key_of_ids L (id 2) (id 3);
        opts = AuthURLOpts pkce @ [AccessTypeOnline, oidc_Nonce (id 1)] @ ids_extraAuthCodeOpts idts
    in supports_S256 (ids_oidp idts) \<and>
       code_from F ((ids_cfg idts)\<lparr>cfg_RedirectURL := url_String F urlListener\<rparr>) urlListener (id 0) opts code cfg' \<and>
       cfg_Exchange F cfg' code [(''code_verifier'', pkce_Value pkce), (''nonce'', id 1)] v = (Ret token, v') \<and>
       token_checked F (provider_Verifier (ids_oidp idts) (cfg_ClientID (ids_cfg idts))) token (id 1) raw idt"
proof -
  let ?id = "\<lambda>i. fs_ids s (fs_next s + i)"
  let ?s2 = "s\<lparr>fs_next := Suc (Suc (fs_next s))\<rparr>"
  from assms obtain u s3 k s4 code cfg' s5 token s6 where
    u: "startRedirectListener F (cfg_RedirectURL (ids_cfg idts)) ?s2 = (Ret u, s3)"
    and k: "NewPKCE L (ids_oidp idts) s3 = (Ret k, s4)"
    and c: "obtain_code F (ids_browser idts) ((ids_cfg idts)\<lparr>cfg_RedirectURL := url_String F u\<rparr>) u (?id 0)
      (AuthURLOpts k @ [AccessTypeOnline, oidc_Nonce (?id 1)] @ ids_extraAuthCodeOpts idts) s4 = (Ret (code, cfg'), s5)"
    and t: "on_net (cfg_Exchange F cfg' code (TokenURLOpts k @ [oidc_Nonce (?id 1)])) s5 = (Ret token, s6)"
    and v: "extractAndVerifyIDToken F token (provider_Verifier (ids_oidp idts) (cfg_ClientID cfg')) (?id 1) s6 = (Ret idt, s')"
    unfolding interactive_IDToken_def
    by (auto simp: go_then_Ret_iff newKSUID_Ret Let_def split: prod.splits)
  from staysD [OF startRedirectListener_ids u] have "fs_ids s3 = fs_ids s" "fs_next s3 = fs_next s + 2" by (simp_all add: same_ids_def)
  with k have p: "supports_S256 (ids_oidp idts)" "k = key_of_ids L (?id 2) (?id 3)" by (simp_all add: NewPKCE_Ret eval_nat_numeral)
  from obtain_code_Ret [OF c] have cf: "code_from F ((ids_cfg idts)\<lparr>cfg_RedirectURL := url_String F u\<rparr>) u (?id 0)
      (AuthURLOpts k @ [AccessTypeOnline, oidc_Nonce (?id 1)] @ ids_extraAuthCodeOpts idts) code cfg'" .
  then have id: "cfg_ClientID cfg' = cfg_ClientID (ids_cfg idts)" by (auto simp: code_from_def)
  from t obtain w w' where "cfg_Exchange F cfg' code [(''code_verifier'', pkce_Value k), (''nonce'', ?id 1)] w = (Ret token, w')"
    by (auto simp: on_net_Ret TokenURLOpts_def oidc_Nonce_def SetAuthURLParam_def)
  with extractAndVerifyIDToken_Ret [OF v] p cf id show ?thesis unfolding Let_def by metis
qed

text \<open>A world in which the browser opens, the request comes back and the provider agrees.\<close>

definition ref_flow :: "(unit, unit) flow_lib" where
  "ref_flow = \<lparr>url_Parse = (\<lambda>_. Err (Msg ''parse'')), url_String = url_Host,
     net_Listen = (\<lambda>_. go_ret 8080),
     first_event = (\<lambda>_ _. go_ret (Some (Callback (\<lambda>k. if k = ''state'' then ref_ids 0 else ''code'')))),
     open_browser = (\<lambda>_. go_ret ()), ask_code = (\<lambda>_. go_ret ''code''), AuthCodeURL = (\<lambda>_ _ _. ''link''),
     cfg_Exchange = (\<lambda>_ _ _. go_ret \<lparr>ot_AccessToken = ''token'', ot_TokenType = [], ot_RefreshToken = [],
       ot_Expiry = None, ot_raw = None\<rparr>),
     token_Extra = (\<lambda>_ _. Some (ref_ids 1))\<rparr>"

definition ref_config :: oauth2_config where
  "ref_config = \<lparr>cfg_ClientID = ''sigstore'', cfg_ClientSecret = [], cfg_AuthURL = [], cfg_TokenURL = [],
     cfg_Scopes = [''openid'', ''email''], cfg_RedirectURL = []\<rparr>"

definition ref_source :: "unit interactiveIDTokenSource" where
  "ref_source = InteractiveIDTokenSource ref_flow ref_config (Some ref_provider) [] True False 10"

definition ref_id_token :: id_token where
  "ref_id_token = \<lparr>it_Nonce = ref_ids 1, it_AccessTokenHash = [], it_VerifyAccessToken = (\<lambda>_. Ret ()), it_claims = bytes_of ''sigstore''\<rparr>"

lemma ref_obtain: "obtain_code ref_flow (open_browser ref_flow) cfg u (ref_ids 0) opts = go_ret (''code'', cfg)"
  by (simp add: fun_eq_iff obtain_code_def getCode_def ref_flow_def redirect_send_def or_else_def)

lemma ref_listen: "startRedirectListener ref_flow [] = go_ret \<lparr>url_Scheme = ''http'', url_Host = ''localhost:'' @ dec 8080, url_Path = ''/auth/callback'', url_rest = []\<rparr>"
  by (simp add: fun_eq_iff startRedirectListener_def ref_flow_def)

lemma ref_check: "extractAndVerifyIDToken ref_flow t (provider_Verifier (Some ref_provider) ''sigstore'') (ref_ids 1) = go_ret ref_id_token"
  by (simp add: fun_eq_iff extractAndVerifyIDToken_def ref_flow_def provider_Verifier_def ref_provider_def ref_id_token_def)

lemma go_then_ref_key: "go_then (NewPKCE L (Some ref_provider)) f s =
    f (key_of_ids L (fs_ids s (fs_next s)) (fs_ids s (Suc (fs_next s)))) (s\<lparr>fs_next := Suc (Suc (fs_next s))\<rparr>)"
  by (rule go_then_step(1)) (simp add: NewPKCE_Ret ref_supports)

lemma ref_interactive: "fst (interactive_IDToken ref_lib ref_flow ref_source ref_flow_state) = Ret ref_id_token"
proof -
  have "\<exists>page. GetInteractiveSuccessHTML False 10 = Ret page" by (rule page_is_made)
  then obtain page where "GetInteractiveSuccessHTML False 10 = Ret page" ..
  moreover have "cfg_Exchange ref_flow c d e = go_ret \<lparr>ot_AccessToken = ''token'', ot_TokenType = [],
      ot_RefreshToken = [], ot_Expiry = None, ot_raw = None\<rparr>" for c d e by (simp add: ref_flow_def)
  ultimately show ?thesis
    unfolding interactive_IDToken_def ref_source_def InteractiveIDTokenSource_def
    by (simp add: go_then_newKSUID go_then_ref_key ref_flow_state_def ref_config_def ref_listen ref_obtain [simplified]
        ref_check [simplified] Let_def)
qed

lemma interactive_id_token_witness:
  "it_Nonce ref_id_token = ref_ids 1 \<and> (\<exists>raw. token_Extra ref_flow None ''id_token'' = Some raw)"
proof -
  obtain s' where "interactive_IDToken ref_lib ref_flow ref_source ref_flow_state = (Ret ref_id_token, s')"
    using ref_interactive by (cases "interactive_IDToken ref_lib ref_flow ref_source ref_flow_state") auto
  from interactive_id_token [OF this] show ?thesis
    by (auto simp: Let_def token_checked_def ref_flow_state_def ref_flow_def)
qed

end
