(* ===== verification/OAuthFlow.thy ===== *)
theory OAuthFlow
  imports Oidc
begin

text \<open>
  \<open>pkg/oauthflow\<close>: getting an ID token and its subject.  The proof keys (\<open>pkce.go\<close>), the interactive
  getter (\<open>interactive.go\<close>), the device code grant (\<open>device.go\<close>), the client credentials grant
  (\<open>client_credentials.go\<close>) and what they share (\<open>flow.go\<close>).  HTTP, JSON and signed tokens are parameters
  besides those of \<open>Oidc\<close>.
\<close>

section \<open>Claims and subjects\<close>

record claims =
  cl_Email :: string
  cl_Verified :: bool
  cl_Subject :: string

record OIDCIDToken =
  RawString :: string
  Subject :: string

text \<open>The JSON texts a boolean claim may have.\<close>

definition stringAsBool_UnmarshalJSON :: "bytes \<Rightarrow> bool outcome" where
  "stringAsBool_UnmarshalJSON b =
     (let s = string_of b in
      if s \<in> {''true'', ''\"true\"'', ''True'', ''\"True\"''} then Ret True
      else if s \<in> {''false'', ''\"false\"'', ''False'', ''\"False\"''} then Ret False
      else Err (Msg ''invalid value for boolean''))"

text \<open>The members of a JSON object the claims are read from: \<open>email_verified\<close> as its text, if it is there.\<close>

record claim_members =
  cm_email :: string
  cm_email_verified :: "bytes option"
  cm_sub :: string

record deviceResp =
  dr_DeviceCode :: string
  dr_UserCode :: string
  dr_VerificationURI :: string
  dr_VerificationURIComplete :: string
  dr_Interval :: "64 word"
  dr_ExpiresIn :: "64 word"

record tokenResp =
  tr_IDToken :: string
  tr_Error :: string

datatype input = Stdin | User_input nat
datatype output_to = Stderr | User_output nat

record 'v http_lib =
  http_Get :: "string \<Rightarrow> ('v, http_response) step"
  http_PostForm :: "string \<Rightarrow> url_values \<Rightarrow> ('v, http_response) step"
  json_deviceResp :: "bytes \<Rightarrow> deviceResp outcome"
  json_tokenResp :: "bytes \<Rightarrow> tokenResp outcome"
  json_discovery :: "string \<Rightarrow> bytes \<Rightarrow> (string \<times> string) outcome"
  json_members :: "bytes \<Rightarrow> claim_members outcome"
  jose_ParseSigned :: "string \<Rightarrow> string list \<Rightarrow> bytes outcome"
  oidc_NewProvider :: "string \<Rightarrow> ('v, 'v oidc_provider) step"
  run_browser :: "string \<Rightarrow> ('v, unit) step"
  ask_user :: "input \<Rightarrow> output_to \<Rightarrow> string \<Rightarrow> ('v, string) step"

definition json_claims :: "'v http_lib \<Rightarrow> bytes \<Rightarrow> claims outcome" where
  "json_claims H b =
     and_then (json_members H b) (\<lambda>m.
     and_then (case cm_email_verified m of None \<Rightarrow> Ret False | Some t \<Rightarrow> stringAsBool_UnmarshalJSON t) (\<lambda>v.
     Ret \<lparr>cl_Email = cm_email m, cl_Verified = v, cl_Subject = cm_sub m\<rparr>))"

definition subjectFromClaims :: "claims \<Rightarrow> string outcome" where
  "subjectFromClaims c =
     (if cl_Email c \<noteq> [] then
        (if \<not> cl_Verified c then Err (Msg ''not verified by identity provider'') else Ret (cl_Email c))
      else if cl_Subject c = [] then Err (Msg ''no subject found in claims'')
      else Ret (cl_Subject c))"

definition SubjectFromToken :: "'v http_lib \<Rightarrow> id_token \<Rightarrow> string outcome" where
  "SubjectFromToken H tok = and_then (json_claims H (it_claims tok)) subjectFromClaims"

definition SubjectFromUnverifiedToken :: "'v http_lib \<Rightarrow> bytes \<Rightarrow> string outcome" where
  "SubjectFromUnverifiedToken H tok = and_then (json_claims H tok) subjectFromClaims"

section \<open>Static tokens\<close>

definition allowedSignatureAlgorithms :: "string list" where
  "allowedSignatureAlgorithms = [''ES256'', ''ES384'', ''ES512'', ''RS256'', ''RS384'', ''RS512'', ''PS256'', ''PS384'', ''PS512'',
     ''EdDSA'', ''HS256'', ''HS384'', ''HS512'']"

text \<open>The payload is read without verification.\<close>

definition static_GetIDToken :: "'v http_lib \<Rightarrow> string \<Rightarrow> OIDCIDToken outcome" where
  "static_GetIDToken H rawToken =
     and_then (jose_ParseSigned H rawToken allowedSignatureAlgorithms) (\<lambda>unsafePayload.
     and_then (json_claims H unsafePayload) (\<lambda>claims.
     and_then (subjectFromClaims claims) (\<lambda>subj. Ret \<lparr>RawString = rawToken, Subject = subj\<rparr>)))"

datatype ('v, 's) token_getter =
    StaticTokenGetter string
  | Getter "'v oidc_provider option \<Rightarrow> oauth2_config \<Rightarrow> ('s, OIDCIDToken) step"

definition OIDConnect ::
  "'v http_lib \<Rightarrow> string \<Rightarrow> string \<Rightarrow> string \<Rightarrow> string \<Rightarrow> ('v, 'v flow_state) token_getter \<Rightarrow> ('v flow_state, OIDCIDToken) step" where
  "OIDConnect H issuer clientID secret redirectURL tg = (case tg of
       StaticTokenGetter raw \<Rightarrow> go_lift (static_GetIDToken H raw)
     | Getter get \<Rightarrow>
         go_then (on_net (oidc_NewProvider H issuer)) (\<lambda>provider.
         get (Some provider) \<lparr>cfg_ClientID = clientID, cfg_ClientSecret = secret, cfg_AuthURL = pv_AuthURL provider,
           cfg_TokenURL = pv_TokenURL provider, cfg_Scopes = [''openid'', ''email''], cfg_RedirectURL = redirectURL\<rparr>))"

section \<open>Proof keys\<close>

definition flow_PKCES256 :: string where "flow_PKCES256 = ''S256''"

primrec flow_choose_method :: "string list \<Rightarrow> string \<Rightarrow> string" where
  "flow_choose_method [] chosenMethod = chosenMethod"
| "flow_choose_method (method # ms) chosenMethod =
     (if method = flow_PKCES256 \<and> chosenMethod \<noteq> flow_PKCES256 then flow_PKCES256 else flow_choose_method ms chosenMethod)"

definition flow_azureregex :: re where
  "flow_azureregex = Seq (lit ''https://login.microsoftonline.'') (Seq (Alt (lit ''com'') (lit ''us'')) (lit ''/''))"

definition flow_providerIsAzureBacked :: "'v oidc_provider option \<Rightarrow> bool" where
  "flow_providerIsAzureBacked p = (case p of None \<Rightarrow> False
     | Some p \<Rightarrow> matches (Seq flow_azureregex (Star (Cls (\<lambda>_. True)))) (pv_AuthURL p))"

definition randStr :: "('v flow_state, string) step" where
  "randStr s = (Ret (fs_ids s (fs_next s)), s\<lparr>fs_next := Suc (fs_next s)\<rparr>)"

definition flow_NewPKCE :: "crypto_lib \<Rightarrow> 'v oidc_provider option \<Rightarrow> ('v flow_state, PKCE) step" where
  "flow_NewPKCE L provider =
     go_then (go_lift (provider_Claims provider)) (\<lambda>methods.
     let chosenMethod = flow_choose_method methods [] in
     go_then (if chosenMethod = [] then (if flow_providerIsAzureBacked provider then go_ret flow_PKCES256 else go_err PKCENotSupported)
              else go_ret chosenMethod) (\<lambda>chosenMethod.
     go_then randStr (\<lambda>a. go_then randStr (\<lambda>b.
     let value = a @ b;
         challenge = EncodeToString RawURLEncoding (hash_sum L SHA256 (bytes_of value))
     in go_ret \<lparr>pkce_Challenge = challenge, pkce_Method = chosenMethod, pkce_Value = value\<rparr>))))"

definition flow_AuthURLOpts :: "PKCE \<Rightarrow> auth_option list" where
  "flow_AuthURLOpts p = [SetAuthURLParam ''code_challenge_method'' (pkce_Method p), SetAuthURLParam ''code_challenge'' (pkce_Challenge p)]"

definition flow_TokenURLOpts :: "PKCE \<Rightarrow> auth_option list" where
  "flow_TokenURLOpts p = [SetAuthURLParam ''code_verifier'' (pkce_Value p)]"

text \<open>The two packages make the same keys.\<close>

lemma flow_choose_method: "flow_choose_method ms m = choose_method ms m"
  by (induction ms arbitrary: m) (auto simp: flow_PKCES256_def PKCES256_def)

lemma flow_pkce: "flow_NewPKCE L p = NewPKCE L p" "flow_AuthURLOpts k = AuthURLOpts k" "flow_TokenURLOpts k = TokenURLOpts k"
proof -
  have r: "randStr = newKSUID" by (simp add: fun_eq_iff randStr_def newKSUID_def)
  have a: "flow_providerIsAzureBacked = providerIsAzureBacked"
    by (simp add: fun_eq_iff flow_providerIsAzureBacked_def providerIsAzureBacked_def flow_azureregex_def azureregex_def
        azureregex_MatchString_def split: option.splits)
  have m: "flow_PKCES256 = PKCES256" by (simp add: flow_PKCES256_def PKCES256_def)
  show "flow_NewPKCE L p = NewPKCE L p"
    by (simp only: flow_NewPKCE_def NewPKCE_def flow_choose_method r a m)
qed (simp_all add: flow_AuthURLOpts_def AuthURLOpts_def flow_TokenURLOpts_def TokenURLOpts_def)

section \<open>The interactive getter\<close>

definition flow_oobRedirectURI :: string where "flow_oobRedirectURI = ''urn:ietf:wg:oauth:2.0:oob''"

record InteractiveIDTokenGetter =
  ig_HTMLPage :: string
  ig_ExtraAuthURLParams :: "auth_option list"
  ig_Input :: "nat option"
  ig_Output :: "nat option"

definition GetInput :: "InteractiveIDTokenGetter \<Rightarrow> input" where
  "GetInput i = (case ig_Input i of None \<Rightarrow> Stdin | Some r \<Rightarrow> User_input r)"

definition GetOutput :: "InteractiveIDTokenGetter \<Rightarrow> output_to" where
  "GetOutput i = (case ig_Output i of None \<Rightarrow> Stderr | Some w \<Rightarrow> User_output w)"

definition flow_doOobFlow ::
  "'v http_lib \<Rightarrow> ('v, 'j) flow_lib \<Rightarrow> InteractiveIDTokenGetter \<Rightarrow> oauth2_config \<Rightarrow> string \<Rightarrow> auth_option list \<Rightarrow>
     ('v flow_state, string \<times> oauth2_config) step" where
  "flow_doOobFlow H F i cfg stateToken opts =
     (let cfg = cfg\<lparr>cfg_RedirectURL := flow_oobRedirectURI\<rparr>
      in go_then (on_net (ask_user H (GetInput i) (GetOutput i) (AuthCodeURL F cfg stateToken opts))) (\<lambda>code. go_ret (code, cfg)))"

definition flow_startRedirectListener :: "('v, 'j) flow_lib \<Rightarrow> string \<Rightarrow> ('v flow_state, url) step" where
  "flow_startRedirectListener F redirectURL =
     (if redirectURL = [] then
        go_then (on_net (net_Listen F ''localhost:0'')) (\<lambda>port.
        go_ret \<lparr>url_Scheme = ''http'', url_Host = ''localhost:'' @ dec port, url_Path = ''/auth/callback'', url_rest = []\<rparr>)
      else
        go_then (go_lift (url_Parse F redirectURL)) (\<lambda>urlListener.
        go_then (on_net (net_Listen F (url_Host urlListener))) (\<lambda>_. go_ret urlListener)))"

definition flow_redirect_send :: "string \<Rightarrow> redirect_event \<Rightarrow> string outcome" where
  "flow_redirect_send state ev = (case ev of
       Callback form \<Rightarrow> if form ''state'' \<noteq> state then Err (Msg ''invalid state token'') else Ret (form ''code'')
     | ServeError e \<Rightarrow> Err e)"

definition flow_getCode :: "('v, 'j) flow_lib \<Rightarrow> string \<Rightarrow> url \<Rightarrow> ('v flow_state, string) step" where
  "flow_getCode F state urlListener =
     go_then (on_net (first_event F urlListener 120)) (\<lambda>ev.
     go_lift (case ev of None \<Rightarrow> Err (Msg ''timeout'') | Some ev \<Rightarrow> flow_redirect_send state ev))"

text \<open>The code: from the listener when the browser opens and the code arrives, else from the user.\<close>

definition flow_obtain_code ::
  "'v http_lib \<Rightarrow> ('v, 'j) flow_lib \<Rightarrow> InteractiveIDTokenGetter \<Rightarrow> oauth2_config \<Rightarrow> url \<Rightarrow> string \<Rightarrow> auth_option list \<Rightarrow>
     ('v flow_state, string \<times> oauth2_config) step" where
  "flow_obtain_code H F i cfg urlListener stateToken opts =
     or_else (go_then (on_net (run_browser H (AuthCodeURL F cfg stateToken opts))) (\<lambda>_.
              go_then (flow_getCode F stateToken urlListener) (\<lambda>code. go_ret (code, cfg))))
       (flow_doOobFlow H F i cfg stateToken opts)"

text \<open>The checks of an ID token, and its subject.\<close>

definition flow_check_token ::
  "'v http_lib \<Rightarrow> ('v, 'j) flow_lib \<Rightarrow> 'j oauth2_token \<Rightarrow> (string \<Rightarrow> ('v, id_token) step) \<Rightarrow> string \<Rightarrow> ('v flow_state, OIDCIDToken) step" where
  "flow_check_token H F token verify nonce = (case token_Extra F (ot_raw token) ''id_token'' of
       None \<Rightarrow> go_err (Msg ''id_token not present'')
     | Some idToken \<Rightarrow>
         go_then (on_net (verify idToken)) (\<lambda>parsedIDToken.
         if it_Nonce parsedIDToken \<noteq> nonce then go_err (Msg ''nonce does not match value sent'')
         else go_then (if it_AccessTokenHash parsedIDToken \<noteq> []
                  then go_lift (it_VerifyAccessToken parsedIDToken (ot_AccessToken token)) else go_ret ()) (\<lambda>_.
              go_then (go_lift (SubjectFromToken H parsedIDToken)) (\<lambda>email.
              go_ret \<lparr>RawString = idToken, Subject = email\<rparr>))))"

definition interactive_GetIDToken ::
  "crypto_lib \<Rightarrow> 'v http_lib \<Rightarrow> ('v, 'j) flow_lib \<Rightarrow> InteractiveIDTokenGetter \<Rightarrow> 'v oidc_provider option \<Rightarrow> oauth2_config \<Rightarrow>
     ('v flow_state, OIDCIDToken) step" where
  "interactive_GetIDToken L H F i p cfg =
     go_then randStr (\<lambda>stateToken. go_then randStr (\<lambda>nonce.
     go_then (go_wrap ''starting redirect listener'' (flow_startRedirectListener F (cfg_RedirectURL cfg))) (\<lambda>redirectURL.
     let cfg = cfg\<lparr>cfg_RedirectURL := url_String F redirectURL\<rparr>
     in go_then (flow_NewPKCE L p) (\<lambda>pkce.
     let opts = flow_AuthURLOpts pkce @ [AccessTypeOnline, oidc_Nonce nonce] @ ig_ExtraAuthURLParams i
     in go_then (flow_obtain_code H F i cfg redirectURL stateToken opts) (\<lambda>(code, cfg).
     go_then (on_net (cfg_Exchange F cfg code (flow_TokenURLOpts pkce @ [oidc_Nonce nonce]))) (\<lambda>token.
     flow_check_token H F token (provider_Verifier p (cfg_ClientID cfg)) nonce))))))"

definition ConnectorIDOpt :: "string \<Rightarrow> auth_option" where
  "ConnectorIDOpt prov = SetAuthURLParam ''connector_id'' prov"

definition PublicInstanceGithubAuthSubURL :: string where "PublicInstanceGithubAuthSubURL = ''https://github.com/login/oauth''"
definition PublicInstanceGoogleAuthSubURL :: string where "PublicInstanceGoogleAuthSubURL = ''https://accounts.google.com''"
definition PublicInstanceMicrosoftAuthSubURL :: string where "PublicInstanceMicrosoftAuthSubURL = ''https://login.microsoftonline.com''"

text \<open>The package's getters: the variables as they are set up first, from the static page, and the default
  getter after \<open>init\<close> has made its page.  \<open>init\<close> runs last, so the other getters keep the static page.\<close>

definition DefaultIDTokenGetter :: InteractiveIDTokenGetter where
  "DefaultIDTokenGetter = \<lparr>ig_HTMLPage = InteractiveSuccessHTML, ig_ExtraAuthURLParams = [], ig_Input = None, ig_Output = None\<rparr>"

definition flow_init :: "InteractiveIDTokenGetter \<Rightarrow> InteractiveIDTokenGetter" where
  "flow_init getter = (case GetInteractiveSuccessHTML False 10 of Ret htmlPage \<Rightarrow> getter\<lparr>ig_HTMLPage := htmlPage\<rparr> | _ \<Rightarrow> getter)"

definition PublicInstanceGithubIDTokenGetter :: InteractiveIDTokenGetter where
  "PublicInstanceGithubIDTokenGetter = \<lparr>ig_HTMLPage = ig_HTMLPage DefaultIDTokenGetter,
     ig_ExtraAuthURLParams = [ConnectorIDOpt PublicInstanceGithubAuthSubURL], ig_Input = None, ig_Output = None\<rparr>"

definition PublicInstanceGoogleIDTokenGetter :: InteractiveIDTokenGetter where
  "PublicInstanceGoogleIDTokenGetter = \<lparr>ig_HTMLPage = ig_HTMLPage DefaultIDTokenGetter,
     ig_ExtraAuthURLParams = [ConnectorIDOpt PublicInstanceGoogleAuthSubURL], ig_Input = None, ig_Output = None\<rparr>"

definition PublicInstanceMicrosoftIDTokenGetter :: InteractiveIDTokenGetter where
  "PublicInstanceMicrosoftIDTokenGetter = \<lparr>ig_HTMLPage = ig_HTMLPage DefaultIDTokenGetter,
     ig_ExtraAuthURLParams = [ConnectorIDOpt PublicInstanceMicrosoftAuthSubURL], ig_Input = None, ig_Output = None\<rparr>"

text \<open>The pages of the getters: \<open>init\<close> gives the default one two more lines before the end, the others keep the
  static page, which they copied before.\<close>

lemma getter_pages:
  "ig_HTMLPage PublicInstanceGithubIDTokenGetter = InteractiveSuccessHTML"
  "ig_HTMLPage PublicInstanceGoogleIDTokenGetter = InteractiveSuccessHTML"
  "ig_HTMLPage PublicInstanceMicrosoftIDTokenGetter = InteractiveSuccessHTML"
  "ig_HTMLPage (flow_init DefaultIDTokenGetter) =
     page_style @ page_header @ page_notice @ page_links @ line 0 [] @ line 2 [] @ page_end"
  by (simp_all add: PublicInstanceGithubIDTokenGetter_def PublicInstanceGoogleIDTokenGetter_def
    PublicInstanceMicrosoftIDTokenGetter_def DefaultIDTokenGetter_def flow_init_def plain_page)

section \<open>Subjects\<close>

text \<open>Whom a set of claims is about: an email address that is marked as verified, or the subject when there
  is no address.\<close>

definition names_subject :: "claim_members \<Rightarrow> string \<Rightarrow> bool" where
  "names_subject m who \<longleftrightarrow> who \<noteq> [] \<and>
     (if cm_email m = [] then who = cm_sub m
      else who = cm_email m \<and> (\<exists>t. cm_email_verified m = Some t \<and> string_of t \<in> {''true'', ''\"true\"'', ''True'', ''\"True\"''}))"

lemma stringAsBool_True: "stringAsBool_UnmarshalJSON t = Ret True \<longleftrightarrow> string_of t \<in> {''true'', ''\"true\"'', ''True'', ''\"True\"''}"
  unfolding stringAsBool_UnmarshalJSON_def Let_def by simp

lemma json_claims_Ret:
  "json_claims H b = Ret c \<longleftrightarrow> (\<exists>m v. json_members H b = Ret m \<and>
     (case cm_email_verified m of None \<Rightarrow> v = False | Some t \<Rightarrow> stringAsBool_UnmarshalJSON t = Ret v) \<and>
     c = \<lparr>cl_Email = cm_email m, cl_Verified = v, cl_Subject = cm_sub m\<rparr>)"
  unfolding json_claims_def by (auto simp: outcome_simps split: option.splits)

lemma subject_named:
  assumes "and_then (json_claims H b) subjectFromClaims = Ret who"
  shows "\<exists>m. json_members H b = Ret m \<and> names_subject m who"
proof -
  from assms obtain m v where m: "json_members H b = Ret m"
    and v: "case cm_email_verified m of None \<Rightarrow> v = False | Some t \<Rightarrow> stringAsBool_UnmarshalJSON t = Ret v"
    and w: "subjectFromClaims \<lparr>cl_Email = cm_email m, cl_Verified = v, cl_Subject = cm_sub m\<rparr> = Ret who"
    by (auto simp: and_then_Ret_iff json_claims_Ret)
  from w have "cm_email m = [] \<and> who = cm_sub m \<and> who \<noteq> [] \<or> cm_email m \<noteq> [] \<and> v \<and> who = cm_email m"
    by (auto simp: subjectFromClaims_def split: if_splits)
  with v have "names_subject m who" unfolding names_subject_def by (cases "cm_email_verified m") (auto simp: stringAsBool_True)
  with m show ?thesis by blast
qed

section \<open>The interactive getter\<close>

lemma flow_startRedirectListener: "flow_startRedirectListener F r = startRedirectListener F r"
  by (simp add: flow_startRedirectListener_def startRedirectListener_def)

lemma flow_getCode: "flow_getCode F state u = getCode F state u"
proof -
  have "flow_redirect_send = redirect_send" by (simp add: fun_eq_iff flow_redirect_send_def redirect_send_def split: redirect_event.splits)
  then show ?thesis by (simp only: flow_getCode_def getCode_def)
qed

text \<open>The same flow as that of \<open>pkg/oauth/oidc\<close>, on a library that asks the user through the getter.\<close>

definition through_getter :: "'v http_lib \<Rightarrow> InteractiveIDTokenGetter \<Rightarrow> ('v, 'j) flow_lib \<Rightarrow> ('v, 'j) flow_lib" where
  "through_getter H i F = F\<lparr>ask_code := ask_user H (GetInput i) (GetOutput i)\<rparr>"

lemma flow_obtain_code: "flow_obtain_code H F i cfg u state opts = obtain_code (through_getter H i F) (run_browser H) cfg u state opts"
proof -
  have "getCode (through_getter H i F) state u = getCode F state u" by (simp add: getCode_def through_getter_def)
  then show ?thesis
    by (simp add: flow_obtain_code_def obtain_code_def flow_getCode flow_doOobFlow_def doOobFlow_def flow_oobRedirectURI_def
        oobRedirectURI_def through_getter_def)
qed

lemma flow_check_token_Ret:
  assumes "flow_check_token H F token verify nonce s = (Ret tok, s')"
  shows "\<exists>idt. token_checked F verify token nonce (RawString tok) idt \<and> SubjectFromToken H idt = Ret (Subject tok)"
proof -
  from assms obtain raw idt s1 s2 where "token_Extra F (ot_raw token) ''id_token'' = Some raw"
    and v: "on_net (verify raw) s = (Ret idt, s1)" and n: "it_Nonce idt = nonce"
    and h: "(if it_AccessTokenHash idt \<noteq> [] then go_lift (it_VerifyAccessToken idt (ot_AccessToken token)) else go_ret ()) s1 = (Ret (), s2)"
    and "SubjectFromToken H idt = Ret (Subject tok)" "RawString tok = raw"
    unfolding flow_check_token_def by (auto simp: go_then_Ret_iff split: option.splits if_splits)
  moreover from v obtain v' where "verify raw (fs_remote s) = (Ret idt, v')" by (auto simp: on_net_Ret)
  moreover from h have "it_AccessTokenHash idt \<noteq> [] \<longrightarrow> it_VerifyAccessToken idt (ot_AccessToken token) = Ret ()" by auto
  ultimately show ?thesis unfolding token_checked_def by blast
qed

text \<open>C8: the interactive getter returns an ID token that the provider's verifier accepted for the client, with
  the nonce of this run, from a token exchanged for a code together with this run's proof key; the code
  came with this run's state token or from the user who was shown the link.  The subject is the email
  address, if the claims hold one, and then they say that it is verified; else their \<open>sub\<close>.\<close>

theorem flow_id_token:
  assumes "interactive_GetIDToken L H F i p cfg s = (Ret tok, s')"
  shows "\<exists>urlListener code cfg' token idt m v v'.
    let id = (\<lambda>k. fs_ids s (fs_next s + k)); pkce = key_of_ids L (id 2) (id 3);
        opts = AuthURLOpts pkce @ [AccessTypeOnline, oidc_Nonce (id 1)] @ ig_ExtraAuthURLParams i
    in supports_S256 p \<and>
       code_from (through_getter H i F) (cfg\<lparr>cfg_RedirectURL := url_String F urlListener\<rparr>) urlListener (id 0) opts code cfg' \<and>
       cfg_Exchange F cfg' code [(''code_verifier'', pkce_Value pkce), (''nonce'', id 1)] v = (Ret token, v') \<and>
       token_checked F (provider_Verifier p (cfg_ClientID cfg)) token (id 1) (RawString tok) idt \<and>
       json_members H (it_claims idt) = Ret m \<and> names_subject m (Subject tok)"
proof -
  let ?id = "\<lambda>k. fs_ids s (fs_next s + k)"
  let ?s2 = "s\<lparr>fs_next := Suc (Suc (fs_next s))\<rparr>"
  have r: "randStr = newKSUID" by (simp add: fun_eq_iff randStr_def newKSUID_def)
  from assms obtain u s3 k s4 code cfg' s5 token s6 where
    u: "startRedirectListener F (cfg_RedirectURL cfg) ?s2 = (Ret u, s3)"
    and k: "NewPKCE L p s3 = (Ret k, s4)"
    and c: "obtain_code (through_getter H i F) (run_browser H) (cfg\<lparr>cfg_RedirectURL := url_String F u\<rparr>) u (?id 0)
      (AuthURLOpts k @ [AccessTypeOnline, oidc_Nonce (?id 1)] @ ig_ExtraAuthURLParams i) s4 = (Ret (code, cfg'), s5)"
    and t: "on_net (cfg_Exchange F cfg' code (TokenURLOpts k @ [oidc_Nonce (?id 1)])) s5 = (Ret token, s6)"
    and v: "flow_check_token H F token (provider_Verifier p (cfg_ClientID cfg')) (?id 1) s6 = (Ret tok, s')"
    unfolding interactive_GetIDToken_def r flow_startRedirectListener flow_pkce flow_obtain_code
    by (auto simp: go_then_Ret_iff newKSUID_Ret Let_def split: prod.splits)
  from staysD [OF startRedirectListener_ids u] have "fs_ids s3 = fs_ids s" "fs_next s3 = fs_next s + 2" by (simp_all add: same_ids_def)
  with k have p: "supports_S256 p" "k = key_of_ids L (?id 2) (?id 3)" by (simp_all add: NewPKCE_Ret eval_nat_numeral)
  note cf = obtain_code_Ret [OF c]
  then have id: "cfg_ClientID cfg' = cfg_ClientID cfg" by (auto simp: code_from_def)
  from t obtain w w' where "cfg_Exchange F cfg' code [(''code_verifier'', pkce_Value k), (''nonce'', ?id 1)] w = (Ret token, w')"
    by (auto simp: on_net_Ret TokenURLOpts_def oidc_Nonce_def SetAuthURLParam_def)
  moreover from flow_check_token_Ret [OF v] obtain idt where "token_checked F (provider_Verifier p (cfg_ClientID cfg)) token (?id 1) (RawString tok) idt"
    and "SubjectFromToken H idt = Ret (Subject tok)" unfolding id by blast
  moreover from this(2) obtain m where "json_members H (it_claims idt) = Ret m" "names_subject m (Subject tok)"
    using subject_named unfolding SubjectFromToken_def by blast
  ultimately show ?thesis using p cf unfolding Let_def by metis
qed

definition ref_http :: "unit http_lib" where
  "ref_http = \<lparr>http_Get = (\<lambda>_. go_ret (ref_response [])), http_PostForm = (\<lambda>_ _. go_ret (ref_response [])),
     json_deviceResp = (\<lambda>_. Ret \<lparr>dr_DeviceCode = ''device'', dr_UserCode = ''user'', dr_VerificationURI = ''uri'',
       dr_VerificationURIComplete = [], dr_Interval = 5, dr_ExpiresIn = 300\<rparr>),
     json_tokenResp = (\<lambda>_. Ret \<lparr>tr_IDToken = ''id'', tr_Error = []\<rparr>),
     json_discovery = (\<lambda>_ _. Ret (''https://issuer.test'', ''https://issuer.test/code'')),
     json_members = (\<lambda>_. Ret \<lparr>cm_email = ''someone@example.test'', cm_email_verified = Some (bytes_of ''true''), cm_sub = ''42''\<rparr>),
     jose_ParseSigned = (\<lambda>_ _. Ret []), oidc_NewProvider = (\<lambda>_. go_ret ref_provider),
     run_browser = (\<lambda>_. go_ret ()), ask_user = (\<lambda>_ _ _. go_ret ''code'')\<rparr>"

definition ref_oidc_token :: OIDCIDToken where
  "ref_oidc_token = \<lparr>RawString = ref_ids 1, Subject = ''someone@example.test''\<rparr>"

lemma ref_SubjectFromToken: "SubjectFromToken ref_http idt = Ret ''someone@example.test''"
  by (simp add: SubjectFromToken_def json_claims_def ref_http_def stringAsBool_UnmarshalJSON_def subjectFromClaims_def)

lemma ref_flow_obtain: "flow_obtain_code ref_http ref_flow i cfg u (ref_ids 0) opts = go_ret (''code'', cfg)"
  unfolding flow_obtain_code
  by (simp add: fun_eq_iff obtain_code_def getCode_def through_getter_def ref_flow_def redirect_send_def or_else_def ref_http_def)

lemma ref_flow_check: "flow_check_token ref_http ref_flow t (provider_Verifier (Some ref_provider) c) (ref_ids 1) = go_ret ref_oidc_token"
  by (simp add: fun_eq_iff flow_check_token_def ref_flow_def provider_Verifier_def ref_provider_def ref_SubjectFromToken ref_oidc_token_def)

lemma ref_flow_run:
  "fst (interactive_GetIDToken ref_lib ref_http ref_flow DefaultIDTokenGetter (Some ref_provider) ref_config ref_flow_state) = Ret ref_oidc_token"
proof -
  have r: "randStr = newKSUID" by (simp add: fun_eq_iff randStr_def newKSUID_def)
  have "cfg_Exchange ref_flow c d e = go_ret \<lparr>ot_AccessToken = ''token'', ot_TokenType = [], ot_RefreshToken = [],
      ot_Expiry = None, ot_raw = None\<rparr>" for c d e by (simp add: ref_flow_def)
  then show ?thesis
    unfolding interactive_GetIDToken_def r flow_startRedirectListener flow_pkce
    by (simp add: go_then_newKSUID go_then_ref_key ref_flow_state_def ref_config_def ref_listen ref_flow_obtain [simplified]
        ref_flow_check [simplified] Let_def)
qed

lemma flow_id_token_witness: "\<exists>m. names_subject m ''someone@example.test''"
proof -
  obtain s' where "interactive_GetIDToken ref_lib ref_http ref_flow DefaultIDTokenGetter (Some ref_provider) ref_config ref_flow_state
      = (Ret ref_oidc_token, s')"
    using ref_flow_run by (metis prod.collapse)
  from flow_id_token [OF this] show ?thesis by (auto simp: Let_def ref_oidc_token_def)
qed

end
