(* ===== verification/DeviceFlow.thy ===== *)
theory DeviceFlow
  imports OAuthFlow
begin

text \<open>
  The two grants of \<open>pkg/oauthflow\<close> without a browser: the device code grant (\<open>device.go\<close>), a loop that
  asks the token endpoint until it gives a final answer, and the client credentials grant
  (\<open>client_credentials.go\<close>).  A getter keeps the endpoint it has discovered, so the state is the flow's
  and the getter's.  The loop may run for ever, and returns an option.
\<close>

section \<open>Getters\<close>

record 'v DeviceFlowTokenGetter =
  df_MessagePrinter :: "string \<Rightarrow> 'v \<Rightarrow> 'v"
  df_Sleeper :: "64 word \<Rightarrow> 'v \<Rightarrow> 'v"
  df_Issuer :: string
  df_codeURL :: string

definition SigstoreDeviceURL :: string where "SigstoreDeviceURL = ''https://oauth2.sigstore.dev/auth/device/code''"
definition SigstoreTokenURL :: string where "SigstoreTokenURL = ''https://oauth2.sigstore.dev/auth/device/token''"

text \<open>\<open>fmt.Println\<close> and \<open>time.Sleep\<close> are the first arguments.\<close>

definition NewDeviceFlowTokenGetter ::
  "(string \<Rightarrow> 'v \<Rightarrow> 'v) \<Rightarrow> (64 word \<Rightarrow> 'v \<Rightarrow> 'v) \<Rightarrow> string \<Rightarrow> string \<Rightarrow> string \<Rightarrow> 'v DeviceFlowTokenGetter" where
  "NewDeviceFlowTokenGetter println sleep issuer codeURL tokenURL =
     \<lparr>df_MessagePrinter = println, df_Sleeper = sleep, df_Issuer = issuer, df_codeURL = codeURL\<rparr>"

definition NewDeviceFlowTokenGetterForIssuer ::
  "(string \<Rightarrow> 'v \<Rightarrow> 'v) \<Rightarrow> (64 word \<Rightarrow> 'v \<Rightarrow> 'v) \<Rightarrow> string \<Rightarrow> 'v DeviceFlowTokenGetter" where
  "NewDeviceFlowTokenGetterForIssuer println sleep issuer =
     \<lparr>df_MessagePrinter = println, df_Sleeper = sleep, df_Issuer = issuer, df_codeURL = []\<rparr>"

definition on_flow :: "('v flow_state, 'a) step \<Rightarrow> ('v flow_state \<times> 'g, 'a) step" where
  "on_flow m sd = (case sd of (s, d) \<Rightarrow> (case m s of (x, s') \<Rightarrow> (x, (s', d))))"

definition do_remote :: "('v \<Rightarrow> 'v) \<Rightarrow> 'v flow_state \<Rightarrow> 'v flow_state" where
  "do_remote f s = s\<lparr>fs_remote := f (fs_remote s)\<rparr>"

section \<open>Discovery\<close>

text \<open>The discovery document of an issuer, decoded into a structure of the issuer and the member of one name.\<close>

definition well_known :: "string \<Rightarrow> string" where
  "well_known issuer = TrimSuffix issuer ''/'' @ ''/.well-known/openid-configuration''"

definition discover :: "'v http_lib \<Rightarrow> string \<Rightarrow> string \<Rightarrow> goerr \<Rightarrow> ('v flow_state, string) step" where
  "discover H issuer endpoint missing =
     go_then (on_net (http_Get H (well_known issuer))) (\<lambda>resp.
     go_then (go_lift (wrap_outcome ''unable to read response body'' (body_bytes (resp_Body resp)))) (\<lambda>body.
     if resp_StatusCode resp \<noteq> StatusOK then go_err (Msg (resp_Status resp))
     else go_then (go_lift (wrap_outcome ''oidc: failed to decode provider discovery object'' (json_discovery H endpoint body))) (\<lambda>(pc_Issuer, pc_Endpoint).
       if issuer \<noteq> pc_Issuer then go_err (Msg ''oidc: issuer did not match the issuer returned by provider'')
       else if pc_Endpoint = [] then go_err missing
       else go_ret pc_Endpoint)))"

definition device_CodeURL :: "'v http_lib \<Rightarrow> ('v flow_state \<times> 'v DeviceFlowTokenGetter, string) step" where
  "device_CodeURL H sd = (case sd of (s, d) \<Rightarrow>
     if df_codeURL d \<noteq> [] then (Ret (df_codeURL d), (s, d))
     else (case discover H (df_Issuer d) ''device_authorization_endpoint''
             (Msg ''oidc: device authorization endpoint not returned by provider'') s of
         (Ret u, s') \<Rightarrow> (Ret u, (s', d\<lparr>df_codeURL := u\<rparr>))
       | (Err e, s') \<Rightarrow> (Err e, (s', d))
       | (Panic p, s') \<Rightarrow> (Panic p, (s', d))))"

section \<open>The device code grant\<close>

definition device_request :: "string \<Rightarrow> string \<Rightarrow> PKCE \<Rightarrow> url_values" where
  "device_request clientID redirectURL pkce =
     (let data = [''client_id'' \<mapsto> [clientID], ''scope'' \<mapsto> [''openid email''],
            ''code_challenge_method'' \<mapsto> [pkce_Method pkce], ''code_challenge'' \<mapsto> [pkce_Challenge pkce]]
      in if redirectURL \<noteq> [] then data(''redirect_uri'' \<mapsto> [redirectURL]) else data)"

definition token_request :: "string \<Rightarrow> deviceResp \<Rightarrow> PKCE \<Rightarrow> url_values" where
  "token_request clientID parsed pkce =
     [''grant_type'' \<mapsto> [''urn:ietf:params:oauth:grant-type:device_code''], ''client_id'' \<mapsto> [clientID],
      ''device_code'' \<mapsto> [dr_DeviceCode parsed], ''scope'' \<mapsto> [''openid email''], ''code_verifier'' \<mapsto> [pkce_Value pkce]]"

text \<open>\<open>%d\<close> of a signed integer.\<close>

definition show_int :: "64 word \<Rightarrow> string" where
  "show_int n = (if sint n < 0 then ''-'' @ dec (nat (- sint n)) else dec (nat (sint n)))"

definition shown_uri :: "deviceResp \<Rightarrow> string" where
  "shown_uri parsed = (if dr_VerificationURIComplete parsed = [] then dr_VerificationURI parsed else dr_VerificationURIComplete parsed)"

text \<open>Everything before the loop: the first request, and what the user is told.\<close>

definition device_start ::
  "crypto_lib \<Rightarrow> 'v http_lib \<Rightarrow> 'v oidc_provider option \<Rightarrow> string \<Rightarrow> string \<Rightarrow>
     ('v flow_state \<times> 'v DeviceFlowTokenGetter, deviceResp \<times> PKCE) step" where
  "device_start L H p clientID redirectURL =
     go_then (on_flow (flow_NewPKCE L p)) (\<lambda>pkce.
     go_then (device_CodeURL H) (\<lambda>codeURL.
     go_then (on_flow (on_net (http_PostForm H codeURL (device_request clientID redirectURL pkce)))) (\<lambda>resp.
     go_then (go_lift (body_bytes (resp_Body resp))) (\<lambda>b.
     if resp_StatusCode resp \<noteq> StatusOK then go_err (Msg (resp_Status resp))
     else go_then (go_lift (json_deviceResp H b)) (\<lambda>parsed sd. (case sd of (s, d) \<Rightarrow>
       (Ret (parsed, pkce),
        (do_remote (df_MessagePrinter d (''Code will be valid for '' @ show_int (dr_ExpiresIn parsed) @ '' seconds''))
           (do_remote (df_MessagePrinter d (''Enter the verification code '' @ dr_UserCode parsed @ '' in your browser at: '' @ shown_uri parsed)) s),
         d))))))))"

text \<open>One round: a request, whatever its status, and its answer.\<close>

definition poll_once :: "'v http_lib \<Rightarrow> string \<Rightarrow> url_values \<Rightarrow> ('v flow_state, tokenResp) step" where
  "poll_once H tokenURL data =
     go_then (on_net (http_PostForm H tokenURL data)) (\<lambda>resp.
     go_then (go_lift (body_bytes (resp_Body resp))) (\<lambda>b. go_lift (json_tokenResp H b)))"

definition pending_wait :: "64 word \<Rightarrow> 64 word" where
  "pending_wait interval = interval * time_Second"

definition slow_down_wait :: "64 word \<Rightarrow> 64 word" where
  "slow_down_wait interval = interval * time_Second + 10 * time_Second"

partial_function (option) device_poll ::
  "'v http_lib \<Rightarrow> 'v DeviceFlowTokenGetter \<Rightarrow> string \<Rightarrow> url_values \<Rightarrow> 64 word \<Rightarrow> 'v flow_state \<Rightarrow> (string outcome \<times> 'v flow_state) option" where
  "device_poll H d tokenURL data interval s = (case poll_once H tokenURL data s of
       (Err e, s') \<Rightarrow> Some (Err e, s')
     | (Panic p, s') \<Rightarrow> Some (Panic p, s')
     | (Ret tr, s') \<Rightarrow>
         if tr_IDToken tr \<noteq> [] then Some (Ret (tr_IDToken tr), do_remote (df_MessagePrinter d ''Token received!'') s')
         else if tr_Error tr = ''access_denied'' \<or> tr_Error tr = ''expired_token'' then Some (Err (Msg ''error obtaining token''), s')
         else if tr_Error tr = ''authorization_pending''
         then device_poll H d tokenURL data interval (do_remote (df_Sleeper d (pending_wait interval)) s')
         else if tr_Error tr = ''slow_down''
         then device_poll H d tokenURL data interval (do_remote (df_Sleeper d (slow_down_wait interval)) s')
         else Some (Err (Msg ''unexpected error in device flow''), s'))"

definition provider_TokenURL :: "'v oidc_provider option \<Rightarrow> string" where
  "provider_TokenURL p = (case p of None \<Rightarrow> [] | Some p \<Rightarrow> pv_TokenURL p)"

definition deviceFlow ::
  "crypto_lib \<Rightarrow> 'v http_lib \<Rightarrow> 'v oidc_provider option \<Rightarrow> string \<Rightarrow> string \<Rightarrow> 'v flow_state \<times> 'v DeviceFlowTokenGetter \<Rightarrow>
     (string outcome \<times> ('v flow_state \<times> 'v DeviceFlowTokenGetter)) option" where
  "deviceFlow L H p clientID redirectURL sd = (case device_start L H p clientID redirectURL sd of
       (Err e, sd') \<Rightarrow> Some (Err e, sd')
     | (Panic q, sd') \<Rightarrow> Some (Panic q, sd')
     | (Ret (parsed, pkce), (s, d)) \<Rightarrow>
         map_option (\<lambda>(x, s'). (x, (s', d)))
           (device_poll H d (provider_TokenURL p) (token_request clientID parsed pkce) (dr_Interval parsed) s))"

text \<open>What both grants do with an ID token.\<close>

definition verified_subject ::
  "'v http_lib \<Rightarrow> 'v oidc_provider option \<Rightarrow> string \<Rightarrow> string \<Rightarrow> ('v flow_state, OIDCIDToken) step" where
  "verified_subject H p clientID idToken =
     go_then (on_net (provider_Verifier p clientID idToken)) (\<lambda>parsedIDToken.
     go_then (go_lift (SubjectFromToken H parsedIDToken)) (\<lambda>subj. go_ret \<lparr>RawString = idToken, Subject = subj\<rparr>))"

definition device_GetIDToken ::
  "crypto_lib \<Rightarrow> 'v http_lib \<Rightarrow> 'v oidc_provider option \<Rightarrow> oauth2_config \<Rightarrow> 'v flow_state \<times> 'v DeviceFlowTokenGetter \<Rightarrow>
     (OIDCIDToken outcome \<times> ('v flow_state \<times> 'v DeviceFlowTokenGetter)) option" where
  "device_GetIDToken L H p cfg sd =
     map_option (\<lambda>(x, sd'). go_then (go_lift x) (\<lambda>idToken. on_flow (verified_subject H p (cfg_ClientID cfg) idToken)) sd')
       (deviceFlow L H p (cfg_ClientID cfg) (cfg_RedirectURL cfg) sd)"

section \<open>The client credentials grant\<close>

record DefaultFlowClientCredentials =
  cc_Issuer :: string
  cc_codeURL :: string

definition NewClientCredentialsFlow :: "string \<Rightarrow> DefaultFlowClientCredentials" where
  "NewClientCredentialsFlow issuer = \<lparr>cc_Issuer = issuer, cc_codeURL = []\<rparr>"

definition cc_CodeURL :: "'v http_lib \<Rightarrow> ('v flow_state \<times> DefaultFlowClientCredentials, string) step" where
  "cc_CodeURL H sd = (case sd of (s, d) \<Rightarrow>
     if cc_codeURL d \<noteq> [] then (Ret (cc_codeURL d), (s, d))
     else (case discover H (cc_Issuer d) ''token_endpoint''
             (Msg ''oidc: client credentials token authorization endpoint not returned by provider'') s of
         (Ret u, s') \<Rightarrow> (Ret u, (s', d\<lparr>cc_codeURL := u\<rparr>))
       | (Err e, s') \<Rightarrow> (Err e, (s', d))
       | (Panic p, s') \<Rightarrow> (Panic p, (s', d))))"

definition cc_request :: "string \<Rightarrow> string \<Rightarrow> string \<Rightarrow> url_values" where
  "cc_request clientID clientSecret redirectURL =
     (let data = [''client_id'' \<mapsto> [clientID], ''client_secret'' \<mapsto> [clientSecret], ''scope'' \<mapsto> [''openid email''],
            ''grant_type'' \<mapsto> [''client_credentials'']]
      in if redirectURL \<noteq> [] then data(''redirect_uri'' \<mapsto> [redirectURL]) else data)"

definition clientCredentialsFlow ::
  "'v http_lib \<Rightarrow> string \<Rightarrow> string \<Rightarrow> string \<Rightarrow> ('v flow_state \<times> DefaultFlowClientCredentials, string) step" where
  "clientCredentialsFlow H clientID clientSecret redirectURL =
     go_then (cc_CodeURL H) (\<lambda>codeURL.
     go_then (on_flow (on_net (http_PostForm H codeURL (cc_request clientID clientSecret redirectURL)))) (\<lambda>resp.
     go_then (go_lift (body_bytes (resp_Body resp))) (\<lambda>b.
     if resp_StatusCode resp \<noteq> StatusOK then go_err (Msg (resp_Status resp))
     else go_then (go_lift (json_tokenResp H b)) (\<lambda>tr.
       if tr_IDToken tr \<noteq> [] then go_ret (tr_IDToken tr) else go_err (Msg ''unexpected error in client flow'')))))"

definition cc_GetIDToken ::
  "'v http_lib \<Rightarrow> 'v oidc_provider option \<Rightarrow> oauth2_config \<Rightarrow> ('v flow_state \<times> DefaultFlowClientCredentials, OIDCIDToken) step" where
  "cc_GetIDToken H p cfg =
     go_then (clientCredentialsFlow H (cfg_ClientID cfg) (cfg_ClientSecret cfg) (cfg_RedirectURL cfg)) (\<lambda>idToken.
     on_flow (verified_subject H p (cfg_ClientID cfg) idToken))"

section \<open>The loop\<close>

text \<open>\<open>asked H d url data iv s ws s'\<close>: from \<open>s\<close> the endpoint told the getter to wait as often as \<open>ws\<close> is long,
  and the getter slept the durations \<open>ws\<close> and is now in \<open>s'\<close>.\<close>

definition waiting :: "64 word \<Rightarrow> tokenResp \<Rightarrow> 64 word \<Rightarrow> bool" where
  "waiting interval tr w \<longleftrightarrow> tr_IDToken tr = [] \<and>
     (tr_Error tr = ''authorization_pending'' \<and> w = pending_wait interval \<or> tr_Error tr = ''slow_down'' \<and> w = slow_down_wait interval)"

inductive asked ::
  "'v http_lib \<Rightarrow> 'v DeviceFlowTokenGetter \<Rightarrow> string \<Rightarrow> url_values \<Rightarrow> 64 word \<Rightarrow> 'v flow_state \<Rightarrow> 64 word list \<Rightarrow> 'v flow_state \<Rightarrow> bool"
  for H d url data interval where
  asked_none: "asked H d url data interval s [] s"
| asked_more: "poll_once H url data s = (Ret tr, s1) \<Longrightarrow> waiting interval tr w \<Longrightarrow>
    asked H d url data interval (do_remote (df_Sleeper d w) s1) ws s' \<Longrightarrow> asked H d url data interval s (w # ws) s'"

text \<open>An answer that ends the loop, and what the loop makes of it.\<close>

definition loop_result ::
  "'v http_lib \<Rightarrow> 'v DeviceFlowTokenGetter \<Rightarrow> string \<Rightarrow> url_values \<Rightarrow> 'v flow_state \<Rightarrow> (string outcome \<times> 'v flow_state) option" where
  "loop_result H d url data s = (case poll_once H url data s of
       (Err e, s') \<Rightarrow> Some (Err e, s')
     | (Panic p, s') \<Rightarrow> Some (Panic p, s')
     | (Ret tr, s') \<Rightarrow>
         if tr_IDToken tr \<noteq> [] then Some (Ret (tr_IDToken tr), do_remote (df_MessagePrinter d ''Token received!'') s')
         else if tr_Error tr = ''authorization_pending'' \<or> tr_Error tr = ''slow_down'' then None
         else if tr_Error tr = ''access_denied'' \<or> tr_Error tr = ''expired_token'' then Some (Err (Msg ''error obtaining token''), s')
         else Some (Err (Msg ''unexpected error in device flow''), s'))"

lemma poll_waiting:
  "poll_once H url data s = (Ret tr, s1) \<Longrightarrow> waiting interval tr w \<Longrightarrow>
   device_poll H d url data interval s = device_poll H d url data interval (do_remote (df_Sleeper d w) s1)"
  by (subst device_poll.simps) (auto simp: waiting_def)

lemma poll_ends: "loop_result H d url data s = Some r \<Longrightarrow> device_poll H d url data interval s = Some r"
  by (subst device_poll.simps) (auto simp: loop_result_def split: prod.splits outcome.splits if_splits)

lemma poll_goes_on:
  assumes "loop_result H d url data s = None"
  obtains tr s1 w where "poll_once H url data s = (Ret tr, s1)" "waiting interval tr w"
  using assms by (auto simp: loop_result_def waiting_def split: prod.splits outcome.splits if_splits)

lemma asked_poll: "asked H d url data interval s ws s' \<Longrightarrow>
    device_poll H d url data interval s = device_poll H d url data interval s'"
  by (induction rule: asked.induct) (simp_all add: poll_waiting)

lemma poll_asked:
  assumes "device_poll H d url data interval s = Some r"
  shows "\<exists>ws s1. asked H d url data interval s ws s1 \<and> loop_result H d url data s1 = Some r"
proof (rule device_poll.raw_induct [OF _ assms, where P =
    "\<lambda>H d url data interval s r. \<exists>ws s1. asked H d url data interval s ws s1 \<and> loop_result H d url data s1 = Some r"], goal_cases)
  case (1 f H d url data interval s r)
  show ?case
  proof (cases "loop_result H d url data s")
    case None
    then obtain tr s1 w where p: "poll_once H url data s = (Ret tr, s1)" "waiting interval tr w" by (rule poll_goes_on)
    with 1(2) have "f H d url data interval (do_remote (df_Sleeper d w) s1) = Some r"
      by (auto simp: waiting_def split: if_splits)
    from 1(1) [OF this] p show ?thesis by (blast intro: asked_more)
  next
    case (Some r')
    with 1(2) have "r' = r"
      by (auto simp: loop_result_def split: prod.splits outcome.splits if_splits)
    with Some show ?thesis by (blast intro: asked_none)
  qed
qed

lemma asked_waits: "asked H d url data interval s ws s' \<Longrightarrow> set ws \<subseteq> {pending_wait interval, slow_down_wait interval}"
  by (induction rule: asked.induct) (auto simp: waiting_def)

text \<open>C7: the loop returns exactly when the endpoint, after any number of requests to wait, gives another
  answer, and then it returns what that answer says; every wait is the announced interval, or ten seconds
  more when it is told to slow down.  Nothing else ends it: the lifetime of the code is not looked at,
  so while the endpoint asks to wait the loop goes on.\<close>

theorem device_poll_returns_iff:
  "device_poll H d url data interval s = Some r \<longleftrightarrow>
     (\<exists>ws s1. asked H d url data interval s ws s1 \<and> set ws \<subseteq> {pending_wait interval, slow_down_wait interval} \<and>
        loop_result H d url data s1 = Some r)"
  by (metis asked_poll asked_waits poll_asked poll_ends)

section \<open>Endpoints\<close>

lemma device_CodeURL_Ret:
  "device_CodeURL H (s, d) = (Ret u, (s', d')) \<longleftrightarrow>
     df_codeURL d \<noteq> [] \<and> u = df_codeURL d \<and> s' = s \<and> d' = d \<or>
     df_codeURL d = [] \<and> d' = d\<lparr>df_codeURL := u\<rparr> \<and>
       discover H (df_Issuer d) ''device_authorization_endpoint'' (Msg ''oidc: device authorization endpoint not returned by provider'') s = (Ret u, s')"
  by (auto simp: device_CodeURL_def split: prod.splits outcome.splits if_splits)

lemma cc_CodeURL_Ret:
  "cc_CodeURL H (s, d) = (Ret u, (s', d')) \<longleftrightarrow>
     cc_codeURL d \<noteq> [] \<and> u = cc_codeURL d \<and> s' = s \<and> d' = d \<or>
     cc_codeURL d = [] \<and> d' = d\<lparr>cc_codeURL := u\<rparr> \<and>
       discover H (cc_Issuer d) ''token_endpoint'' (Msg ''oidc: client credentials token authorization endpoint not returned by provider'') s = (Ret u, s')"
  by (auto simp: cc_CodeURL_def split: prod.splits outcome.splits if_splits)

lemma discover_Ret:
  assumes "discover H issuer endpoint missing s = (Ret u, s')"
  shows "\<exists>resp body v. http_Get H (well_known issuer) (fs_remote s) = (Ret resp, v) \<and> s' = s\<lparr>fs_remote := v\<rparr> \<and>
    resp_StatusCode resp = StatusOK \<and> body_bytes (resp_Body resp) = Ret body \<and> json_discovery H endpoint body = Ret (issuer, u) \<and> u \<noteq> []"
  using assms unfolding discover_def by (auto simp: go_then_Ret_iff on_net_Ret split: if_splits)

text \<open>The endpoint a getter uses comes from a discovery document of status 200 that names the getter's
  own issuer, and it is looked up once: afterwards the getter answers from what it has kept, in any
  state of the world and without a request.\<close>

theorem device_endpoint_kept:
  assumes "df_codeURL d = []" "device_CodeURL H (s, d) = (Ret u, (s', d'))"
  shows "(\<exists>resp body v. http_Get H (well_known (df_Issuer d)) (fs_remote s) = (Ret resp, v) \<and>
      resp_StatusCode resp = StatusOK \<and> body_bytes (resp_Body resp) = Ret body \<and> json_discovery H ''device_authorization_endpoint'' body = Ret (df_Issuer d, u) \<and> u \<noteq> []) \<and>
    (\<forall>H2 s2. device_CodeURL H2 (s2, d') = (Ret u, (s2, d')))"
proof -
  from assms have d': "d' = d\<lparr>df_codeURL := u\<rparr>"
    and disc: "discover H (df_Issuer d) ''device_authorization_endpoint'' (Msg ''oidc: device authorization endpoint not returned by provider'') s = (Ret u, s')"
    by (simp_all add: device_CodeURL_Ret)
  from discover_Ret [OF disc] have "u \<noteq> []" by blast
  with d' have "\<forall>H2 s2. device_CodeURL H2 (s2, d') = (Ret u, (s2, d'))" by (simp add: device_CodeURL_def)
  with discover_Ret [OF disc] show ?thesis by blast
qed

section \<open>ID tokens\<close>

lemma on_flow_Ret: "on_flow m (s, d) = (Ret x, (s', d')) \<longleftrightarrow> m s = (Ret x, s') \<and> d' = d"
  by (auto simp: on_flow_def split: prod.splits)

lemma verified_subject_Ret:
  assumes "verified_subject H p client raw s = (Ret tok, s')"
  shows "RawString tok = raw \<and> (\<exists>idt m v v'. provider_Verifier p client raw v = (Ret idt, v') \<and>
    json_members H (it_claims idt) = Ret m \<and> names_subject m (Subject tok))"
proof -
  from assms obtain idt v' who where "provider_Verifier p client raw (fs_remote s) = (Ret idt, v')"
    "SubjectFromToken H idt = Ret who" "tok = \<lparr>RawString = raw, Subject = who\<rparr>"
    unfolding verified_subject_def by (auto simp: go_then_Ret_iff on_net_Ret)
  moreover from this(2) obtain m where "json_members H (it_claims idt) = Ret m" "names_subject m who"
    using subject_named unfolding SubjectFromToken_def by blast
  ultimately show ?thesis by auto
qed

text \<open>What is known of a token of either grant: the provider's verifier accepted it for the client, and its
  claims name the subject.\<close>

definition accepted_token :: "'v http_lib \<Rightarrow> 'v oidc_provider option \<Rightarrow> string \<Rightarrow> OIDCIDToken \<Rightarrow> bool" where
  "accepted_token H p client tok \<longleftrightarrow> (\<exists>idt m v v'. provider_Verifier p client (RawString tok) v = (Ret idt, v') \<and>
     json_members H (it_claims idt) = Ret m \<and> names_subject m (Subject tok))"

lemma device_GetIDToken_accepted:
  assumes "device_GetIDToken L H p cfg sd = Some (Ret tok, sd')"
  shows "accepted_token H p (cfg_ClientID cfg) tok"
proof -
  from assms obtain x s1 d1 where "go_then (go_lift x) (\<lambda>idToken. on_flow (verified_subject H p (cfg_ClientID cfg) idToken)) (s1, d1) = (Ret tok, sd')"
    unfolding device_GetIDToken_def by auto
  then obtain raw where "on_flow (verified_subject H p (cfg_ClientID cfg) raw) (s1, d1) = (Ret tok, sd')" by (cases x) auto
  then obtain s2 where "verified_subject H p (cfg_ClientID cfg) raw s1 = (Ret tok, s2)" by (cases sd') (auto simp: on_flow_Ret)
  from verified_subject_Ret [OF this] show ?thesis unfolding accepted_token_def by blast
qed

lemma cc_GetIDToken_accepted:
  assumes "cc_GetIDToken H p cfg sd = (Ret tok, sd')"
  shows "accepted_token H p (cfg_ClientID cfg) tok"
proof -
  from assms obtain raw s1 d1 where "on_flow (verified_subject H p (cfg_ClientID cfg) raw) (s1, d1) = (Ret tok, sd')"
    unfolding cc_GetIDToken_def by (auto simp: go_then_Ret_iff)
  then obtain s2 where "verified_subject H p (cfg_ClientID cfg) raw s1 = (Ret tok, s2)" by (cases sd') (auto simp: on_flow_Ret)
  from verified_subject_Ret [OF this] show ?thesis unfolding accepted_token_def by blast
qed

text \<open>The device code grant and the client credentials grant return only ID tokens that the provider's
  verifier accepted for the client, with the verified email address or the subject of their claims.\<close>

theorem grant_id_tokens:
  "(device_GetIDToken L H p cfg sd = Some (Ret tok, sd') \<longrightarrow> accepted_token H p (cfg_ClientID cfg) tok) \<and>
   (cc_GetIDToken H p cfg cd = (Ret tok, cd') \<longrightarrow> accepted_token H p (cfg_ClientID cfg) tok)"
  using device_GetIDToken_accepted cc_GetIDToken_accepted by blast

section \<open>A world of their own, for the witnesses\<close>

lemma ref_body: "body_bytes (resp_Body (ref_response b)) = Ret b" "resp_StatusCode (ref_response b) = StatusOK"
  by (simp_all add: ref_response_def body_bytes_def StatusOK_def)

lemma ref_discover: "discover ref_http ''https://issuer.test'' endpoint missing = go_ret ''https://issuer.test/code''"
  by (simp add: fun_eq_iff discover_def ref_http_def ref_body)

definition ref_getter :: "unit DeviceFlowTokenGetter" where
  "ref_getter = NewDeviceFlowTokenGetterForIssuer (\<lambda>_ v. v) (\<lambda>_ v. v) ''https://issuer.test''"

lemma ref_device_CodeURL: "device_CodeURL ref_http (ref_flow_state, ref_getter) =
    (Ret ''https://issuer.test/code'', (ref_flow_state, ref_getter\<lparr>df_codeURL := ''https://issuer.test/code''\<rparr>))"
  by (simp add: device_CodeURL_def ref_getter_def NewDeviceFlowTokenGetterForIssuer_def ref_discover)

lemma device_endpoint_kept_witness:
  "device_CodeURL ref_http (ref_flow_state, ref_getter\<lparr>df_codeURL := ''https://issuer.test/code''\<rparr>) =
     (Ret ''https://issuer.test/code'', (ref_flow_state, ref_getter\<lparr>df_codeURL := ''https://issuer.test/code''\<rparr>))"
  using device_endpoint_kept [OF _ ref_device_CodeURL]
  by (simp add: ref_getter_def NewDeviceFlowTokenGetterForIssuer_def)

lemma ref_cc_token: "fst (cc_GetIDToken ref_http (Some ref_provider) ref_config (ref_flow_state, NewClientCredentialsFlow ''https://issuer.test'')) =
    Ret \<lparr>RawString = ''id'', Subject = ''someone@example.test''\<rparr>"
proof -
  have c: "cc_CodeURL ref_http (ref_flow_state, NewClientCredentialsFlow ''https://issuer.test'') =
      (Ret ''https://issuer.test/code'', (ref_flow_state, \<lparr>cc_Issuer = ''https://issuer.test'', cc_codeURL = ''https://issuer.test/code''\<rparr>))"
    by (simp add: cc_CodeURL_def NewClientCredentialsFlow_def ref_discover)
  have p: "http_PostForm ref_http u d = go_ret (ref_response [])" "json_tokenResp ref_http b = Ret \<lparr>tr_IDToken = ''id'', tr_Error = []\<rparr>" for u d b
    by (simp_all add: ref_http_def)
  have v: "verified_subject ref_http (Some ref_provider) ''sigstore'' ''id'' = go_ret \<lparr>RawString = ''id'', Subject = ''someone@example.test''\<rparr>"
    by (simp add: fun_eq_iff verified_subject_def provider_Verifier_def ref_provider_def ref_SubjectFromToken)
  have f: "on_flow (go_lift x) = go_lift x" for x :: "'x outcome"
    by (simp add: fun_eq_iff on_flow_def)
  show ?thesis
    unfolding cc_GetIDToken_def clientCredentialsFlow_def
    by (simp add: go_then_def [of "cc_CodeURL ref_http"] go_then_assoc c p f ref_body ref_config_def v [simplified] on_flow_def)
qed

lemma grant_id_tokens_witness:
  "accepted_token ref_http (Some ref_provider) ''sigstore'' \<lparr>RawString = ''id'', Subject = ''someone@example.test''\<rparr>"
proof -
  obtain cd' where "cc_GetIDToken ref_http (Some ref_provider) ref_config (ref_flow_state, NewClientCredentialsFlow ''https://issuer.test'') =
      (Ret \<lparr>RawString = ''id'', Subject = ''someone@example.test''\<rparr>, cd')"
    using ref_cc_token by (metis prod.collapse)
  with grant_id_tokens [where H = ref_http and p = "Some ref_provider" and cfg = ref_config] show ?thesis
    by (fastforce simp: ref_config_def)
qed

end
