(* ===== verification/Redirect.thy ===== *)
theory Redirect
  imports Oidc "HOL-Library.Multiset"
begin

text \<open>
  The goroutines of the interactive flows: the server of the local listener, one handler per request, and
  the flow that waits for the first of a code, an error and a timeout, as a step relation.  Channels are
  unbuffered, so a sender is blocked until the flow receives.  \<open>pkg/oauth/oidc\<close> closes the channels once
  the server has shut down, \<open>pkg/oauthflow\<close> does not; the first argument of the relation says which.
  The functional model of the flow sees one event, the first that is received: \<open>Oidc.getCode\<close>.
\<close>

section \<open>States and steps\<close>

datatype flow_at = Opening | Waiting | Leaving

record redirect_state =
  rs_flow :: flow_at
  rs_result :: "string outcome option"
  rs_codes :: "string multiset"
  rs_rejected :: nat
  rs_serve_error :: "goerr option"
  rs_serving :: bool
  rs_events :: "redirect_event list"
  rs_closed :: bool
  rs_panicked :: bool

definition redirect_start :: redirect_state where
  "redirect_start = \<lparr>rs_flow = Opening, rs_result = None, rs_codes = {#}, rs_rejected = 0, rs_serve_error = None,
     rs_serving = True, rs_events = [], rs_closed = False, rs_panicked = False\<rparr>"

text \<open>The handler of a request: it blocks in one of its two sends.\<close>

definition handle :: "string \<Rightarrow> (string \<Rightarrow> string) \<Rightarrow> redirect_state \<Rightarrow> redirect_state" where
  "handle state form s =
     (let s = s\<lparr>rs_events := rs_events s @ [Callback form]\<rparr>
      in if form ''state'' \<noteq> state then s\<lparr>rs_rejected := rs_rejected s + 1\<rparr>
         else s\<lparr>rs_codes := add_mset (form ''code'') (rs_codes s)\<rparr>)"

definition received :: "string outcome \<Rightarrow> redirect_state \<Rightarrow> redirect_state" where
  "received r s = s\<lparr>rs_flow := Leaving, rs_result := Some r\<rparr>"

text \<open>\<open>Shutdown\<close> stops serving and then waits for the handlers; a goroutine that is still sending on the error
  channel when it is closed panics.\<close>

inductive redirect_step :: "bool \<Rightarrow> string \<Rightarrow> redirect_state \<Rightarrow> redirect_state \<Rightarrow> bool" for closes state where
  request: "rs_serving s \<Longrightarrow> redirect_step closes state s (handle state form s)"
| serve_fails: "rs_serving s \<Longrightarrow> redirect_step closes state s
    (s\<lparr>rs_serving := False, rs_serve_error := Some e, rs_events := rs_events s @ [ServeError e]\<rparr>)"
| opened: "rs_flow s = Opening \<Longrightarrow> redirect_step closes state s (s\<lparr>rs_flow := Waiting\<rparr>)"
| not_opened: "rs_flow s = Opening \<Longrightarrow> redirect_step closes state s (s\<lparr>rs_flow := Leaving\<rparr>)"
| receive_code: "rs_flow s = Waiting \<Longrightarrow> c \<in># rs_codes s \<Longrightarrow>
    redirect_step closes state s (received (Ret c) (s\<lparr>rs_codes := rs_codes s - {#c#}\<rparr>))"
| receive_rejected: "rs_flow s = Waiting \<Longrightarrow> 0 < rs_rejected s \<Longrightarrow>
    redirect_step closes state s (received (Err (Msg ''invalid state token'')) (s\<lparr>rs_rejected := rs_rejected s - 1\<rparr>))"
| receive_serve_error: "rs_flow s = Waiting \<Longrightarrow> rs_serve_error s = Some e \<Longrightarrow>
    redirect_step closes state s (received (Err e) (s\<lparr>rs_serve_error := None\<rparr>))"
| timeout: "rs_flow s = Waiting \<Longrightarrow> redirect_step closes state s (received (Err (Msg ''timeout'')) s)"
| shutdown: "rs_flow s = Leaving \<Longrightarrow> rs_serving s \<Longrightarrow> redirect_step closes state s (s\<lparr>rs_serving := False\<rparr>)"
| close: "closes \<Longrightarrow> rs_flow s = Leaving \<Longrightarrow> \<not> rs_serving s \<Longrightarrow> \<not> rs_closed s \<Longrightarrow> rs_codes s = {#} \<Longrightarrow> rs_rejected s = 0 \<Longrightarrow>
    redirect_step closes state s (s\<lparr>rs_closed := True, rs_panicked := (rs_serve_error s \<noteq> None)\<rparr>)"

inductive redirect_run :: "bool \<Rightarrow> string \<Rightarrow> redirect_state \<Rightarrow> redirect_state \<Rightarrow> bool" for closes state where
  run_refl: "redirect_run closes state s s"
| run_step: "redirect_run closes state s s' \<Longrightarrow> redirect_step closes state s' s'' \<Longrightarrow> redirect_run closes state s s''"

inductive_cases redirect_stepE: "redirect_step closes state s s'"

section \<open>What the flow receives\<close>

text \<open>Whatever is being sent was sent because of an event, and so was what has been received.\<close>

definition sent_for :: "string \<Rightarrow> redirect_state \<Rightarrow> string outcome \<Rightarrow> bool" where
  "sent_for state s r \<longleftrightarrow> (\<exists>ev \<in> set (rs_events s). redirect_send state ev = r)"

definition redirect_inv :: "string \<Rightarrow> redirect_state \<Rightarrow> bool" where
  "redirect_inv state s \<longleftrightarrow>
     (\<forall>c. c \<in># rs_codes s \<longrightarrow> sent_for state s (Ret c)) \<and>
     (0 < rs_rejected s \<longrightarrow> sent_for state s (Err (Msg ''invalid state token''))) \<and>
     (\<forall>e. rs_serve_error s = Some e \<longrightarrow> ServeError e \<in> set (rs_events s)) \<and>
     (\<forall>r. rs_result s = Some r \<longrightarrow> r = Err (Msg ''timeout'') \<or> sent_for state s r)"

lemma sent_for_more: "sent_for state s r \<Longrightarrow> set (rs_events s) \<subseteq> set (rs_events s') \<Longrightarrow> sent_for state s' r"
  unfolding sent_for_def by blast

lemma redirect_inv_start: "redirect_inv state redirect_start"
  by (simp add: redirect_inv_def redirect_start_def)

lemma handle_fields [simp]:
  "rs_flow (handle state form s) = rs_flow s" "rs_result (handle state form s) = rs_result s"
  "rs_serve_error (handle state form s) = rs_serve_error s" "rs_serving (handle state form s) = rs_serving s"
  "rs_events (handle state form s) = rs_events s @ [Callback form]" "rs_closed (handle state form s) = rs_closed s"
  "rs_panicked (handle state form s) = rs_panicked s"
  "rs_codes (handle state form s) = (if form ''state'' = state then add_mset (form ''code'') (rs_codes s) else rs_codes s)"
  "rs_rejected (handle state form s) = (if form ''state'' = state then rs_rejected s else rs_rejected s + 1)"
  by (simp_all add: handle_def Let_def)

lemma received_fields [simp]:
  "rs_flow (received r s) = Leaving" "rs_result (received r s) = Some r" "rs_codes (received r s) = rs_codes s"
  "rs_rejected (received r s) = rs_rejected s" "rs_serve_error (received r s) = rs_serve_error s"
  "rs_serving (received r s) = rs_serving s" "rs_events (received r s) = rs_events s" "rs_closed (received r s) = rs_closed s"
  "rs_panicked (received r s) = rs_panicked s"
  by (simp_all add: received_def)

lemma redirect_inv_step:
  assumes "redirect_step closes state s s'" "redirect_inv state s"
  shows "redirect_inv state s'"
  using assms
  by (induction rule: redirect_step.induct)
    (force simp: redirect_inv_def sent_for_def redirect_send_def dest!: in_diffD)+

lemma redirect_inv_run: "redirect_run closes state s s' \<Longrightarrow> redirect_inv state s \<Longrightarrow> redirect_inv state s'"
  by (induction rule: redirect_run.induct) (auto intro: redirect_inv_step)

section \<open>Closing the channels\<close>

definition closed_inv :: "bool \<Rightarrow> redirect_state \<Rightarrow> bool" where
  "closed_inv closes s \<longleftrightarrow>
     (rs_closed s \<longrightarrow> closes \<and> rs_flow s = Leaving \<and> \<not> rs_serving s \<and> rs_codes s = {#} \<and> rs_rejected s = 0) \<and>
     (rs_panicked s \<longrightarrow> rs_closed s \<and> rs_serve_error s \<noteq> None)"

lemma closed_inv_step: "redirect_step closes state s s' \<Longrightarrow> closed_inv closes s \<Longrightarrow> closed_inv closes s'"
  by (induction rule: redirect_step.induct) (auto simp: closed_inv_def)

lemma closed_inv_run: "redirect_run closes state s s' \<Longrightarrow> closed_inv closes s \<Longrightarrow> closed_inv closes s'"
  by (induction rule: redirect_run.induct) (auto intro: closed_inv_step)

lemma closed_inv_start: "closed_inv closes redirect_start"
  by (simp add: closed_inv_def redirect_start_def)

text \<open>A handler nobody receives from stays where it is.\<close>

definition stuck :: "redirect_state \<Rightarrow> redirect_state \<Rightarrow> bool" where
  "stuck s s' \<longleftrightarrow> rs_flow s' = Leaving \<and> rs_codes s \<subseteq># rs_codes s' \<and> rs_rejected s \<le> rs_rejected s' \<and> \<not> rs_closed s'"

lemma stuck_step:
  assumes "redirect_step closes state s' s''" "stuck s s'" "rs_codes s \<noteq> {#} \<or> 0 < rs_rejected s"
  shows "stuck s s''"
  using assms by (induction rule: redirect_step.induct) (auto simp: stuck_def intro: subset_mset.order_trans)

lemma stuck_run: "redirect_run closes state s s' \<Longrightarrow> stuck s s \<Longrightarrow> rs_codes s \<noteq> {#} \<or> 0 < rs_rejected s \<Longrightarrow> stuck s s'"
  by (induction rule: redirect_run.induct) (auto intro: stuck_step)

section \<open>Properties\<close>

text \<open>A run that receives the first event.\<close>

lemma receives_first: "\<exists>s. redirect_run closes state redirect_start s \<and> rs_events s = [ev] \<and> rs_result s = Some (redirect_send state ev)"
proof -
  let ?s0 = "redirect_start\<lparr>rs_flow := Waiting\<rparr>"
  have w: "redirect_run closes state redirect_start ?s0"
    by (rule run_step [OF run_refl]) (rule opened, simp add: redirect_start_def)
  show ?thesis
  proof (cases ev)
    case (Callback form)
    have "redirect_run closes state redirect_start (handle state form ?s0)"
      by (rule run_step [OF w]) (rule request, simp add: redirect_start_def)
    moreover have "\<exists>s. redirect_step closes state (handle state form ?s0) s \<and> rs_events s = [ev] \<and> rs_result s = Some (redirect_send state ev)"
    proof (cases "form ''state'' = state")
      case True
      then show ?thesis using receive_code [of "handle state form ?s0" "form ''code''" closes state]
        by (auto simp: Callback redirect_send_def redirect_start_def)
    next
      case False
      then show ?thesis using receive_rejected [of "handle state form ?s0" closes state]
        by (auto simp: Callback redirect_send_def redirect_start_def)
    qed
    ultimately show ?thesis by (blast intro: run_step)
  next
    case (ServeError e)
    define s1 where "s1 = ?s0\<lparr>rs_serving := False, rs_serve_error := Some e, rs_events := rs_events ?s0 @ [ServeError e]\<rparr>"
    have f: "rs_flow s1 = Waiting" "rs_serve_error s1 = Some e" "rs_events s1 = [ServeError e]"
      unfolding s1_def by (simp_all add: redirect_start_def)
    have "rs_serving ?s0" by (simp add: redirect_start_def)
    then have "redirect_run closes state redirect_start s1"
      unfolding s1_def by (rule run_step [OF w serve_fails])
    then have "redirect_run closes state redirect_start (received (Err e) (s1\<lparr>rs_serve_error := None\<rparr>))"
      by (rule run_step [OF _ receive_serve_error [OF f(1,2)]])
    then show ?thesis
      by (intro exI [of _ "received (Err e) (s1\<lparr>rs_serve_error := None\<rparr>)"]) (simp add: ServeError redirect_send_def f(3))
  qed
qed

text \<open>C6: however the goroutines interleave, the flow receives a timeout or what is sent for one of the events
  so far, so a code it receives came with the state token; and each event can be the one that counts, a
  forged request as well as a genuine one.\<close>

theorem redirect_refines_getCode:
  "(\<forall>s r. redirect_run closes state redirect_start s \<and> rs_result s = Some r \<longrightarrow>
      r = Err (Msg ''timeout'') \<or> (\<exists>ev \<in> set (rs_events s). r = redirect_send state ev)) \<and>
   (\<forall>s c. redirect_run closes state redirect_start s \<and> rs_result s = Some (Ret c) \<longrightarrow>
      (\<exists>form. Callback form \<in> set (rs_events s) \<and> form ''state'' = state \<and> form ''code'' = c)) \<and>
   (\<forall>ev. \<exists>s. redirect_run closes state redirect_start s \<and> rs_events s = [ev] \<and> rs_result s = Some (redirect_send state ev))"
proof (intro conjI allI impI)
  fix s r
  assume "redirect_run closes state redirect_start s \<and> rs_result s = Some r"
  with redirect_inv_run [OF _ redirect_inv_start] show 1: "r = Err (Msg ''timeout'') \<or> (\<exists>ev \<in> set (rs_events s). r = redirect_send state ev)"
    unfolding redirect_inv_def sent_for_def by blast
next
  fix s c
  assume "redirect_run closes state redirect_start s \<and> rs_result s = Some (Ret c)"
  with redirect_inv_run [OF _ redirect_inv_start] have "sent_for state s (Ret c)" unfolding redirect_inv_def by blast
  then obtain ev where ev: "ev \<in> set (rs_events s)" "redirect_send state ev = Ret c" unfolding sent_for_def by blast
  from ev(2) obtain form where "ev = Callback form" "form ''state'' = state" "form ''code'' = c"
    by (cases ev) (simp_all add: redirect_send_def split: if_splits)
  with ev(1) show "\<exists>form. Callback form \<in> set (rs_events s) \<and> form ''state'' = state \<and> form ''code'' = c" by blast
qed (rule receives_first)

text \<open>C18: sending on a closed channel, and with it the whole process, can panic in the flow that closes its
  channels, and only in that one, and only when serving has failed and the flow did not learn of it.\<close>

theorem redirect_panics_iff:
  "((\<exists>s. redirect_run closes state redirect_start s \<and> rs_panicked s) \<longleftrightarrow> closes) \<and>
   (\<forall>s. redirect_run closes state redirect_start s \<and> rs_panicked s \<longrightarrow> (\<exists>e. ServeError e \<in> set (rs_events s) \<and> rs_serve_error s = Some e))"
proof (intro conjI allI impI)
  have closes: closes if "redirect_run closes state redirect_start s" "rs_panicked s" for s
    using closed_inv_run [OF that(1) closed_inv_start] that(2) by (simp add: closed_inv_def)
  show "(\<exists>s. redirect_run closes state redirect_start s \<and> rs_panicked s) \<longleftrightarrow> closes"
  proof
    show "\<exists>s. redirect_run closes state redirect_start s \<and> rs_panicked s \<Longrightarrow> closes" using closes by blast
    assume closes
    let ?s1 = "redirect_start\<lparr>rs_flow := Leaving\<rparr>"
    let ?s2 = "?s1\<lparr>rs_serving := False, rs_serve_error := Some (Msg ''accept''), rs_events := rs_events ?s1 @ [ServeError (Msg ''accept'')]\<rparr>"
    have "redirect_run closes state redirect_start ?s1"
      by (rule run_step [OF run_refl]) (rule not_opened, simp add: redirect_start_def)
    then have "redirect_run closes state redirect_start ?s2"
      by (rule run_step) (rule serve_fails, simp add: redirect_start_def)
    then have "redirect_run closes state redirect_start (?s2\<lparr>rs_closed := True, rs_panicked := (rs_serve_error ?s2 \<noteq> None)\<rparr>)"
      by (rule run_step) (rule close, simp_all add: redirect_start_def \<open>closes\<close>)
    then show "\<exists>s. redirect_run closes state redirect_start s \<and> rs_panicked s" by fastforce
  qed
next
  fix s
  assume s: "redirect_run closes state redirect_start s \<and> rs_panicked s"
  then have "closed_inv closes s" using closed_inv_run closed_inv_start by blast
  with s obtain e where "rs_serve_error s = Some e" by (auto simp: closed_inv_def)
  moreover have "redirect_inv state s" using s redirect_inv_run redirect_inv_start by blast
  ultimately show "\<exists>e. ServeError e \<in> set (rs_events s) \<and> rs_serve_error s = Some e" by (auto simp: redirect_inv_def)
qed

text \<open>C19: a request that arrives when nobody receives any more is never answered.  Its handler stays blocked
  in every later state, so the server's shutdown, which waits for it, does not end and the channels stay
  open.\<close>

theorem late_request_blocks:
  assumes "redirect_run closes state redirect_start s" "rs_flow s = Leaving" "rs_codes s \<noteq> {#} \<or> 0 < rs_rejected s"
    and "redirect_run closes state s s'"
  shows "rs_codes s \<subseteq># rs_codes s' \<and> rs_rejected s \<le> rs_rejected s' \<and> \<not> rs_closed s'"
proof -
  from closed_inv_run [OF assms(1) closed_inv_start] assms(2,3) have "stuck s s" by (auto simp: stuck_def closed_inv_def)
  from stuck_run [OF assms(4) this assms(3)] show ?thesis by (simp add: stuck_def)
qed

text \<open>The browser does not open, and a request comes in.\<close>

definition ref_form :: "string \<Rightarrow> string" where "ref_form = (\<lambda>k. if k = ''state'' then ''s'' else ''c'')"

lemma ref_form: "ref_form ''state'' = ''s''" "ref_form ''code'' = ''c''" by (simp_all add: ref_form_def)

lemma redirect_refines_getCode_witness:
  "\<exists>s form. redirect_run True ''s'' redirect_start s \<and> rs_result s = Some (Ret ''c'') \<and>
     Callback form \<in> set (rs_events s) \<and> form ''state'' = ''s''"
proof -
  have "redirect_send ''s'' (Callback ref_form) = Ret ''c''" by (simp add: redirect_send_def ref_form)
  with redirect_refines_getCode [of True "''s''"] obtain s where
    "redirect_run True ''s'' redirect_start s" "rs_result s = Some (Ret ''c'')" by metis
  with redirect_refines_getCode [of True "''s''"] show ?thesis by blast
qed

lemma redirect_panics_iff_witness:
  "\<exists>s e. redirect_run True ''s'' redirect_start s \<and> rs_panicked s \<and> ServeError e \<in> set (rs_events s)"
  using redirect_panics_iff [of True "''s''"] by blast

definition ref_late :: redirect_state where
  "ref_late = handle ''s'' ref_form (redirect_start\<lparr>rs_flow := Leaving\<rparr>)"

lemma late_request_blocks_witness:
  "rs_codes ref_late \<noteq> {#} \<and> \<not> (\<exists>s'. redirect_run True ''s'' ref_late s' \<and> rs_closed s')"
proof -
  have "rs_flow redirect_start = Opening" by (simp add: redirect_start_def)
  then have "redirect_run True ''s'' redirect_start (redirect_start\<lparr>rs_flow := Leaving\<rparr>)"
    by (rule run_step [OF run_refl not_opened])
  moreover have "rs_serving (redirect_start\<lparr>rs_flow := Leaving\<rparr>)" by (simp add: redirect_start_def)
  ultimately have r: "redirect_run True ''s'' redirect_start ref_late"
    unfolding ref_late_def by (rule run_step [OF _ request])
  have "rs_flow ref_late = Leaving" "rs_codes ref_late = {#''c''#}"
    by (simp_all add: ref_late_def ref_form_def redirect_start_def)
  with late_request_blocks [OF r] show ?thesis by auto
qed

end
