(* ===== verification/Codec.thy ===== *)
theory Codec
  imports Prelude
begin

text \<open>
  Self-delimiting codes made of natural numbers: a coder and a decoder that gives back the value and the
  rest.  They build the concrete encodings of structured values that witnesses use in place of JSON.
\<close>

type_synonym 'a codec = "('a \<Rightarrow> nat list) \<times> (nat list \<Rightarrow> ('a \<times> nat list) option)"

definition codec :: "'a codec \<Rightarrow> bool" where
  "codec c \<longleftrightarrow> (\<forall>x r. snd c (fst c x @ r) = Some (x, r)) \<and> snd c [] = None"

lemma codecD: "codec c \<Longrightarrow> snd c (fst c x @ r) = Some (x, r)" "codec c \<Longrightarrow> snd c [] = None"
  by (simp_all add: codec_def)

lemma codec_all: "codec c \<Longrightarrow> snd c (fst c x) = Some (x, [])"
  using codecD(1) [of c x "[]"] by simp

definition c_nat :: "nat codec" where
  "c_nat = (\<lambda>n. [n], \<lambda>t. case t of [] \<Rightarrow> None | n # r \<Rightarrow> Some (n, r))"

definition c_map :: "('b \<Rightarrow> 'a) \<Rightarrow> ('a \<Rightarrow> 'b) \<Rightarrow> 'a codec \<Rightarrow> 'b codec" where
  "c_map f g c = (\<lambda>x. fst c (f x), \<lambda>t. map_option (\<lambda>(y, r). (g y, r)) (snd c t))"

definition c_pair :: "'a codec \<Rightarrow> 'b codec \<Rightarrow> ('a \<times> 'b) codec" where
  "c_pair c d = (\<lambda>(x, y). fst c x @ fst d y, \<lambda>t. case snd c t of None \<Rightarrow> None
     | Some (x, r) \<Rightarrow> map_option (\<lambda>(y, r'). ((x, y), r')) (snd d r))"

definition c_option :: "'a codec \<Rightarrow> 'a option codec" where
  "c_option c = (\<lambda>x. case x of None \<Rightarrow> [0] | Some v \<Rightarrow> 1 # fst c v,
     \<lambda>t. case t of [] \<Rightarrow> None | n # r \<Rightarrow> if n = 0 then Some (None, r) else map_option (\<lambda>(v, r'). (Some v, r')) (snd c r))"

primrec decode_n :: "'a codec \<Rightarrow> nat \<Rightarrow> nat list \<Rightarrow> ('a list \<times> nat list) option" where
  "decode_n c 0 t = Some ([], t)"
| "decode_n c (Suc n) t = (case snd c t of None \<Rightarrow> None
     | Some (x, r) \<Rightarrow> map_option (\<lambda>(xs, r'). (x # xs, r')) (decode_n c n r))"

definition c_list :: "'a codec \<Rightarrow> 'a list codec" where
  "c_list c = (\<lambda>xs. length xs # concat (map (fst c) xs), \<lambda>t. case t of [] \<Rightarrow> None | n # r \<Rightarrow> decode_n c n r)"

lemma codec_nat [simp]: "codec c_nat"
  by (simp add: codec_def c_nat_def)

lemma codec_map [intro]: "codec c \<Longrightarrow> (\<And>x. g (f x) = x) \<Longrightarrow> codec (c_map f g c)"
  by (simp add: codec_def c_map_def)

lemma codec_pair [simp]: "codec c \<Longrightarrow> codec d \<Longrightarrow> codec (c_pair c d)"
  by (auto simp: codec_def c_pair_def)

lemma codec_option [simp]: "codec c \<Longrightarrow> codec (c_option c)"
  by (auto simp: codec_def c_option_def split: option.splits)

lemma decode_n: "codec c \<Longrightarrow> decode_n c (length xs) (concat (map (fst c) xs) @ r) = Some (xs, r)"
  by (induction xs) (simp_all add: codecD)

lemma codec_list [simp]: "codec c \<Longrightarrow> codec (c_list c)"
  by (subst codec_def) (simp add: c_list_def decode_n)

section \<open>Codes of the usual types\<close>

definition c_char :: "char codec" where "c_char = c_map of_char char_of c_nat"
definition c_byte :: "8 word codec" where "c_byte = c_map unat word_of_nat c_nat"
definition c_bool :: "bool codec" where "c_bool = c_map (\<lambda>b. if b then 1 else 0) (\<lambda>n. n = 1) c_nat"
definition c_unit :: "unit codec" where "c_unit = c_map (\<lambda>_. 0) (\<lambda>_. ()) c_nat"
definition c_int :: "int codec" where
  "c_int = c_map (\<lambda>i. if 0 \<le> i then 2 * nat i else 2 * nat (- i) + 1)
     (\<lambda>n. if even n then int (n div 2) else - int (n div 2)) c_nat"

lemma codec_basic [simp]: "codec c_char" "codec c_byte" "codec c_bool" "codec c_unit" "codec c_int"
  by (auto simp: c_char_def c_byte_def c_bool_def c_unit_def c_int_def intro!: codec_map split: if_splits)

definition c_string :: "string codec" where "c_string = c_list c_char"
definition c_bytes :: "bytes codec" where "c_bytes = c_list c_byte"

lemma codec_strings [simp]: "codec c_string" "codec c_bytes"
  by (simp_all add: c_string_def c_bytes_def)

section \<open>Texts\<close>

text \<open>A number in unary, closed by a comma.\<close>

definition nats_string :: "nat list \<Rightarrow> string" where
  "nats_string ns = concat (map (\<lambda>n. replicate n CHR ''1'' @ '','') ns)"

definition string_nats :: "string \<Rightarrow> nat list" where
  "string_nats s = map length (butlast (split_on CHR '','' s))"

lemma split_nats: "split_on CHR '','' (nats_string ns) = map (\<lambda>n. replicate n CHR ''1'') ns @ [[]]"
  by (induction ns) (simp_all add: nats_string_def split_on_append)

lemma string_nats [simp]: "string_nats (nats_string ns) = ns"
  by (simp add: string_nats_def split_nats comp_def)

definition to_text :: "'a codec \<Rightarrow> 'a \<Rightarrow> string" where
  "to_text c x = nats_string (fst c x)"

definition from_text :: "'a codec \<Rightarrow> string \<Rightarrow> 'a outcome" where
  "from_text c s = (case snd c (string_nats s) of Some (x, []) \<Rightarrow> Ret x | _ \<Rightarrow> Err (Msg ''invalid text''))"

lemma from_to_text: "codec c \<Longrightarrow> from_text c (to_text c x) = Ret x"
  by (simp add: from_text_def to_text_def codec_all)

lemma from_text_empty: "codec c \<Longrightarrow> from_text c [] = Err (Msg ''invalid text'')"
  by (simp add: from_text_def string_nats_def codecD)

end
