(* ===== verification/Ssh.thy ===== *)
theory Ssh
  imports World Pki Codec
begin

text \<open>
  \<open>pkg/signature/ssh\<close>: signatures in the format of \<open>ssh-keygen -Y sign\<close>.  A message is hashed, the hash is
  wrapped, the wrapper is signed, and the signature is wrapped again and armoured.  Keys, signatures and
  the wire format of \<open>golang.org/x/crypto/ssh\<close> are parameters; \<open>ssh_laws\<close> states what its documentation
  promises of them.
\<close>

section \<open>The wire format\<close>

record messageWrapper =
  mw_Namespace :: string
  mw_Reserved :: string
  mw_HashAlgorithm :: string
  mw_Hash :: string

record wrappedSig =
  ws_MagicHeader :: bytes
  ws_Version :: "32 word"
  ws_PublicKey :: string
  ws_Namespace :: string
  ws_Reserved :: string
  ws_HashAlgorithm :: string
  ws_Signature :: string

record ('k, 'p, 'g) ssh_lib =
  ssh_MarshalMessage :: "messageWrapper \<Rightarrow> bytes"
  ssh_MarshalWrapped :: "wrappedSig \<Rightarrow> bytes"
  ssh_UnmarshalWrapped :: "bytes \<Rightarrow> wrappedSig outcome"
  ssh_MarshalSignature :: "'g \<Rightarrow> bytes"
  ssh_UnmarshalSignature :: "bytes \<Rightarrow> 'g outcome"
  ssh_ParsePublicKey :: "bytes \<Rightarrow> 'p outcome"
  ssh_ParsePrivateKey :: "bytes \<Rightarrow> 'k outcome"
  sshpub_Marshal :: "'p \<Rightarrow> bytes"
  sshpub_Type :: "'p \<Rightarrow> string"
  sshpub_Verify :: "'p \<Rightarrow> bytes \<Rightarrow> 'g \<Rightarrow> unit outcome"
  sshkey_PublicKey :: "'k \<Rightarrow> 'p"
  sshkey_Sign :: "'k \<Rightarrow> bytes \<Rightarrow> 'g outcome"
  sshkey_AlgorithmSigner :: "'k \<Rightarrow> bool"
  sshkey_SignWithAlgorithm :: "'k \<Rightarrow> bytes \<Rightarrow> string \<Rightarrow> 'g outcome"

text \<open>Each parser inverts its printer, and a signature verifies for the bytes that were signed.\<close>

definition ssh_laws :: "('k, 'p, 'g) ssh_lib \<Rightarrow> bool" where
  "ssh_laws S \<longleftrightarrow>
     (\<forall>w. length (ws_MagicHeader w) = 6 \<longrightarrow> ssh_UnmarshalWrapped S (ssh_MarshalWrapped S w) = Ret w) \<and>
     (\<forall>g. ssh_UnmarshalSignature S (ssh_MarshalSignature S g) = Ret g) \<and>
     (\<forall>p. ssh_ParsePublicKey S (sshpub_Marshal S p) = Ret p) \<and>
     (\<forall>k d a g. sshkey_SignWithAlgorithm S k d a = Ret g \<longrightarrow> sshpub_Verify S (sshkey_PublicKey S k) d g = Ret ())"

section \<open>Armour\<close>

definition namespace :: string where "namespace = ''file''"
definition pemType :: string where "pemType = ''SSH SIGNATURE''"
definition magicHeader :: string where "magicHeader = ''SSHSIG''"
definition defaultHashAlgorithm :: string where "defaultHashAlgorithm = ''sha512''"

definition supportedHashAlgorithms :: "string \<rightharpoonup> hash" where
  "supportedHashAlgorithms = [''sha256'' \<mapsto> SHA256, ''sha512'' \<mapsto> SHA512]"

definition KeyAlgoRSA :: string where "KeyAlgoRSA = ''ssh-rsa''"
definition KeyAlgoRSASHA512 :: string where "KeyAlgoRSASHA512 = ''rsa-sha2-512''"

record ('p, 'g) ssh_Signature =
  sshsig_signature :: 'g
  sshsig_pk :: 'p
  sshsig_hashAlg :: string

definition Armor :: "pki \<Rightarrow> ('k, 'p, 'g) ssh_lib \<Rightarrow> 'g \<Rightarrow> 'p \<Rightarrow> bytes" where
  "Armor P S s p =
     (let sig = \<lparr>ws_MagicHeader = bytes_of magicHeader, ws_Version = 1, ws_PublicKey = string_of (sshpub_Marshal S p),
            ws_Namespace = namespace, ws_Reserved = [], ws_HashAlgorithm = defaultHashAlgorithm,
            ws_Signature = string_of (ssh_MarshalSignature S s)\<rparr>
      in pem_EncodeToMemory P \<lparr>pem_Type = pemType, pem_Bytes = ssh_MarshalWrapped S sig\<rparr>)"

definition Decode :: "pki \<Rightarrow> ('k, 'p, 'g) ssh_lib \<Rightarrow> bytes \<Rightarrow> ('p, 'g) ssh_Signature outcome" where
  "Decode P S b = (case pem_Decode P b of
       None \<Rightarrow> Err (Msg ''unable to decode pem file'')
     | Some (pemBlock, _) \<Rightarrow>
         if pem_Type pemBlock \<noteq> pemType then Err (Msg ''wrong pem block type'')
         else and_then (ssh_UnmarshalWrapped S (pem_Bytes pemBlock)) (\<lambda>sig.
           if ws_Version sig \<noteq> 1 then Err (Msg ''unsupported signature version'')
           else if string_of (ws_MagicHeader sig) \<noteq> magicHeader then Err (Msg ''invalid magic header'')
           else if ws_Namespace sig \<noteq> ''file'' then Err (Msg ''invalid signature namespace'')
           else if supportedHashAlgorithms (ws_HashAlgorithm sig) = None then Err (Msg ''unsupported hash algorithm'')
           else and_then (ssh_UnmarshalSignature S (bytes_of (ws_Signature sig))) (\<lambda>sshSig.
             and_then (ssh_ParsePublicKey S (bytes_of (ws_PublicKey sig))) (\<lambda>pk.
             Ret \<lparr>sshsig_signature = sshSig, sshsig_pk = pk, sshsig_hashAlg = ws_HashAlgorithm sig\<rparr>))))"

section \<open>Signing and verifying\<close>

text \<open>What is signed for a message with the given hash.\<close>

definition signed_data :: "('k, 'p, 'g) ssh_lib \<Rightarrow> string \<Rightarrow> bytes \<Rightarrow> bytes" where
  "signed_data S hashAlg mh =
     bytes_of magicHeader @ ssh_MarshalMessage S \<lparr>mw_Namespace = ''file'', mw_Reserved = [], mw_HashAlgorithm = hashAlg, mw_Hash = string_of mh\<rparr>"

definition ssh_sign :: "crypto_lib \<Rightarrow> ('k, 'p, 'g) ssh_lib \<Rightarrow> 'k \<Rightarrow> io_reader \<Rightarrow> 'g go" where
  "ssh_sign L S s m =
     go_then (ReadAll m) (\<lambda>b.
     let mh = hash_sum L SHA512 b;
         dataMessageWrapper = signed_data S defaultHashAlgorithm mh;
         algo = (if sshpub_Type S (sshkey_PublicKey S s) = KeyAlgoRSA then KeyAlgoRSASHA512 else [])
     in go_lift (sshkey_SignWithAlgorithm S s dataMessageWrapper algo))"

definition ssh_Sign :: "crypto_lib \<Rightarrow> pki \<Rightarrow> ('k, 'p, 'g) ssh_lib \<Rightarrow> string \<Rightarrow> io_reader \<Rightarrow> bytes go" where
  "ssh_Sign L P S sshPrivateKey data =
     go_then (go_lift (ssh_ParsePrivateKey S (bytes_of sshPrivateKey))) (\<lambda>s.
     if \<not> sshkey_AlgorithmSigner S s then go_err (Msg ''private key is not a ssh.AlgorithmSigner'')
     else go_then (ssh_sign L S s data) (\<lambda>sig. go_ret (Armor P S sig (sshkey_PublicKey S s))))"

definition ssh_Verify :: "crypto_lib \<Rightarrow> pki \<Rightarrow> ('k, 'p, 'g) ssh_lib \<Rightarrow> io_reader \<Rightarrow> bytes \<Rightarrow> 'p \<Rightarrow> unit go" where
  "ssh_Verify L P S message armoredSignature pubKey =
     go_then (go_lift (Decode P S armoredSignature)) (\<lambda>decodedSignature.
     case supportedHashAlgorithms (sshsig_hashAlg decodedSignature) of
       None \<Rightarrow> go_panic ''nil function call''
     | Some h \<Rightarrow>
         go_then (ReadAll message) (\<lambda>b.
         go_lift (sshpub_Verify S pubKey (signed_data S (sshsig_hashAlg decodedSignature) (hash_sum L h b)) (sshsig_signature decodedSignature))))"

record 'k ssh_Signer = ssh_signer :: 'k

definition ssh_PublicKey :: "('k, 'p, 'g) ssh_lib \<Rightarrow> 'k ssh_Signer \<Rightarrow> 'p outcome" where
  "ssh_PublicKey S s = Ret (sshkey_PublicKey S (ssh_signer s))"

definition ssh_SignMessage :: "pki \<Rightarrow> ('k, 'p, 'g) ssh_lib \<Rightarrow> 'k ssh_Signer \<Rightarrow> io_reader \<Rightarrow> bytes go" where
  "ssh_SignMessage P S s message =
     go_then (ReadAll message) (\<lambda>b.
     go_then (go_lift (sshkey_Sign S (ssh_signer s) b)) (\<lambda>sig.
     go_ret (Armor P S sig (sshkey_PublicKey S (ssh_signer s)))))"

definition ssh_VerifySignature :: "crypto_lib \<Rightarrow> pki \<Rightarrow> ('k, 'p, 'g) ssh_lib \<Rightarrow> 'k ssh_Signer \<Rightarrow> io_reader \<Rightarrow> io_reader \<Rightarrow> unit go" where
  "ssh_VerifySignature L P S s signature message =
     go_then (ReadAll signature) (\<lambda>b. ssh_Verify L P S message b (sshkey_PublicKey S (ssh_signer s)))"

section \<open>Lemmas\<close>

text \<open>The armour of PEM, for the block type of SSH signatures.\<close>

definition ssh_pem :: "pki \<Rightarrow> bool" where
  "ssh_pem P \<longleftrightarrow> (\<forall>b. pem_Decode P (pem_EncodeToMemory P \<lparr>pem_Type = pemType, pem_Bytes = b\<rparr>) = Some (\<lparr>pem_Type = pemType, pem_Bytes = b\<rparr>, []))"

lemma Decode_Armor:
  assumes "ssh_laws S" "ssh_pem P"
  shows "Decode P S (Armor P S g p) = Ret \<lparr>sshsig_signature = g, sshsig_pk = p, sshsig_hashAlg = defaultHashAlgorithm\<rparr>"
proof -
  have "length (bytes_of magicHeader) = 6" by (simp add: magicHeader_def)
  moreover have "supportedHashAlgorithms defaultHashAlgorithm = Some SHA512" by (simp add: supportedHashAlgorithms_def defaultHashAlgorithm_def)
  ultimately show ?thesis using assms
    by (simp add: Decode_def Armor_def ssh_laws_def ssh_pem_def namespace_def)
qed

lemma Decode_Ret:
  assumes "Decode P S b = Ret d"
  obtains blk rest sig where "pem_Decode P b = Some (blk, rest)" "pem_Type blk = pemType" "ssh_UnmarshalWrapped S (pem_Bytes blk) = Ret sig"
    "ws_Version sig = 1" "ws_Namespace sig = ''file''" "supportedHashAlgorithms (ws_HashAlgorithm sig) \<noteq> None"
    "sshsig_hashAlg d = ws_HashAlgorithm sig" "ssh_UnmarshalSignature S (bytes_of (ws_Signature sig)) = Ret (sshsig_signature d)"
  using assms unfolding Decode_def by (auto simp: and_then_Ret_iff split: option.splits prod.splits if_splits)

lemma ssh_Verify_Ret:
  "ssh_Verify L P S message a pk w = (Ret (), w') \<longleftrightarrow>
     (\<exists>d h m. Decode P S a = Ret d \<and> supportedHashAlgorithms (sshsig_hashAlg d) = Some h \<and> delivers w message m \<and> w' = drain message w \<and>
        sshpub_Verify S pk (signed_data S (sshsig_hashAlg d) (hash_sum L h m)) (sshsig_signature d) = Ret ())"
proof -
  have "(case x of None \<Rightarrow> go_panic p | Some h \<Rightarrow> f h) w = (Ret (), w') \<longleftrightarrow> (\<exists>h. x = Some h \<and> f h w = (Ret (), w'))" for x p and f :: "hash \<Rightarrow> unit go"
    by (cases x) simp_all
  then show ?thesis unfolding ssh_Verify_def by (auto simp: go_then_Ret_iff ReadAll_Ret_iff)
qed

section \<open>Properties\<close>

text \<open>C37: what \<open>Sign\<close> makes, \<open>Verify\<close> accepts for the same message and the public half of the key.\<close>

theorem ssh_roundtrip:
  assumes "ssh_laws S" "ssh_pem P" "ssh_ParsePrivateKey S (bytes_of sk) = Ret k"
    and "delivers w data m" "ssh_Sign L P S sk data w = (Ret armored, w1)" "delivers w2 message m"
  shows "ssh_Verify L P S message armored (sshkey_PublicKey S k) w2 = (Ret (), drain message w2)"
proof -
  from assms(3,4,5) obtain algo g where g: "sshkey_SignWithAlgorithm S k (signed_data S defaultHashAlgorithm (hash_sum L SHA512 m)) algo = Ret g"
    "armored = Armor P S g (sshkey_PublicKey S k)"
    unfolding ssh_Sign_def ssh_sign_def Let_def
    by (auto simp: go_then_Ret_iff ReadAll_Ret_iff split: if_splits dest: delivers_unique)
  have "supportedHashAlgorithms defaultHashAlgorithm = Some SHA512" by (simp add: supportedHashAlgorithms_def defaultHashAlgorithm_def)
  moreover have "sshpub_Verify S (sshkey_PublicKey S k) (signed_data S defaultHashAlgorithm (hash_sum L SHA512 m)) g = Ret ()"
    using assms(1) g(1) unfolding ssh_laws_def by blast
  ultimately show ?thesis using Decode_Armor [OF assms(1,2)] assms(6) unfolding ssh_Verify_Ret g(2) by auto
qed

text \<open>C15: a signature is accepted only if the given key accepts it for the hash of the message, in the wrapper of
  the \<open>file\<close> namespace and under a supported hash algorithm, and only from a block of the right type and
  version.  The key inside the signature plays no part.\<close>

theorem ssh_verify_sound:
  assumes "ssh_Verify L P S message armored pk w = (Ret (), w')"
  shows "\<exists>blk rest sig g h m. pem_Decode P armored = Some (blk, rest) \<and> pem_Type blk = pemType \<and>
    ssh_UnmarshalWrapped S (pem_Bytes blk) = Ret sig \<and> ws_Version sig = 1 \<and> ws_Namespace sig = ''file'' \<and>
    ssh_UnmarshalSignature S (bytes_of (ws_Signature sig)) = Ret g \<and>
    supportedHashAlgorithms (ws_HashAlgorithm sig) = Some h \<and> h \<in> {SHA256, SHA512} \<and> delivers w message m \<and>
    sshpub_Verify S pk (signed_data S (ws_HashAlgorithm sig) (hash_sum L h m)) g = Ret ()"
proof -
  from assms obtain d h m where d: "Decode P S armored = Ret d" "supportedHashAlgorithms (sshsig_hashAlg d) = Some h" "delivers w message m"
    "sshpub_Verify S pk (signed_data S (sshsig_hashAlg d) (hash_sum L h m)) (sshsig_signature d) = Ret ()"
    unfolding ssh_Verify_Ret by blast
  moreover have "h \<in> {SHA256, SHA512}" using d(2) by (auto simp: supportedHashAlgorithms_def split: if_splits)
  ultimately show ?thesis using Decode_Ret [OF d(1)] by metis
qed

text \<open>The methods of \<open>Signer\<close> do not fit together.  \<open>SignMessage\<close> signs the message itself, while
  \<open>VerifySignature\<close> asks about the wrapper of its hash, so a signer whose signatures are good for
  nothing but what was signed rejects every signature of its own.\<close>

theorem ssh_signer_rejects_own:
  assumes "ssh_laws S" "ssh_pem P"
    and binding: "\<And>d d' g. sshkey_Sign S (ssh_signer s) d = Ret g \<Longrightarrow> sshpub_Verify S (sshkey_PublicKey S (ssh_signer s)) d' g = Ret () \<Longrightarrow> d' = d"
    and "delivers w message m" "ssh_SignMessage P S s message w = (Ret armored, w1)"
    and "delivers w2 signature armored" "delivers w2 message2 m" "signature \<noteq> message2"
    and "m \<noteq> signed_data S defaultHashAlgorithm (hash_sum L SHA512 m)"
  shows "\<not> is_ret (fst (ssh_VerifySignature L P S s signature message2 w2))"
proof
  assume "is_ret (fst (ssh_VerifySignature L P S s signature message2 w2))"
  then obtain w3 where "ssh_VerifySignature L P S s signature message2 w2 = (Ret (), w3)"
    by (cases "ssh_VerifySignature L P S s signature message2 w2") (auto simp: is_ret_iff)
  then have v: "ssh_Verify L P S message2 armored (sshkey_PublicKey S (ssh_signer s)) (drain signature w2) = (Ret (), w3)"
    using assms(6) by (simp add: ssh_VerifySignature_def go_then_step ReadAll_delivers)
  from assms(4,5) obtain g where g: "sshkey_Sign S (ssh_signer s) m = Ret g" "armored = Armor P S g (sshkey_PublicKey S (ssh_signer s))"
    unfolding ssh_SignMessage_def by (auto simp: go_then_Ret_iff ReadAll_Ret_iff dest: delivers_unique)
  have h: "supportedHashAlgorithms defaultHashAlgorithm = Some SHA512" by (simp add: supportedHashAlgorithms_def defaultHashAlgorithm_def)
  have "delivers (drain signature w2) message2 m" using assms(7,8) by simp
  with v have "sshpub_Verify S (sshkey_PublicKey S (ssh_signer s)) (signed_data S defaultHashAlgorithm (hash_sum L SHA512 m)) g = Ret ()"
    using Decode_Armor [OF assms(1,2)] h unfolding ssh_Verify_Ret g(2) by (auto dest: delivers_unique)
  from binding [OF g(1) this] assms(9) show False by simp
qed

section \<open>A scheme for the witnesses\<close>

text \<open>A signature is what was signed, and the wire format is text.\<close>

definition c_wrapped :: "wrappedSig codec" where
  "c_wrapped = c_map (\<lambda>w. (ws_MagicHeader w, unat (ws_Version w), ws_PublicKey w, ws_Namespace w, ws_Reserved w, ws_HashAlgorithm w, ws_Signature w))
     (\<lambda>(m, v, p, n, r, h, g). \<lparr>ws_MagicHeader = m, ws_Version = word_of_nat v, ws_PublicKey = p, ws_Namespace = n, ws_Reserved = r,
        ws_HashAlgorithm = h, ws_Signature = g\<rparr>)
     (c_pair c_bytes (c_pair c_nat (c_pair c_string (c_pair c_string (c_pair c_string (c_pair c_string c_string))))))"

lemma codec_wrapped: "codec c_wrapped"
  unfolding c_wrapped_def by (rule codec_map) simp_all

definition ref_ssh :: "(bytes, bytes, bytes) ssh_lib" where
  "ref_ssh = \<lparr>ssh_MarshalMessage = (\<lambda>w. bytes_of (mw_Hash w)), ssh_MarshalWrapped = (\<lambda>w. bytes_of (to_text c_wrapped w)),
     ssh_UnmarshalWrapped = (\<lambda>b. from_text c_wrapped (string_of b)), ssh_MarshalSignature = (\<lambda>g. g), ssh_UnmarshalSignature = Ret,
     ssh_ParsePublicKey = Ret, ssh_ParsePrivateKey = Ret, sshpub_Marshal = (\<lambda>p. p), sshpub_Type = (\<lambda>_. KeyAlgoRSA),
     sshpub_Verify = (\<lambda>p d g. if g = d then Ret () else Err (Msg ''ssh: signature did not verify'')),
     sshkey_PublicKey = (\<lambda>k. k), sshkey_Sign = (\<lambda>k. Ret), sshkey_AlgorithmSigner = (\<lambda>_. True), sshkey_SignWithAlgorithm = (\<lambda>k d a. Ret d)\<rparr>"

lemma ref_ssh_laws: "ssh_laws ref_ssh"
  by (simp add: ssh_laws_def ref_ssh_def from_to_text [OF codec_wrapped])

lemma ref_ssh_pem: "ssh_pem ref_pki"
proof -
  have "0 \<notin> set (bytes_of pemType)" by (simp add: pemType_def bytes_of_def)
  from ref_decode_encode [OF this, where x = "[0x2D, 0x0A]"] show ?thesis
    by (simp add: ssh_pem_def ref_pki_def ref_encode_eq)
qed

lemma ref_ssh_simps:
  "ssh_ParsePrivateKey ref_ssh b = Ret b" "sshkey_PublicKey ref_ssh k = k" "sshkey_Sign ref_ssh k d = Ret d"
  "sshkey_AlgorithmSigner ref_ssh k" "sshkey_SignWithAlgorithm ref_ssh k d a = Ret d"
  "sshpub_Verify ref_ssh p d g = (if g = d then Ret () else Err (Msg ''ssh: signature did not verify''))"
  by (simp_all add: ref_ssh_def)

definition ref_armored :: bytes where
  "ref_armored = Armor ref_pki ref_ssh (signed_data ref_ssh defaultHashAlgorithm (hash_sum ref_lib SHA512 [7])) (bytes_of ''key'')"

lemma ref_ssh_Sign: "ssh_Sign ref_lib ref_pki ref_ssh ''key'' (Some 0) (two_readers [7] []) = (Ret ref_armored, drain (Some 0) (two_readers [7] []))"
  by (simp add: ssh_Sign_def ssh_sign_def ref_ssh_simps go_then_def ReadAll_delivers [OF two_readers_delivers(1)] ref_armored_def Let_def)

lemma ssh_roundtrip_witness:
  "ssh_Verify ref_lib ref_pki ref_ssh (Some 1) ref_armored (bytes_of ''key'') (two_readers [] [7]) = (Ret (), drain (Some 1) (two_readers [] [7]))"
  using ssh_roundtrip [OF ref_ssh_laws ref_ssh_pem ref_ssh_simps(1) two_readers_delivers(1) ref_ssh_Sign, of "two_readers [] [7]" "Some 1"]
  by (simp add: ref_ssh_simps)

lemma ref_ssh_Verify: "ssh_Verify ref_lib ref_pki ref_ssh (Some 0) ref_armored (bytes_of ''key'') (two_readers [7] []) =
    (Ret (), drain (Some 0) (two_readers [7] []))"
  unfolding ssh_Verify_Ret ref_armored_def Decode_Armor [OF ref_ssh_laws ref_ssh_pem]
  by (auto simp: ref_ssh_simps supportedHashAlgorithms_def defaultHashAlgorithm_def intro!: exI [of _ "[7]"])

lemma ssh_verify_sound_witness:
  "\<exists>h g. h \<in> {SHA256, SHA512} \<and>
     (\<exists>a m. delivers (two_readers [7] []) (Some 0) m \<and> sshpub_Verify ref_ssh (bytes_of ''key'') (signed_data ref_ssh a (hash_sum ref_lib h m)) g = Ret ())"
  using ssh_verify_sound [OF ref_ssh_Verify] by blast

lemma ssh_signer_rejects_own_witness:
  "\<not> is_ret (fst (ssh_VerifySignature ref_lib ref_pki ref_ssh \<lparr>ssh_signer = bytes_of ''key''\<rparr> (Some 0) (Some 1)
      (two_readers (Armor ref_pki ref_ssh [7] (bytes_of ''key'')) [7])))"
proof -
  have "ssh_SignMessage ref_pki ref_ssh \<lparr>ssh_signer = bytes_of ''key''\<rparr> (Some 0) (two_readers [7] []) =
      (Ret (Armor ref_pki ref_ssh [7] (bytes_of ''key'')), drain (Some 0) (two_readers [7] []))"
    by (simp add: ssh_SignMessage_def go_then_def ReadAll_delivers [OF two_readers_delivers(1)] ref_ssh_simps)
  note sm = this
  have "signed_data ref_ssh defaultHashAlgorithm h \<noteq> [7]" for h by (simp add: signed_data_def magicHeader_def bytes_of_def)
  then have n: "[7] \<noteq> signed_data ref_ssh defaultHashAlgorithm h" for h by metis
  show ?thesis
    by (rule ssh_signer_rejects_own [OF ref_ssh_laws ref_ssh_pem _ two_readers_delivers(1) sm two_readers_delivers(1) _ _ n])
      (simp_all add: ref_ssh_simps split: if_splits)
qed

end
