(* ===== verification/FulcioRoots.thy ===== *)
theory FulcioRoots
  imports Tuf CryptoUtils
begin

text \<open>
  \<open>pkg/fulcioroots\<close>: the root and intermediate certificates of Fulcio, read once per process from the TUF
  repository and sorted.  The state is the TUF process and the package's variables.  Reading
  certificates is a loop that might not end, so a call is an option.
\<close>

section \<open>State\<close>

record 'c roots_state =
  fr_tuf :: "'c tuf_world"
  rootsOnce :: bool
  roots :: "certificate list"
  intermediates :: "certificate list"
  singletonRootErr :: "goerr option"

definition roots_start :: "'c tuf_world \<Rightarrow> 'c roots_state" where
  "roots_start w = \<lparr>fr_tuf = w, rootsOnce = False, roots = [], intermediates = [], singletonRootErr = None\<rparr>"

definition fulcioTargetStr :: string where "fulcioTargetStr = ''fulcio.crt.pem''"
definition fulcioV1TargetStr :: string where "fulcioV1TargetStr = ''fulcio_v1.crt.pem''"
definition fulcioV1IntermediateTargetStr :: string where "fulcioV1IntermediateTargetStr = ''fulcio_intermediate_v1.crt.pem''"

text \<open>\<open>x509.CertPool\<close>: the certificates in the order they were added, each encoding once.\<close>

type_synonym cert_pool = "certificate list"

definition AddCert :: "certificate \<Rightarrow> cert_pool \<Rightarrow> cert_pool" where
  "AddCert c pool = (if cert_Raw c \<in> cert_Raw ` set pool then pool else pool @ [c])"

section \<open>Reading the certificates\<close>

definition self_signed :: "certificate \<Rightarrow> bool" where
  "self_signed cert \<longleftrightarrow> RawSubject cert = RawIssuer cert"

primrec sort_certs :: "certificate list \<Rightarrow> certificate list \<times> certificate list \<Rightarrow> certificate list \<times> certificate list" where
  "sort_certs [] pools = pools"
| "sort_certs (cert # certs) pools = (case pools of (rootPool, intermediatePool) \<Rightarrow>
     sort_certs certs (if self_signed cert then (rootPool @ [cert], intermediatePool) else (rootPool, intermediatePool @ [cert])))"

primrec read_targets ::
  "pki \<Rightarrow> TargetFile list \<Rightarrow> certificate list \<times> certificate list \<Rightarrow> (certificate list \<times> certificate list) outcome option" where
  "read_targets P [] pools = Some (Ret pools)"
| "read_targets P (t # targets) pools = (case UnmarshalCertificatesFromPEM P (tf_Target t) of
       None \<Rightarrow> None
     | Some (Err e) \<Rightarrow> Some (Err (Wrap ''error unmarshalling certificates'' e))
     | Some (Panic p) \<Rightarrow> Some (Panic p)
     | Some (Ret certs) \<Rightarrow> read_targets P targets (sort_certs certs pools))"

definition fulcio_targets :: "'c tuf_lib \<Rightarrow> embedded_fs \<Rightarrow> ('c tuf_world, TargetFile list) step" where
  "fulcio_targets T embedded =
     go_then (go_wrap ''initializing tuf'' (NewFromEnv T embedded)) (\<lambda>_.
     go_wrap ''error getting targets'' (on_singleton (GetTargetsByMeta T Fulcio
       [fulcioTargetStr, fulcioV1TargetStr, fulcioV1IntermediateTargetStr])))"

definition initRoots ::
  "'c tuf_lib \<Rightarrow> pki \<Rightarrow> embedded_fs \<Rightarrow> 'c tuf_world \<Rightarrow> ((certificate list \<times> certificate list) outcome \<times> 'c tuf_world) option" where
  "initRoots T P embedded w = (case fulcio_targets T embedded w of
       (Err e, w') \<Rightarrow> Some (Err e, w')
     | (Panic p, w') \<Rightarrow> Some (Panic p, w')
     | (Ret targets, w') \<Rightarrow>
         if length targets = 0 then Some (Err (Msg ''none of the Fulcio roots have been found''), w')
         else map_option (\<lambda>x. (x, w')) (read_targets P targets ([], [])))"

text \<open>\<open>rootsOnce.Do\<close>: the first call initialises; an error clears both lists, and a panic counts as done.\<close>

definition roots_once ::
  "'c tuf_lib \<Rightarrow> pki \<Rightarrow> embedded_fs \<Rightarrow> 'c roots_state \<Rightarrow> (unit outcome \<times> 'c roots_state) option" where
  "roots_once T P embedded s =
     (if rootsOnce s then Some (Ret (), s)
      else map_option (\<lambda>(x, w).
        let s' = s\<lparr>fr_tuf := w, rootsOnce := True\<rparr>
        in (case x of
              Ret (r, i) \<Rightarrow> (Ret (), s'\<lparr>roots := r, intermediates := i, singletonRootErr := None\<rparr>)
            | Err e \<Rightarrow> (Ret (), s'\<lparr>roots := [], intermediates := [], singletonRootErr := Some e\<rparr>)
            | Panic p \<Rightarrow> (Panic p, s'))) (initRoots T P embedded (fr_tuf s)))"

text \<open>What both functions do after that: an error, or the list of certificates added to the pool.\<close>

definition add_all :: "('c roots_state \<Rightarrow> certificate list) \<Rightarrow> cert_pool \<Rightarrow> ('c roots_state, cert_pool) step" where
  "add_all field pool s = (case singletonRootErr s of
       Some e \<Rightarrow> (Err e, s)
     | None \<Rightarrow> (Ret (fold AddCert (field s) pool), s))"

definition GetWithCertPool ::
  "'c tuf_lib \<Rightarrow> pki \<Rightarrow> embedded_fs \<Rightarrow> cert_pool \<Rightarrow> 'c roots_state \<Rightarrow> (cert_pool outcome \<times> 'c roots_state) option" where
  "GetWithCertPool T P embedded pool s =
     map_option (\<lambda>(x, s'). go_then (go_lift x) (\<lambda>_. add_all roots pool) s') (roots_once T P embedded s)"

definition fulcio_Get ::
  "'c tuf_lib \<Rightarrow> pki \<Rightarrow> embedded_fs \<Rightarrow> 'c roots_state \<Rightarrow> (cert_pool outcome \<times> 'c roots_state) option" where
  "fulcio_Get T P embedded s = GetWithCertPool T P embedded [] s"

definition GetIntermediatesWithCertPool ::
  "'c tuf_lib \<Rightarrow> pki \<Rightarrow> embedded_fs \<Rightarrow> cert_pool \<Rightarrow> 'c roots_state \<Rightarrow> (cert_pool outcome \<times> 'c roots_state) option" where
  "GetIntermediatesWithCertPool T P embedded pool s =
     map_option (\<lambda>(x, s'). go_then (go_lift x) (\<lambda>_. add_all intermediates pool) s') (roots_once T P embedded s)"

definition fulcio_GetIntermediates ::
  "'c tuf_lib \<Rightarrow> pki \<Rightarrow> embedded_fs \<Rightarrow> 'c roots_state \<Rightarrow> (cert_pool outcome \<times> 'c roots_state) option" where
  "fulcio_GetIntermediates T P embedded s = GetIntermediatesWithCertPool T P embedded [] s"

section \<open>Lemmas\<close>

lemma sort_certs_eq: "sort_certs certs (r, i) = (r @ filter self_signed certs, i @ filter (\<lambda>c. \<not> self_signed c) certs)"
  by (induction certs arbitrary: r i) auto

lemma set_AddCerts: "set (fold AddCert certs pool) \<subseteq> set certs \<union> set pool"
proof (induction certs arbitrary: pool)
  case (Cons c certs)
  have "set (AddCert c pool) \<subseteq> insert c (set pool)" by (auto simp: AddCert_def)
  with Cons.IH [of "AddCert c pool"] show ?case by auto
qed simp

lemma Raw_AddCerts: "cert_Raw ` set (fold AddCert certs pool) = cert_Raw ` set certs \<union> cert_Raw ` set pool"
  by (induction certs arbitrary: pool) (auto simp: AddCert_def)

text \<open>Where a certificate comes from: a target of the repository, tagged for Fulcio or known by name, that was
  read through \<open>GetTarget\<close>.\<close>

definition from_repository :: "'c tuf_lib \<Rightarrow> pki \<Rightarrow> certificate \<Rightarrow> bool" where
  "from_repository T P c \<longleftrightarrow> (\<exists>f certs. read_target T f \<and> UnmarshalCertificatesFromPEM P (tf_Target f) = Some (Ret certs) \<and> c \<in> set certs \<and>
     ((\<exists>ts. tagged T Fulcio ts f) \<or> tf_Name f \<in> {fulcioTargetStr, fulcioV1TargetStr, fulcioV1IntermediateTargetStr}))"

lemma read_targets_Ret:
  assumes "read_targets P targets (r, i) = Some (Ret (r', i'))"
  shows "\<exists>certs. r' = r @ filter self_signed certs \<and> i' = i @ filter (\<lambda>c. \<not> self_signed c) certs \<and>
    (\<forall>c \<in> set certs. \<exists>f \<in> set targets. \<exists>cs. UnmarshalCertificatesFromPEM P (tf_Target f) = Some (Ret cs) \<and> c \<in> set cs)"
  using assms
proof (induction targets arbitrary: r i)
  case (Cons t targets)
  from Cons.prems obtain cs where cs: "UnmarshalCertificatesFromPEM P (tf_Target t) = Some (Ret cs)"
    and rest: "read_targets P targets (sort_certs cs (r, i)) = Some (Ret (r', i'))"
    by (auto split: option.splits outcome.splits)
  from Cons.IH [OF rest [unfolded sort_certs_eq]] obtain certs where
    "r' = (r @ filter self_signed cs) @ filter self_signed certs" "i' = (i @ filter (\<lambda>c. \<not> self_signed c) cs) @ filter (\<lambda>c. \<not> self_signed c) certs"
    "\<forall>c \<in> set certs. \<exists>f \<in> set targets. \<exists>cs. UnmarshalCertificatesFromPEM P (tf_Target f) = Some (Ret cs) \<and> c \<in> set cs" by blast
  with cs show ?case by (intro exI [of _ "cs @ certs"]) auto
qed simp

lemma read_targets_returns: "pem_laws P \<Longrightarrow> \<exists>x. read_targets P targets pools = Some x"
proof (induction targets arbitrary: pools)
  case (Cons t targets)
  obtain x where "UnmarshalCertificatesFromPEM P (tf_Target t) = Some x"
    using unmarshal_certs_returns [OF Cons.prems] unfolding UnmarshalCertificatesFromPEM_def by blast
  with Cons show ?case by (cases x) simp_all
qed simp

lemma initRoots_returns: "pem_laws P \<Longrightarrow> \<exists>x. initRoots T P embedded w = Some x"
  unfolding initRoots_def using read_targets_returns [of P _ "([], [])"]
  by (auto split: prod.splits outcome.splits)

lemma on_singleton_Ret: "on_singleton m w = (Ret x, w') \<Longrightarrow> \<exists>t s'. m (t, w) = (Ret x, s')"
  by (auto simp: on_singleton_def split: option.splits prod.splits)

lemma initRoots_Ret:
  assumes "initRoots T P embedded w = Some (Ret (r, i), w')"
  shows "\<forall>c \<in> set r. self_signed c \<and> from_repository T P c" "\<forall>c \<in> set i. \<not> self_signed c \<and> from_repository T P c"
proof -
  from assms obtain targets where t: "fulcio_targets T embedded w = (Ret targets, w')" and rt: "read_targets P targets ([], []) = Some (Ret (r, i))"
    unfolding initRoots_def by (auto split: prod.splits outcome.splits if_splits)
  from t obtain w1 where "on_singleton (GetTargetsByMeta T Fulcio [fulcioTargetStr, fulcioV1TargetStr, fulcioV1IntermediateTargetStr]) w1 = (Ret targets, w')"
    unfolding fulcio_targets_def by (auto simp: go_then_Ret_iff)
  then obtain s s' where "GetTargetsByMeta T Fulcio [fulcioTargetStr, fulcioV1TargetStr, fulcioV1IntermediateTargetStr] s = (Ret targets, s')"
    by (blast dest: on_singleton_Ret)
  from GetTargetsByMeta_files [OF this] have f: "\<forall>f \<in> set targets. read_target T f \<and>
      ((\<exists>ts. tagged T Fulcio ts f) \<or> tf_Name f \<in> {fulcioTargetStr, fulcioV1TargetStr, fulcioV1IntermediateTargetStr})" by auto
  from read_targets_Ret [OF rt] obtain certs where c: "r = filter self_signed certs" "i = filter (\<lambda>c. \<not> self_signed c) certs"
    "\<forall>c \<in> set certs. \<exists>f \<in> set targets. \<exists>cs. UnmarshalCertificatesFromPEM P (tf_Target f) = Some (Ret cs) \<and> c \<in> set cs" by auto
  from c(3) f have "\<forall>c \<in> set certs. from_repository T P c" unfolding from_repository_def by blast
  with c show "\<forall>c \<in> set r. self_signed c \<and> from_repository T P c" "\<forall>c \<in> set i. \<not> self_signed c \<and> from_repository T P c" by auto
qed

lemma roots_once_first:
  assumes "roots_once T P embedded s = Some (x, s')" "\<not> rootsOnce s"
  obtains (Ret) r i w where "initRoots T P embedded (fr_tuf s) = Some (Ret (r, i), w)" "x = Ret ()"
      "s' = s\<lparr>fr_tuf := w, rootsOnce := True, roots := r, intermediates := i, singletonRootErr := None\<rparr>"
  | (Err) e w where "x = Ret ()"
      "s' = s\<lparr>fr_tuf := w, rootsOnce := True, roots := [], intermediates := [], singletonRootErr := Some e\<rparr>"
  | (Panic) p w where "x = Panic p" "s' = s\<lparr>fr_tuf := w, rootsOnce := True\<rparr>"
proof -
  from assms obtain y w where i: "initRoots T P embedded (fr_tuf s) = Some (y, w)"
    and y: "(case y of Ret (r, i) \<Rightarrow> (outcome.Ret (), s\<lparr>fr_tuf := w, rootsOnce := True, roots := r, intermediates := i, singletonRootErr := None\<rparr>)
      | Err e \<Rightarrow> (outcome.Ret (), s\<lparr>fr_tuf := w, rootsOnce := True, roots := [], intermediates := [], singletonRootErr := Some e\<rparr>)
      | Panic p \<Rightarrow> (Panic p, s\<lparr>fr_tuf := w, rootsOnce := True\<rparr>)) = (x, s')"
    by (auto simp: roots_once_def Let_def)
  show ?thesis
  proof (cases y)
    case (Ret ri)
    then show ?thesis using i y that(1) by (cases ri) auto
  next
    case (Err e)
    then show ?thesis using y that(2) by auto
  next
    case (Panic p)
    then show ?thesis using y that(3) by auto
  qed
qed

lemma roots_once_again: "rootsOnce s \<Longrightarrow> roots_once T P embedded s = Some (Ret (), s)"
  by (simp add: roots_once_def)

lemma roots_once_done: "roots_once T P embedded s = Some (x, s') \<Longrightarrow> rootsOnce s'"
  by (cases "rootsOnce s") (auto elim: roots_once_first simp: roots_once_again)

lemma add_all_state: "add_all field pool s = (x, s') \<Longrightarrow> s' = s"
  by (auto simp: add_all_def split: option.splits)

section \<open>Properties\<close>

text \<open>C14: the pool of roots holds self-signed certificates only, that of intermediates none, and every one was
  read from a target of the TUF repository that \<open>GetTarget\<close> checked against verified metadata and that is
  tagged for Fulcio or has one of the three known names.\<close>

theorem fulcio_pools:
  assumes "\<not> rootsOnce s" "fulcio_Get T P embedded s = Some (Ret pool, s1)"
    and "fulcio_GetIntermediates T P embedded s1 = Some (Ret ipool, s2)"
  shows "s2 = s1 \<and> (\<forall>c \<in> set pool. self_signed c \<and> from_repository T P c) \<and> (\<forall>c \<in> set ipool. \<not> self_signed c \<and> from_repository T P c)"
proof -
  from assms(2) obtain x s' where o: "roots_once T P embedded s = Some (x, s')" and g: "go_then (go_lift x) (\<lambda>_. add_all roots []) s' = (Ret pool, s1)"
    by (auto simp: fulcio_Get_def GetWithCertPool_def)
  then have "add_all roots [] s' = (Ret pool, s1)" by (cases x) auto
  then have s1: "s1 = s'" and e: "singletonRootErr s1 = None" and p: "pool = fold AddCert (roots s1) []"
    by (auto simp: add_all_def split: option.splits)
  from o have "rootsOnce s1" unfolding s1 by (rule roots_once_done)
  with assms(3) have i: "ipool = fold AddCert (intermediates s1) []" "s2 = s1"
    by (auto simp: fulcio_GetIntermediates_def GetIntermediatesWithCertPool_def roots_once_again add_all_def e)
  from o assms(1) e g obtain w where "initRoots T P embedded (fr_tuf s) = Some (Ret (roots s1, intermediates s1), w)"
    unfolding s1 by (auto elim: roots_once_first)
  from initRoots_Ret [OF this] i p set_AddCerts [of "roots s1" "[]"] set_AddCerts [of "intermediates s1" "[]"] show ?thesis by auto
qed

text \<open>The certificates are read once.  The first call ends, and whatever it returns, short of a panic, every
  later call returns again without looking at the repository: an error for good, even one of the network.\<close>

theorem fulcio_read_once:
  assumes "pem_laws P"
  shows "\<exists>x s'. fulcio_Get T P embedded s = Some (x, s') \<and> rootsOnce s' \<and>
    (\<not> is_panic x \<longrightarrow> (\<forall>T2 P2 embedded2 w. fulcio_Get T2 P2 embedded2 (s'\<lparr>fr_tuf := w\<rparr>) = Some (x, s'\<lparr>fr_tuf := w\<rparr>)))"
proof -
  have "\<exists>y. roots_once T P embedded s = Some y"
    using initRoots_returns [OF assms, of T embedded "fr_tuf s"] unfolding roots_once_def by fastforce
  then obtain x s' where o: "roots_once T P embedded s = Some (x, s')" by auto
  note d = roots_once_done [OF o]
  obtain y s'' where g: "go_then (go_lift x) (\<lambda>_. add_all roots []) s' = (y, s'')" by fastforce
  then have s'': "s'' = s'" by (cases x) (auto dest: add_all_state)
  have "fulcio_Get T P embedded s = Some (y, s')" using o g by (simp add: fulcio_Get_def GetWithCertPool_def s'')
  moreover have "fulcio_Get T2 P2 embedded2 (s'\<lparr>fr_tuf := w\<rparr>) = Some (y, s'\<lparr>fr_tuf := w\<rparr>)" if "\<not> is_panic y" for T2 P2 embedded2 w
  proof -
    have "add_all roots [] s' = (y, s')"
    proof (cases x)
      case (Ret a)
      then show ?thesis using g s'' by simp
    next
      case (Err e)
      then have False using o by (cases "rootsOnce s") (auto elim: roots_once_first simp: roots_once_again)
      then show ?thesis ..
    next
      case (Panic p)
      then show ?thesis using g that by auto
    qed
    then show ?thesis using d
      by (auto simp: fulcio_Get_def GetWithCertPool_def roots_once_again add_all_def split: option.splits)
  qed
  ultimately show ?thesis using d by blast
qed

section \<open>A concrete root\<close>

definition ref_root_pem :: bytes where
  "ref_root_pem = cert_armour ref_pki (ref_cert [7])"

definition ref_root_meta :: file_meta where
  "ref_root_meta = \<lparr>fm_Length = length ref_root_pem, fm_Hashes = [], fm_Custom = Some [1]\<rparr>"

definition ref_root_tuf :: "unit tuf_lib" where
  "ref_root_tuf = ref_tuf\<lparr>
     client_Update := (\<lambda>(c, m). (Ret [(fulcioTargetStr, ref_root_meta)], c, AList.update ''timestamp.json'' [1, 1] m)),
     client_Targets := (\<lambda>cm. (Ret [(fulcioTargetStr, ref_root_meta)], cm)),
     client_Target := (\<lambda>n cm. (if n = fulcioTargetStr then Ret ref_root_meta else Err (Msg ''unknown target''), cm)),
     client_Download := (\<lambda>n cm. (if n = fulcioTargetStr then Ret ref_root_pem else Err (Msg ''unknown target''), cm)),
     parse_custom := (\<lambda>b. Ret (Some (bytes_of ''Fulcio''), Some (bytes_of ''Active''), []))\<rparr>"

definition ref_roots_state :: "unit roots_state" where
  "ref_roots_state = roots_start (snd (Initialize ref_root_tuf (Some (\<lambda>_. Err (Msg ''no such file''))) ''https://m'' (Some [1]) (ref_process [])))"

lemma ref_fulcio_targets: "fst (fulcio_targets ref_root_tuf None (fr_tuf ref_roots_state)) =
    Ret [\<lparr>tf_Name = fulcioTargetStr, tf_Target = ref_root_pem, tf_Status = Active\<rparr>]"
  by code_simp

lemma ref_root_pem_read: "UnmarshalCertificatesFromPEM ref_pki ref_root_pem = Some (Ret [ref_cert [7]])"
proof -
  have t: "TrimSpace ref_root_pem = butlast (cert_armour ref_pki (ref_cert [7]))"
    using TrimSpace_certs [OF ref_pki_pem_laws, of "[]" "ref_cert [7]"] by (simp add: ref_root_pem_def)
  have p: "parses ref_pki (ref_cert [7])" by (simp add: parses_def ref_pki_def ref_cert_def)
  show ?thesis
    using unmarshal_certs_armour [OF ref_pki_pem_laws, of "[]" "ref_cert [7]" "[]"] p by (simp add: UnmarshalCertificatesFromPEM_def t)
qed

lemma ref_roots_read:
  "\<exists>s1. fulcio_Get ref_root_tuf ref_pki None ref_roots_state = Some (Ret [ref_cert [7]], s1) \<and>
     fulcio_GetIntermediates ref_root_tuf ref_pki None s1 = Some (Ret [], s1)"
proof -
  obtain w where w: "fulcio_targets ref_root_tuf None (fr_tuf ref_roots_state) =
      (Ret [\<lparr>tf_Name = fulcioTargetStr, tf_Target = ref_root_pem, tf_Status = Active\<rparr>], w)"
    using ref_fulcio_targets by (metis prod.collapse)
  have "\<not> rootsOnce ref_roots_state" by (simp add: ref_roots_state_def roots_start_def)
  then show ?thesis
    by (simp add: fulcio_Get_def GetWithCertPool_def fulcio_GetIntermediates_def GetIntermediatesWithCertPool_def roots_once_def initRoots_def w
        ref_root_pem_read self_signed_def ref_cert_def add_all_def AddCert_def)
qed

theorem fulcio_pools_witness: "\<exists>s1. fulcio_Get ref_root_tuf ref_pki None ref_roots_state = Some (Ret [ref_cert [7]], s1) \<and>
    from_repository ref_root_tuf ref_pki (ref_cert [7])"
proof -
  obtain s1 where s1: "fulcio_Get ref_root_tuf ref_pki None ref_roots_state = Some (Ret [ref_cert [7]], s1)"
    "fulcio_GetIntermediates ref_root_tuf ref_pki None s1 = Some (Ret [], s1)" using ref_roots_read by blast
  have "\<not> rootsOnce ref_roots_state" by (simp add: ref_roots_state_def roots_start_def)
  from fulcio_pools [OF this s1] s1(1) show ?thesis by auto
qed

theorem fulcio_read_once_witness: "\<exists>x s'. fulcio_Get ref_root_tuf ref_pki None ref_roots_state = Some (x, s') \<and> rootsOnce s'"
  using fulcio_read_once [OF ref_pki_pem_laws, of ref_root_tuf None ref_roots_state] by blast

end
