(* ===== verification/Asn1.thy ===== *)
theory Asn1
  imports Prelude
begin

text \<open>
  What the code uses of \<open>encoding/asn1\<close> and \<open>unicode/utf8\<close>: elements in the distinguished encoding, object
  identifiers and UTF-8.  A parser takes the bytes that are left and returns those after what it read;
  each printer is stated as a law about its parser with any remainder.
\<close>

section \<open>Parsing\<close>

record tagAndLength =
  tl_class :: nat
  tl_tag :: nat
  tl_length :: nat
  tl_isCompound :: bool

definition MaxInt32 :: nat where "MaxInt32 = 2 ^ 31 - 1"

fun base128 :: "nat \<Rightarrow> nat \<Rightarrow> bytes \<Rightarrow> (nat \<times> bytes) outcome" where
  "base128 shifted ret [] = Err (Msg ''truncated base 128 integer'')"
| "base128 shifted ret (b # bs) =
     (if shifted = 5 then Err (Msg ''base 128 integer too large'')
      else if shifted = 0 \<and> b = 0x80 then Err (Msg ''integer is not minimally encoded'')
      else let ret = ret * 128 + unat b mod 128
        in if unat b < 128 then (if MaxInt32 < ret then Err (Msg ''base 128 integer too large'') else Ret (ret, bs))
           else base128 (shifted + 1) ret bs)"

definition parseBase128Int :: "bytes \<Rightarrow> (nat \<times> bytes) outcome" where
  "parseBase128Int bs = base128 0 0 bs"

fun long_length :: "nat \<Rightarrow> nat \<Rightarrow> bytes \<Rightarrow> (nat \<times> bytes) outcome" where
  "long_length 0 len bs = Ret (len, bs)"
| "long_length (Suc n) len [] = Err (Msg ''truncated tag or length'')"
| "long_length (Suc n) len (b # bs) =
     (if 2 ^ 23 \<le> len then Err (Msg ''length too large'')
      else let len = len * 256 + unat b
        in if len = 0 then Err (Msg ''superfluous leading zeros in length'') else long_length n len bs)"

fun parse_length :: "bytes \<Rightarrow> (nat \<times> bytes) outcome" where
  "parse_length [] = Err (Msg ''truncated tag or length'')"
| "parse_length (b # bs) =
     (if unat b < 128 then Ret (unat b, bs)
      else if unat b = 128 then Err (Msg ''indefinite length found (not DER)'')
      else and_then (long_length (unat b mod 128) 0 bs) (\<lambda>(len, bs).
        if len < 128 then Err (Msg ''non-minimal length'') else Ret (len, bs)))"

fun parseTagAndLength :: "bytes \<Rightarrow> (tagAndLength \<times> bytes) outcome" where
  "parseTagAndLength [] = Err (Msg ''asn1: internal error in parseTagAndLength'')"
| "parseTagAndLength (b # bs) =
     and_then (if unat b mod 32 = 31
         then and_then (parseBase128Int bs) (\<lambda>(tag, bs). if tag < 31 then Err (Msg ''non-minimal tag'') else Ret (tag, bs))
         else Ret (unat b mod 32, bs)) (\<lambda>(tag, bs).
     and_then (parse_length bs) (\<lambda>(len, bs).
       Ret (\<lparr>tl_class = unat b div 64, tl_tag = tag, tl_length = len, tl_isCompound = odd (unat b div 32)\<rparr>, bs)))"

text \<open>The contents of an element whose header was read.\<close>

definition contents :: "tagAndLength \<Rightarrow> bytes \<Rightarrow> (bytes \<times> bytes) outcome" where
  "contents t bs =
     (if length bs < tl_length t then Err (Msg ''data truncated'') else Ret (take (tl_length t) bs, drop (tl_length t) bs))"

record RawValue =
  rv_Class :: nat
  rv_Tag :: nat
  rv_IsCompound :: bool
  rv_Bytes :: bytes
  rv_FullBytes :: bytes

definition parse_RawValue :: "bytes \<Rightarrow> (RawValue \<times> bytes) outcome" where
  "parse_RawValue bs =
     (if bs = [] then Err (Msg ''sequence truncated'')
      else and_then (parseTagAndLength bs) (\<lambda>(t, rest).
        and_then (contents t rest) (\<lambda>(inner, rest').
        Ret (\<lparr>rv_Class = tl_class t, rv_Tag = tl_tag t, rv_IsCompound = tl_isCompound t, rv_Bytes = inner,
              rv_FullBytes = take (length bs - length rest') bs\<rparr>, rest'))))"

text \<open>An element that has to have the given class, tag and form.\<close>

definition parse_element :: "nat \<Rightarrow> nat \<Rightarrow> bool \<Rightarrow> bytes \<Rightarrow> (bytes \<times> bytes) outcome" where
  "parse_element class tag compound bs =
     (if bs = [] then Err (Msg ''sequence truncated'')
      else and_then (parseTagAndLength bs) (\<lambda>(t, rest).
        if tl_class t \<noteq> class \<or> tl_tag t \<noteq> tag \<or> tl_isCompound t \<noteq> compound then Err (Msg ''tags don't match'')
        else contents t rest))"

lemma base128_shorter: "base128 shifted ret bs = Ret (v, rest) \<Longrightarrow> length rest < length bs"
proof (induction shifted ret bs rule: base128.induct)
  case (2 shifted ret b bs)
  show ?case
  proof (cases "unat b < 128")
    case False
    with 2(2) have "\<not> shifted = 5" "\<not> (shifted = 0 \<and> b = 0x80)" "base128 (shifted + 1) (ret * 128 + unat b mod 128) bs = Ret (v, rest)"
      by (auto simp: Let_def split: if_splits)
    from 2(1) [OF this(1,2) refl False this(3)] show ?thesis by simp
  qed (use 2(2) in \<open>auto simp: Let_def split: if_splits\<close>)
qed simp

function more_components :: "bytes \<Rightarrow> nat list outcome" where
  "more_components bs =
     (if bs = [] then Ret []
      else case parseBase128Int bs of
          Ret (v, rest) \<Rightarrow> and_then (more_components rest) (\<lambda>vs. Ret (v # vs))
        | Err e \<Rightarrow> Err e
        | Panic p \<Rightarrow> Panic p)"
  by pat_completeness auto
termination by (relation "measure length") (auto simp: parseBase128Int_def dest: base128_shorter)

declare more_components.simps [simp del]

definition parseObjectIdentifier :: "bytes \<Rightarrow> nat list outcome" where
  "parseObjectIdentifier bs =
     (if bs = [] then Err (Msg ''zero length OBJECT IDENTIFIER'')
      else and_then (parseBase128Int bs) (\<lambda>(v, rest).
        and_then (more_components rest) (\<lambda>vs.
        Ret ((if v < 80 then [v div 40, v mod 40] else [2, v - 80]) @ vs))))"

section \<open>UTF-8\<close>

text \<open>For the first byte of a sequence: how many follow, and the range of the next one; zero is no first byte.\<close>

definition utf8_first :: "8 word \<Rightarrow> nat \<times> 8 word \<times> 8 word" where
  "utf8_first a =
     (if a < 0xC2 then (0, 0, 0)
      else if a < 0xE0 then (1, 0x80, 0xBF)
      else if a = 0xE0 then (2, 0xA0, 0xBF)
      else if a = 0xED then (2, 0x80, 0x9F)
      else if a < 0xF0 then (2, 0x80, 0xBF)
      else if a = 0xF0 then (3, 0x90, 0xBF)
      else if a < 0xF4 then (3, 0x80, 0xBF)
      else if a = 0xF4 then (3, 0x80, 0x8F)
      else (0, 0, 0))"

function utf8_Valid :: "bytes \<Rightarrow> bool" where
  "utf8_Valid [] = True"
| "utf8_Valid (a # bs) =
     (if a < 0x80 then utf8_Valid bs
      else case utf8_first a of (n, lo, hi) \<Rightarrow>
        0 < n \<and> n \<le> length bs \<and> lo \<le> hd bs \<and> hd bs \<le> hi \<and> list_all (\<lambda>b. 0x80 \<le> b \<and> b \<le> 0xBF) (take (n - 1) (tl bs)) \<and>
        utf8_Valid (drop n bs))"
  by pat_completeness auto
termination by (relation "measure length") auto

section \<open>Printing\<close>

fun lengthLength :: "nat \<Rightarrow> nat" where
  "lengthLength i = (if 255 < i then lengthLength (i div 256) + 1 else 1)"

declare lengthLength.simps [simp del]

definition appendLength :: "nat \<Rightarrow> bytes" where
  "appendLength i = map (\<lambda>n. word_of_nat (i div 256 ^ n)) (rev [0..<lengthLength i])"

definition appendTagAndLength :: "tagAndLength \<Rightarrow> bytes" where
  "appendTagAndLength t =
     word_of_nat (tl_class t * 64 + (if tl_isCompound t then 32 else 0) + tl_tag t) #
     (if 128 \<le> tl_length t then word_of_nat (128 + lengthLength (tl_length t)) # appendLength (tl_length t)
      else [word_of_nat (tl_length t)])"

text \<open>An element with a tag below 31.\<close>

definition der :: "nat \<Rightarrow> bool \<Rightarrow> nat \<Rightarrow> bytes \<Rightarrow> bytes" where
  "der class compound tag body =
     appendTagAndLength \<lparr>tl_class = class, tl_tag = tag, tl_length = length body, tl_isCompound = compound\<rparr> @ body"

fun base128IntLength :: "nat \<Rightarrow> nat" where
  "base128IntLength n = (if 127 < n then base128IntLength (n div 128) + 1 else 1)"

declare base128IntLength.simps [simp del]

definition appendBase128Int :: "nat \<Rightarrow> bytes" where
  "appendBase128Int n =
     map (\<lambda>i. word_of_nat (n div 128 ^ i mod 128 + (if i \<noteq> 0 then 128 else 0))) (rev [0..<base128IntLength n])"

definition makeObjectIdentifier :: "nat list \<Rightarrow> bytes outcome" where
  "makeObjectIdentifier oid = (case oid of
       a # b # rest \<Rightarrow>
         if 2 < a \<or> a < 2 \<and> 40 \<le> b then Err (Msg ''invalid object identifier'')
         else Ret (appendBase128Int (a * 40 + b) @ concat (map appendBase128Int rest))
     | _ \<Rightarrow> Err (Msg ''invalid object identifier''))"

section \<open>Parsing what was printed\<close>

lemma unat_word8: "n < 256 \<Longrightarrow> unat (word_of_nat n :: 8 word) = n"
  by (simp add: unat_of_nat take_bit_eq_mod)

lemma long_length_append:
  "long_length (length bs + m) len (bs @ rest) = and_then (long_length (length bs) len bs) (\<lambda>(len, _). long_length m len rest)"
  by (induction bs arbitrary: len) (auto simp: Let_def)

lemma length_appendLength [simp]: "length (appendLength i) = lengthLength i"
  by (simp add: appendLength_def)

lemma appendLength_snoc: "255 < i \<Longrightarrow> appendLength i = appendLength (i div 256) @ [word_of_nat i]"
proof -
  assume "255 < i"
  then have l: "lengthLength i = Suc (lengthLength (i div 256))" by (simp add: lengthLength.simps [of i])
  have "rev [0..<Suc n] = map Suc (rev [0..<n]) @ [0]" for n
    by (metis (no_types) map_Suc_upt rev.simps(2) rev_map upt_conv_Cons zero_less_Suc)
  then show ?thesis by (simp add: appendLength_def l comp_def div_mult2_eq)
qed

lemma long_length_append_length:
  "0 < i \<Longrightarrow> i < 2 ^ 31 \<Longrightarrow> long_length (lengthLength i) 0 (appendLength i) = Ret (i, [])"
proof (induction i rule: lengthLength.induct)
  case (1 i)
  show ?case
  proof (cases "255 < i")
    case True
    then have "long_length (lengthLength (i div 256)) 0 (appendLength (i div 256)) = Ret (i div 256, [])"
      using 1 by auto
    moreover have "unat (word_of_nat i :: 8 word) = i mod 256" by (simp add: unat_of_nat take_bit_eq_mod)
    moreover have "i div 256 < 2 ^ 23" using 1(3) by (simp add: less_mult_imp_div_less)
    ultimately show ?thesis using True
      by (simp add: appendLength_snoc lengthLength.simps [of i] long_length_append [of "appendLength (i div 256)" 1, simplified])
  qed (use 1 in \<open>simp add: lengthLength.simps appendLength_def unat_word8\<close>)
qed

lemma lengthLength_bound: "i < 256 ^ Suc n \<Longrightarrow> lengthLength i \<le> Suc n"
proof (induction n arbitrary: i)
  case (Suc n)
  from Suc.prems have "i div 256 < 256 ^ Suc n" by (simp add: less_mult_imp_div_less mult.commute)
  with Suc.IH show ?case by (subst lengthLength.simps) simp
qed (simp add: lengthLength.simps)

lemma lengthLength_le: "i < 2 ^ 31 \<Longrightarrow> lengthLength i \<le> 4"
  using lengthLength_bound [of i 3] by simp

lemma lengthLength_pos: "0 < lengthLength i"
  by (subst lengthLength.simps) simp

lemma header_byte:
  fixes c t :: nat
  assumes "c < 4" "t < 31"
  shows "c * 64 + (if f then 32 else 0) + t < 256" "(c * 64 + (if f then 32 else 0) + t) mod 32 = t"
    "(c * 64 + (if f then 32 else 0) + t) div 64 = c" "odd ((c * 64 + (if f then 32 else 0) + t) div 32) = f"
proof -
  have "c * 64 + (if f then 32 else 0) + t = t + (2 * c + of_bool f) * 32" by simp
  moreover have "(t + n * 32) mod 32 = t" "(t + n * 32) div 32 = n" for n using assms(2) by simp_all
  ultimately have "(c * 64 + (if f then 32 else 0) + t) mod 32 = t" and d: "(c * 64 + (if f then 32 else 0) + t) div 32 = 2 * c + of_bool f"
    by metis+
  moreover have "(c * 64 + (if f then 32 else 0) + t) div 64 = (c * 64 + (if f then 32 else 0) + t) div 32 div 2"
    by (simp add: div_mult2_eq [symmetric])
  ultimately show "c * 64 + (if f then 32 else 0) + t < 256" "(c * 64 + (if f then 32 else 0) + t) mod 32 = t"
    "(c * 64 + (if f then 32 else 0) + t) div 64 = c" "odd ((c * 64 + (if f then 32 else 0) + t) div 32) = f"
    using assms by (auto simp: d)
qed

lemma parse_appended:
  assumes "tl_class t < 4" "tl_tag t < 31" "tl_length t < 2 ^ 31"
  shows "parseTagAndLength (appendTagAndLength t @ rest) = Ret (t, rest)"
proof -
  define h where "h = tl_class t * 64 + (if tl_isCompound t then 32 else 0) + tl_tag t"
  have h: "h < 256" "h mod 32 = tl_tag t" "h div 64 = tl_class t" "odd (h div 32) = tl_isCompound t"
    using header_byte [OF assms(1,2)] unfolding h_def by simp_all
  have l: "parse_length (drop 1 (appendTagAndLength t) @ rest) = Ret (tl_length t, rest)"
  proof (cases "128 \<le> tl_length t")
    case True
    have "lengthLength (tl_length t) \<le> 4" "0 < lengthLength (tl_length t)"
      using lengthLength_le [OF assms(3)] lengthLength_pos by auto
    moreover from this have "unat (128 + word_of_nat (lengthLength (tl_length t)) :: 8 word) = 128 + lengthLength (tl_length t)"
      using unat_word8 [of "128 + lengthLength (tl_length t)"] by simp
    moreover have "(128 + lengthLength (tl_length t)) mod 128 = lengthLength (tl_length t)" using calculation(1) by simp
    ultimately show ?thesis
      using True long_length_append [of "appendLength (tl_length t)" 0 0 rest]
        long_length_append_length [of "tl_length t"] assms(3)
      by (simp add: appendTagAndLength_def unat_word8)
  qed (simp add: appendTagAndLength_def unat_word8)
  have "appendTagAndLength t = word_of_nat h # drop 1 (appendTagAndLength t)"
    by (simp add: appendTagAndLength_def h_def)
  then have "parseTagAndLength (appendTagAndLength t @ rest) = parseTagAndLength (word_of_nat h # drop 1 (appendTagAndLength t) @ rest)"
    by (metis append_Cons)
  then show ?thesis using assms(2) h l by (simp add: unat_word8)
qed

lemma parse_RawValue_der:
  assumes "class < 4" "tag < 31" "length body < 2 ^ 31"
  shows "parse_RawValue (der class compound tag body @ rest) =
    Ret (\<lparr>rv_Class = class, rv_Tag = tag, rv_IsCompound = compound, rv_Bytes = body, rv_FullBytes = der class compound tag body\<rparr>, rest)"
  using assms by (simp add: parse_RawValue_def der_def parse_appended contents_def) (simp add: appendTagAndLength_def)

lemma parse_element_der:
  assumes "class < 4" "tag < 31" "length body < 2 ^ 31"
  shows "parse_element class tag compound (der class compound tag body @ rest) = Ret (body, rest)"
  using assms by (simp add: parse_element_def der_def parse_appended contents_def) (simp add: appendTagAndLength_def)

text \<open>Reading an element consumes some of the input.\<close>

lemma long_length_shorter: "long_length n len bs = Ret (v, rest) \<Longrightarrow> length rest \<le> length bs"
  by (induction n len bs rule: long_length.induct) (auto simp: Let_def split: if_splits)

lemma parse_length_shorter: "parse_length bs = Ret (v, rest) \<Longrightarrow> length rest < length bs"
  by (cases bs rule: parse_length.cases)
    (auto simp: and_then_Ret_iff le_imp_less_Suc split: if_splits dest: long_length_shorter)

lemma parseTagAndLength_shorter:
  assumes "parseTagAndLength bs = Ret (t, rest)"
  shows "length rest < length bs"
proof (cases bs)
  case (Cons b bs')
  then show ?thesis using assms
    by (fastforce simp: and_then_Ret_iff parseBase128Int_def split: if_splits dest!: base128_shorter parse_length_shorter)
qed (use assms in simp)

lemma parse_RawValue_shorter: "parse_RawValue bs = Ret (v, rest) \<Longrightarrow> length rest < length bs"
  by (auto simp: parse_RawValue_def and_then_Ret_iff contents_def split: if_splits dest!: parseTagAndLength_shorter)

end
