(* ===== verification/Sans.thy ===== *)
theory Sans
  imports Asn1 Pki
begin

text \<open>
  \<open>pkg/cryptoutils/sans.go\<close>: the OtherName of a subject alternative name extension, and all the
  alternative names of a certificate.  The parsers of the string types that are not ASCII or UTF-8 are a parameter.
\<close>

section \<open>The extension\<close>

definition OIDOtherName :: "nat list" where "OIDOtherName = [1, 3, 6, 1, 4, 1, 57264, 1, 7]"
definition SANOID :: "nat list" where "SANOID = [2, 5, 29, 17]"

record OtherName =
  on_ID :: "nat list"
  on_Value :: string

definition TagOID :: nat where "TagOID = 6"
definition TagUTF8String :: nat where "TagUTF8String = 12"
definition TagSequence :: nat where "TagSequence = 16"
definition TagNumericString :: nat where "TagNumericString = 18"
definition TagPrintableString :: nat where "TagPrintableString = 19"
definition TagIA5String :: nat where "TagIA5String = 22"

lemmas tag_defs = TagOID_def TagUTF8String_def TagSequence_def TagNumericString_def TagPrintableString_def TagIA5String_def

text \<open>\<open>asn1.MarshalWithParams(o, "tag:0")\<close> of an OtherName, whose value is tagged explicitly.\<close>

definition marshal_OtherName :: "OtherName \<Rightarrow> bytes outcome" where
  "marshal_OtherName other = and_then (makeObjectIdentifier (on_ID other)) (\<lambda>id.
     Ret (der 2 True 0 (der 0 False TagOID id @ der 2 True 0 (der 0 False TagUTF8String (bytes_of (on_Value other))))))"

definition MarshalOtherNameSAN :: "string \<Rightarrow> bool \<Rightarrow> pkix_Extension outcome" where
  "MarshalOtherNameSAN name critical =
     and_then (marshal_OtherName \<lparr>on_ID = OIDOtherName, on_Value = name\<rparr>) (\<lambda>b.
     Ret \<lparr>ext_Id = SANOID, ext_Critical = critical, ext_Value = der 0 True TagSequence b\<rparr>)"

section \<open>Reading an OtherName\<close>

text \<open>The characters of a PrintableString, with the two that are let through for other implementations.\<close>

definition isPrintable :: "8 word \<Rightarrow> bool" where
  "isPrintable b \<longleftrightarrow> 0x61 \<le> b \<and> b \<le> 0x7A \<or> 0x41 \<le> b \<and> b \<le> 0x5A \<or> 0x30 \<le> b \<and> b \<le> 0x39 \<or>
     0x27 \<le> b \<and> b \<le> 0x29 \<or> 0x2B \<le> b \<and> b \<le> 0x2F \<or> b \<in> {0x20, 0x3A, 0x3D, 0x3F, 0x2A, 0x26}"

definition isNumeric :: "8 word \<Rightarrow> bool" where
  "isNumeric b \<longleftrightarrow> 0x30 \<le> b \<and> b \<le> 0x39 \<or> b = 0x20"

definition parse_string :: "(nat \<Rightarrow> bytes \<Rightarrow> string outcome) \<Rightarrow> nat \<Rightarrow> bytes \<Rightarrow> string outcome" where
  "parse_string A tag bs =
     (if tag = TagUTF8String then (if utf8_Valid bs then Ret (string_of bs) else Err (Msg ''asn1: invalid UTF-8 string''))
      else if tag = TagPrintableString
      then (if list_all isPrintable bs then Ret (string_of bs) else Err (Msg ''PrintableString contains invalid character''))
      else if tag = TagNumericString
      then (if list_all isNumeric bs then Ret (string_of bs) else Err (Msg ''NumericString contains invalid character''))
      else if tag = TagIA5String
      then (if list_all (\<lambda>b. b < 0x80) bs then Ret (string_of bs) else Err (Msg ''IA5String contains invalid character''))
      else A tag bs)"

text \<open>The field \<open>Value string `asn1:"utf8,explicit,tag:0"`\<close>: the length of the explicit tag is read and not used.
  The tags of the strings are those above, 20 for T61String, 27 for GeneralString and 30 for BMPString.\<close>

definition parse_value :: "(nat \<Rightarrow> bytes \<Rightarrow> string outcome) \<Rightarrow> bytes \<Rightarrow> (string \<times> bytes) outcome" where
  "parse_value A bs =
     (if bs = [] then Err (Msg ''sequence truncated'')
      else and_then (parseTagAndLength bs) (\<lambda>(t, rest).
        if rest = [] then Err (Msg ''explicit tag has no child'')
        else if tl_class t = 2 \<and> tl_tag t = 0 \<and> (tl_length t = 0 \<or> tl_isCompound t)
        then if tl_length t = 0 then Err (Msg ''zero length explicit tag was not an asn1.Flag'')
          else and_then (parseTagAndLength rest) (\<lambda>(u, rest).
            let tag = (if tl_class u \<noteq> 0 then TagUTF8String
                else if tl_tag u \<in> {TagIA5String, 27, 20, TagUTF8String, TagNumericString, 30} then tl_tag u else TagPrintableString)
            in if tl_class u \<noteq> 0 \<or> tl_tag u \<noteq> tag \<or> tl_isCompound u then Err (Msg ''tags don't match'')
               else and_then (contents u rest) (\<lambda>(inner, rest).
                 and_then (parse_string A tag inner) (\<lambda>s. Ret (s, rest))))
        else Err (Msg ''explicitly tagged member didn't match'')))"

text \<open>\<open>asn1.UnmarshalWithParams(b, &other, "tag:0")\<close>; what follows the last field is ignored.\<close>

definition parse_OtherName :: "(nat \<Rightarrow> bytes \<Rightarrow> string outcome) \<Rightarrow> bytes \<Rightarrow> OtherName outcome" where
  "parse_OtherName A bs =
     and_then (parse_element 2 0 True bs) (\<lambda>(inner, _).
     and_then (parse_element 0 TagOID False inner) (\<lambda>(oid, inner).
     and_then (parseObjectIdentifier oid) (\<lambda>id.
     and_then (parse_value A inner) (\<lambda>(v, _).
     Ret \<lparr>on_ID = id, on_Value = v\<rparr>))))"

function general_names :: "(nat \<Rightarrow> bytes \<Rightarrow> string outcome) \<Rightarrow> bytes \<Rightarrow> string list \<Rightarrow> string list outcome" where
  "general_names A bs otherNames =
     (if bs = [] then Ret otherNames
      else case parse_RawValue bs of
          Ret (v, rest) \<Rightarrow>
            if rv_Tag v \<noteq> 0 then general_names A rest otherNames
            else and_then (wrap_outcome ''could not parse requested OtherName SAN'' (parse_OtherName A (rv_FullBytes v))) (\<lambda>other.
              if on_ID other \<noteq> OIDOtherName then Err (Msg ''unexpected OID for OtherName'')
              else general_names A rest (otherNames @ [on_Value other]))
        | Err e \<Rightarrow> Err e
        | Panic p \<Rightarrow> Panic p)"
  by pat_completeness auto
termination by (relation "measure (\<lambda>(_, bs, _). length bs)") (auto dest: parse_RawValue_shorter)

declare general_names.simps [simp del]

primrec san_extensions :: "(nat \<Rightarrow> bytes \<Rightarrow> string outcome) \<Rightarrow> pkix_Extension list \<Rightarrow> string list \<Rightarrow> string list outcome" where
  "san_extensions A [] otherNames = Ret otherNames"
| "san_extensions A (e # exts) otherNames =
     (if ext_Id e \<noteq> SANOID then san_extensions A exts otherNames
      else and_then (parse_RawValue (ext_Value e)) (\<lambda>(seq, rest).
        if rest \<noteq> [] then Err (Msg ''trailing data after X.509 extension'')
        else if \<not> rv_IsCompound seq \<or> rv_Tag seq \<noteq> TagSequence \<or> rv_Class seq \<noteq> 0 then Err (Msg ''bad SAN sequence'')
        else and_then (general_names A (rv_Bytes seq) otherNames) (san_extensions A exts)))"

definition UnmarshalOtherNameSAN :: "(nat \<Rightarrow> bytes \<Rightarrow> string outcome) \<Rightarrow> pkix_Extension list \<Rightarrow> string outcome" where
  "UnmarshalOtherNameSAN A exts = and_then (san_extensions A exts []) (\<lambda>otherNames.
     if length otherNames = 0 then Err (Msg ''no OtherName found'')
     else if length otherNames \<noteq> 1 then Err (Msg ''expected only one OtherName'')
     else Ret (hd otherNames))"

text \<open>The addresses and URIs of a certificate are kept as the strings their \<open>String\<close> methods give.\<close>

definition GetSubjectAlternateNames :: "(nat \<Rightarrow> bytes \<Rightarrow> string outcome) \<Rightarrow> certificate \<Rightarrow> string list outcome" where
  "GetSubjectAlternateNames A cert =
     (let sans = DNSNames cert @ EmailAddresses cert @ IPAddresses cert @ URIs cert
      in case UnmarshalOtherNameSAN A (Extensions cert) of
          Ret otherName \<Rightarrow> Ret (if 0 < length otherName then sans @ [otherName] else sans)
        | Err e \<Rightarrow> Ret sans
        | Panic p \<Rightarrow> Panic p)"

section \<open>Lemmas\<close>

definition other_name :: "string \<Rightarrow> bytes" where
  "other_name n = der 2 True 0 (der 0 False TagOID [0x2B, 6, 1, 4, 1, 0x83, 0xBF, 0x30, 1, 7] @
     der 2 True 0 (der 0 False TagUTF8String (bytes_of n)))"

lemma oid_bytes:
  "makeObjectIdentifier OIDOtherName = Ret [0x2B, 6, 1, 4, 1, 0x83, 0xBF, 0x30, 1, 7]"
  "parseObjectIdentifier [0x2B, 6, 1, 4, 1, 0x83, 0xBF, 0x30, 1, 7] = Ret OIDOtherName"
proof -
  have l: "base128IntLength 57264 = 3" by (simp add: base128IntLength.simps)
  have r: "rev [0..<3] = [2, 1, 0::nat]" by code_simp
  have "appendBase128Int 57264 = [0x83, 0xBF, 0x30]" by (simp only: appendBase128Int_def l r) simp
  moreover have "appendBase128Int n = [word_of_nat n]" if "n < 128" for n
    using that by (simp add: appendBase128Int_def base128IntLength.simps [of n])
  ultimately show "makeObjectIdentifier OIDOtherName = Ret [0x2B, 6, 1, 4, 1, 0x83, 0xBF, 0x30, 1, 7]"
    by (simp add: makeObjectIdentifier_def OIDOtherName_def)
  show "parseObjectIdentifier [0x2B, 6, 1, 4, 1, 0x83, 0xBF, 0x30, 1, 7] = Ret OIDOtherName"
    by (simp add: parseObjectIdentifier_def parseBase128Int_def OIDOtherName_def MaxInt32_def more_components.simps)
qed

lemma MarshalOtherNameSAN_Ret:
  "MarshalOtherNameSAN name critical =
    Ret \<lparr>ext_Id = SANOID, ext_Critical = critical, ext_Value = der 0 True TagSequence (other_name name)\<rparr>"
  by (simp add: MarshalOtherNameSAN_def marshal_OtherName_def oid_bytes other_name_def)

lemma der_not_Nil [simp]: "der c f t b \<noteq> []"
  by (simp add: der_def appendTagAndLength_def)

lemma length_der: "length b < 2 ^ 31 \<Longrightarrow> length (der c f t b) \<le> length b + 6"
  using lengthLength_le [of "length b"] by (simp add: der_def appendTagAndLength_def)

lemma length_der_ge: "length b \<le> length (der c f t b)"
  by (simp add: der_def)

lemma parse_value_der:
  assumes "length b < 2 ^ 31 - 10"
  shows "parse_value A (der 2 True 0 (der 0 False TagUTF8String b)) =
    (if utf8_Valid b then Ret (string_of b, []) else Err (Msg ''asn1: invalid UTF-8 string''))"
proof -
  have l: "length (der 0 False TagUTF8String b) < 2 ^ 31" using length_der [of b 0 False TagUTF8String] assms by simp
  have "parseTagAndLength (der 2 True 0 (der 0 False TagUTF8String b)) =
      Ret (\<lparr>tl_class = 2, tl_tag = 0, tl_length = length (der 0 False TagUTF8String b), tl_isCompound = True\<rparr>, der 0 False TagUTF8String b)"
    using parse_appended [of "\<lparr>tl_class = 2, tl_tag = 0, tl_length = length (der 0 False TagUTF8String b), tl_isCompound = True\<rparr>"] l
    by (simp add: der_def)
  moreover have "parseTagAndLength (der 0 False TagUTF8String b) =
      Ret (\<lparr>tl_class = 0, tl_tag = TagUTF8String, tl_length = length b, tl_isCompound = False\<rparr>, b)"
    using parse_appended [of "\<lparr>tl_class = 0, tl_tag = TagUTF8String, tl_length = length b, tl_isCompound = False\<rparr>"] assms
    by (simp add: der_def TagUTF8String_def)
  ultimately show ?thesis by (simp add: parse_value_def contents_def parse_string_def Let_def)
qed

lemma parse_other_name:
  assumes "length n < 2 ^ 31 - 64"
  shows "parse_OtherName A (other_name n) =
    (if utf8_Valid (bytes_of n) then Ret \<lparr>on_ID = OIDOtherName, on_Value = n\<rparr> else Err (Msg ''asn1: invalid UTF-8 string''))"
proof -
  define v where "v = der 2 True 0 (der 0 False TagUTF8String (bytes_of n))"
  have "length (der 0 False TagUTF8String (bytes_of n)) \<le> length n + 6"
    using length_der [of "bytes_of n"] assms by simp
  then have v: "length v \<le> length n + 12"
    using length_der [of "der 0 False TagUTF8String (bytes_of n)" 2 True 0] assms by (simp add: v_def)
  define oid where "oid = [0x2B, 6, 1, 4, 1, 0x83, 0xBF, 0x30, 1, 7 :: 8 word]"
  have o: "length oid = 10" by (simp add: oid_def)
  then have "length (der 0 False TagOID oid @ v) < 2 ^ 31"
    using length_der [of oid 0 False TagOID] v assms by simp
  then have "parse_element 2 0 True (other_name n) = Ret (der 0 False TagOID oid @ v, [])"
    using parse_element_der [of 2 0 "der 0 False TagOID oid @ v" True "[]"] by (simp add: other_name_def v_def oid_def)
  moreover have "parse_element 0 TagOID False (der 0 False TagOID oid @ v) = Ret (oid, v)"
    using parse_element_der [of 0 TagOID oid False v] by (simp add: o TagOID_def)
  moreover have "parseObjectIdentifier oid = Ret OIDOtherName" by (simp add: oid_def oid_bytes)
  ultimately show ?thesis using assms parse_value_der [of "bytes_of n" A]
    by (simp add: parse_OtherName_def v_def)
qed

section \<open>Lists of general names\<close>

text \<open>The general names of a certificate: an OtherName, or any other kind with its tag and contents.\<close>

datatype general_name = Other string | Kind nat bool nat bytes

primrec encode_name :: "general_name \<Rightarrow> bytes" where
  "encode_name (Other n) = other_name n"
| "encode_name (Kind cls compound tag b) = der cls compound tag b"

primrec wf_name :: "general_name \<Rightarrow> bool" where
  "wf_name (Other n) \<longleftrightarrow> utf8_Valid (bytes_of n)"
| "wf_name (Kind cls compound tag b) \<longleftrightarrow> cls < 4 \<and> 0 < tag \<and> tag < 31"

definition encode_names :: "general_name list \<Rightarrow> bytes" where
  "encode_names names = der 0 True TagSequence (concat (map encode_name names))"

text \<open>An extension of a certificate: alternative names, or something else.\<close>

datatype extension = Names bool "general_name list" | Foreign pkix_Extension

primrec encode_extension :: "extension \<Rightarrow> pkix_Extension" where
  "encode_extension (Names critical names) = \<lparr>ext_Id = SANOID, ext_Critical = critical, ext_Value = encode_names names\<rparr>"
| "encode_extension (Foreign e) = e"

primrec wf_extension :: "extension \<Rightarrow> bool" where
  "wf_extension (Names critical names) \<longleftrightarrow> list_all wf_name names \<and> length (encode_names names) < 2 ^ 31 - 64"
| "wf_extension (Foreign e) \<longleftrightarrow> ext_Id e \<noteq> SANOID"

primrec other_values :: "general_name list \<Rightarrow> string list" where
  "other_values [] = []"
| "other_values (g # gs) = (case g of Other n \<Rightarrow> [n] | Kind _ _ _ _ \<Rightarrow> []) @ other_values gs"

primrec extension_values :: "extension list \<Rightarrow> string list" where
  "extension_values [] = []"
| "extension_values (e # es) = (case e of Names _ names \<Rightarrow> other_values names | Foreign _ \<Rightarrow> []) @ extension_values es"

lemma length_other_name: "length n \<le> length (other_name n)"
proof -
  have "length (bytes_of n) \<le> length (der 2 True 0 (der 0 False TagUTF8String (bytes_of n)))"
    using length_der_ge le_trans by blast
  then have "length n \<le> length (der 0 False TagOID [0x2B, 6, 1, 4, 1, 0x83, 0xBF, 0x30, 1, 7] @
     der 2 True 0 (der 0 False TagUTF8String (bytes_of n)))" by simp
  then show ?thesis unfolding other_name_def using length_der_ge le_trans by blast
qed

lemma length_other_name_le: "length n < 2 ^ 31 - 128 \<Longrightarrow> length (other_name n) \<le> length n + 34"
proof -
  assume n: "length n < 2 ^ 31 - 128"
  define u where "u = der 0 False TagUTF8String (bytes_of n)"
  have u: "length u \<le> length n + 6" using length_der [of "bytes_of n"] n by (simp add: u_def)
  then have v: "length (der 2 True 0 u) \<le> length n + 12" using length_der [of u 2 True 0] n by simp
  define oid where "oid = [0x2B, 6, 1, 4, 1, 0x83, 0xBF, 0x30, 1, 7 :: 8 word]"
  have "length (der 0 False TagOID oid) \<le> 16" using length_der [of oid 0 False TagOID] by (simp add: oid_def)
  with v have w: "length (der 0 False TagOID oid @ der 2 True 0 u) \<le> length n + 28" by simp
  then have "length (der 0 False TagOID oid @ der 2 True 0 u) < 2 ^ 31" using n by simp
  from length_der [OF this, of 2 True 0] w show ?thesis by (simp add: other_name_def u_def oid_def)
qed

lemma parse_RawValue_other_name:
  assumes "length (other_name n) < 2 ^ 31"
  shows "\<exists>body. parse_RawValue (other_name n @ rest) =
    Ret (\<lparr>rv_Class = 2, rv_Tag = 0, rv_IsCompound = True, rv_Bytes = body, rv_FullBytes = other_name n\<rparr>, rest)"
proof -
  obtain body where b: "other_name n = der 2 True 0 body" by (simp add: other_name_def)
  with assms have "length body < 2 ^ 31" using le_less_trans [OF length_der_ge] by metis
  then show ?thesis using parse_RawValue_der [of 2 0 body True rest] by (auto simp: b)
qed

lemma other_name_not_Nil [simp]: "other_name n \<noteq> []"
  by (simp add: other_name_def)

lemma general_names_encoded:
  assumes "list_all wf_name names" "length (concat (map encode_name names)) < 2 ^ 31 - 64"
  shows "general_names A (concat (map encode_name names)) otherNames = Ret (otherNames @ other_values names)"
  using assms
proof (induction names arbitrary: otherNames)
  case (Cons g names)
  show ?case
  proof (cases g)
    case (Other n)
    have "length (other_name n) < 2 ^ 31 - 64" using Cons.prems Other by simp
    moreover from this have "length n < 2 ^ 31 - 64" using length_other_name [of n] by simp
    ultimately show ?thesis
      using Cons Other parse_other_name [of n A] parse_RawValue_other_name [of n "concat (map encode_name names)"]
      by (auto simp: general_names.simps [of A "other_name n @ concat (map encode_name names)"])
  next
    case (Kind cls compound tag b)
    then have "length b < 2 ^ 31" using Cons.prems length_der_ge [of b cls compound tag] by simp
    then show ?thesis
      using Cons Kind by (simp add: general_names.simps [of A "der cls compound tag b @ concat (map encode_name names)"] parse_RawValue_der)
  qed
qed (simp add: general_names.simps)

lemma san_extensions_encoded:
  "list_all wf_extension es \<Longrightarrow> san_extensions A (map encode_extension es) otherNames = Ret (otherNames @ extension_values es)"
proof (induction es arbitrary: otherNames)
  case (Cons e es)
  show ?case
  proof (cases e)
    case (Names critical names)
    have "length (concat (map encode_name names)) < 2 ^ 31 - 64"
      using Cons.prems Names length_der_ge [of "concat (map encode_name names)" 0 True TagSequence] by (simp add: encode_names_def)
    with Cons Names show ?thesis
      using parse_RawValue_der [of 0 TagSequence "concat (map encode_name names)" True "[]"]
      by (simp add: encode_names_def general_names_encoded TagSequence_def)
  qed (use Cons in simp)
qed simp

section \<open>Properties\<close>

text \<open>C17: in well-formed extensions, each holding a sequence of general names of any kind, the value read is the
  one OtherName there is; none and more than one are errors, in one extension or spread over several.\<close>

theorem san_names_read:
  assumes "list_all wf_extension es"
  shows "UnmarshalOtherNameSAN A (map encode_extension es) =
    (case extension_values es of
       [] \<Rightarrow> Err (Msg ''no OtherName found'')
     | [n] \<Rightarrow> Ret n
     | _ \<Rightarrow> Err (Msg ''expected only one OtherName''))"
  using assms by (simp add: UnmarshalOtherNameSAN_def san_extensions_encoded split: list.splits)

text \<open>C39: any name can be marshalled, and one below two gigabytes is read back, among any other extensions
  that are not alternative names, exactly when it is valid UTF-8; marshalling does not check that.  A certificate
  with such an extension names it last, unless it is empty.\<close>

theorem san_roundtrip:
  assumes "length name < 2 ^ 31 - 128" "\<And>x. x \<in> set (pre @ post) \<Longrightarrow> ext_Id x \<noteq> SANOID"
  shows "\<exists>e. MarshalOtherNameSAN name critical = Ret e \<and>
    UnmarshalOtherNameSAN A (pre @ e # post) =
      (if utf8_Valid (bytes_of name) then Ret name
       else Err (Wrap ''could not parse requested OtherName SAN'' (Msg ''asn1: invalid UTF-8 string''))) \<and>
    GetSubjectAlternateNames A (c\<lparr>Extensions := pre @ e # post\<rparr>) =
      Ret (DNSNames c @ EmailAddresses c @ IPAddresses c @ URIs c @ (if utf8_Valid (bytes_of name) \<and> name \<noteq> [] then [name] else []))"
proof -
  define e where "e = \<lparr>ext_Id = SANOID, ext_Critical = critical, ext_Value = der 0 True TagSequence (other_name name)\<rparr>"
  have "san_extensions A (pre @ e # post) xs = san_extensions A (e # post) xs" if "\<And>x. x \<in> set pre \<Longrightarrow> ext_Id x \<noteq> SANOID" for xs
    using that by (induction pre) auto
  then have pre: "san_extensions A (pre @ e # post) [] = san_extensions A (e # post) []" using assms(2) by simp
  have post: "san_extensions A post xs = Ret xs" for xs
  proof -
    have "\<And>x. x \<in> set post \<Longrightarrow> ext_Id x \<noteq> SANOID" using assms(2) by simp
    then show ?thesis by (induction post) auto
  qed
  have l: "length (other_name name) < 2 ^ 31" using length_other_name_le [of name] assms(1) by simp
  obtain body where "parse_RawValue (other_name name) =
      Ret (\<lparr>rv_Class = 2, rv_Tag = 0, rv_IsCompound = True, rv_Bytes = body, rv_FullBytes = other_name name\<rparr>, [])"
    using parse_RawValue_other_name [OF l, of "[]"] by auto
  then have "general_names A (other_name name) [] =
      (if utf8_Valid (bytes_of name) then Ret [name] else Err (Wrap ''could not parse requested OtherName SAN'' (Msg ''asn1: invalid UTF-8 string'')))"
    using parse_other_name [of name A] assms(1)
    by (simp add: general_names.simps [of A "other_name name"] general_names.simps [of A "[]"])
  then have "san_extensions A (e # post) [] =
      (if utf8_Valid (bytes_of name) then Ret [name] else Err (Wrap ''could not parse requested OtherName SAN'' (Msg ''asn1: invalid UTF-8 string'')))"
    using parse_RawValue_der [of 0 TagSequence "other_name name" True "[]"] l by (simp add: post e_def TagSequence_def)
  then have u: "UnmarshalOtherNameSAN A (pre @ e # post) = (if utf8_Valid (bytes_of name) then Ret name
       else Err (Wrap ''could not parse requested OtherName SAN'' (Msg ''asn1: invalid UTF-8 string'')))"
    by (simp add: UnmarshalOtherNameSAN_def pre)
  have "GetSubjectAlternateNames A (c\<lparr>Extensions := pre @ e # post\<rparr>) =
      Ret (DNSNames c @ EmailAddresses c @ IPAddresses c @ URIs c @ (if utf8_Valid (bytes_of name) \<and> name \<noteq> [] then [name] else []))"
    using u by (auto simp: GetSubjectAlternateNames_def Let_def)
  with u show ?thesis by (auto simp: MarshalOtherNameSAN_Ret e_def)
qed

section \<open>A concrete extension\<close>

definition ref_names :: "general_name list" where
  "ref_names = [Kind 2 False 2 (bytes_of ''dns.test''), Other ''ab'']"

definition no_legacy :: "nat \<Rightarrow> bytes \<Rightarrow> string outcome" where
  "no_legacy tag b = Err (Msg ''internal error: unknown string type'')"

lemma ref_utf8: "utf8_Valid (bytes_of ''ab'')"
  by (simp add: bytes_of_def)

lemma ref_names_wf: "wf_extension (Names True ref_names)"
  by (simp add: ref_names_def ref_utf8 encode_names_def other_name_def der_def appendTagAndLength_def)

theorem san_names_read_witness:
  "UnmarshalOtherNameSAN no_legacy [encode_extension (Names True ref_names), \<lparr>ext_Id = [2, 5, 29, 15], ext_Critical = True, ext_Value = [3]\<rparr>] =
     Ret ''ab''"
  using san_names_read [of "[Names True ref_names, Foreign \<lparr>ext_Id = [2, 5, 29, 15], ext_Critical = True, ext_Value = [3]\<rparr>]" no_legacy] ref_names_wf
  by (simp add: SANOID_def) (simp add: ref_names_def)

theorem san_roundtrip_witness:
  "GetSubjectAlternateNames no_legacy
     (ref_cert [7]\<lparr>Extensions := [\<lparr>ext_Id = SANOID, ext_Critical = True, ext_Value = der 0 True TagSequence (other_name ''ab'')\<rparr>]\<rparr>) = Ret [''ab'']"
  using san_roundtrip [of "''ab''" "[]" "[]" True no_legacy "ref_cert [7]"] ref_utf8
  by (simp add: MarshalOtherNameSAN_Ret ref_cert_def)

end
