(* ===== verification/PluginHandler.thy ===== *)
theory PluginHandler
  imports CliPlugin Codec
begin

text \<open>
  \<open>pkg/signature/kms/cliplugin/handler\<close>: the other side of the protocol, and a plugin program built from
  it as \<open>test/cliplugin/localkms/main.go\<close> is.  The implementation a plugin wraps is a record of its
  methods, steps on the state of the plugin's process.
\<close>

section \<open>Implementations\<close>

record 's sv_impl =
  impl_DefaultAlgorithm :: string
  impl_SupportedAlgorithms :: "string list"
  impl_CreateKey :: "go_context \<Rightarrow> string \<Rightarrow> ('s, public_key) step"
  impl_PublicKey :: "sig_option list \<Rightarrow> ('s, public_key) step"
  impl_SignMessage :: "io_reader \<Rightarrow> sig_option list \<Rightarrow> ('s, bytes) step"
  impl_VerifySignature :: "io_reader \<Rightarrow> io_reader \<Rightarrow> sig_option list \<Rightarrow> ('s, unit) step"

section \<open>Handlers\<close>

definition h_DefaultAlgorithm :: "'s sv_impl \<Rightarrow> ('s, string) step" where
  "h_DefaultAlgorithm impl = go_ret (impl_DefaultAlgorithm impl)"

definition h_SupportedAlgorithms :: "'s sv_impl \<Rightarrow> ('s, string list) step" where
  "h_SupportedAlgorithms impl = go_ret (impl_SupportedAlgorithms impl)"

definition h_CreateKey :: "pki \<Rightarrow> int \<Rightarrow> create_key_args option \<Rightarrow> 's sv_impl \<Rightarrow> ('s, bytes) step" where
  "h_CreateKey P now args impl =
     go_then (go_lift (deref args)) (\<lambda>a.
     let ctx = (case ck_CtxDeadline a of None \<Rightarrow> Background | Some d \<Rightarrow> context_WithDeadline now d)
     in go_then (impl_CreateKey impl ctx (ck_Algorithm a)) (\<lambda>publicKey. go_lift (MarshalPublicKeyToPEM P publicKey)))"

definition h_PublicKey :: "pki \<Rightarrow> int \<Rightarrow> rpc_options option option \<Rightarrow> 's sv_impl \<Rightarrow> ('s, bytes) step" where
  "h_PublicKey P now args impl =
     go_then (go_lift (and_then (deref args) deref)) (\<lambda>publicKeyOptions.
     go_then (impl_PublicKey impl (UnpackPublicKeyOptions now publicKeyOptions)) (\<lambda>publicKey.
     go_lift (MarshalPublicKeyToPEM P publicKey)))"

definition h_SignMessage :: "int \<Rightarrow> io_reader \<Rightarrow> sign_options option option \<Rightarrow> 's sv_impl \<Rightarrow> ('s, bytes) step" where
  "h_SignMessage now message args impl =
     go_then (go_lift (and_then (deref args) deref)) (\<lambda>so. impl_SignMessage impl message (UnpackSignOptions now so))"

definition h_VerifySignature ::
  "int \<Rightarrow> io_reader \<Rightarrow> verify_signature_args option \<Rightarrow> ('k, 'v) kms_state sv_impl \<Rightarrow> (('k, 'v) kms_state, unit) step" where
  "h_VerifySignature now message args impl =
     go_then (go_lift (deref args)) (\<lambda>a.
     go_then (go_lift (deref (vs_VerifyOptions a))) (\<lambda>vo.
     go_then (on_world (NewReader (vs_Signature a))) (\<lambda>signature.
     impl_VerifySignature impl signature message (UnpackVerifyOptions now vo))))"

section \<open>Dispatch\<close>

definition ErrorPluginArgsParse :: goerr where "ErrorPluginArgsParse = Msg ''error parsing plugin args''"
definition ErrorUnsupportedMethod :: goerr where "ErrorUnsupportedMethod = Msg ''unsupported method''"

definition GetPluginArgs :: "json_lib \<Rightarrow> string list \<Rightarrow> plugin_args outcome" where
  "GetPluginArgs J osArgs =
     (if length osArgs < 3 then Err (Wrap ''expected at least 3 args'' ErrorPluginArgsParse)
      else json_UnmarshalArgs J (osArgs ! 2))"

definition WriteResponse :: "json_lib \<Rightarrow> plugin_resp \<Rightarrow> bytes outcome" where
  "WriteResponse J resp = json_MarshalResp J resp"

definition WriteErrorResponse :: "json_lib \<Rightarrow> goerr \<Rightarrow> bytes outcome" where
  "WriteErrorResponse J err = WriteResponse J (empty_resp\<lparr>pr_ErrorMessage := err_Error J err\<rparr>)"

text \<open>The response to a call: the field of the method, or the error text.\<close>

definition respond :: "json_lib \<Rightarrow> ('a \<Rightarrow> plugin_resp) \<Rightarrow> ('s, 'a) step \<Rightarrow> ('s, plugin_resp) step" where
  "respond J field m s = (case m s of
       (Ret a, s') \<Rightarrow> (Ret (field a), s')
     | (Err e, s') \<Rightarrow> (Ret (empty_resp\<lparr>pr_ErrorMessage := err_Error J e\<rparr>), s')
     | (Panic p, s') \<Rightarrow> (Panic p, s'))"

definition dispatch_method ::
  "json_lib \<Rightarrow> pki \<Rightarrow> int \<Rightarrow> io_reader \<Rightarrow> method_args \<Rightarrow> ('k, 'v) kms_state sv_impl \<Rightarrow> (('k, 'v) kms_state, plugin_resp) step" where
  "dispatch_method J P now stdin ma impl =
     (if ma_MethodName ma = DefaultAlgorithmMethodName
      then respond J (\<lambda>a. empty_resp\<lparr>pr_DefaultAlgorithm := Some a\<rparr>) (h_DefaultAlgorithm impl)
      else if ma_MethodName ma = SupportedAlgorithmsMethodName
      then respond J (\<lambda>a. empty_resp\<lparr>pr_SupportedAlgorithms := Some a\<rparr>) (h_SupportedAlgorithms impl)
      else if ma_MethodName ma = CreateKeyMethodName
      then respond J (\<lambda>a. empty_resp\<lparr>pr_CreateKey := Some a\<rparr>) (h_CreateKey P now (ma_CreateKey ma) impl)
      else if ma_MethodName ma = PublicKeyMethodName
      then respond J (\<lambda>a. empty_resp\<lparr>pr_PublicKey := Some a\<rparr>) (h_PublicKey P now (ma_PublicKey ma) impl)
      else if ma_MethodName ma = SignMessageMethodName
      then respond J (\<lambda>a. empty_resp\<lparr>pr_SignMessage := Some a\<rparr>) (h_SignMessage now stdin (ma_SignMessage ma) impl)
      else if ma_MethodName ma = VerifySignatureMethodName
      then respond J (\<lambda>a. empty_resp\<lparr>pr_VerifySignature := Some a\<rparr>) (h_VerifySignature now stdin (ma_VerifySignature ma) impl)
      else respond J (\<lambda>_ :: unit. empty_resp) (go_err (Wrap (ma_MethodName ma) ErrorUnsupportedMethod)))"

definition Dispatch ::
  "json_lib \<Rightarrow> pki \<Rightarrow> int \<Rightarrow> io_reader \<Rightarrow> plugin_args \<Rightarrow> ('k, 'v) kms_state sv_impl \<Rightarrow> (('k, 'v) kms_state, bytes) step" where
  "Dispatch J P now stdin pluginArgs impl =
     go_then (go_lift (deref (pa_MethodArgs pluginArgs))) (\<lambda>ma.
     go_then (dispatch_method J P now stdin ma impl) (\<lambda>resp. go_lift (WriteResponse J resp)))"

section \<open>A plugin program\<close>

definition expectedProtocolVersion :: string where "expectedProtocolVersion = ''v1''"

text \<open>A run of the program: what it wrote to its output, and how it ended.  A panic ends it with exit code 2.\<close>

definition written :: "bytes outcome \<Rightarrow> bytes" where
  "written x = (case x of Ret b \<Rightarrow> b | _ \<Rightarrow> [])"

definition plugin_main ::
  "json_lib \<Rightarrow> pki \<Rightarrow> (init_options \<Rightarrow> ('k, 'v) kms_state sv_impl) \<Rightarrow> string list \<Rightarrow> ('k, 'v) kms_state \<Rightarrow>
     (bytes \<times> cmd_error option) \<times> ('k, 'v) kms_state" where
  "plugin_main J P new osArgs s =
     (if length osArgs < 2 then (([], Some (ExitError 2)), s)
      else if osArgs ! 1 \<noteq> expectedProtocolVersion
      then ((written (WriteErrorResponse J (Msg ''expected protocol version'')), Some (ExitError 2)), s)
      else (case GetPluginArgs J osArgs of
          Err e \<Rightarrow> ((written (WriteErrorResponse J e), Some (ExitError 2)), s)
        | Panic p \<Rightarrow> (([], Some (ExitError 2)), s)
        | Ret pluginArgs \<Rightarrow> (case pa_InitOptions pluginArgs of
              None \<Rightarrow> (([], Some (ExitError 2)), s)
            | Some io \<Rightarrow> (case Dispatch J P (kms_clock s) (Some 0) pluginArgs (new io) s of
                  (Ret out, s') \<Rightarrow> ((out, None), s')
                | (_, s') \<Rightarrow> (([], Some (ExitError 2)), s')))))"

text \<open>Running it: a new process whose standard input is reader 0, cancelled with the context; an error of
  copying the input is reported when the program itself ended well.\<close>

definition process_start :: "stream \<Rightarrow> ('k, 'v) kms_state \<Rightarrow> ('k, 'v) kms_state" where
  "process_start input p = p\<lparr>kms_world :=
     \<lparr>readers = (\<lambda>i. if i = 0 then input else Stream [] None), fresh = 1,
      pss_cells = (\<lambda>_. \<lparr>SaltLength = 0, PSSHash = 0\<rparr>), str_cells = (\<lambda>_. [])\<rparr>\<rparr>"

definition plugin_exec ::
  "json_lib \<Rightarrow> pki \<Rightarrow> (init_options \<Rightarrow> ('k, 'v) kms_state sv_impl) \<Rightarrow> ('k, 'v) kms_state exec" where
  "plugin_exec J P new ctx name args input p = (case ctx_err ctx of
       Some e \<Rightarrow> (([], Some (Other_cmd_error e)), p)
     | None \<Rightarrow> (case plugin_main J P new (name # args) (process_start input p) of ((out, err), p') \<Rightarrow>
         (case (input, err) of
            (Stream b (Some e), None) \<Rightarrow> ((out, Some (Other_cmd_error e)), p')
          | _ \<Rightarrow> ((out, err), p'))))"

section \<open>Options on the way\<close>

text \<open>The option lists the implementation may be handed for a list the caller gave.\<close>

definition carried :: "int \<Rightarrow> sig_option list \<Rightarrow> sig_option list \<Rightarrow> bool" where
  "carried now opts uopts \<longleftrightarrow>
     (\<exists>so. norm_options so = norm_options (PackSignOptions opts) \<and> uopts = UnpackSignOptions now so)"

lemma fold_apply_signer_opts: "fold apply_signer_opts opts s = (case last_set set_signer_opts opts of None \<Rightarrow> s | Some x \<Rightarrow> Some x)"
  by (induction opts arbitrary: s) (auto simp: apply_signer_opts_def set_signer_opts_def split: option.splits sig_option.splits)

lemma norm_options_eq:
  "norm_options so = norm_options so' \<longleftrightarrow> so_RPCOptions so = so_RPCOptions so' \<and>
     mo_HashFunc (so_MessageOptions so) = mo_HashFunc (so_MessageOptions so') \<and>
     drop_empty (mo_Digest (so_MessageOptions so)) = drop_empty (mo_Digest (so_MessageOptions so'))"
  by (cases so; cases so'; cases "so_MessageOptions so"; cases "so_MessageOptions so'") (auto simp: norm_options_def)

lemma carried_split:
  assumes "carried now opts uopts"
  obtains ds where "uopts = UnpackRPCOptions now (PackRPCOptions opts) @ ds @
      (case last_set set_signer_opts opts of None \<Rightarrow> [] | Some so \<Rightarrow> [RequestCryptoSignerOpts so])"
    "ds = [RequestDigest (fold ApplyDigest opts [])] \<or> ds = [] \<and> fold ApplyDigest opts [] = []"
proof -
  from assms obtain so where so: "so_RPCOptions so = PackRPCOptions opts"
    "mo_HashFunc (so_MessageOptions so) = map_option HashFunc (fold apply_signer_opts opts None)"
    "drop_empty (mo_Digest (so_MessageOptions so)) = drop_empty (Some (fold ApplyDigest opts []))"
    "uopts = UnpackSignOptions now so"
    by (auto simp: carried_def norm_options_eq PackSignOptions_def PackMessageOptions_def)
  define ds where "ds = (case mo_Digest (so_MessageOptions so) of None \<Rightarrow> [] | Some d \<Rightarrow> [WithDigest d])"
  have "uopts = UnpackRPCOptions now (PackRPCOptions opts) @ ds @
      (case last_set set_signer_opts opts of None \<Rightarrow> [] | Some so \<Rightarrow> [RequestCryptoSignerOpts so])"
    using so by (auto simp: UnpackSignOptions_def UnpackMessageOptions_def ds_def fold_apply_signer_opts
        WithCryptoSignerOpts_def split: option.splits)
  moreover have "ds = [RequestDigest (fold ApplyDigest opts [])] \<or> ds = [] \<and> fold ApplyDigest opts [] = []"
    using so(3) by (auto simp: ds_def drop_empty_def WithDigest_def split: option.splits if_splits)
  ultimately show thesis using that by blast
qed

lemma carried_msg_options:
  assumes "carried now opts uopts"
  shows "msg_options h uopts = msg_options h opts"
proof -
  from assms obtain ds where ds: "uopts = UnpackRPCOptions now (PackRPCOptions opts) @ ds @
      (case last_set set_signer_opts opts of None \<Rightarrow> [] | Some so \<Rightarrow> [RequestCryptoSignerOpts so])"
    "ds = [RequestDigest (fold ApplyDigest opts [])] \<or> ds = [] \<and> fold ApplyDigest opts [] = []"
    by (rule carried_split)
  have r: "last_set set_digest (UnpackRPCOptions now ro) = None" "last_set set_signer_opts (UnpackRPCOptions now ro) = None" for ro
    by (auto simp: UnpackRPCOptions_def with_defs set_digest_def set_signer_opts_def last_set_append split: option.splits)
  show ?thesis using ds(2)
    by (auto simp: ds(1) msg_options_eq last_set_append r set_digest_def set_signer_opts_def digest_opt.fold_last split: option.splits)
qed

section \<open>A call through the plugin\<close>

definition plugin_client ::
  "json_lib \<Rightarrow> pki \<Rightarrow> (init_options \<Rightarrow> ('k, 'v) kms_state sv_impl) \<Rightarrow> ('c, ('k, 'v) kms_state) kms_state PluginClient \<Rightarrow> bool" where
  "plugin_client J P new c \<longleftrightarrow> pc_makeCmdFunc c = makeCmd (plugin_exec J P new) \<and> plain_init (pc_initOptions c)"

text \<open>
  What the client makes of the end of a call in the plugin, a result and the state of its process.  The result
  comes back as it is, a panic as a parse error.  An error comes back by its text, when it has one.  One
  without is sent as a response with neither an error nor a result: what becomes of that, \<open>silent\<close>, depends on
  what the method does with its result.
\<close>

definition plugin_answer :: "json_lib \<Rightarrow> 'a outcome \<Rightarrow> 'a outcome \<times> 'p \<Rightarrow> 'a outcome \<times> ('c, 'p) kms_state \<Rightarrow> bool" where
  "plugin_answer J silent x y \<longleftrightarrow> kms_remote (snd y) = snd x \<and> (case fst x of
       Ret a \<Rightarrow> fst y = Ret a
     | Err e \<Rightarrow> if err_Error J e = [] then fst y = silent
         else \<exists>t. text_kept (err_Error J e) t \<and> fst y = Err (Wrap t ErrorPluginReturnError)
     | Panic p \<Rightarrow> \<exists>e. fst y = Err (Wrap2 ErrorResponseParse e))"

definition nil_result :: "'a outcome" where
  "nil_result = Panic ''nil pointer dereference''"

lemma ascii_names [simp]:
  "ascii SignMessageMethodName" "ascii VerifySignatureMethodName" "ascii CreateKeyMethodName" "ascii PublicKeyMethodName"
  "ascii DefaultAlgorithmMethodName" "ascii SupportedAlgorithmsMethodName"
  by (simp_all add: method_names ascii_def)

text \<open>What the client reads when the plugin has run a method.\<close>

definition answered :: "json_lib \<Rightarrow> ('s, plugin_resp) step \<Rightarrow> 's \<Rightarrow> plugin_resp outcome" where
  "answered J m p = read_response J
     (case fst (go_then m (\<lambda>resp. go_lift (json_MarshalResp J resp)) p) of Ret out \<Rightarrow> (out, None) | _ \<Rightarrow> ([], Some (ExitError 2)))"

lemma process_start_clock [simp]: "kms_clock (process_start input p) = kms_clock p"
  by (simp add: process_start_def)

lemma makeCmd_run:
  assumes "pc_makeCmdFunc c = makeCmd (plugin_exec J P new)" "ctx_err ctx = None"
    and "message = None \<and> m = [] \<or> delivers (kms_world s) message m"
    and "plugin_main J P new (name # args) (process_start (Stream m None) (kms_remote s)) = (r, p)"
  shows "pc_makeCmdFunc c ctx message name args s = (Ret r, s\<lparr>kms_world := drain message (kms_world s), kms_remote := p\<rparr>)"
proof -
  have i: "(case message of None \<Rightarrow> Stream [] None | Some i \<Rightarrow> readers (kms_world s) i) = Stream m None"
    using assms(3) by (auto simp: delivers_def)
  show ?thesis using assms(4) by (cases r) (simp add: assms(1) makeCmd_def i plugin_exec_def assms(2))
qed

lemma invokePlugin_run:
  assumes "json_laws J" "plugin_client J P new c" "ctx_err ctx = None" "message = None \<and> m = [] \<or> delivers (kms_world s) message m"
    and "plain_args \<lparr>pa_InitOptions = Some (pc_initOptions c), pa_MethodArgs = Some margs\<rparr>"
  obtains ma p where "p = snd (dispatch_method J P (kms_clock (kms_remote s)) (Some 0) ma (new (pc_initOptions c))
        (process_start (Stream m None) (kms_remote s)))" "norm_method ma = norm_method margs"
    "invokePlugin J c ctx message margs s = (answered J
       (dispatch_method J P (kms_clock (kms_remote s)) (Some 0) ma (new (pc_initOptions c))) (process_start (Stream m None) (kms_remote s)),
      s\<lparr>kms_world := drain message (kms_world s), kms_remote := p\<rparr>)"
proof -
  let ?a = "\<lparr>pa_InitOptions = Some (pc_initOptions c), pa_MethodArgs = Some margs\<rparr>"
  let ?p0 = "process_start (Stream m None) (kms_remote s)"
  from assms(1,5) obtain j a' where j: "json_MarshalArgs J ?a = Ret j" "json_UnmarshalArgs J j = Ret a'" "norm_args a' = norm_args ?a"
    unfolding json_laws_def by blast
  from j(3) obtain ma where a': "pa_InitOptions a' = Some (pc_initOptions c)" "pa_MethodArgs a' = Some ma"
    "norm_method ma = norm_method margs"
    by (cases a') (auto simp: norm_args_def)
  define D where "D = go_then (dispatch_method J P (kms_clock (kms_remote s)) (Some 0) ma (new (pc_initOptions c)))
      (\<lambda>resp. go_lift (json_MarshalResp J resp)) ?p0"
  define r where "r = (case fst D of Ret out \<Rightarrow> (out, None) | _ \<Rightarrow> ([] :: bytes, Some (ExitError 2)))"
  have "plugin_main J P new [pc_executable c, ProtocolVersion, j] ?p0 = (r, snd D)"
    using a'(1,2) by (cases D)
      (simp add: deref_def plugin_main_def expectedProtocolVersion_def ProtocolVersion_def GetPluginArgs_def j(2) Dispatch_def WriteResponse_def
        D_def [symmetric] r_def split: outcome.splits)
  from makeCmd_run [OF assms(2) [unfolded plugin_client_def, THEN conjunct1] assms(3,4) this]
  have "invokePlugin J c ctx message margs s = (read_response J r, s\<lparr>kms_world := drain message (kms_world s), kms_remote := snd D\<rparr>)"
    by (simp add: invokePlugin_def j(1) go_then_def)
  moreover have "snd (go_then d (\<lambda>resp. go_lift (json_MarshalResp J resp)) ?p0) = snd (d ?p0)" for d :: "(_, plugin_resp) step"
    by (auto simp: go_then_def split: prod.splits outcome.splits)
  ultimately show thesis using that a'(3) unfolding r_def D_def answered_def by metis
qed

lemma read_respond:
  assumes "json_laws J" "\<And>a. pr_ErrorMessage (field a) = []"
  shows "fst (m p) = Ret a \<Longrightarrow> \<exists>r. answered J (respond J field m) p = Ret r \<and> resp_kept (field a) r"
    and "fst (m p) = Err e \<Longrightarrow> err_Error J e = [] \<Longrightarrow> \<exists>r. answered J (respond J field m) p = Ret r \<and> resp_kept empty_resp r"
    and "fst (m p) = Err e \<Longrightarrow> err_Error J e \<noteq> [] \<Longrightarrow>
      \<exists>t. text_kept (err_Error J e) t \<and> answered J (respond J field m) p = Err (Wrap t ErrorPluginReturnError)"
    and "fst (m p) = Panic q \<Longrightarrow> \<exists>e. answered J (respond J field m) p = Err (Wrap2 ErrorResponseParse e)"
proof -
  have R: "\<exists>r'. resp_kept r r' \<and> answered J M p =
      (if pr_ErrorMessage r' \<noteq> [] then Err (Wrap (pr_ErrorMessage r') ErrorPluginReturnError) else Ret r')"
    if "fst (M p) = Ret r" for r and M :: "(_, plugin_resp) step"
  proof -
    from assms(1) obtain b r' where b: "json_MarshalResp J r = Ret b" "json_UnmarshalResp J b = Ret r'" "resp_kept r r'"
      unfolding json_laws_def by blast
    with that show ?thesis by (cases "M p") (auto simp: answered_def go_then_def read_response_def cmd_failed_def)
  qed
  have e: "empty_resp\<lparr>pr_ErrorMessage := []\<rparr> = empty_resp" by (simp add: empty_resp_def)
  show "\<exists>r. answered J (respond J field m) p = Ret r \<and> resp_kept (field a) r" if "fst (m p) = Ret a"
  proof -
    from that have "fst (respond J field m p) = Ret (field a)" by (cases "m p") (simp add: respond_def)
    from R [where M = "respond J field m", OF this] assms(2) show ?thesis by (auto simp: resp_kept_def text_kept_def)
  qed
  have E: "fst (respond J field m p) = Ret (empty_resp\<lparr>pr_ErrorMessage := err_Error J e\<rparr>)" if "fst (m p) = Err e"
    using that by (cases "m p") (simp add: respond_def)
  show "\<exists>r. answered J (respond J field m) p = Ret r \<and> resp_kept empty_resp r" if "fst (m p) = Err e" "err_Error J e = []"
    using R [where M = "respond J field m", OF E [OF that(1)]] unfolding that(2) e by (auto simp: resp_kept_def text_kept_def empty_resp_def)
  show "\<exists>t. text_kept (err_Error J e) t \<and> answered J (respond J field m) p = Err (Wrap t ErrorPluginReturnError)"
    if "fst (m p) = Err e" "err_Error J e \<noteq> []"
    using R [where M = "respond J field m", OF E [OF that(1)]] that(2) by (auto simp: resp_kept_def text_kept_def split: if_splits)
  show "\<exists>e. answered J (respond J field m) p = Err (Wrap2 ErrorResponseParse e)" if "fst (m p) = Panic q"
  proof -
    from that have "respond J field m p = (Panic q, snd (m p))" by (cases "m p") (simp add: respond_def)
    moreover obtain e where "json_UnmarshalResp J [] = Err e" using assms(1) by (auto simp: json_laws_def)
    ultimately show ?thesis by (simp add: answered_def go_then_def read_response_def cmd_failed_def)
  qed
qed

lemma snd_respond [simp]: "snd (respond J field m p) = snd (m p)"
  by (simp add: respond_def split: prod.splits outcome.splits)

text \<open>Every method whose result is one field of the response: \<open>field\<close> is how the plugin sets it, \<open>get\<close> how the client
  reads it.\<close>

lemma plugin_call:
  assumes "json_laws J" "plugin_client J P new c" "ctx_err ctx = None" "message = None \<and> m = [] \<or> delivers (kms_world s) message m"
    and "plain_args \<lparr>pa_InitOptions = Some (pc_initOptions c), pa_MethodArgs = Some margs\<rparr>"
    and "\<And>ma. norm_method ma = norm_method margs \<Longrightarrow>
      \<exists>mm. Q mm \<and> dispatch_method J P (kms_clock (kms_remote s)) (Some 0) ma (new (pc_initOptions c)) = respond J field mm"
    and "\<And>a. pr_ErrorMessage (field a) = []" "\<And>a r. resp_kept (field a) r \<Longrightarrow> get r = Some a"
    and "\<And>r. resp_kept empty_resp r \<Longrightarrow> deref (get r) = silent"
  shows "\<exists>mm. Q mm \<and> plugin_answer J silent (mm (process_start (Stream m None) (kms_remote s)))
    (go_then (invokePlugin J c ctx message margs) (\<lambda>resp. go_lift (deref (get resp))) s)"
proof -
  let ?p = "process_start (Stream m None) (kms_remote s)"
  from invokePlugin_run [OF assms(1-5)] obtain ma p
    where p: "p = snd (dispatch_method J P (kms_clock (kms_remote s)) (Some 0) ma (new (pc_initOptions c)) ?p)"
      and n: "norm_method ma = norm_method margs"
      and i: "invokePlugin J c ctx message margs s =
        (answered J (dispatch_method J P (kms_clock (kms_remote s)) (Some 0) ma (new (pc_initOptions c))) ?p,
         s\<lparr>kms_world := drain message (kms_world s), kms_remote := p\<rparr>)" .
  from assms(6) [OF n] obtain mm where mm: "Q mm"
    "dispatch_method J P (kms_clock (kms_remote s)) (Some 0) ma (new (pc_initOptions c)) = respond J field mm" by blast
  note r = read_respond [where field = field and m = mm and p = ?p, OF assms(1,7)]
  have "plugin_answer J silent (mm ?p) (go_then (invokePlugin J c ctx message margs) (\<lambda>resp. go_lift (deref (get resp))) s)"
  proof (cases "fst (mm ?p)")
    case (Ret a)
    from r(1) [OF this] assms(8) Ret p show ?thesis by (auto simp: plugin_answer_def go_then_def i mm(2) deref_def)
  next
    case (Err e)
    from r(2,3) [OF this] assms(9) Err p show ?thesis by (cases "err_Error J e = []") (auto simp: plugin_answer_def go_then_def i mm(2))
  next
    case (Panic q)
    from r(4) [OF this] Panic p show ?thesis by (auto simp: plugin_answer_def go_then_def i mm(2))
  qed
  with mm(1) show ?thesis by blast
qed

lemma dispatch_sign:
  assumes "ma_MethodName ma = SignMessageMethodName" "ma_SignMessage ma = Some (Some so)"
  shows "dispatch_method J P now stdin ma impl =
    respond J (\<lambda>a. empty_resp\<lparr>pr_SignMessage := Some a\<rparr>) (impl_SignMessage impl stdin (UnpackSignOptions now so))"
  using assms by (simp add: dispatch_method_def method_names h_SignMessage_def deref_def)

lemma dispatch_verify:
  assumes "ma_MethodName ma = VerifySignatureMethodName"
    and "ma_VerifySignature ma = Some \<lparr>vs_Signature = sg, vs_VerifyOptions = Some so\<rparr>"
  shows "dispatch_method J P now stdin ma impl =
    respond J (\<lambda>a. empty_resp\<lparr>pr_VerifySignature := Some a\<rparr>)
      (go_then (on_world (NewReader sg)) (\<lambda>r. impl_VerifySignature impl r stdin (UnpackVerifyOptions now so)))"
  using assms by (simp add: dispatch_method_def method_names h_VerifySignature_def deref_def)

lemma norm_sign_args:
  assumes "norm_method ma = norm_method (sign_call opts)"
  obtains so where "ma_MethodName ma = SignMessageMethodName" "ma_SignMessage ma = Some (Some so)"
    "norm_options so = norm_options (PackSignOptions opts)"
  using assms that by (cases ma) (auto simp: norm_method_def sign_call_def method_call_def)

lemma norm_verify_args:
  assumes "norm_method ma = norm_method (verify_call sg opts)"
  obtains so where "ma_MethodName ma = VerifySignatureMethodName"
    "ma_VerifySignature ma = Some \<lparr>vs_Signature = sg, vs_VerifyOptions = Some so\<rparr>"
    "norm_options so = norm_options (PackSignOptions opts)"
proof -
  from assms obtain v where v: "ma_MethodName ma = VerifySignatureMethodName" "ma_VerifySignature ma = Some v"
    and e: "v\<lparr>vs_VerifyOptions := map_option norm_options (vs_VerifyOptions v)\<rparr> =
      \<lparr>vs_Signature = sg, vs_VerifyOptions = Some (norm_options (PackVerifyOptions opts))\<rparr>"
    by (cases ma) (auto simp: norm_method_def verify_call_def method_call_def)
  from e have "vs_Signature v = sg" "map_option norm_options (vs_VerifyOptions v) = Some (norm_options (PackVerifyOptions opts))"
    by (cases v; simp)+
  then obtain so where "vs_VerifyOptions v = Some so" "norm_options so = norm_options (PackVerifyOptions opts)" by auto
  with v \<open>vs_Signature v = sg\<close> that show thesis by (cases v) (auto simp: PackVerifyOptions_def PackSignOptions_def)
qed

lemma plain_calls:
  assumes "plugin_client J P new c" "plain_rpc (PackRPCOptions opts)"
  shows "plain_args \<lparr>pa_InitOptions = Some (pc_initOptions c), pa_MethodArgs = Some (sign_call opts)\<rparr>"
    and "plain_args \<lparr>pa_InitOptions = Some (pc_initOptions c), pa_MethodArgs = Some (verify_call sg opts)\<rparr>"
  using assms by (simp_all add: plain_args_def plain_method_def plugin_client_def sign_call_def verify_call_def method_call_def
      PackSignOptions_def PackVerifyOptions_def)

lemma plugin_sign_answer:
  assumes "json_laws J" "plugin_client J P new c" "plain_rpc (PackRPCOptions opts)"
    and "ctx_err (fold ApplyContext opts Background) = None" "delivers (kms_world s) message m"
  shows "\<exists>uopts. carried (kms_clock (kms_remote s)) opts uopts \<and>
    plugin_answer J nil_result (impl_SignMessage (new (pc_initOptions c)) (Some 0) uopts (process_start (Stream m None) (kms_remote s)))
      (pc_SignMessage J c message opts s)"
proof -
  let ?now = "kms_clock (kms_remote s)" let ?impl = "new (pc_initOptions c)"
  let ?Q = "\<lambda>mm. \<exists>uopts. carried ?now opts uopts \<and> mm = impl_SignMessage ?impl (Some 0) uopts"
  have "\<exists>mm. ?Q mm \<and> plugin_answer J nil_result (mm (process_start (Stream m None) (kms_remote s)))
      (go_then (invokePlugin J c (fold ApplyContext opts Background) message (sign_call opts)) (\<lambda>resp. go_lift (deref (pr_SignMessage resp))) s)"
  proof (rule plugin_call [where field = "\<lambda>a. empty_resp\<lparr>pr_SignMessage := Some a\<rparr>", OF assms(1,2,4) disjI2 [OF assms(5)] plain_calls(1) [OF assms(2,3)]])
    fix ma assume "norm_method ma = norm_method (sign_call opts)"
    then obtain so where so: "ma_MethodName ma = SignMessageMethodName" "ma_SignMessage ma = Some (Some so)"
      "norm_options so = norm_options (PackSignOptions opts)" by (rule norm_sign_args)
    have "carried ?now opts (UnpackSignOptions ?now so)" using so(3) by (auto simp: carried_def)
    with dispatch_sign [OF so(1,2)] show "\<exists>mm. ?Q mm \<and> dispatch_method J P ?now (Some 0) ma ?impl = respond J (\<lambda>a. empty_resp\<lparr>pr_SignMessage := Some a\<rparr>) mm"
      by blast
  qed (auto simp: resp_kept_def empty_resp_def deref_def nil_result_def)
  then show ?thesis by (auto simp: pc_SignMessage_def)
qed

lemma plugin_verify_answer:
  assumes "json_laws J" "plugin_client J P new c" "plain_rpc (PackRPCOptions opts)"
    and "ctx_err (fold ApplyContext opts Background) = None"
    and "delivers (kms_world s) message m" "delivers (kms_world s) signature sg" "signature \<noteq> message"
  shows "\<exists>uopts. carried (kms_clock (kms_remote s)) opts uopts \<and>
    plugin_answer J (Ret ()) (go_then (on_world (NewReader sg)) (\<lambda>r. impl_VerifySignature (new (pc_initOptions c)) r (Some 0) uopts)
        (process_start (Stream m None) (kms_remote s)))
      (pc_VerifySignature J c signature message opts s)"
proof -
  let ?s = "s\<lparr>kms_world := drain signature (kms_world s)\<rparr>"
  let ?now = "kms_clock (kms_remote s)" let ?impl = "new (pc_initOptions c)"
  let ?Q = "\<lambda>mm. \<exists>uopts. carried ?now opts uopts \<and> mm = go_then (on_world (NewReader sg)) (\<lambda>r. impl_VerifySignature ?impl r (Some 0) uopts)"
  have rs: "kms_remote ?s = kms_remote s" by (cases s) simp
  have rd: "on_world (ReadAll signature) s = (Ret sg, ?s)" by (simp add: on_world_def ReadAll_delivers [OF assms(6)])
  have d: "delivers (kms_world ?s) message m" using assms(5,7) by simp
  have "\<exists>mm. ?Q mm \<and> plugin_answer J (Ret ()) (mm (process_start (Stream m None) (kms_remote ?s)))
      (go_then (invokePlugin J c (fold ApplyContext opts Background) message (verify_call sg opts)) (\<lambda>resp. go_lift (deref (Some ()))) ?s)"
  proof (rule plugin_call [where field = "\<lambda>a. empty_resp\<lparr>pr_VerifySignature := Some a\<rparr>", OF assms(1,2,4) disjI2 [OF d] plain_calls(2) [OF assms(2,3)]])
    fix ma assume "norm_method ma = norm_method (verify_call sg opts)"
    then obtain so where so: "ma_MethodName ma = VerifySignatureMethodName"
      "ma_VerifySignature ma = Some \<lparr>vs_Signature = sg, vs_VerifyOptions = Some so\<rparr>"
      "norm_options so = norm_options (PackSignOptions opts)" by (rule norm_verify_args)
    have "carried ?now opts (UnpackVerifyOptions ?now so)"
      using so(3) by (auto simp: carried_def UnpackVerifyOptions_def UnpackSignOptions_def)
    with dispatch_verify [OF so(1,2), of J P ?now "Some 0" ?impl] show "\<exists>mm. ?Q mm \<and> dispatch_method J P (kms_clock (kms_remote ?s)) (Some 0) ma ?impl =
        respond J (\<lambda>a. empty_resp\<lparr>pr_VerifySignature := Some a\<rparr>) mm" unfolding rs by blast
  qed (auto simp: empty_resp_def deref_def)
  then show ?thesis unfolding rs pc_VerifySignature_def go_then_step(1) [where m = "on_world (ReadAll signature)", OF rd] deref_def option.case by blast
qed

text \<open>A key comes back through PEM: the plugin encodes it, the client decodes it.\<close>

lemma public_key_pem:
  assumes "pem_laws P" "der_laws P" "MarshalPublicKeyToPEM P k = Ret pem"
  shows "UnmarshalPEMToPublicKey P pem = Ret k"
proof -
  from assms(3) obtain d where d: "MarshalPKIXPublicKey P k = Ret d" "pem = PEMEncode P PublicKeyPEMType d"
    by (auto simp: MarshalPublicKeyToPEM_def MarshalPublicKeyToDER_def outcome_simps split: if_splits)
  with pem_lawsD(2) [OF assms(1) PublicKeyPEMType_emitted] assms(2) show ?thesis
    by (simp add: UnmarshalPEMToPublicKey_def der_laws_def)
qed

definition encoded_key :: "pki \<Rightarrow> ('s, public_key) step \<Rightarrow> ('s, bytes) step" where
  "encoded_key P m = go_then m (\<lambda>k. go_lift (MarshalPublicKeyToPEM P k))"

text \<open>The key a call returns, or its error, or that of encoding the key.\<close>

definition encodable_key :: "pki \<Rightarrow> ('s, public_key) step \<Rightarrow> ('s, public_key) step" where
  "encodable_key P m = go_then m (\<lambda>k. go_then (go_lift (MarshalPublicKeyToPEM P k)) (\<lambda>_. go_ret k))"

lemma plugin_answer_key:
  assumes "plugin_answer J nil_result (encoded_key P m p) (m' s)"
    and "\<And>k pem. fst (m p) = Ret k \<Longrightarrow> MarshalPublicKeyToPEM P k = Ret pem \<Longrightarrow> UnmarshalPEMToPublicKey P pem = Ret k"
  shows "plugin_answer J nil_result (encodable_key P m p) (go_then m' (\<lambda>pem. go_lift (UnmarshalPEMToPublicKey P pem)) s)"
proof (cases "m p")
  case (Pair x p')
  with assms show ?thesis
    by (cases "m' s")
      (auto simp: plugin_answer_def encoded_key_def encodable_key_def go_then_def nil_result_def split: outcome.splits if_splits)
qed

lemma go_then_deref: "go_then m (\<lambda>r. go_then (go_lift (x r)) f) = go_then (go_then m (\<lambda>r. go_lift (x r))) f"
  by (auto simp: go_then_def fun_eq_iff split: prod.splits outcome.splits)

definition create_context :: "int \<Rightarrow> go_context \<Rightarrow> go_context" where
  "create_context now ctx = (case ctx_deadline ctx of None \<Rightarrow> Background | Some d \<Rightarrow> context_WithDeadline now d)"

lemma dispatch_create:
  assumes "ma_MethodName ma = CreateKeyMethodName" "ma_CreateKey ma = Some \<lparr>ck_CtxDeadline = ctx_deadline ctx, ck_Algorithm = algorithm\<rparr>"
  shows "dispatch_method J P now stdin ma impl = respond J (\<lambda>a. empty_resp\<lparr>pr_CreateKey := Some a\<rparr>)
    (encoded_key P (impl_CreateKey impl (create_context now ctx) algorithm))"
  using assms by (simp add: dispatch_method_def method_names h_CreateKey_def deref_def Let_def encoded_key_def create_context_def)

lemma dispatch_public:
  assumes "ma_MethodName ma = PublicKeyMethodName" "ma_PublicKey ma = Some (Some ro)"
  shows "dispatch_method J P now stdin ma impl = respond J (\<lambda>a. empty_resp\<lparr>pr_PublicKey := Some a\<rparr>)
    (encoded_key P (impl_PublicKey impl (UnpackPublicKeyOptions now ro)))"
  using assms by (simp add: dispatch_method_def method_names h_PublicKey_def deref_def encoded_key_def)

lemma plugin_create_encoded:
  assumes "json_laws J" "plugin_client J P new c" "ctx_err ctx = None" "ascii algorithm" "pred_option plain_time (ctx_deadline ctx)"
    and "m = impl_CreateKey (new (pc_initOptions c)) (create_context (kms_clock (kms_remote s)) ctx) algorithm"
    and "p = process_start (Stream [] None) (kms_remote s)"
  obtains x where "pc_CreateKey J P c ctx algorithm = go_then x (\<lambda>pem. go_lift (UnmarshalPEMToPublicKey P pem))"
    "plugin_answer J nil_result (encoded_key P m p) (x s)"
proof -
  let ?ma = "(method_call CreateKeyMethodName)\<lparr>ma_CreateKey := Some \<lparr>ck_CtxDeadline = ctx_deadline ctx, ck_Algorithm = algorithm\<rparr>\<rparr>"
  let ?f = "\<lambda>a. empty_resp\<lparr>pr_CreateKey := Some a\<rparr>"
  have pl: "plain_args \<lparr>pa_InitOptions = Some (pc_initOptions c), pa_MethodArgs = Some ?ma\<rparr>"
    using assms(2,4,5) by (simp add: plain_args_def plain_method_def plugin_client_def method_call_def)
  have "\<exists>mm. mm = encoded_key P m \<and> plugin_answer J nil_result (mm p)
      (go_then (invokePlugin J c ctx None ?ma) (\<lambda>resp. go_lift (deref (pr_CreateKey resp))) s)"
    unfolding assms(7)
  proof (rule plugin_call [where field = ?f, OF assms(1-3) disjI1 [OF conjI [OF refl refl]] pl])
    fix ma assume "norm_method ma = norm_method ?ma"
    then have "ma_MethodName ma = CreateKeyMethodName" "ma_CreateKey ma = Some \<lparr>ck_CtxDeadline = ctx_deadline ctx, ck_Algorithm = algorithm\<rparr>"
      by (cases ma; auto simp: norm_method_def method_call_def)+
    from dispatch_create [OF this] assms(6) show "\<exists>mm. mm = encoded_key P m \<and>
        dispatch_method J P (kms_clock (kms_remote s)) (Some 0) ma (new (pc_initOptions c)) = respond J ?f mm" by blast
  qed (auto simp: resp_kept_def empty_resp_def deref_def nil_result_def)
  then have "plugin_answer J nil_result (encoded_key P m p) (go_then (invokePlugin J c ctx None ?ma) (\<lambda>resp. go_lift (deref (pr_CreateKey resp))) s)"
    by blast
  then show thesis by (rule that [rotated]) (simp only: pc_CreateKey_def go_then_deref)
qed

lemma plugin_create_answer:
  assumes "json_laws J" "plugin_client J P new c" "ctx_err ctx = None" "ascii algorithm" "pred_option plain_time (ctx_deadline ctx)"
    and "m = impl_CreateKey (new (pc_initOptions c)) (create_context (kms_clock (kms_remote s)) ctx) algorithm"
    and "p = process_start (Stream [] None) (kms_remote s)"
    and "\<And>k pem. fst (m p) = Ret k \<Longrightarrow> MarshalPublicKeyToPEM P k = Ret pem \<Longrightarrow> UnmarshalPEMToPublicKey P pem = Ret k"
  shows "plugin_answer J nil_result (encodable_key P m p) (pc_CreateKey J P c ctx algorithm s)"
proof -
  from plugin_create_encoded [OF assms(1-7)] obtain x where
    x: "pc_CreateKey J P c ctx algorithm = go_then x (\<lambda>pem. go_lift (UnmarshalPEMToPublicKey P pem))"
    "plugin_answer J nil_result (encoded_key P m p) (x s)" .
  show ?thesis unfolding x(1) by (rule plugin_answer_key [where m' = x, OF x(2) assms(8)])
qed

lemma plugin_public_answer:
  assumes "json_laws J" "plugin_client J P new c" "plain_rpc (PackRPCOptions opts)" "ctx_err (fold ApplyContext opts Background) = None"
    and "m = impl_PublicKey (new (pc_initOptions c)) (UnpackPublicKeyOptions (kms_clock (kms_remote s)) (PackPublicKeyOptions opts))"
    and "p = process_start (Stream [] None) (kms_remote s)"
    and "\<And>k pem. fst (m p) = Ret k \<Longrightarrow> MarshalPublicKeyToPEM P k = Ret pem \<Longrightarrow> UnmarshalPEMToPublicKey P pem = Ret k"
  shows "plugin_answer J nil_result (encodable_key P m p) (pc_PublicKey J P c opts s)"
proof -
  let ?ma = "(method_call PublicKeyMethodName)\<lparr>ma_PublicKey := Some (Some (PackPublicKeyOptions opts))\<rparr>"
  let ?f = "\<lambda>a. empty_resp\<lparr>pr_PublicKey := Some a\<rparr>" let ?ctx = "fold ApplyContext opts Background"
  have pl: "plain_args \<lparr>pa_InitOptions = Some (pc_initOptions c), pa_MethodArgs = Some ?ma\<rparr>"
    using assms(2,3) by (simp add: plain_args_def plain_method_def plugin_client_def method_call_def PackPublicKeyOptions_def)
  have "\<exists>mm. mm = encoded_key P m \<and> plugin_answer J nil_result (mm p)
      (go_then (invokePlugin J c ?ctx None ?ma) (\<lambda>resp. go_lift (deref (pr_PublicKey resp))) s)"
    unfolding assms(6)
  proof (rule plugin_call [where field = ?f, OF assms(1,2,4) disjI1 [OF conjI [OF refl refl]] pl])
    fix ma assume "norm_method ma = norm_method ?ma"
    then have "ma_MethodName ma = PublicKeyMethodName" "ma_PublicKey ma = Some (Some (PackPublicKeyOptions opts))"
      by (cases ma; auto simp: norm_method_def method_call_def)+
    from dispatch_public [OF this] assms(5) show "\<exists>mm. mm = encoded_key P m \<and>
        dispatch_method J P (kms_clock (kms_remote s)) (Some 0) ma (new (pc_initOptions c)) = respond J ?f mm" by blast
  qed (auto simp: resp_kept_def empty_resp_def deref_def nil_result_def)
  then have "plugin_answer J nil_result (encoded_key P m p) (go_then (invokePlugin J c ?ctx None ?ma) (\<lambda>resp. go_lift (deref (pr_PublicKey resp))) s)"
    by blast
  then show ?thesis unfolding pc_PublicKey_def go_then_deref by (rule plugin_answer_key) (rule assms(7))
qed

text \<open>The two methods without arguments; what they return is text.\<close>

lemma plugin_algorithms_answer:
  assumes "json_laws J" "plugin_client J P new c"
  shows "\<exists>t s1. text_kept (impl_DefaultAlgorithm (new (pc_initOptions c))) t \<and> pc_DefaultAlgorithm J c s = (Ret t, s1) \<and>
      kms_remote s1 = process_start (Stream [] None) (kms_remote s)"
    and "\<exists>ts s1. list_all2 text_kept (impl_SupportedAlgorithms (new (pc_initOptions c))) ts \<and> pc_SupportedAlgorithms J c s = (Ret ts, s1) \<and>
      kms_remote s1 = process_start (Stream [] None) (kms_remote s)"
proof -
  let ?p = "process_start (Stream [] None) (kms_remote s)" let ?impl = "new (pc_initOptions c)"
  let ?ma = "(method_call DefaultAlgorithmMethodName)\<lparr>ma_DefaultAlgorithm := Some ()\<rparr>"
  let ?mb = "(method_call SupportedAlgorithmsMethodName)\<lparr>ma_SupportedAlgorithms := Some ()\<rparr>"
  let ?fa = "\<lambda>a. empty_resp\<lparr>pr_DefaultAlgorithm := Some a\<rparr>" let ?fb = "\<lambda>a. empty_resp\<lparr>pr_SupportedAlgorithms := Some a\<rparr>"
  have b: "ctx_err Background = None" by (simp add: Background_def)
  have pl: "plain_args \<lparr>pa_InitOptions = Some (pc_initOptions c), pa_MethodArgs = Some ?ma\<rparr>"
    "plain_args \<lparr>pa_InitOptions = Some (pc_initOptions c), pa_MethodArgs = Some ?mb\<rparr>"
    using assms(2) by (simp_all add: plain_args_def plain_method_def plugin_client_def method_call_def)
  have n: "ma_MethodName ma = ma_MethodName mb" if "norm_method ma = norm_method mb" for ma mb
    using that by (cases ma; cases mb) (simp add: norm_method_def)
  show "\<exists>t s1. text_kept (impl_DefaultAlgorithm ?impl) t \<and> pc_DefaultAlgorithm J c s = (Ret t, s1) \<and> kms_remote s1 = ?p"
  proof -
    from invokePlugin_run [OF assms(1,2) b disjI1 [OF conjI [OF refl refl]] pl(1), of s] obtain ma p
      where d: "p = snd (dispatch_method J P (kms_clock (kms_remote s)) (Some 0) ma ?impl ?p)" "norm_method ma = norm_method ?ma"
        "invokePlugin J c Background None ?ma s = (answered J (dispatch_method J P (kms_clock (kms_remote s)) (Some 0) ma ?impl) ?p,
           s\<lparr>kms_world := drain None (kms_world s), kms_remote := p\<rparr>)" .
    from n [OF d(2)] have m: "dispatch_method J P (kms_clock (kms_remote s)) (Some 0) ma ?impl = respond J ?fa (h_DefaultAlgorithm ?impl)"
      by (simp add: dispatch_method_def method_call_def)
    obtain r where "answered J (respond J ?fa (h_DefaultAlgorithm ?impl)) ?p = Ret r" "resp_kept (?fa (impl_DefaultAlgorithm ?impl)) r"
      using read_respond(1) [OF assms(1), of ?fa "h_DefaultAlgorithm ?impl" ?p] by (auto simp: h_DefaultAlgorithm_def empty_resp_def go_lift_def)
    with d m show ?thesis
      by (auto simp: pc_DefaultAlgorithm_def log_Fatal_def go_then_def resp_kept_def empty_resp_def deref_def option_rel_Some1 h_DefaultAlgorithm_def go_lift_def)
  qed
  show "\<exists>ts s1. list_all2 text_kept (impl_SupportedAlgorithms ?impl) ts \<and> pc_SupportedAlgorithms J c s = (Ret ts, s1) \<and> kms_remote s1 = ?p"
  proof -
    from invokePlugin_run [OF assms(1,2) b disjI1 [OF conjI [OF refl refl]] pl(2), of s] obtain ma p
      where d: "p = snd (dispatch_method J P (kms_clock (kms_remote s)) (Some 0) ma ?impl ?p)" "norm_method ma = norm_method ?mb"
        "invokePlugin J c Background None ?mb s = (answered J (dispatch_method J P (kms_clock (kms_remote s)) (Some 0) ma ?impl) ?p,
           s\<lparr>kms_world := drain None (kms_world s), kms_remote := p\<rparr>)" .
    from n [OF d(2)] have m: "dispatch_method J P (kms_clock (kms_remote s)) (Some 0) ma ?impl = respond J ?fb (h_SupportedAlgorithms ?impl)"
      by (simp add: dispatch_method_def method_call_def method_names)
    obtain r where "answered J (respond J ?fb (h_SupportedAlgorithms ?impl)) ?p = Ret r" "resp_kept (?fb (impl_SupportedAlgorithms ?impl)) r"
      using read_respond(1) [OF assms(1), of ?fb "h_SupportedAlgorithms ?impl" ?p] by (auto simp: h_SupportedAlgorithms_def empty_resp_def go_lift_def)
    with d m show ?thesis
      by (auto simp: pc_SupportedAlgorithms_def log_Fatal_def go_then_def resp_kept_def empty_resp_def deref_def option_rel_Some1 h_SupportedAlgorithms_def go_lift_def)
  qed
qed

text \<open>A key created through a plugin was created by the implementation.\<close>

lemma plugin_created:
  assumes "json_laws J" "plugin_client J P new c" "ctx_err ctx = None"
    and "ascii algorithm" "pred_option plain_time (ctx_deadline ctx)" "pc_CreateKey J P c ctx algorithm s = (Ret pub, s1)"
  obtains ctx' pub' p where "impl_CreateKey (new (pc_initOptions c)) ctx' algorithm (process_start (Stream [] None) (kms_remote s)) = (Ret pub', p)"
    "kms_remote s1 = p"
proof -
  let ?ctx = "create_context (kms_clock (kms_remote s)) ctx"
  from plugin_create_encoded [OF assms(1-5) refl refl, of s] obtain x where
    x: "pc_CreateKey J P c ctx algorithm = go_then x (\<lambda>pem. go_lift (UnmarshalPEMToPublicKey P pem))"
    "plugin_answer J nil_result (encoded_key P (impl_CreateKey (new (pc_initOptions c)) ?ctx algorithm) (process_start (Stream [] None) (kms_remote s))) (x s)" .
  from assms(6) x(1) obtain pem where "x s = (Ret pem, s1)" by (auto simp: go_then_Ret_iff)
  with x(2) that [of ?ctx] show thesis
    by (cases "impl_CreateKey (new (pc_initOptions c)) ?ctx algorithm (process_start (Stream [] None) (kms_remote s))")
      (auto simp: plugin_answer_def encoded_key_def go_then_def nil_result_def split: outcome.splits if_splits)
qed

section \<open>A plugin around a signer-verifier\<close>

text \<open>The in-memory provider as the implementation of a plugin.\<close>

definition fake_impl :: "crypto_lib \<Rightarrow> fake_SignerVerifier \<Rightarrow> ('k, 'v) kms_state sv_impl" where
  "fake_impl L g = \<lparr>impl_DefaultAlgorithm = fake_DefaultAlgorithm, impl_SupportedAlgorithms = fake_SupportedAlgorithms,
     impl_CreateKey = (\<lambda>ctx algorithm. on_world (fake_CreateKey g ctx algorithm)),
     impl_PublicKey = (\<lambda>opts. on_world (fake_PublicKey g opts)),
     impl_SignMessage = (\<lambda>message opts. on_world (fake_SignMessage L g message opts)),
     impl_VerifySignature = (\<lambda>signature message opts. on_world (fake_VerifySignature L g signature message opts))\<rparr>"

lemma plugin_answer_Ret:
  "plugin_answer J nil_result x y \<Longrightarrow> fst y = Ret a \<Longrightarrow> fst x = Ret a"
  "plugin_answer J silent x y \<Longrightarrow> fst x = Ret a \<Longrightarrow> fst y = Ret a"
  by (auto simp: plugin_answer_def nil_result_def split: outcome.splits if_splits)

lemma fst_on_world: "fst (on_world m s) = fst (m (kms_world s))"
  by (cases "m (kms_world s)") (simp add: on_world_def)

lemma carried_same: "carried now opts uopts \<Longrightarrow> same_msg_options uopts opts"
  by (simp add: same_msg_options_def carried_msg_options)

lemma fake_impl_roundtrip:
  assumes "any_key_pair L (sv_signer (fake_signer g)) (sv_verifier (fake_signer g))"
    and "fst (impl_SignMessage (fake_impl L g) (Some 0) uo (process_start (Stream m None) p)) = Ret sg"
    and "same_msg_options uo uo'"
  shows "fst (go_then (on_world (NewReader sg)) (\<lambda>r. impl_VerifySignature (fake_impl L g) r (Some 0) uo')
     (process_start (Stream m None) p')) = Ret ()"
proof -
  let ?w = "kms_world (process_start (Stream m None) p)" let ?w' = "kms_world (process_start (Stream m None) p')"
  define w2 where "w2 = snd (NewReader sg ?w')"
  obtain w1 where "SignMessage L (sv_signer (fake_signer g)) (Some 0) uo ?w = (Ret sg, w1)"
    using assms(2) by (cases "SignMessage L (sv_signer (fake_signer g)) (Some 0) uo ?w")
      (simp add: fake_impl_def fst_on_world fake_SignMessage_def)
  moreover have "same_input ?w (Some 0) w2 (Some 0)" "delivers w2 (Some 1) sg" "salt_stable ?w w2"
    by (auto simp: same_input_def delivers_def w2_def NewReader_def process_start_def salt_stable_def)
  ultimately have v: "fst (VerifySignature L (sv_verifier (fake_signer g)) (Some 1) (Some 0) uo' w2) = Ret ()"
    using any.accepts [OF assms(1) _ _ _ _ assms(3)] by (metis numeral_1_eq_Suc_0 option.inject zero_neq_one)
  have "NewReader sg ?w' = (Ret (Some 1), w2)" by (simp add: w2_def NewReader_def process_start_def)
  with v show ?thesis
    by (simp add: go_then_def on_world_def [of "NewReader sg"] fake_impl_def fst_on_world fake_VerifySignature_def)
qed

section \<open>Signing and verifying through a plugin\<close>

text \<open>An implementation whose processes accept what they sign gives a client that does.  \<open>works\<close> is what has
  to be known of the state of the two processes.\<close>

definition carried_context :: "int \<Rightarrow> sig_option list \<Rightarrow> go_context" where
  "carried_context now opts = (case ctx_deadline (fold ApplyContext opts Background) of
     None \<Rightarrow> Background | Some d \<Rightarrow> context_WithDeadline now d)"

lemma carried_context: "carried now opts uopts \<Longrightarrow> fold ApplyContext uopts Background = carried_context now opts"
proof -
  assume "carried now opts uopts"
  then obtain ds where ds: "uopts = UnpackRPCOptions now (PackRPCOptions opts) @ ds @
      (case last_set set_signer_opts opts of None \<Rightarrow> [] | Some so \<Rightarrow> [RequestCryptoSignerOpts so])"
    "ds = [RequestDigest (fold ApplyDigest opts [])] \<or> ds = [] \<and> fold ApplyDigest opts [] = []"
    by (rule carried_split)
  have "UnpackRPCOptions now (PackRPCOptions opts) = (case ctx_deadline (fold ApplyContext opts Background) of
      None \<Rightarrow> [] | Some d \<Rightarrow> [RequestContext (context_WithDeadline now d)]) @
      [RequestKeyVersion (fold ApplyKeyVersion opts []), RequestRemoteVerification (fold ApplyRemoteVerification opts False)]"
    by (simp add: UnpackRPCOptions_def PackRPCOptions_def Let_def with_defs split: option.splits)
  with ds show ?thesis by (auto simp: carried_context_def ApplyContext_def split: option.splits)
qed

locale plugin_scheme =
  fixes impl :: "'c \<Rightarrow> init_options \<Rightarrow> ('k, 'v) kms_state sv_impl"
    and works :: "'c \<Rightarrow> init_options \<Rightarrow> go_context \<Rightarrow> ('k, 'v) kms_state \<Rightarrow> ('k, 'v) kms_state \<Rightarrow> bool"
  assumes process_accepts:
    "works cf io (fold ApplyContext uo' Background) p p' \<Longrightarrow>
     fst (impl_SignMessage (impl cf io) (Some 0) uo (process_start (Stream m None) p)) = Ret sg \<Longrightarrow>
     same_msg_options uo uo' \<Longrightarrow>
     fst (go_then (on_world (NewReader sg)) (\<lambda>r. impl_VerifySignature (impl cf io) r (Some 0) uo') (process_start (Stream m None) p')) = Ret ()"
begin

lemma client_accepts:
  assumes "json_laws J" "plugin_client J P (impl cf) c"
    and "plain_rpc (PackRPCOptions sopts)" "plain_rpc (PackRPCOptions vopts)"
    and "ctx_err (fold ApplyContext sopts Background) = None" "ctx_err (fold ApplyContext vopts Background) = None"
    and "delivers (kms_world s) r m" "fst (pc_SignMessage J c r sopts s) = Ret sg"
    and "delivers (kms_world s2) rm m" "delivers (kms_world s2) rs sg" "rs \<noteq> rm" "same_msg_options sopts vopts"
    and "works cf (pc_initOptions c) (carried_context (kms_clock (kms_remote s2)) vopts) (kms_remote s) (kms_remote s2)"
  shows "fst (pc_VerifySignature J c rs rm vopts s2) = Ret ()"
proof -
  from plugin_sign_answer [OF assms(1,2,3,5,7)] obtain uo where uo: "carried (kms_clock (kms_remote s)) sopts uo"
    "fst (impl_SignMessage (impl cf (pc_initOptions c)) (Some 0) uo (process_start (Stream m None) (kms_remote s))) = Ret sg"
    using plugin_answer_Ret(1) [OF _ assms(8)] by blast
  from plugin_verify_answer [OF assms(1,2,4,6,9,10,11)] obtain vo where vo: "carried (kms_clock (kms_remote s2)) vopts vo"
    "plugin_answer J (Ret ()) (go_then (on_world (NewReader sg)) (\<lambda>r. impl_VerifySignature (impl cf (pc_initOptions c)) r (Some 0) vo)
       (process_start (Stream m None) (kms_remote s2))) (pc_VerifySignature J c rs rm vopts s2)" by blast
  have "same_msg_options uo vo"
    using carried_same [OF uo(1)] carried_same [OF vo(1)] assms(12) by (simp add: same_msg_options_def)
  from process_accepts [OF assms(13) [folded carried_context [OF vo(1)]] uo(2) this] plugin_answer_Ret(2) [OF vo(2)] show ?thesis by simp
qed

end

interpretation fake_plugin: plugin_scheme "\<lambda>(L, sv) _. fake_impl L \<lparr>fake_signer = sv\<rparr>"
  "\<lambda>(L, sv) _ _ _ _. any_key_pair L (sv_signer sv) (sv_verifier sv)"
  by unfold_locales (auto intro: fake_impl_roundtrip)

section \<open>Properties\<close>

text \<open>C5: what a plugin makes of a call is what the implementation it wraps makes of it, for all six methods that
  cross the protocol.  The implementation runs in a process of its own and is handed the message on its standard
  input, a signature in a reader of its own, options that carry the same digest, hash, key version and deadline, and
  the algorithm asked for.  Its result or the text of its error comes back to the caller, a key by way of PEM, an
  algorithm name as JSON keeps it; a panic comes back as a parse error; and what it did to the world outside stays done.
  An error without a text is not reported: the caller panics on the missing result, and a verification that failed
  with one is reported as a success.  The call is one whose context has not ended and whose options and algorithm are
  texts and times that JSON keeps as they are.\<close>

theorem plugin_refines_implementation:
  assumes "json_laws J" "pem_laws P" "der_laws P" "plugin_client J P new c"
    and "plain_rpc (PackRPCOptions opts)" "ctx_err (fold ApplyContext opts Background) = None"
    and "delivers (kms_world s) message m" "delivers (kms_world s) signature sg" "signature \<noteq> message"
    and "ctx_err ctx = None" "ascii algorithm" "pred_option plain_time (ctx_deadline ctx)"
    and "impl = new (pc_initOptions c)" "clock = kms_clock (kms_remote s)"
    and "start = (\<lambda>input. process_start (Stream input None) (kms_remote s))"
  shows "(\<exists>uopts. carried clock opts uopts \<and>
      plugin_answer J nil_result (impl_SignMessage impl (Some 0) uopts (start m)) (pc_SignMessage J c message opts s)) \<and>
    (\<exists>uopts. carried clock opts uopts \<and>
      plugin_answer J (Ret ()) (go_then (on_world (NewReader sg)) (\<lambda>r. impl_VerifySignature impl r (Some 0) uopts) (start m))
        (pc_VerifySignature J c signature message opts s)) \<and>
    plugin_answer J nil_result (encodable_key P (impl_CreateKey impl (create_context clock ctx) algorithm) (start []))
      (pc_CreateKey J P c ctx algorithm s) \<and>
    plugin_answer J nil_result
      (encodable_key P (impl_PublicKey impl (UnpackPublicKeyOptions clock (PackPublicKeyOptions opts))) (start []))
      (pc_PublicKey J P c opts s) \<and>
    (\<exists>t s1. text_kept (impl_DefaultAlgorithm impl) t \<and> pc_DefaultAlgorithm J c s = (Ret t, s1) \<and> kms_remote s1 = start []) \<and>
    (\<exists>ts s1. list_all2 text_kept (impl_SupportedAlgorithms impl) ts \<and> pc_SupportedAlgorithms J c s = (Ret ts, s1) \<and>
      kms_remote s1 = start [])"
  unfolding assms(13-15)
  by (intro conjI plugin_sign_answer [OF assms(1,4-7)] plugin_verify_answer [OF assms(1,4-9)]
      plugin_create_answer [OF assms(1,4,10-12) refl refl public_key_pem [OF assms(2,3)]]
      plugin_public_answer [OF assms(1,4-6) refl refl public_key_pem [OF assms(2,3)]] plugin_algorithms_answer [OF assms(1,4)])

text \<open>So a verification that fails with an error whose text is empty succeeds for the caller.\<close>

lemma plugin_silent_failure:
  assumes "json_laws J" "plugin_client J P new c" "plain_rpc (PackRPCOptions opts)" "ctx_err (fold ApplyContext opts Background) = None"
    and "delivers (kms_world s) message m" "delivers (kms_world s) signature sg" "signature \<noteq> message"
    and "\<And>r uopts p. fst (impl_VerifySignature (new (pc_initOptions c)) r (Some 0) uopts p) = Err e" "err_Error J e = []"
  shows "fst (pc_VerifySignature J c signature message opts s) = Ret ()"
proof -
  from plugin_verify_answer [OF assms(1-7)] obtain uopts where
    a: "plugin_answer J (Ret ()) (go_then (on_world (NewReader sg)) (\<lambda>r. impl_VerifySignature (new (pc_initOptions c)) r (Some 0) uopts)
      (process_start (Stream m None) (kms_remote s))) (pc_VerifySignature J c signature message opts s)" by blast
  have "fst (go_then (on_world (NewReader sg)) (\<lambda>r. impl_VerifySignature (new (pc_initOptions c)) r (Some 0) uopts) p) = Err e" for p
    using assms(8) by (simp add: go_then_def on_world_def NewReader_def)
  with a assms(9) show ?thesis by (simp add: plugin_answer_def)
qed

text \<open>A message signed through a plugin around a loaded signer-verifier verifies through the plugin, in
  processes of their own, when both calls are given the same digest and hash options.\<close>

theorem plugin_roundtrip:
  assumes "lib_laws L" "hashes_linked L" "good_private L key" "LoadSignerVerifierWithOpts key lopts = Ret sv"
    and "json_laws J" "plugin_client J P (\<lambda>_. fake_impl L \<lparr>fake_signer = sv\<rparr>) c"
    and "plain_rpc (PackRPCOptions sopts)" "plain_rpc (PackRPCOptions vopts)"
    and "ctx_err (fold ApplyContext sopts Background) = None" "ctx_err (fold ApplyContext vopts Background) = None"
    and "delivers (kms_world s) r m" "fst (pc_SignMessage J c r sopts s) = Ret sg"
    and "delivers (kms_world s2) rm m" "delivers (kms_world s2) rs sg" "rs \<noteq> rm" "same_msg_options sopts vopts"
  shows "fst (pc_VerifySignature J c rs rm vopts s2) = Ret ()"
  by (rule fake_plugin.client_accepts [where cf = "(L, sv)", OF assms(5) _ assms(7-16)])
    (use assms(6) LoadSignerVerifier_pair [OF assms(1-4)] in auto)

text \<open>Which options cross to a plugin.  The digest, the hash, the key version, remote verification and the
  deadline of the context do; but a version and a verification mode are always set, to the empty string
  and to false when the caller gave none, so the implementation's own defaults never apply.  Credentials,
  the source of randomness and the variable for the version used stay behind.\<close>

theorem plugin_options:
  assumes "carried now opts uopts"
  shows "fold ApplyDigest uopts [] = fold ApplyDigest opts [] \<and>
    last_set set_signer_opts uopts = last_set set_signer_opts opts \<and>
    fold ApplyKeyVersion uopts v = fold ApplyKeyVersion opts [] \<and>
    fold ApplyRemoteVerification uopts b = fold ApplyRemoteVerification opts False \<and>
    ctx_deadline (fold ApplyContext uopts Background) = ctx_deadline (fold ApplyContext opts Background) \<and>
    fold ApplyRPCAuthOpts uopts a = a \<and> fold ApplyRand uopts r = r \<and> fold ApplyKeyVersionUsed uopts p = p"
proof -
  from assms obtain ds where ds: "uopts = UnpackRPCOptions now (PackRPCOptions opts) @ ds @
      (case last_set set_signer_opts opts of None \<Rightarrow> [] | Some so \<Rightarrow> [RequestCryptoSignerOpts so])"
    "ds = [RequestDigest (fold ApplyDigest opts [])] \<or> ds = [] \<and> fold ApplyDigest opts [] = []"
    by (rule carried_split)
  let ?d = "ctx_deadline (fold ApplyContext opts Background)"
  have u: "UnpackRPCOptions now (PackRPCOptions opts) = (case ?d of None \<Rightarrow> [] | Some d \<Rightarrow> [RequestContext (context_WithDeadline now d)]) @
      [RequestKeyVersion (fold ApplyKeyVersion opts []), RequestRemoteVerification (fold ApplyRemoteVerification opts False)]"
    by (simp add: UnpackRPCOptions_def PackRPCOptions_def Let_def with_defs split: option.splits)
  show ?thesis using ds(2)
    by (auto simp: ds(1) u apply_defs ApplyRPCAuthOpts_def last_set_append set_signer_opts_def context_WithDeadline_def Background_def
        split: option.splits)
qed

section \<open>A concrete protocol, for the witnesses\<close>

definition c_rpc :: "rpc_options codec" where
  "c_rpc = c_map (\<lambda>x. (ro_CtxDeadline x, ro_KeyVersion x, ro_RemoteVerification x))
     (\<lambda>(a, b, c). \<lparr>ro_CtxDeadline = a, ro_KeyVersion = b, ro_RemoteVerification = c\<rparr>)
     (c_pair (c_option c_int) (c_pair (c_option c_string) (c_option c_bool)))"

definition c_sign_options :: "sign_options codec" where
  "c_sign_options = c_map (\<lambda>x. (so_RPCOptions x, mo_Digest (so_MessageOptions x), mo_HashFunc (so_MessageOptions x)))
     (\<lambda>(a, b, c). \<lparr>so_RPCOptions = a, so_MessageOptions = \<lparr>mo_Digest = b, mo_HashFunc = c\<rparr>\<rparr>)
     (c_pair c_rpc (c_pair (c_option c_bytes) (c_option c_nat)))"

definition c_init :: "init_options codec" where
  "c_init = c_map (\<lambda>x. (io_CtxDeadline x, io_ProtocolVersion x, io_KeyResourceID x, io_HashFunc x, io_RPCOptions x))
     (\<lambda>(a, b, c, d, e). \<lparr>io_CtxDeadline = a, io_ProtocolVersion = b, io_KeyResourceID = c, io_HashFunc = d, io_RPCOptions = e\<rparr>)
     (c_pair (c_option c_int) (c_pair c_string (c_pair c_string (c_pair c_nat c_rpc))))"

definition c_create :: "create_key_args codec" where
  "c_create = c_map (\<lambda>x. (ck_CtxDeadline x, ck_Algorithm x)) (\<lambda>(a, b). \<lparr>ck_CtxDeadline = a, ck_Algorithm = b\<rparr>)
     (c_pair (c_option c_int) c_string)"

definition c_verify :: "verify_signature_args codec" where
  "c_verify = c_map (\<lambda>x. (vs_Signature x, vs_VerifyOptions x)) (\<lambda>(a, b). \<lparr>vs_Signature = a, vs_VerifyOptions = b\<rparr>)
     (c_pair c_bytes (c_option c_sign_options))"

definition c_method :: "method_args codec" where
  "c_method = c_map (\<lambda>x. (ma_MethodName x, ma_DefaultAlgorithm x, ma_SupportedAlgorithms x, ma_CreateKey x, ma_PublicKey x,
       ma_SignMessage x, ma_VerifySignature x))
     (\<lambda>(a, b, c, d, e, f, g). \<lparr>ma_MethodName = a, ma_DefaultAlgorithm = b, ma_SupportedAlgorithms = c, ma_CreateKey = d,
       ma_PublicKey = e, ma_SignMessage = f, ma_VerifySignature = g\<rparr>)
     (c_pair c_string (c_pair (c_option c_unit) (c_pair (c_option c_unit) (c_pair (c_option c_create)
       (c_pair (c_option (c_option c_rpc)) (c_pair (c_option (c_option c_sign_options)) (c_option c_verify)))))))"

definition c_args :: "plugin_args codec" where
  "c_args = c_map (\<lambda>x. (pa_InitOptions x, pa_MethodArgs x)) (\<lambda>(a, b). \<lparr>pa_InitOptions = a, pa_MethodArgs = b\<rparr>)
     (c_pair (c_option c_init) (c_option c_method))"

definition c_resp :: "plugin_resp codec" where
  "c_resp = c_map (\<lambda>x. (pr_ErrorMessage x, pr_DefaultAlgorithm x, pr_SupportedAlgorithms x, pr_CreateKey x, pr_PublicKey x,
       pr_SignMessage x, pr_VerifySignature x))
     (\<lambda>(a, b, c, d, e, f, g). \<lparr>pr_ErrorMessage = a, pr_DefaultAlgorithm = b, pr_SupportedAlgorithms = c, pr_CreateKey = d,
       pr_PublicKey = e, pr_SignMessage = f, pr_VerifySignature = g\<rparr>)
     (c_pair c_string (c_pair (c_option c_string) (c_pair (c_option (c_list c_string)) (c_pair (c_option c_bytes)
       (c_pair (c_option c_bytes) (c_pair (c_option c_bytes) (c_option c_unit)))))))"

lemma codec_rpc [simp]: "codec c_rpc"
  unfolding c_rpc_def by (rule codec_map) simp_all

lemma codec_sign_options [simp]: "codec c_sign_options"
  unfolding c_sign_options_def by (rule codec_map) simp_all

lemma codec_parts [simp]: "codec c_init" "codec c_create" "codec c_verify"
  unfolding c_init_def c_create_def c_verify_def by (rule codec_map; simp)+

lemma codec_method [simp]: "codec c_method"
  unfolding c_method_def by (rule codec_map) simp_all

lemma codec_protocol: "codec c_args" "codec c_resp"
  unfolding c_args_def c_resp_def by (rule codec_map; simp)+

definition ref_json :: json_lib where
  "ref_json = \<lparr>json_MarshalArgs = (\<lambda>a. Ret (to_text c_args a)), json_UnmarshalArgs = from_text c_args,
     json_MarshalResp = (\<lambda>r. Ret (bytes_of (to_text c_resp r))), json_UnmarshalResp = (\<lambda>b. from_text c_resp (string_of b)),
     err_Error = (\<lambda>_. ''error'')\<rparr>"

lemma ref_json_laws: "json_laws ref_json"
proof -
  have "\<exists>b r'. json_MarshalResp ref_json r = Ret b \<and> json_UnmarshalResp ref_json b = Ret r' \<and> resp_kept r r'" for r
    by (simp add: ref_json_def from_to_text codec_protocol)
  then show ?thesis
    by (simp add: json_laws_def) (simp add: ref_json_def from_to_text codec_protocol string_of_def from_text_empty)
qed

definition ref_plugin_key :: private_key where
  "ref_plugin_key = Ed25519_private (Some (replicate 64 7))"

definition ref_plugin_sv :: any_signer_verifier where
  "ref_plugin_sv = Ed25519_sv \<lparr>dsv_signer = \<lparr>ds_priv = Some (replicate 64 7)\<rparr>, dsv_verifier = \<lparr>dv_publicKey = Some (replicate 32 7)\<rparr>\<rparr>"

type_synonym ref_plugin_state = "(unit, (unit, unit) kms_state) kms_state"

definition ref_plugin_client :: "ref_plugin_state PluginClient" where
  "ref_plugin_client = newPluginClient ''sigstore-kms-x''
     \<lparr>io_CtxDeadline = None, io_ProtocolVersion = ProtocolVersion, io_KeyResourceID = ''k'', io_HashFunc = SHA256, io_RPCOptions = PackRPCOptions []\<rparr>
     (makeCmd (plugin_exec ref_json ref_pki (\<lambda>_. fake_impl ref_lib \<lparr>fake_signer = ref_plugin_sv\<rparr>)))"

definition ref_plugin_state :: "bytes \<Rightarrow> ref_plugin_state" where
  "ref_plugin_state sg = \<lparr>kms_world = two_readers sg [5], kms_clock = 0, kms_cache = (),
     kms_remote = \<lparr>kms_world = two_readers [] [], kms_clock = 0, kms_cache = (), kms_remote = ()\<rparr>\<rparr>"

lemma plain_no_options: "plain_rpc (PackRPCOptions [])"
  by (simp add: plain_rpc_def PackRPCOptions_def Background_def ascii_def)

lemma ref_plugin_client: "plugin_client ref_json ref_pki (\<lambda>_. fake_impl ref_lib \<lparr>fake_signer = ref_plugin_sv\<rparr>) ref_plugin_client"
  by (simp add: plugin_client_def ref_plugin_client_def newPluginClient_def plain_init_def plain_no_options ProtocolVersion_def ascii_def)

lemma no_ctx: "ctx_err (fold ApplyContext [] Background) = None"
  by (simp add: Background_def)

lemma ref_plugin_delivers: "delivers (kms_world (ref_plugin_state sg)) (Some 0) sg" "delivers (kms_world (ref_plugin_state sg)) (Some 1) [5]"
  by (simp_all add: ref_plugin_state_def)

lemma ref_plugin_load: "LoadSignerVerifierWithOpts ref_plugin_key [] = Ret ref_plugin_sv"
  by (simp add: ref_plugin_key_def ref_plugin_sv_def LoadSignerVerifierWithOpts_def load_options_def with_defs apply_defs load_defs ed25519_Public_64)

lemma ref_plugin_sign: "fst (pc_SignMessage ref_json ref_plugin_client (Some 1) [] (ref_plugin_state sg0)) = Ret [3, 5]"
proof -
  have i: "fst (impl_SignMessage (fake_impl ref_lib \<lparr>fake_signer = ref_plugin_sv\<rparr>) (Some 0) uo (process_start (Stream [5] None) p)) = Ret [3, 5]"
    for uo and p :: "(unit, unit) kms_state"
  proof -
    have d: "delivers (kms_world (process_start (Stream [5] None) p)) (Some 0) [5]" by (simp add: delivers_def process_start_def)
    have "ed25519_Sign ref_lib k m = 3 # m" for k m by (simp add: ref_lib_def)
    with ComputeDigest_plain [OF d, of NoHash "Some ed25519SupportedHashFuncs" ref_lib] show ?thesis
      by (simp add: fake_impl_def fst_on_world fake_SignMessage_def ref_plugin_sv_def sv_signer_def SignMessage_def
          ED25519Signer_SignMessage_def ed25519SupportedHashFuncs_def go_then_step call_ed25519_Sign_def key_bytes_def)
  qed
  from plugin_sign_answer [OF ref_json_laws ref_plugin_client plain_no_options no_ctx ref_plugin_delivers(2), of sg0] i
  show ?thesis by (elim exE conjE) (erule plugin_answer_Ret(2))
qed

theorem plugin_refines_implementation_witness:
  "fst (pc_PublicKey ref_json ref_pki ref_plugin_client [] (ref_plugin_state [1])) = Ret (Ed25519_public (Some (replicate 32 7)))"
proof -
  let ?impl = "fake_impl ref_lib \<lparr>fake_signer = ref_plugin_sv\<rparr>"
  have c: "ctx_err Background = None" "ascii ''x''" "pred_option plain_time (ctx_deadline Background)" "Some 0 \<noteq> (Some 1 :: io_reader)"
    by (simp_all add: Background_def ascii_def)
  have k: "fst (encodable_key ref_pki (impl_PublicKey ?impl uo) p) = Ret (Ed25519_public (Some (replicate 32 7)))" for uo p
    by (simp add: encodable_key_def fake_impl_def fake_PublicKey_def ref_plugin_sv_def on_world_def go_then_def SV_PublicKey_def
        ED25519SignerVerifier_PublicKey_def MarshalPublicKeyToPEM_def MarshalPublicKeyToDER_def ref_pki_simps)
  note a = plugin_refines_implementation [OF ref_json_laws ref_pki_pem_laws ref_pki_der_laws ref_plugin_client plain_no_options no_ctx
      ref_plugin_delivers(2,1) c(4,1,2,3) refl refl refl, of "[1]"]
  show ?thesis by (rule plugin_answer_Ret(2) [OF a [THEN conjunct2, THEN conjunct2, THEN conjunct2, THEN conjunct1] k])
qed

lemma plugin_roundtrip_witness:
  "fst (pc_VerifySignature ref_json ref_plugin_client (Some 0) (Some 1) [] (ref_plugin_state [3, 5])) = Ret ()"
proof -
  have h: "hashes_linked ref_lib" "good_private ref_lib ref_plugin_key" "Some 0 \<noteq> (Some 1 :: io_reader)"
    by (simp_all add: hashes_linked_def ref_lib_def good_private_def ed25519_pair_def ref_plugin_key_def)
  show ?thesis
    by (rule plugin_roundtrip [OF ref_lib_laws h(1,2) ref_plugin_load ref_json_laws ref_plugin_client plain_no_options plain_no_options
          no_ctx no_ctx ref_plugin_delivers(2) ref_plugin_sign ref_plugin_delivers(2,1) h(3) same_msg_options_refl])
qed

lemma plugin_options_witness:
  "fold ApplyKeyVersion (UnpackSignOptions 0 (PackSignOptions [])) ''3'' = []"
proof -
  have "carried 0 [] (UnpackSignOptions 0 (PackSignOptions []))" by (auto simp: carried_def)
  from plugin_options [OF this, of "''3''"] show ?thesis by simp
qed

end
