(* ===== verification/LocalKms.thy ===== *)
theory LocalKms
  imports PluginHandler
begin

text \<open>
  \<open>test/cliplugin/localkms/implementation.go\<close>: the implementation the repository's own plugin wraps, an RSA
  key in a file.  The state of the plugin's process is extended by the files it sees; a fault is the error
  number of a failing system call, and a failed write may leave anything behind.
\<close>

section \<open>Files\<close>

record local_files =
  lf_files :: "string \<rightharpoonup> bytes"
  lf_stat_fault :: "string \<rightharpoonup> nat"
  lf_read_fault :: "string \<rightharpoonup> nat"
  lf_write_fault :: "string \<rightharpoonup> nat \<times> bytes option"

definition ErrNotExist :: goerr where "ErrNotExist = Msg ''file does not exist''"

definition local_Stat :: "string \<Rightarrow> (local_files, unit) step" where
  "local_Stat path f = (case lf_stat_fault f path of
       Some n \<Rightarrow> (Err (StatusError n), f)
     | None \<Rightarrow> (if lf_files f path = None then Err ErrNotExist else Ret (), f))"

definition local_ReadFile :: "string \<Rightarrow> (local_files, bytes) step" where
  "local_ReadFile path f = (case lf_read_fault f path of
       Some n \<Rightarrow> (Err (StatusError n), f)
     | None \<Rightarrow> (case lf_files f path of None \<Rightarrow> (Err ErrNotExist, f) | Some b \<Rightarrow> (Ret b, f)))"

definition local_WriteFile :: "string \<Rightarrow> bytes \<Rightarrow> (local_files, unit) step" where
  "local_WriteFile path b f = (case lf_write_fault f path of
       Some (n, left) \<Rightarrow> (Err (StatusError n), f\<lparr>lf_files := (lf_files f)(path := left)\<rparr>)
     | None \<Rightarrow> (Ret (), f\<lparr>lf_files := (lf_files f)(path \<mapsto> b)\<rparr>))"

section \<open>The implementation\<close>

definition defaultAlgorithm :: string where "defaultAlgorithm = ''rsa-2048''"
definition local_supportedAlgorithms :: "string list" where "local_supportedAlgorithms = [defaultAlgorithm]"

record LocalSignerVerifier =
  ls_keyResourceID :: string
  ls_hashFunc :: hash

definition local_DefaultAlgorithm :: string where "local_DefaultAlgorithm = defaultAlgorithm"
definition local_SupportedAlgorithms :: "string list" where "local_SupportedAlgorithms = local_supportedAlgorithms"

definition loadRSAPrivateKey :: "pki \<Rightarrow> string \<Rightarrow> (local_files, rsa_priv option) step" where
  "loadRSAPrivateKey P path =
     go_then (local_ReadFile path) (\<lambda>privateKeyBytes.
     go_then (go_lift (UnmarshalPEMToPrivateKey P privateKeyBytes None)) (\<lambda>priv.
     case priv of Rsa_private k \<Rightarrow> go_ret k | _ \<Rightarrow> go_err (Msg ''only RSA keys are supported'')))"

text \<open>\<open>&privateKey.PublicKey\<close>\<close>

definition local_public :: "rsa_priv option \<Rightarrow> public_key outcome" where
  "local_public k = (case k of None \<Rightarrow> Panic ''nil pointer dereference'' | Some k \<Rightarrow> Ret (Rsa_public (Some (rsa_PublicKey k))))"

text \<open>What \<open>CreateKey\<close> does when there is no file: the block is encoded twice.  \<open>M\<close> is \<open>x509.MarshalPKCS1PrivateKey\<close>.\<close>

definition generate_key :: "crypto_lib \<Rightarrow> pki \<Rightarrow> (rsa_priv \<Rightarrow> bytes) \<Rightarrow> string \<Rightarrow> (local_files, public_key) step" where
  "generate_key L P M path =
     go_then (go_wrap ''error generating private key'' (go_lift (rsa_GenerateKey L CryptoRand 2048))) (\<lambda>privateKey.
     let privateKeyPEM = \<lparr>pem_Type = ''RSA PRIVATE KEY'', pem_Bytes = M privateKey\<rparr>
     in go_then (go_wrap ''error creating private key file''
          (local_WriteFile path (pem_EncodeToMemory P privateKeyPEM @ pem_EncodeToMemory P privateKeyPEM))) (\<lambda>_.
        go_ret (Rsa_public (Some (rsa_PublicKey privateKey)))))"

definition create_key :: "crypto_lib \<Rightarrow> pki \<Rightarrow> (rsa_priv \<Rightarrow> bytes) \<Rightarrow> string \<Rightarrow> (local_files, public_key) step" where
  "create_key L P M path f = (case local_Stat path f of
       (Ret _, f') \<Rightarrow> go_then (loadRSAPrivateKey P path) (\<lambda>privateKey. go_lift (local_public privateKey)) f'
     | (Err e, f') \<Rightarrow> (if \<not> errors_Is e ErrNotExist then (Err e, f') else generate_key L P M path f')
     | (Panic p, f') \<Rightarrow> (Panic p, f'))"

definition local_CreateKey ::
  "crypto_lib \<Rightarrow> pki \<Rightarrow> (rsa_priv \<Rightarrow> bytes) \<Rightarrow> LocalSignerVerifier \<Rightarrow> go_context \<Rightarrow> string \<Rightarrow> (('k, local_files) kms_state, public_key) step" where
  "local_CreateKey L P M i ctx algorithm = (case ctx_err ctx of
       Some e \<Rightarrow> go_err e
     | None \<Rightarrow> if algorithm \<notin> set local_SupportedAlgorithms then go_err (Msg ''algorithm not supported'')
       else on_remote (create_key L P M (ls_keyResourceID i)))"

definition local_PublicKey ::
  "pki \<Rightarrow> LocalSignerVerifier \<Rightarrow> sig_option list \<Rightarrow> (('k, local_files) kms_state, public_key) step" where
  "local_PublicKey P i opts = (case ctx_err (fold ApplyContext opts Background) of
       Some e \<Rightarrow> go_err e
     | None \<Rightarrow> go_then (on_remote (loadRSAPrivateKey P (ls_keyResourceID i))) (\<lambda>privateKey. go_lift (local_public privateKey)))"

definition computeDigest :: "crypto_lib \<Rightarrow> io_reader \<Rightarrow> hash \<Rightarrow> bytes go" where
  "computeDigest L message hashFunc =
     (if \<not> hash_linked L hashFunc then go_panic ''crypto: requested hash function is unavailable''
      else go_then (ReadAll message) (\<lambda>b. go_ret (hash_sum L hashFunc b)))"

text \<open>The digest of the options, or that of the message.\<close>

definition local_digest :: "crypto_lib \<Rightarrow> LocalSignerVerifier \<Rightarrow> io_reader \<Rightarrow> sig_option list \<Rightarrow> (bytes \<times> hash) go" where
  "local_digest L i message opts = (case msg_options (ls_hashFunc i) opts of (digest, signerOpts) \<Rightarrow>
     if length digest = 0 then go_then (computeDigest L message (HashFunc signerOpts)) (\<lambda>d. go_ret (d, HashFunc signerOpts))
     else go_ret (digest, HashFunc signerOpts))"

definition local_SignMessage ::
  "crypto_lib \<Rightarrow> pki \<Rightarrow> LocalSignerVerifier \<Rightarrow> io_reader \<Rightarrow> sig_option list \<Rightarrow> (('k, local_files) kms_state, bytes) step" where
  "local_SignMessage L P i message opts = (case ctx_err (fold ApplyContext opts Background) of
       Some e \<Rightarrow> go_err e
     | None \<Rightarrow>
         go_then (on_remote (loadRSAPrivateKey P (ls_keyResourceID i))) (\<lambda>privateKey.
         go_then (on_world (local_digest L i message opts)) (\<lambda>(digest, h).
         case privateKey of None \<Rightarrow> go_panic ''nil pointer dereference''
         | Some k \<Rightarrow> go_lift (wrap_outcome ''error signing data'' (rsa_SignPKCS1v15 L CryptoRand k h digest)))))"

definition local_VerifySignature ::
  "crypto_lib \<Rightarrow> pki \<Rightarrow> LocalSignerVerifier \<Rightarrow> io_reader \<Rightarrow> io_reader \<Rightarrow> sig_option list \<Rightarrow> (('k, local_files) kms_state, unit) step" where
  "local_VerifySignature L P i signature message opts = (case ctx_err (fold ApplyContext opts Background) of
       Some e \<Rightarrow> go_err e
     | None \<Rightarrow>
         go_then (on_remote (loadRSAPrivateKey P (ls_keyResourceID i))) (\<lambda>privateKey.
         case privateKey of None \<Rightarrow> go_panic ''nil pointer dereference''
         | Some k \<Rightarrow>
             go_then (on_world (local_digest L i message opts)) (\<lambda>(digest, h).
             go_then (go_wrap ''error reading signature'' (on_world (ReadAll signature))) (\<lambda>sig.
             go_lift (wrap_outcome ''error verifying signature'' (rsa_VerifyPKCS1v15 L (rsa_PublicKey k) h digest sig))))))"

definition local_CryptoSigner :: "LocalSignerVerifier \<Rightarrow> go_context \<Rightarrow> (('k, local_files) kms_state, unit) step" where
  "local_CryptoSigner i ctx = go_panic ''CryptoSigner() not implemented''"

text \<open>What \<open>main\<close> wraps.\<close>

definition local_new :: "crypto_lib \<Rightarrow> pki \<Rightarrow> (rsa_priv \<Rightarrow> bytes) \<Rightarrow> init_options \<Rightarrow> ('k, local_files) kms_state sv_impl" where
  "local_new L P M io =
     (let signerVerifier = \<lparr>ls_keyResourceID = io_KeyResourceID io, ls_hashFunc = io_HashFunc io\<rparr>
      in \<lparr>impl_DefaultAlgorithm = local_DefaultAlgorithm, impl_SupportedAlgorithms = local_SupportedAlgorithms,
          impl_CreateKey = local_CreateKey L P M signerVerifier, impl_PublicKey = local_PublicKey P signerVerifier,
          impl_SignMessage = local_SignMessage L P signerVerifier, impl_VerifySignature = local_VerifySignature L P signerVerifier\<rparr>)"

section \<open>The key of a file\<close>

definition holds_key :: "pki \<Rightarrow> string \<Rightarrow> rsa_priv \<Rightarrow> local_files \<Rightarrow> bool" where
  "holds_key P path k f \<longleftrightarrow> (\<exists>b. lf_files f path = Some b \<and> UnmarshalPEMToPrivateKey P b None = Ret (Rsa_private (Some k)))"

text \<open>A block of an RSA key is found at the start of any input, and its contents are parsed to the key.\<close>

definition pkcs1_laws :: "pki \<Rightarrow> (rsa_priv \<Rightarrow> bytes) \<Rightarrow> bool" where
  "pkcs1_laws P M \<longleftrightarrow>
     (\<forall>b rest. pem_Decode P (pem_EncodeToMemory P \<lparr>pem_Type = PKCS1PrivateKeyPEMType, pem_Bytes = b\<rparr> @ rest) =
        Some (\<lparr>pem_Type = PKCS1PrivateKeyPEMType, pem_Bytes = b\<rparr>, rest)) \<and>
     (\<forall>k. ParsePKCS1PrivateKey P (M k) = Ret (Rsa_private (Some k)))"

lemma load_holds:
  assumes "holds_key P path k f" "loadRSAPrivateKey P path f = (Ret k', f')"
  shows "k' = Some k \<and> f' = f"
proof -
  from assms(1) obtain b where b: "lf_files f path = Some b" "UnmarshalPEMToPrivateKey P b None = Ret (Rsa_private (Some k))"
    by (auto simp: holds_key_def)
  from assms(2) obtain b' f1 where r: "local_ReadFile path f = (Ret b', f1)" "go_then (go_lift (UnmarshalPEMToPrivateKey P b' None))
      (\<lambda>priv. case priv of Rsa_private k \<Rightarrow> go_ret k | _ \<Rightarrow> go_err (Msg ''only RSA keys are supported'')) f1 = (Ret k', f')"
    unfolding loadRSAPrivateKey_def by (rule go_then_RetE)
  from r(1) b(1) have "b' = b" "f1 = f" by (auto simp: local_ReadFile_def split: option.splits)
  with r(2) b(2) show ?thesis by simp
qed

lemma load_Ret:
  assumes "loadRSAPrivateKey P path f = (Ret k, f')"
  shows "\<exists>b. lf_files f path = Some b \<and> UnmarshalPEMToPrivateKey P b None = Ret (Rsa_private k)"
proof -
  from assms obtain b f1 priv where r: "local_ReadFile path f = (Ret b, f1)" "UnmarshalPEMToPrivateKey P b None = Ret priv"
    "(case priv of Rsa_private k \<Rightarrow> go_ret k | _ \<Rightarrow> go_err (Msg ''only RSA keys are supported'')) f1 = (Ret k, f')"
    by (auto simp: loadRSAPrivateKey_def go_then_Ret_iff)
  then show ?thesis by (cases priv) (auto simp: local_ReadFile_def split: option.splits)
qed

lemma load_runs: "holds_key P path k f \<Longrightarrow> lf_read_fault f path = None \<Longrightarrow> loadRSAPrivateKey P path f = (Ret (Some k), f)"
  by (auto simp: holds_key_def loadRSAPrivateKey_def local_ReadFile_def go_then_def)

lemma load_state: "snd (loadRSAPrivateKey P path f) = f"
proof -
  have r: "snd (local_ReadFile path f) = f" by (simp add: local_ReadFile_def split: option.splits)
  show ?thesis
  proof (cases "local_ReadFile path f")
    case (Pair x f')
    then show ?thesis using r
      by (cases x) (auto simp: loadRSAPrivateKey_def go_then_def split: outcome.splits private_key.splits)
  qed
qed

text \<open>Nothing writes to a file that is there.\<close>

definition files_kept :: "local_files \<Rightarrow> local_files \<Rightarrow> bool" where
  "files_kept f f' \<longleftrightarrow> lf_files f \<subseteq>\<^sub>m lf_files f'"

lemma files_kept_refl: "reflp files_kept"
  by (simp add: reflpI files_kept_def)

lemma files_kept_trans: "transp files_kept"
  by (rule transpI) (auto simp: files_kept_def intro: map_le_trans)

lemma holds_kept: "holds_key P path k f \<Longrightarrow> files_kept f f' \<Longrightarrow> holds_key P path k f'"
  unfolding holds_key_def files_kept_def map_le_def by (metis domI)

lemma write_new: "lf_files f path = None \<Longrightarrow> local_WriteFile path b f = (x, f') \<Longrightarrow> files_kept f f'"
  by (auto simp: local_WriteFile_def files_kept_def map_le_def split: option.splits)

lemma stays_load: "stays files_kept (loadRSAPrivateKey P path)"
  by (simp add: stays_def load_state files_kept_def)

lemma generate_kept: "lf_files f path = None \<Longrightarrow> files_kept f (snd (generate_key L P M path f))"
  by (cases "rsa_GenerateKey L CryptoRand 2048")
    (auto simp: generate_key_def go_then_def go_wrap_def Let_def files_kept_def [of f f] dest: write_new split: prod.splits outcome.splits)

lemma stays_create: "stays files_kept (create_key L P M path)"
proof -
  have l: "files_kept f (snd (go_then (loadRSAPrivateKey P path) (\<lambda>k. go_lift (local_public k)) f))" for f
  proof -
    have "stays files_kept (go_then (loadRSAPrivateKey P path) (\<lambda>k. go_lift (local_public k)))"
      by (intro stays_then files_kept_trans stays_load stays_lift files_kept_refl)
    then show ?thesis by (simp add: stays_def)
  qed
  have "files_kept f (snd (create_key L P M path f))" for f
  proof (cases "lf_stat_fault f path")
    case None
    with l generate_kept show ?thesis by (simp add: create_key_def local_Stat_def ErrNotExist_def)
  qed (simp add: create_key_def local_Stat_def ErrNotExist_def files_kept_def)
  then show ?thesis by (simp add: stays_def)
qed

section \<open>Runs of the implementation\<close>

definition kept :: "('k, local_files) kms_state \<Rightarrow> ('k, local_files) kms_state \<Rightarrow> bool" where
  "kept s s' \<longleftrightarrow> files_kept (kms_remote s) (kms_remote s')"

lemma kept_refl: "reflp kept"
  using files_kept_refl by (simp add: reflp_def kept_def)

lemma kept_trans: "transp kept"
  using files_kept_trans unfolding transp_def kept_def by blast

lemma stays_remote: "stays files_kept m \<Longrightarrow> stays kept (on_remote m)"
  by (auto simp: stays_def kept_def on_remote_def split: prod.splits) (metis snd_conv)

lemma stays_world: "stays kept (on_world m)"
  by (auto simp: stays_def kept_def on_world_def files_kept_def split: prod.splits)

lemmas stays_kept = stays_then [OF kept_trans] stays_wrap stays_lift [OF kept_refl] stays_remote stays_world stays_load stays_create

lemma stays_local:
  "stays kept (local_CreateKey L P M i ctx algorithm)" "stays kept (local_PublicKey P i opts)"
  "stays kept (local_SignMessage L P i message opts)" "stays kept (local_VerifySignature L P i signature message opts)"
  unfolding local_CreateKey_def local_PublicKey_def local_SignMessage_def local_VerifySignature_def
  by (auto intro!: stays_kept split: option.splits prod.splits)

text \<open>Calls on implementations for any keys, and whatever else happens that leaves the files alone.\<close>

inductive local_step :: "crypto_lib \<Rightarrow> pki \<Rightarrow> (rsa_priv \<Rightarrow> bytes) \<Rightarrow> ('k, local_files) kms_state \<Rightarrow> ('k, local_files) kms_state \<Rightarrow> bool"
  for L P M where
  step_create: "local_CreateKey L P M i ctx algorithm s = (x, s') \<Longrightarrow> local_step L P M s s'"
| step_public: "local_PublicKey P i opts s = (x, s') \<Longrightarrow> local_step L P M s s'"
| step_sign: "local_SignMessage L P i message opts s = (x, s') \<Longrightarrow> local_step L P M s s'"
| step_verify: "local_VerifySignature L P i signature message opts s = (x, s') \<Longrightarrow> local_step L P M s s'"
| step_other: "lf_files (kms_remote s') = lf_files (kms_remote s) \<Longrightarrow> local_step L P M s s'"

lemma same_files_kept: "lf_files (kms_remote s') = lf_files (kms_remote s) \<Longrightarrow> kept s s'"
  by (simp add: kept_def files_kept_def)

lemma local_step_kept: "local_step L P M s s' \<Longrightarrow> kept s s'"
  by (induction rule: local_step.induct) (auto intro: staysD [OF stays_local(1)] staysD [OF stays_local(2)] staysD [OF stays_local(3)]
      staysD [OF stays_local(4)] same_files_kept)

lemma local_run_kept: "(local_step L P M)\<^sup>*\<^sup>* s s' \<Longrightarrow> kept s s'"
proof (induction rule: rtranclp_induct)
  case base
  then show ?case using kept_refl by (rule reflpD)
next
  case (step y z)
  from step.IH local_step_kept [OF step.hyps(2)] show ?case by (rule transpD [OF kept_trans])
qed

lemma public_of_held:
  assumes "holds_key P (ls_keyResourceID i) k (kms_remote s)"
  shows "fst (local_PublicKey P i opts s) = Ret pub \<Longrightarrow> pub = Rsa_public (Some (rsa_PublicKey k))"
    and "fst (local_CreateKey L P M i ctx algorithm s) = Ret pub \<Longrightarrow> pub = Rsa_public (Some (rsa_PublicKey k))"
proof -
  have l: "pub = Rsa_public (Some (rsa_PublicKey k))"
    if "fst (go_then (loadRSAPrivateKey P (ls_keyResourceID i)) (\<lambda>k. go_lift (local_public k)) (kms_remote s)) = Ret pub" for pub
    using that load_holds [OF assms] by (auto simp: go_then_def local_public_def split: prod.splits outcome.splits)
  show "pub = Rsa_public (Some (rsa_PublicKey k))" if "fst (local_PublicKey P i opts s) = Ret pub"
    using that load_holds [OF assms]
    by (auto simp: local_PublicKey_def go_then_def on_remote_def local_public_def split: option.splits prod.splits outcome.splits)
  show "pub = Rsa_public (Some (rsa_PublicKey k))" if "fst (local_CreateKey L P M i ctx algorithm s) = Ret pub"
  proof -
    from that have "fst (create_key L P M (ls_keyResourceID i) (kms_remote s)) = Ret pub"
      by (auto simp: local_CreateKey_def on_remote_def split: option.splits if_splits prod.splits)
    moreover from assms have "lf_files (kms_remote s) (ls_keyResourceID i) \<noteq> None" by (auto simp: holds_key_def)
    ultimately show ?thesis using l by (auto simp: create_key_def local_Stat_def ErrNotExist_def split: option.splits)
  qed
qed

section \<open>Signing and verifying\<close>

lemma local_digest_same: "same_msg_options uo uo' \<Longrightarrow> local_digest L i message uo = local_digest L i message uo'"
  by (simp add: local_digest_def same_msg_options_def)

lemma local_digest_drained:
  assumes "local_digest L i message opts w = (Ret d, w1)" "delivers w message m" "delivers w' message m"
  shows "\<exists>w2. local_digest L i message opts w' = (Ret d, w2) \<and> (\<forall>r b. r \<noteq> message \<longrightarrow> delivers w2 r b = delivers w' r b)"
  using assms(1)
  by (auto simp: local_digest_def computeDigest_def ReadAll_delivers [OF assms(2)] ReadAll_delivers [OF assms(3)] go_then_def
      split: prod.splits if_splits)

lemma local_accepts:
  assumes "lib_laws L" "holds_key P (ls_keyResourceID i) k (kms_remote s)" "holds_key P (ls_keyResourceID i) k (kms_remote s')"
    and "lf_read_fault (kms_remote s') (ls_keyResourceID i) = None" "ctx_err (fold ApplyContext uo' Background) = None"
    and "fst (local_SignMessage L P i message uo s) = Ret sg" "same_msg_options uo uo'"
    and "delivers (kms_world s) message m" "delivers (kms_world s') message m" "delivers (kms_world s') signature sg" "signature \<noteq> message"
  shows "fst (local_VerifySignature L P i signature message uo' s') = Ret ()"
proof -
  obtain s1 where "local_SignMessage L P i message uo s = (Ret sg, s1)" using assms(6) by (metis prod.collapse)
  then obtain k' d h w1 s2 where l: "on_remote (loadRSAPrivateKey P (ls_keyResourceID i)) s = (Ret (Some k'), s2)"
    and d: "local_digest L i message uo (kms_world s2) = (Ret (d, h), w1)"
    and sg: "rsa_SignPKCS1v15 L CryptoRand k' h d = Ret sg"
    by (auto simp: local_SignMessage_def go_then_Ret_iff on_world_Ret split: option.splits)
  from l load_holds [OF assms(2)] have k': "k' = k" "s2 = s" by (auto simp: on_remote_Ret)
  from local_digest_drained [OF d [unfolded k'] assms(8,9)] obtain w2 where w2: "local_digest L i message uo' (kms_world s') = (Ret (d, h), w2)"
    "\<forall>r b. r \<noteq> message \<longrightarrow> delivers w2 r b = delivers (kms_world s') r b"
    unfolding local_digest_same [OF assms(7)] by blast
  have "delivers w2 signature sg" using w2(2) assms(10,11) by simp
  moreover have "rsa_VerifyPKCS1v15 L (rsa_PublicKey k) h d sg = Ret ()"
    using assms(1) sg k'(1) by (auto simp: lib_laws_def rsa_laws_def)
  moreover have "on_remote (loadRSAPrivateKey P (ls_keyResourceID i)) s' = (Ret (Some k), s')"
    by (simp add: on_remote_def load_runs [OF assms(3,4)])
  ultimately show ?thesis
    by (simp add: local_VerifySignature_def assms(5) go_then_def on_world_def w2(1) go_wrap_def ReadAll_delivers)
qed

lemma create_holds:
  assumes "pkcs1_laws P M" "local_CreateKey L P M i ctx algorithm s = (Ret pub, s')"
  shows "\<exists>k. holds_key P (ls_keyResourceID i) k (kms_remote s') \<and> pub = Rsa_public (Some (rsa_PublicKey k))"
proof -
  let ?path = "ls_keyResourceID i" let ?f = "kms_remote s"
  from assms(2) obtain f' where c: "create_key L P M ?path ?f = (Ret pub, f')" "kms_remote s' = f'"
    by (auto simp: local_CreateKey_def on_remote_Ret split: option.splits if_splits)
  then have st: "lf_stat_fault ?f ?path = None"
    by (auto simp: create_key_def local_Stat_def ErrNotExist_def split: option.splits)
  show ?thesis
  proof (cases "lf_files ?f ?path")
    case (Some b)
    with c st have "go_then (loadRSAPrivateKey P ?path) (\<lambda>k. go_lift (local_public k)) ?f = (Ret pub, f')"
      by (simp add: create_key_def local_Stat_def)
    then obtain k f1 where k: "loadRSAPrivateKey P ?path ?f = (Ret k, f1)" "local_public k = Ret pub" "f1 = f'"
      by (auto simp: go_then_Ret_iff)
    from k(1) load_state [of P ?path ?f] have "f1 = ?f" by simp
    moreover from k(1) Some have "UnmarshalPEMToPrivateKey P b None = Ret (Rsa_private k)"
      by (auto dest: load_Ret)
    ultimately show ?thesis using k Some c(2) by (auto simp: holds_key_def local_public_def split: option.splits)
  next
    case None
    with c st have "generate_key L P M ?path ?f = (Ret pub, f')" by (simp add: create_key_def local_Stat_def ErrNotExist_def)
    then obtain k where k: "pub = Rsa_public (Some (rsa_PublicKey k))"
      "local_WriteFile ?path (pem_EncodeToMemory P \<lparr>pem_Type = ''RSA PRIVATE KEY'', pem_Bytes = M k\<rparr> @
        pem_EncodeToMemory P \<lparr>pem_Type = ''RSA PRIVATE KEY'', pem_Bytes = M k\<rparr>) ?f = (Ret (), f')"
      by (auto simp: generate_key_def go_then_Ret_iff Let_def)
    then have "lf_files f' ?path = Some (pem_EncodeToMemory P \<lparr>pem_Type = ''RSA PRIVATE KEY'', pem_Bytes = M k\<rparr> @
        pem_EncodeToMemory P \<lparr>pem_Type = ''RSA PRIVATE KEY'', pem_Bytes = M k\<rparr>)"
      by (auto simp: local_WriteFile_def split: option.splits)
    with assms(1) have "holds_key P ?path k f'"
      by (simp add: holds_key_def pkcs1_laws_def UnmarshalPEMToPrivateKey_def pem_type_defs)
    with k(1) c(2) show ?thesis by blast
  qed
qed

section \<open>Through a plugin\<close>

lemma local_impl_accepts:
  assumes "lib_laws L" "ctx_err (fold ApplyContext uo' Background) = None" "lf_read_fault (kms_remote p') (io_KeyResourceID io) = None"
    and "holds_key P (io_KeyResourceID io) k (kms_remote p)" "holds_key P (io_KeyResourceID io) k (kms_remote p')"
    and "fst (impl_SignMessage (local_new L P M io) (Some 0) uo (process_start (Stream m None) p)) = Ret sg" "same_msg_options uo uo'"
  shows "fst (go_then (on_world (NewReader sg)) (\<lambda>r. impl_VerifySignature (local_new L P M io) r (Some 0) uo')
    (process_start (Stream m None) p')) = Ret ()"
proof -
  define w2 where "w2 = snd (NewReader sg (kms_world (process_start (Stream m None) p')))"
  let ?s' = "(process_start (Stream m None) p')\<lparr>kms_world := w2\<rparr>"
  let ?i = "\<lparr>ls_keyResourceID = io_KeyResourceID io, ls_hashFunc = io_HashFunc io\<rparr>"
  have n: "on_world (NewReader sg) (process_start (Stream m None) p') = (Ret (Some 1), ?s')"
    by (simp add: on_world_def w2_def NewReader_def process_start_def)
  have d: "delivers (kms_world (process_start (Stream m None) p)) (Some 0) m" "delivers w2 (Some 0) m" "delivers w2 (Some 1) sg"
    by (auto simp: delivers_def w2_def NewReader_def process_start_def)
  have "fst (local_VerifySignature L P ?i (Some 1) (Some 0) uo' ?s') = Ret ()"
    by (rule local_accepts [where k = k and s = "process_start (Stream m None) p" and uo = uo and sg = sg and m = m, OF assms(1)])
      (use assms(2-7) d in \<open>simp_all add: process_start_def local_new_def Let_def\<close>)
  then show ?thesis by (simp add: go_then_step n local_new_def Let_def)
qed

interpretation local_plugin: plugin_scheme "\<lambda>(L, P, M) io. local_new L P M io"
  "\<lambda>(L, P, M) io ctx p p'. lib_laws L \<and> ctx_err ctx = None \<and> lf_read_fault (kms_remote p') (io_KeyResourceID io) = None \<and>
     (\<exists>k. holds_key P (io_KeyResourceID io) k (kms_remote p) \<and> holds_key P (io_KeyResourceID io) k (kms_remote p'))"
  by unfold_locales (auto intro: local_impl_accepts)

section \<open>Properties\<close>

text \<open>C13: a key that \<open>CreateKey\<close> has returned stays the key of its path.  Whatever calls follow, for this path and
  others, with files that cannot be read or written for a while, no existing file changes, and the public
  key is reported again by \<open>PublicKey\<close> and by every further \<open>CreateKey\<close> that succeeds.\<close>

theorem local_key_kept:
  assumes "pkcs1_laws P M" "local_CreateKey L P M i ctx algorithm s = (Ret pub, s1)" "(local_step L P M)\<^sup>*\<^sup>* s1 s2"
  shows "lf_files (kms_remote s1) \<subseteq>\<^sub>m lf_files (kms_remote s2) \<and>
    (fst (local_PublicKey P i opts s2) = Ret pub2 \<longrightarrow> pub2 = pub) \<and>
    (fst (local_CreateKey L P M i ctx2 algorithm2 s2) = Ret pub3 \<longrightarrow> pub3 = pub)"
proof -
  from create_holds [OF assms(1,2)] obtain k where k: "holds_key P (ls_keyResourceID i) k (kms_remote s1)" "pub = Rsa_public (Some (rsa_PublicKey k))"
    by blast
  from local_run_kept [OF assms(3)] have f: "files_kept (kms_remote s1) (kms_remote s2)" by (simp add: kept_def)
  from public_of_held [OF holds_kept [OF k(1) f]] k(2) f show ?thesis by (auto simp: files_kept_def)
qed

text \<open>C4: a key is created through the plugin of the repository, a message is signed through it and the
  signature verified, each call in a process of its own with other calls in between: the signature is accepted
  when both calls are given the same digest and hash options, the deadline of the verification has not
  passed and the key file can be read.\<close>

theorem local_plugin_lifecycle:
  assumes "lib_laws L" "pkcs1_laws P M" "json_laws J" "plugin_client J P (local_new L P M) c"
    and "ctx_err ctx = None" "ascii algorithm" "pred_option plain_time (ctx_deadline ctx)" "pc_CreateKey J P c ctx algorithm s = (Ret pub, s1)"
    and "(local_step L P M)\<^sup>*\<^sup>* (kms_remote s1) (kms_remote s2)" "(local_step L P M)\<^sup>*\<^sup>* (kms_remote s2) (kms_remote s3)"
    and "plain_rpc (PackRPCOptions sopts)" "plain_rpc (PackRPCOptions vopts)"
    and "ctx_err (fold ApplyContext sopts Background) = None" "ctx_err (fold ApplyContext vopts Background) = None"
    and "delivers (kms_world s2) r m" "fst (pc_SignMessage J c r sopts s2) = Ret sg"
    and "delivers (kms_world s3) rm m" "delivers (kms_world s3) rs sg" "rs \<noteq> rm" "same_msg_options sopts vopts"
    and "ctx_err (carried_context (kms_clock (kms_remote s3)) vopts) = None"
    and "lf_read_fault (kms_remote (kms_remote s3)) (io_KeyResourceID (pc_initOptions c)) = None"
  shows "fst (pc_VerifySignature J c rs rm vopts s3) = Ret ()"
proof -
  let ?path = "io_KeyResourceID (pc_initOptions c)"
  from plugin_created [OF assms(3-8)] obtain ctx' pub' p where
    "impl_CreateKey (local_new L P M (pc_initOptions c)) ctx' algorithm (process_start (Stream [] None) (kms_remote s)) = (Ret pub', p)"
    "kms_remote s1 = p" .
  then obtain k where "holds_key P ?path k (kms_remote (kms_remote s1))"
    using create_holds [OF assms(2)] by (fastforce simp: local_new_def Let_def)
  with local_run_kept [OF assms(9)] have k2: "holds_key P ?path k (kms_remote (kms_remote s2))" by (auto simp: kept_def intro: holds_kept)
  with local_run_kept [OF assms(10)] have k3: "holds_key P ?path k (kms_remote (kms_remote s3))" by (auto simp: kept_def intro: holds_kept)
  show ?thesis
    by (rule local_plugin.client_accepts [where cf = "(L, P, M)", OF assms(3) _ assms(11-20)])
      (use assms(1,4,21,22) k2 k3 in auto)
qed

section \<open>A concrete plugin\<close>

definition ref_rsa :: rsa_priv where
  "ref_rsa = \<lparr>rsa_PublicKey = \<lparr>rsa_N = 15, rsa_E = 3\<rparr>, rsa_D = 3\<rparr>"

text \<open>A key in bytes: its three numbers in unary.\<close>

definition ref_marshal_rsa :: "rsa_priv \<Rightarrow> bytes" where
  "ref_marshal_rsa k = replicate (rsa_N (rsa_PublicKey k)) 1 @ 0 # replicate (rsa_E (rsa_PublicKey k)) 1 @ 0 # replicate (rsa_D k) 1 @ [0]"

definition ref_unmarshal_rsa :: "bytes \<Rightarrow> rsa_priv" where
  "ref_unmarshal_rsa b =
     (let n = length (takeWhile (\<lambda>b. b = 1) b); b1 = drop (n + 1) b;
          e = length (takeWhile (\<lambda>b. b = 1) b1); b2 = drop (e + 1) b1
      in \<lparr>rsa_PublicKey = \<lparr>rsa_N = n, rsa_E = e\<rparr>, rsa_D = length (takeWhile (\<lambda>b. b = 1) b2)\<rparr>)"

definition ref_local_pki :: pki where
  "ref_local_pki = ref_pki\<lparr>ParsePKCS1PrivateKey := (\<lambda>b. Ret (Rsa_private (Some (ref_unmarshal_rsa b)))),
     MarshalPKIXPublicKey := (\<lambda>k. Ret [9]), ParsePKIXPublicKey := (\<lambda>b. Ret (Rsa_public (Some (rsa_PublicKey ref_rsa))))\<rparr>"

definition ref_local_lib :: crypto_lib where
  "ref_local_lib = ref_lib\<lparr>rsa_GenerateKey := (\<lambda>r n. Ret ref_rsa)\<rparr>"

lemma ref_rsa_bytes: "ref_unmarshal_rsa (ref_marshal_rsa k) = k"
  by (simp add: ref_unmarshal_rsa_def ref_marshal_rsa_def unary_length Let_def)

lemma ref_local_laws: "pkcs1_laws ref_local_pki ref_marshal_rsa" "lib_laws ref_local_lib"
proof -
  have "0 \<notin> set (bytes_of PKCS1PrivateKeyPEMType)" by (auto simp: pem_type_defs bytes_of_def)
  from ref_decode_encode [OF this] show "pkcs1_laws ref_local_pki ref_marshal_rsa"
    by (simp add: pkcs1_laws_def ref_local_pki_def ref_pki_def ref_encode_eq ref_rsa_bytes)
  have "lib_laws ref_lib" by simp
  then show "lib_laws ref_local_lib"
    by (simp add: ref_local_lib_def lib_laws_def hash_laws_def ecdsa_laws_def rsa_laws_def ed25519_laws_def ecdsa_pair_def ed25519_pair_def)
qed

definition no_files :: local_files where
  "no_files = \<lparr>lf_files = Map.empty, lf_stat_fault = Map.empty, lf_read_fault = Map.empty, lf_write_fault = Map.empty\<rparr>"

definition ref_local_state :: "(unit, local_files) kms_state" where
  "ref_local_state = \<lparr>kms_world = two_readers [] [], kms_clock = 0, kms_cache = (), kms_remote = no_files\<rparr>"

definition ref_local :: LocalSignerVerifier where
  "ref_local = \<lparr>ls_keyResourceID = ''k'', ls_hashFunc = SHA256\<rparr>"

definition ref_key_file :: bytes where
  "ref_key_file = pem_EncodeToMemory ref_local_pki \<lparr>pem_Type = ''RSA PRIVATE KEY'', pem_Bytes = ref_marshal_rsa ref_rsa\<rparr>"

definition ref_with_key :: local_files where
  "ref_with_key = no_files\<lparr>lf_files := [''k'' \<mapsto> ref_key_file @ ref_key_file]\<rparr>"

lemma ref_create: "kms_remote s = no_files \<Longrightarrow> ls_keyResourceID i = ''k'' \<Longrightarrow>
  local_CreateKey ref_local_lib ref_local_pki ref_marshal_rsa i Background ''rsa-2048'' s =
    (Ret (Rsa_public (Some (rsa_PublicKey ref_rsa))), s\<lparr>kms_remote := ref_with_key\<rparr>)"
  by (auto simp: local_CreateKey_def local_SupportedAlgorithms_def local_supportedAlgorithms_def defaultAlgorithm_def go_wrap_def
      Background_def on_remote_def create_key_def local_Stat_def no_files_def ErrNotExist_def generate_key_def ref_local_lib_def
      go_then_def local_WriteFile_def Let_def ref_with_key_def ref_key_file_def)

theorem local_key_kept_witness:
  "fst (local_PublicKey ref_local_pki ref_local [] (ref_local_state\<lparr>kms_remote := ref_with_key\<rparr>)) = Ret (Rsa_public (Some (rsa_PublicKey ref_rsa)))"
proof -
  have "holds_key ref_local_pki ''k'' ref_rsa ref_with_key"
    using ref_local_laws(1) by (simp add: holds_key_def ref_with_key_def ref_key_file_def pkcs1_laws_def UnmarshalPEMToPrivateKey_def pem_type_defs ref_rsa_bytes)
  moreover have "lf_read_fault ref_with_key ''k'' = None" by (simp add: ref_with_key_def no_files_def)
  ultimately have "\<exists>pub. fst (local_PublicKey ref_local_pki ref_local [] (ref_local_state\<lparr>kms_remote := ref_with_key\<rparr>)) = Ret pub"
    by (simp add: local_PublicKey_def Background_def go_then_def on_remote_def ref_local_def load_runs local_public_def)
  moreover have "local_CreateKey ref_local_lib ref_local_pki ref_marshal_rsa ref_local Background ''rsa-2048'' ref_local_state =
      (Ret (Rsa_public (Some (rsa_PublicKey ref_rsa))), ref_local_state\<lparr>kms_remote := ref_with_key\<rparr>)"
    by (rule ref_create) (simp_all add: ref_local_def ref_local_state_def)
  ultimately show ?thesis using local_key_kept [OF ref_local_laws(1) _ rtranclp.rtrancl_refl] by metis
qed

type_synonym ref_client_state = "(unit, (unit, local_files) kms_state) kms_state"

definition ref_local_init :: init_options where
  "ref_local_init = \<lparr>io_CtxDeadline = None, io_ProtocolVersion = ProtocolVersion, io_KeyResourceID = ''k'', io_HashFunc = SHA256,
     io_RPCOptions = PackRPCOptions []\<rparr>"

definition ref_local_client :: "ref_client_state PluginClient" where
  "ref_local_client = newPluginClient ''sigstore-kms-localkms'' ref_local_init
     (makeCmd (plugin_exec ref_json ref_local_pki (local_new ref_local_lib ref_local_pki ref_marshal_rsa)))"

definition ref_client_state :: "bytes \<Rightarrow> local_files \<Rightarrow> ref_client_state" where
  "ref_client_state sg f = \<lparr>kms_world = two_readers sg [5], kms_clock = 0, kms_cache = (), kms_remote = ref_local_state\<lparr>kms_remote := f\<rparr>\<rparr>"

lemma ref_local_client: "plugin_client ref_json ref_local_pki (local_new ref_local_lib ref_local_pki ref_marshal_rsa) ref_local_client"
  by (simp add: plugin_client_def ref_local_client_def newPluginClient_def plain_init_def plain_no_options ProtocolVersion_def ascii_def ref_local_init_def)

lemma ref_local_pem: "pem_laws ref_local_pki"
  using ref_pki_pem_laws by (simp add: pem_laws_def ref_local_pki_def)

lemma ref_client_create:
  "\<exists>s1. pc_CreateKey ref_json ref_local_pki ref_local_client Background ''rsa-2048'' (ref_client_state [] no_files) =
      (Ret (Rsa_public (Some (rsa_PublicKey ref_rsa))), s1) \<and> lf_files (kms_remote (kms_remote s1)) = lf_files ref_with_key"
proof -
  let ?s = "ref_client_state [] no_files" let ?pem = "PEMEncode ref_local_pki PublicKeyPEMType [9]"
  define p0 where "p0 = process_start (Stream [] None) (kms_remote ?s)"
  have "kms_remote p0 = no_files" by (simp add: p0_def process_start_def ref_client_state_def)
  from ref_create [OF this] have c: "impl_CreateKey (local_new ref_local_lib ref_local_pki ref_marshal_rsa ref_local_init) Background ''rsa-2048'' p0 =
      (Ret (Rsa_public (Some (rsa_PublicKey ref_rsa))), p0\<lparr>kms_remote := ref_with_key\<rparr>)"
    by (simp add: local_new_def ref_local_init_def Let_def)
  have m: "MarshalPublicKeyToPEM ref_local_pki (Rsa_public (Some (rsa_PublicKey ref_rsa))) = Ret ?pem"
    by (simp add: MarshalPublicKeyToPEM_def MarshalPublicKeyToDER_def ref_local_pki_def)
  have u: "UnmarshalPEMToPublicKey ref_local_pki ?pem = Ret (Rsa_public (Some (rsa_PublicKey ref_rsa)))"
    using pem_lawsD(2) [OF ref_local_pem PublicKeyPEMType_emitted]
    by (simp add: UnmarshalPEMToPublicKey_def ref_local_pki_def)
  let ?m = "impl_CreateKey (local_new ref_local_lib ref_local_pki ref_marshal_rsa (pc_initOptions ref_local_client)) Background ''rsa-2048''"
  have i: "pc_initOptions ref_local_client = ref_local_init" by (simp add: ref_local_client_def newPluginClient_def)
  have "create_context n Background = Background" for n by (simp add: create_context_def Background_def)
  moreover have "ctx_err Background = None" "ascii ''rsa-2048''" "pred_option plain_time (ctx_deadline Background)"
    by (simp_all add: Background_def ascii_def)
  ultimately have "plugin_answer ref_json nil_result (encodable_key ref_local_pki ?m p0)
      (pc_CreateKey ref_json ref_local_pki ref_local_client Background ''rsa-2048'' ?s)"
    using c m u by (intro plugin_create_answer [OF ref_json_laws ref_local_client]) (simp_all add: p0_def i)
  with c m show ?thesis
    by (cases "pc_CreateKey ref_json ref_local_pki ref_local_client Background ''rsa-2048'' ?s")
      (simp add: plugin_answer_def encodable_key_def i go_then_def)
qed

lemma ref_holds: "holds_key ref_local_pki ''k'' ref_rsa ref_with_key"
  using ref_local_laws(1) by (simp add: holds_key_def ref_with_key_def ref_key_file_def pkcs1_laws_def UnmarshalPEMToPrivateKey_def pem_type_defs ref_rsa_bytes)

lemma ref_client_sign:
  "fst (pc_SignMessage ref_json ref_local_client (Some 1) [] (ref_client_state [] ref_with_key)) = Ret (1 # replicate 32 1)"
proof -
  let ?s = "ref_client_state [] ref_with_key"
  let ?p = "process_start (Stream [5] None) (kms_remote ?s)"
  have d: "delivers (kms_world ?s) (Some 1) [5]" by (simp add: ref_client_state_def)
  have i: "pc_initOptions ref_local_client = ref_local_init" by (simp add: ref_local_client_def newPluginClient_def)
  have "fst (impl_SignMessage (local_new ref_local_lib ref_local_pki ref_marshal_rsa ref_local_init) (Some 0) uo ?p) = Ret (1 # replicate 32 1)"
    if "carried (kms_clock (kms_remote ?s)) [] uo" for uo
  proof -
    have "ctx_err (fold ApplyContext uo Background) = None"
      using carried_context [OF that] by (simp add: carried_context_def Background_def)
    moreover have "msg_options SHA256 uo = ([], SignerOpts SHA256)" using carried_msg_options [OF that] by simp
    moreover have "lf_read_fault ref_with_key ''k'' = None" by (simp add: ref_with_key_def no_files_def)
    moreover have "delivers (kms_world ?p) (Some 0) [5]" by (simp add: delivers_def process_start_def)
    moreover have "hash_linked ref_local_lib SHA256" "hash_sum ref_local_lib SHA256 [5] = replicate 32 1"
      "rsa_SignPKCS1v15 ref_local_lib CryptoRand ref_rsa SHA256 x = Ret (1 # x)" for x
      by (simp_all add: ref_local_lib_def ref_lib_def)
    moreover have "kms_remote ?p = ref_with_key" by (simp add: process_start_def ref_client_state_def)
    ultimately show ?thesis
      by (simp add: local_new_def Let_def local_SignMessage_def go_then_def on_remote_def on_world_def ref_local_init_def load_runs [OF ref_holds]
          local_digest_def computeDigest_def ReadAll_delivers)
  qed
  with plugin_sign_answer [OF ref_json_laws ref_local_client plain_no_options no_ctx d] i show ?thesis using plugin_answer_Ret(2) by metis
qed

theorem local_plugin_lifecycle_witness:
  "fst (pc_VerifySignature ref_json ref_local_client (Some 0) (Some 1) [] (ref_client_state (1 # replicate 32 1) ref_with_key)) = Ret ()"
proof -
  obtain s1 where s1: "pc_CreateKey ref_json ref_local_pki ref_local_client Background ''rsa-2048'' (ref_client_state [] no_files) =
      (Ret (Rsa_public (Some (rsa_PublicKey ref_rsa))), s1)" "lf_files (kms_remote (kms_remote s1)) = lf_files ref_with_key"
    using ref_client_create by blast
  have "local_step ref_local_lib ref_local_pki ref_marshal_rsa (kms_remote s1) (kms_remote (ref_client_state [] ref_with_key))"
    by (rule step_other) (simp add: s1(2) ref_client_state_def)
  then have r1: "(local_step ref_local_lib ref_local_pki ref_marshal_rsa)\<^sup>*\<^sup>* (kms_remote s1) (kms_remote (ref_client_state [] ref_with_key))" by blast
  have r2: "(local_step ref_local_lib ref_local_pki ref_marshal_rsa)\<^sup>*\<^sup>* (kms_remote (ref_client_state [] ref_with_key))
      (kms_remote (ref_client_state (1 # replicate 32 1) ref_with_key))" by (simp add: ref_client_state_def)
  have d: "delivers (kms_world (ref_client_state sg f)) (Some 0) sg" "delivers (kms_world (ref_client_state sg f)) (Some 1) [5]" for sg f
    by (simp_all add: ref_client_state_def)
  show ?thesis
    by (rule local_plugin_lifecycle [OF ref_local_laws(2,1) ref_json_laws ref_local_client _ _ _ s1(1) r1 r2 plain_no_options plain_no_options no_ctx no_ctx
          d(2) ref_client_sign d(2,1)])
      (simp_all add: Background_def ascii_def same_msg_options_def carried_context_def ref_client_state_def ref_with_key_def no_files_def)
qed

end
