(* ===== verification/Tink.thy ===== *)
theory Tink
  imports Loaders BigInt
begin

text \<open>
  \<open>pkg/signature/tink/tink.go\<close>: the primary key of a Tink keyset as a key of the Go library.  Tink's keys
  are a parameter, seen as far as the code looks at them; a type assertion is a case distinction.
\<close>

section \<open>Tink's keys\<close>

datatype CurveType = NistP256 | NistP384 | NistP521 | UnknownCurveType nat

datatype tink_parameters = Ecdsa_parameters CurveType | Other_parameters nat

datatype tink_public_key = Tink_ecdsa_public tink_parameters bytes | Other_tink_public nat

datatype tink_key =
    Tink_ecdsa_private "tink_public_key outcome" bytes
  | Tink_ed25519_private bytes
  | Other_tink_key nat

record 'h tink_lib =
  keyset_Primary :: "'h \<Rightarrow> tink_key outcome"
  seed_public :: "bytes \<Rightarrow> bytes"

text \<open>\<open>ed25519.NewKeyFromSeed\<close>: the seed and then the public key.\<close>

definition NewKeyFromSeed :: "'h tink_lib \<Rightarrow> bytes \<Rightarrow> bytes outcome" where
  "NewKeyFromSeed T seed = (if length seed \<noteq> 32 then Panic ''ed25519: bad seed length'' else Ret (seed @ seed_public T seed))"

section \<open>The conversion\<close>

definition curveFromTinkECDSACurveType :: "CurveType \<Rightarrow> curve outcome" where
  "curveFromTinkECDSACurveType curveType = (case curveType of
       NistP256 \<Rightarrow> Ret P256
     | NistP384 \<Rightarrow> Ret P384
     | NistP521 \<Rightarrow> Ret P521
     | UnknownCurveType _ \<Rightarrow> Err (Msg ''unsupported curve''))"

text \<open>The point is encoded as \<open>0x04 || X || Y\<close>; slicing off the first byte panics when there is none.\<close>

definition ecdsa_from_tink :: "curve \<Rightarrow> bytes \<Rightarrow> bytes \<Rightarrow> private_key outcome" where
  "ecdsa_from_tink c publicPoint privateKeyValue =
     (if publicPoint = [] then Panic ''slice bounds out of range''
      else let xy = drop 1 publicPoint
        in Ret (Ecdsa_private (Some \<lparr>
             ecdsa_PublicKey = \<lparr>ecdsa_Curve = c, ecdsa_X = int (SetBytes (take (length xy div 2) xy)),
               ecdsa_Y = int (SetBytes (drop (length xy div 2) xy))\<rparr>,
             ecdsa_D = int (SetBytes privateKeyValue)\<rparr>)))"

definition KeyHandleToSigner :: "'h tink_lib \<Rightarrow> 'h \<Rightarrow> private_key outcome" where
  "KeyHandleToSigner T kh =
     and_then (keyset_Primary T kh) (\<lambda>key. case key of
         Tink_ecdsa_private publicKey privateKeyValue \<Rightarrow>
           and_then publicKey (\<lambda>publicKey. case publicKey of
               Other_tink_public _ \<Rightarrow> Err (Msg ''error asserting ecdsa public key'')
             | Tink_ecdsa_public params publicPoint \<Rightarrow> (case params of
                 Other_parameters _ \<Rightarrow> Err (Msg ''error asserting ecdsa parameters'')
               | Ecdsa_parameters curveType \<Rightarrow>
                   and_then (curveFromTinkECDSACurveType curveType) (\<lambda>c. ecdsa_from_tink c publicPoint privateKeyValue)))
       | Tink_ed25519_private seed \<Rightarrow> and_then (NewKeyFromSeed T seed) (\<lambda>k. Ret (Ed25519_private (Some k)))
       | Other_tink_key _ \<Rightarrow> Err (Msg ''unsupported key type''))"

section \<open>Lemmas\<close>

text \<open>A number in a given count of bytes, as Tink encodes coordinates.\<close>

definition FillBytes :: "nat \<Rightarrow> nat \<Rightarrow> bytes" where
  "FillBytes n x = replicate (n - length (nat_Bytes x)) 0 @ nat_Bytes x"

lemma SetBytes_zeros [simp]: "SetBytes (replicate k 0 @ bs) = SetBytes bs"
  by (induction k) (simp_all add: SetBytes_def)

lemma length_nat_Bytes: "x < 256 ^ n \<Longrightarrow> length (nat_Bytes x) \<le> n"
proof (induction n arbitrary: x)
  case (Suc n)
  then have "x div 256 < 256 ^ n" by (simp add: less_mult_imp_div_less mult.commute)
  with Suc.IH show ?case by (subst nat_Bytes.simps) simp
qed simp

lemma length_FillBytes: "x < 256 ^ n \<Longrightarrow> length (FillBytes n x) = n"
  using length_nat_Bytes by (simp add: FillBytes_def)

lemma SetBytes_FillBytes [simp]: "SetBytes (FillBytes n x) = x"
  by (simp add: FillBytes_def)

lemma ecdsa_from_tink_point:
  assumes "x < 256 ^ n" "y < 256 ^ n"
  shows "ecdsa_from_tink c (4 # FillBytes n x @ FillBytes n y) (replicate z 0 @ nat_Bytes d) =
    Ret (Ecdsa_private (Some \<lparr>ecdsa_PublicKey = \<lparr>ecdsa_Curve = c, ecdsa_X = int x, ecdsa_Y = int y\<rparr>, ecdsa_D = int d\<rparr>))"
  using assms by (simp add: ecdsa_from_tink_def length_FillBytes Let_def)

section \<open>Properties\<close>

text \<open>C40: a Tink key whose point is the uncompressed encoding of its coordinates, in any width they fit, becomes
  the ECDSA key with exactly these coordinates, private value and curve; and when the point is the public point
  of the private value, as it is in a key Tink generates, the signer-verifier loaded from it with any options accepts its own signatures.\<close>

theorem tink_ecdsa_key:
  assumes "keyset_Primary T kh = Ret (Tink_ecdsa_private
      (Ret (Tink_ecdsa_public (Ecdsa_parameters ct) (4 # FillBytes n x @ FillBytes n y))) (replicate z 0 @ nat_Bytes d))"
    and "curveFromTinkECDSACurveType ct = Ret c" "x < 256 ^ n" "y < 256 ^ n"
    and "key = Ecdsa_private (Some \<lparr>ecdsa_PublicKey = \<lparr>ecdsa_Curve = c, ecdsa_X = int x, ecdsa_Y = int y\<rparr>, ecdsa_D = int d\<rparr>)"
    and "lib_laws L" "hashes_linked L" "ecdsa_IsOnCurve L \<lparr>ecdsa_Curve = c, ecdsa_X = int x, ecdsa_Y = int y\<rparr>"
    and "ecdsa_public_of L c (int d) = Some \<lparr>ecdsa_Curve = c, ecdsa_X = int x, ecdsa_Y = int y\<rparr>"
    and "same_msg_options sopts vopts"
  shows "KeyHandleToSigner T kh = Ret key \<and>
    (\<forall>sv s w1. LoadSignerVerifierWithOpts key opts = Ret sv \<longrightarrow>
       go_then (NewReader m) (\<lambda>r. SignMessage L (sv_signer sv) r sopts) w = (Ret s, w1) \<longrightarrow>
       fst (go_then (NewReader s) (\<lambda>rs. go_then (NewReader m) (\<lambda>rm. VerifySignature L (sv_verifier sv) rs rm vopts)) w1) = Ret ())"
proof (intro conjI allI impI)
  show "KeyHandleToSigner T kh = Ret key"
    using assms(1,2,5) by (simp add: KeyHandleToSigner_def ecdsa_from_tink_point [OF assms(3,4)])
  fix sv s w1
  assume l: "LoadSignerVerifierWithOpts key opts = Ret sv" and s: "go_then (NewReader m) (\<lambda>r. SignMessage L (sv_signer sv) r sopts) w = (Ret s, w1)"
  have "good_private L key" using assms(5,8,9) by (simp add: good_private_def ecdsa_pair_def)
  from any.sign_bytes_accepted [OF LoadSignerVerifier_pair [OF assms(6,7) this l] s [folded any.sign_bytes_def] assms(10) salt_stable_refl [of w1]]
  show "fst (go_then (NewReader s) (\<lambda>rs. go_then (NewReader m) (\<lambda>rm. VerifySignature L (sv_verifier sv) rs rm vopts)) w1) = Ret ()"
    by (simp add: any.verify_bytes_def)
qed

section \<open>A concrete keyset\<close>

definition ref_tink :: "unit tink_lib" where
  "ref_tink = \<lparr>keyset_Primary = (\<lambda>_. Ret (Tink_ecdsa_private
       (Ret (Tink_ecdsa_public (Ecdsa_parameters NistP256) (4 # FillBytes 2 20 @ FillBytes 2 400))) (replicate 1 0 @ nat_Bytes 20))),
     seed_public = (\<lambda>s. s)\<rparr>"

theorem tink_ecdsa_key_witness:
  "KeyHandleToSigner ref_tink () =
    Ret (Ecdsa_private (Some \<lparr>ecdsa_PublicKey = \<lparr>ecdsa_Curve = P256, ecdsa_X = 20, ecdsa_Y = 400\<rparr>, ecdsa_D = 20\<rparr>))"
proof -
  have "keyset_Primary ref_tink () = Ret (Tink_ecdsa_private
       (Ret (Tink_ecdsa_public (Ecdsa_parameters NistP256) (4 # FillBytes 2 20 @ FillBytes 2 400))) (replicate 1 0 @ nat_Bytes 20))"
    by (simp add: ref_tink_def)
  moreover have "hashes_linked ref_lib" "ecdsa_IsOnCurve ref_lib p" for p by (simp_all add: ref_lib_def hashes_linked_def)
  moreover have "ecdsa_public_of ref_lib P256 20 = Some \<lparr>ecdsa_Curve = P256, ecdsa_X = 20, ecdsa_Y = 400\<rparr>" by (simp add: ref_lib_def)
  moreover have "same_msg_options [] []" by (simp add: same_msg_options_def)
  ultimately show ?thesis
    using tink_ecdsa_key [where T = ref_tink and kh = "()" and n = 2 and x = 20 and y = 400 and z = 1 and d = 20 and c = P256 and ct = NistP256 and L = ref_lib
        and sopts = "[]" and vopts = "[]"]
    by (simp add: curveFromTinkECDSACurveType_def)
qed

end
