(* ===== verification/TestCerts.thy ===== *)
theory TestCerts
  imports FulcioRoots Sans Codec
begin

text \<open>
  \<open>test/cert_utils.go\<close>: the certificates the tests of the repository and of its clients are made with: a root,
  a subordinate authority and leaves.  A template is a certificate whose fields \<open>x509.CreateCertificate\<close> reads.  The clock is a
  sequence of readings; the keys and the signatures come from a source of randomness, whose state calls pass on.
\<close>

unbundle bit_operations_syntax

section \<open>Certificates and templates\<close>

record pkix_Name =
  CommonName :: string
  Organization :: "string list"

definition no_name :: pkix_Name where "no_name = \<lparr>CommonName = [], Organization = []\<rparr>"

record x509_cert = certificate +
  x_SerialNumber :: int
  x_Subject :: pkix_Name
  x_KeyUsage :: int
  x_ExtKeyUsage :: "int list"
  x_BasicConstraintsValid :: bool
  x_IsCA :: bool
  x_ExtraExtensions :: "pkix_Extension list"
  x_PublicKey :: public_key
  x_Signature :: bytes

text \<open>A template names the fields it sets; the others are zero.\<close>

definition zero_cert :: x509_cert where
  "zero_cert = \<lparr>cert_Raw = [], RawSubject = [], RawIssuer = [], NotBefore = 0, NotAfter = 0, DNSNames = [], EmailAddresses = [],
     IPAddresses = [], URIs = [], Extensions = [], x_SerialNumber = 0, x_Subject = no_name, x_KeyUsage = 0, x_ExtKeyUsage = [],
     x_BasicConstraintsValid = False, x_IsCA = False, x_ExtraExtensions = [], x_PublicKey = Nil_public, x_Signature = []\<rparr>"

definition KeyUsageDigitalSignature :: int where "KeyUsageDigitalSignature = 1"
definition KeyUsageCertSign :: int where "KeyUsageCertSign = 32"
definition KeyUsageCRLSign :: int where "KeyUsageCRLSign = 64"
definition ExtKeyUsageCodeSigning :: int where "ExtKeyUsageCodeSigning = 3"

lemmas usage_defs = KeyUsageDigitalSignature_def KeyUsageCertSign_def KeyUsageCRLSign_def ExtKeyUsageCodeSigning_def

definition Second :: int where "Second = 10 ^ 9"
definition Minute :: int where "Minute = 60 * Second"
definition Hour :: int where "Hour = 60 * Minute"

lemmas time_defs = Second_def Minute_def Hour_def

section \<open>The library and the state\<close>

record 'r x509_lib =
  xl_GenerateKey :: "curve \<Rightarrow> ('r, ecdsa_priv) step"
  xl_CreateCertificate :: "x509_cert \<Rightarrow> x509_cert \<Rightarrow> public_key \<Rightarrow> private_key \<Rightarrow> ('r, bytes) step"
  xl_ParseCertificate :: "bytes \<Rightarrow> x509_cert outcome"
  xl_CheckSignature :: "public_key \<Rightarrow> x509_cert \<Rightarrow> bool"
  xl_Name :: "pkix_Name \<Rightarrow> bytes"

record 'r cert_state =
  cs_readings :: "nat \<Rightarrow> int"
  cs_ticks :: nat
  cs_rand :: 'r

definition time_Now :: "('r cert_state, int) step" where
  "time_Now s = (Ret (cs_readings s (cs_ticks s)), s\<lparr>cs_ticks := Suc (cs_ticks s)\<rparr>)"

definition on_rand :: "('r, 'a) step \<Rightarrow> ('r cert_state, 'a) step" where
  "on_rand m s = (case m (cs_rand s) of (x, r) \<Rightarrow> (x, s\<lparr>cs_rand := r\<rparr>))"

section \<open>Making certificates\<close>

definition createCertificate ::
  "'r x509_lib \<Rightarrow> x509_cert \<Rightarrow> x509_cert \<Rightarrow> public_key \<Rightarrow> private_key \<Rightarrow> ('r cert_state, x509_cert) step" where
  "createCertificate X template parent pub priv =
     go_then (on_rand (xl_CreateCertificate X template parent pub priv)) (\<lambda>certBytes. go_lift (xl_ParseCertificate X certBytes))"

text \<open>A key of its own, and a certificate of its public half, signed by the parent's key.\<close>

definition certify ::
  "'r x509_lib \<Rightarrow> x509_cert \<Rightarrow> x509_cert \<Rightarrow> private_key \<Rightarrow> ('r cert_state, x509_cert \<times> ecdsa_priv) step" where
  "certify X template parent parentPriv =
     go_then (on_rand (xl_GenerateKey X P256)) (\<lambda>priv.
     go_then (createCertificate X template parent (Ecdsa_public (Some (ecdsa_PublicKey priv))) parentPriv) (\<lambda>cert.
     go_ret (cert, priv)))"

definition GenerateRootCa :: "'r x509_lib \<Rightarrow> ('r cert_state, x509_cert \<times> ecdsa_priv) step" where
  "GenerateRootCa X =
     go_then time_Now (\<lambda>t1. go_then time_Now (\<lambda>t2.
     let rootTemplate = zero_cert\<lparr>x_SerialNumber := 1,
           x_Subject := \<lparr>CommonName = ''sigstore'', Organization = [''sigstore.dev'']\<rparr>,
           NotBefore := t1 + -5 * Hour, NotAfter := t2 + 5 * Hour,
           x_KeyUsage := KeyUsageCertSign OR KeyUsageCRLSign, x_BasicConstraintsValid := True, x_IsCA := True\<rparr>
     in go_then (on_rand (xl_GenerateKey X P256)) (\<lambda>priv.
        go_then (createCertificate X rootTemplate rootTemplate (Ecdsa_public (Some (ecdsa_PublicKey priv))) (Ecdsa_private (Some priv))) (\<lambda>cert.
        go_ret (cert, priv)))))"

definition GenerateSubordinateCa ::
  "'r x509_lib \<Rightarrow> x509_cert \<Rightarrow> private_key \<Rightarrow> ('r cert_state, x509_cert \<times> ecdsa_priv) step" where
  "GenerateSubordinateCa X rootTemplate rootPriv =
     go_then time_Now (\<lambda>t1. go_then time_Now (\<lambda>t2.
     let subTemplate = zero_cert\<lparr>x_SerialNumber := 1,
           x_Subject := \<lparr>CommonName = ''sigstore-sub'', Organization = [''sigstore.dev'']\<rparr>,
           NotBefore := t1 + -2 * Minute, NotAfter := t2 + 2 * Hour,
           x_KeyUsage := KeyUsageCertSign OR KeyUsageCRLSign, x_ExtKeyUsage := [ExtKeyUsageCodeSigning],
           x_BasicConstraintsValid := True, x_IsCA := True\<rparr>
     in certify X subTemplate rootTemplate rootPriv))"

text \<open>The extension of the OIDC issuer.\<close>

definition issuer_extension :: "string \<Rightarrow> pkix_Extension" where
  "issuer_extension oidcIssuer = \<lparr>ext_Id = [1, 3, 6, 1, 4, 1, 57264, 1, 1], ext_Critical = False, ext_Value = bytes_of oidcIssuer\<rparr>"

definition GenerateLeafCert ::
  "'r x509_lib \<Rightarrow> string \<Rightarrow> string \<Rightarrow> x509_cert \<Rightarrow> private_key \<Rightarrow> pkix_Extension list \<Rightarrow> ('r cert_state, x509_cert \<times> ecdsa_priv) step" where
  "GenerateLeafCert X subject oidcIssuer parentTemplate parentPriv exts =
     (let exts = exts @ [issuer_extension oidcIssuer] in
     go_then time_Now (\<lambda>t1. go_then time_Now (\<lambda>t2.
     let certTemplate = zero_cert\<lparr>x_SerialNumber := 1, EmailAddresses := [subject],
           NotBefore := t1 + -1 * Minute, NotAfter := t2 + Hour,
           x_KeyUsage := KeyUsageDigitalSignature, x_ExtKeyUsage := [ExtKeyUsageCodeSigning], x_IsCA := False,
           x_ExtraExtensions := exts\<rparr>
     in certify X certTemplate parentTemplate parentPriv)))"

definition GenerateLeafCertWithSubjectAlternateNames ::
  "'r x509_lib \<Rightarrow> string list \<Rightarrow> string list \<Rightarrow> string list \<Rightarrow> string list \<Rightarrow> string \<Rightarrow> x509_cert \<Rightarrow> private_key \<Rightarrow>
     ('r cert_state, x509_cert \<times> ecdsa_priv) step" where
  "GenerateLeafCertWithSubjectAlternateNames X dnsNames emailAddresses ipAddresses uris oidcIssuer parentTemplate parentPriv =
     go_then time_Now (\<lambda>t1. go_then time_Now (\<lambda>t2.
     let certTemplate = zero_cert\<lparr>x_SerialNumber := 1, EmailAddresses := emailAddresses, DNSNames := dnsNames,
           IPAddresses := ipAddresses, URIs := uris,
           NotBefore := t1 + -1 * Minute, NotAfter := t2 + Hour,
           x_KeyUsage := KeyUsageDigitalSignature, x_ExtKeyUsage := [ExtKeyUsageCodeSigning], x_IsCA := False,
           x_ExtraExtensions := [issuer_extension oidcIssuer]\<rparr>
     in certify X certTemplate parentTemplate parentPriv))"

section \<open>What is expected of the library\<close>

text \<open>Encoded times are whole seconds.\<close>

definition seconds :: "int \<Rightarrow> int" where "seconds t = t - t mod Second"

definition subject_bytes :: "'r x509_lib \<Rightarrow> x509_cert \<Rightarrow> bytes" where
  "subject_bytes X c = (if RawSubject c = [] then xl_Name X (x_Subject c) else RawSubject c)"

text \<open>
  The certificate has the subject, the times, the key and the extra extensions of its template, and names its parent as
  the issuer.  Key usage, extended key usage and basic constraints are extensions too, made from the fields of the
  template unless an extra extension has their identifier, which then takes their place.  Key usages have nine bits.
\<close>

definition OIDKeyUsage :: "nat list" where "OIDKeyUsage = [2, 5, 29, 15]"
definition OIDBasicConstraints :: "nat list" where "OIDBasicConstraints = [2, 5, 29, 19]"
definition OIDExtKeyUsage :: "nat list" where "OIDExtKeyUsage = [2, 5, 29, 37]"

lemmas oid_defs = OIDKeyUsage_def OIDBasicConstraints_def OIDExtKeyUsage_def

definition overridden :: "pkix_Extension list \<Rightarrow> nat list \<Rightarrow> bool" where
  "overridden exts oid \<longleftrightarrow> (\<exists>e \<in> set exts. ext_Id e = oid)"

definition as_issued :: "'r x509_lib \<Rightarrow> x509_cert \<Rightarrow> x509_cert \<Rightarrow> public_key \<Rightarrow> x509_cert \<Rightarrow> bool" where
  "as_issued X t parent pub c \<longleftrightarrow> RawSubject c = subject_bytes X t \<and> RawIssuer c = subject_bytes X parent \<and>
     NotBefore c = seconds (NotBefore t) \<and> NotAfter c = seconds (NotAfter t) \<and>
     (\<not> overridden (x_ExtraExtensions t) OIDKeyUsage \<and> 0 \<le> x_KeyUsage t \<and> x_KeyUsage t < 512 \<longrightarrow> x_KeyUsage c = x_KeyUsage t) \<and>
     (\<not> overridden (x_ExtraExtensions t) OIDExtKeyUsage \<longrightarrow> x_ExtKeyUsage c = x_ExtKeyUsage t) \<and>
     (\<not> overridden (x_ExtraExtensions t) OIDBasicConstraints \<longrightarrow>
        x_BasicConstraintsValid c = x_BasicConstraintsValid t \<and> x_IsCA c = (x_BasicConstraintsValid t \<and> x_IsCA t)) \<and>
     x_PublicKey c = pub \<and> set (x_ExtraExtensions t) \<subseteq> set (Extensions c)"

text \<open>The alternative names of the template go into an extension without OtherNames; an extra extension
  of alternative names takes its place, and then the certificate has the names of that one.\<close>

definition names_issued :: "x509_cert \<Rightarrow> x509_cert \<Rightarrow> bool" where
  "names_issued t c \<longleftrightarrow>
     ((\<forall>e \<in> set (x_ExtraExtensions t). ext_Id e \<noteq> SANOID) \<longrightarrow>
        (\<exists>es. Extensions c = map encode_extension es \<and> list_all wf_extension es \<and> extension_values es = []) \<and>
        DNSNames c = DNSNames t \<and> EmailAddresses c = EmailAddresses t \<and> IPAddresses c = IPAddresses t \<and> URIs c = URIs t) \<and>
     (\<forall>critical n. filter (\<lambda>e. ext_Id e = SANOID) (x_ExtraExtensions t) = [encode_extension (Names critical [Other n])] \<longrightarrow>
        wf_extension (Names critical [Other n]) \<longrightarrow>
        (\<exists>es. Extensions c = map encode_extension es \<and> list_all wf_extension es \<and> extension_values es = [n]) \<and>
        DNSNames c = [] \<and> EmailAddresses c = [] \<and> IPAddresses c = [] \<and> URIs c = [])"

definition x509_laws :: "'r x509_lib \<Rightarrow> bool" where
  "x509_laws X \<longleftrightarrow>
     (\<forall>t parent pub k r b r' c. xl_CreateCertificate X t parent pub (Ecdsa_private (Some k)) r = (Ret b, r') \<longrightarrow>
        xl_ParseCertificate X b = Ret c \<longrightarrow>
        as_issued X t parent pub c \<and> names_issued t c \<and> xl_CheckSignature X (Ecdsa_public (Some (ecdsa_PublicKey k))) c) \<and>
     (\<forall>n. xl_Name X n \<noteq> []) \<and>
     (\<forall>m n. CommonName m \<noteq> CommonName n \<longrightarrow> xl_Name X m \<noteq> xl_Name X n)"

section \<open>Validating a chain\<close>

definition valid_now :: "x509_cert \<Rightarrow> int \<Rightarrow> bool" where
  "valid_now c epoch \<longleftrightarrow> CheckExpiration (Some (certificate.truncate c)) epoch = Ret ()"

definition issued_by :: "'r x509_lib \<Rightarrow> x509_cert \<Rightarrow> x509_cert \<Rightarrow> bool" where
  "issued_by X c parent \<longleftrightarrow> RawIssuer c = RawSubject parent \<and> xl_CheckSignature X (x_PublicKey parent) c \<and>
     x_BasicConstraintsValid parent \<and> x_IsCA parent \<and> x_KeyUsage parent AND KeyUsageCertSign \<noteq> 0"

definition may_sign_code :: "x509_cert \<Rightarrow> bool" where
  "may_sign_code c \<longleftrightarrow> x_ExtKeyUsage c = [] \<or> ExtKeyUsageCodeSigning \<in> set (x_ExtKeyUsage c)"

text \<open>A leaf, the certificates that lead from it to a root, and the root.  Of what \<open>Verify\<close> checks these are the times, the
  names and signatures, the authority of the issuers and the usage for code signing, of every certificate; path lengths,
  name constraints and critical extensions that nobody handles are not looked at.\<close>

fun chain_ok :: "'r x509_lib \<Rightarrow> int \<Rightarrow> x509_cert list \<Rightarrow> bool" where
  "chain_ok X epoch [] \<longleftrightarrow> False"
| "chain_ok X epoch [root] \<longleftrightarrow> valid_now root epoch \<and> may_sign_code root \<and> issued_by X root root"
| "chain_ok X epoch (c # parent # cs) \<longleftrightarrow>
     valid_now c epoch \<and> may_sign_code c \<and> issued_by X c parent \<and> chain_ok X epoch (parent # cs)"

section \<open>Lemmas\<close>

lemma time_Now_eq [simp]: "time_Now s = (Ret (cs_readings s (cs_ticks s)), s\<lparr>cs_ticks := Suc (cs_ticks s)\<rparr>)"
  by (rule time_Now_def)

lemma on_rand_Ret: "on_rand m s = (Ret x, s') \<longleftrightarrow> (\<exists>r. m (cs_rand s) = (Ret x, r) \<and> s' = s\<lparr>cs_rand := r\<rparr>)"
  by (auto simp: on_rand_def split: prod.splits)

lemma x509_lawsD:
  assumes "x509_laws X" "xl_CreateCertificate X t parent pub (Ecdsa_private (Some k)) r = (Ret b, r')" "xl_ParseCertificate X b = Ret c"
  shows "as_issued X t parent pub c" "names_issued t c" "xl_CheckSignature X (Ecdsa_public (Some (ecdsa_PublicKey k))) c"
  using assms unfolding x509_laws_def by blast+

lemma create_Ret:
  assumes "x509_laws X" "createCertificate X t parent pub (Ecdsa_private (Some k)) s = (Ret c, s')"
  shows "as_issued X t parent pub c" "names_issued t c" "xl_CheckSignature X (Ecdsa_public (Some (ecdsa_PublicKey k))) c"
    and "\<exists>r. s' = s\<lparr>cs_rand := r\<rparr>"
proof -
  from assms(2) obtain b r where b: "xl_CreateCertificate X t parent pub (Ecdsa_private (Some k)) (cs_rand s) = (Ret b, r)"
    "xl_ParseCertificate X b = Ret c" "s' = s\<lparr>cs_rand := r\<rparr>"
    unfolding createCertificate_def by (auto simp: go_then_Ret_iff on_rand_Ret)
  note x509_lawsD [OF assms(1) b(1,2)]
  then show "as_issued X t parent pub c" "names_issued t c" "xl_CheckSignature X (Ecdsa_public (Some (ecdsa_PublicKey k))) c"
    by simp_all
  from b(3) show "\<exists>r. s' = s\<lparr>cs_rand := r\<rparr>" by blast
qed

lemma certify_Ret:
  assumes "x509_laws X" "certify X t parent (Ecdsa_private (Some k)) s = (Ret (c, key), s')"
  shows "as_issued X t parent (Ecdsa_public (Some (ecdsa_PublicKey key))) c" "names_issued t c"
    and "xl_CheckSignature X (Ecdsa_public (Some (ecdsa_PublicKey k))) c" "\<exists>r. s' = s\<lparr>cs_rand := r\<rparr>"
proof -
  from assms(2) obtain r s1 where "createCertificate X t parent (Ecdsa_public (Some (ecdsa_PublicKey key))) (Ecdsa_private (Some k))
      (s\<lparr>cs_rand := r\<rparr>) = (Ret c, s1)" "s' = s1"
    unfolding certify_def by (auto simp: go_then_Ret_iff on_rand_Ret)
  note this(2) and c = create_Ret [OF assms(1) this(1)]
  from c(1) show "as_issued X t parent (Ecdsa_public (Some (ecdsa_PublicKey key))) c" .
  from c(2) show "names_issued t c" .
  from c(3) show "xl_CheckSignature X (Ecdsa_public (Some (ecdsa_PublicKey k))) c" .
  from c(4) \<open>s' = s1\<close> show "\<exists>r. s' = s\<lparr>cs_rand := r\<rparr>" by auto
qed

lemma seconds_bounds: "seconds t \<le> t" "t - Second < seconds t"
  by (simp_all add: seconds_def Second_def)

lemma valid_now_iff: "valid_now c epoch \<longleftrightarrow> NotBefore c \<le> epoch \<and> epoch \<le> NotAfter c"
  by (auto simp: valid_now_def CheckExpiration_def certificate.defs)

lemma certificate_truncate_simps [simp]:
  "RawSubject (certificate.truncate c) = RawSubject c" "RawIssuer (certificate.truncate c) = RawIssuer c"
  "Extensions (certificate.truncate c) = Extensions c" "DNSNames (certificate.truncate c) = DNSNames c"
  "EmailAddresses (certificate.truncate c) = EmailAddresses c" "IPAddresses (certificate.truncate c) = IPAddresses c"
  "URIs (certificate.truncate c) = URIs c"
  by (simp_all add: certificate.defs)

text \<open>What is known of the certificates of the three generators.\<close>

lemma root_made:
  assumes "x509_laws X" "GenerateRootCa X s = (Ret (c, key), s')"
  shows "issued_by X c c" "may_sign_code c" "x_PublicKey c = Ecdsa_public (Some (ecdsa_PublicKey key))"
    and "RawSubject c = xl_Name X \<lparr>CommonName = ''sigstore'', Organization = [''sigstore.dev'']\<rparr>"
    and "NotBefore c = seconds (cs_readings s (cs_ticks s) - 5 * Hour)" "NotAfter c = seconds (cs_readings s (Suc (cs_ticks s)) + 5 * Hour)"
    and "\<exists>r. s' = s\<lparr>cs_ticks := cs_ticks s + 2, cs_rand := r\<rparr>"
proof -
  let ?t = "zero_cert\<lparr>x_SerialNumber := 1, x_Subject := \<lparr>CommonName = ''sigstore'', Organization = [''sigstore.dev'']\<rparr>,
    NotBefore := cs_readings s (cs_ticks s) + -5 * Hour, NotAfter := cs_readings s (Suc (cs_ticks s)) + 5 * Hour,
    x_KeyUsage := KeyUsageCertSign OR KeyUsageCRLSign, x_BasicConstraintsValid := True, x_IsCA := True\<rparr>"
  from assms(2) obtain r where
    "createCertificate X ?t ?t (Ecdsa_public (Some (ecdsa_PublicKey key))) (Ecdsa_private (Some key))
      (s\<lparr>cs_ticks := Suc (Suc (cs_ticks s)), cs_rand := r\<rparr>) = (Ret c, s')"
    unfolding GenerateRootCa_def by (auto simp: go_then_Ret_iff on_rand_Ret Let_def)
  note c = create_Ret [OF assms(1) this]
  from c(1) show "may_sign_code c" "x_PublicKey c = Ecdsa_public (Some (ecdsa_PublicKey key))"
    "RawSubject c = xl_Name X \<lparr>CommonName = ''sigstore'', Organization = [''sigstore.dev'']\<rparr>"
    "NotBefore c = seconds (cs_readings s (cs_ticks s) - 5 * Hour)" "NotAfter c = seconds (cs_readings s (Suc (cs_ticks s)) + 5 * Hour)"
    by (simp_all add: as_issued_def may_sign_code_def subject_bytes_def zero_cert_def overridden_def)
  from c(1,3) show "issued_by X c c"
    by (simp add: issued_by_def as_issued_def subject_bytes_def zero_cert_def usage_defs overridden_def)
  from c(4) show "\<exists>r. s' = s\<lparr>cs_ticks := cs_ticks s + 2, cs_rand := r\<rparr>" by auto
qed

lemma subordinate_made:
  assumes "x509_laws X" "GenerateSubordinateCa X parent (Ecdsa_private (Some k)) s = (Ret (c, key), s')"
    and "x_PublicKey parent = Ecdsa_public (Some (ecdsa_PublicKey k))" "issued_by X parent parent" "RawSubject parent \<noteq> []"
  shows "issued_by X c parent" "may_sign_code c" "x_PublicKey c = Ecdsa_public (Some (ecdsa_PublicKey key))"
    and "RawSubject c = xl_Name X \<lparr>CommonName = ''sigstore-sub'', Organization = [''sigstore.dev'']\<rparr>" "RawIssuer c = RawSubject parent"
    and "x_BasicConstraintsValid c \<and> x_IsCA c \<and> x_KeyUsage c AND KeyUsageCertSign \<noteq> 0"
    and "NotBefore c = seconds (cs_readings s (cs_ticks s) - 2 * Minute)" "NotAfter c = seconds (cs_readings s (Suc (cs_ticks s)) + 2 * Hour)"
    and "\<exists>r. s' = s\<lparr>cs_ticks := cs_ticks s + 2, cs_rand := r\<rparr>"
proof -
  from assms(2) have "certify X (zero_cert\<lparr>x_SerialNumber := 1, x_Subject := \<lparr>CommonName = ''sigstore-sub'', Organization = [''sigstore.dev'']\<rparr>,
      NotBefore := cs_readings s (cs_ticks s) + -2 * Minute, NotAfter := cs_readings s (Suc (cs_ticks s)) + 2 * Hour,
      x_KeyUsage := KeyUsageCertSign OR KeyUsageCRLSign, x_ExtKeyUsage := [ExtKeyUsageCodeSigning],
      x_BasicConstraintsValid := True, x_IsCA := True\<rparr>) parent (Ecdsa_private (Some k)) (s\<lparr>cs_ticks := Suc (Suc (cs_ticks s))\<rparr>) = (Ret (c, key), s')"
    unfolding GenerateSubordinateCa_def by (simp add: go_then_def Let_def)
  note c = certify_Ret [OF assms(1) this]
  from c(1) assms(5) show i: "may_sign_code c" "x_PublicKey c = Ecdsa_public (Some (ecdsa_PublicKey key))"
    "RawSubject c = xl_Name X \<lparr>CommonName = ''sigstore-sub'', Organization = [''sigstore.dev'']\<rparr>" "RawIssuer c = RawSubject parent"
    "x_BasicConstraintsValid c \<and> x_IsCA c \<and> x_KeyUsage c AND KeyUsageCertSign \<noteq> 0"
    "NotBefore c = seconds (cs_readings s (cs_ticks s) - 2 * Minute)" "NotAfter c = seconds (cs_readings s (Suc (cs_ticks s)) + 2 * Hour)"
    by (simp_all add: as_issued_def may_sign_code_def subject_bytes_def zero_cert_def usage_defs overridden_def)
  from c(3) i(4) assms(3,4) show "issued_by X c parent" by (simp add: issued_by_def)
  from c(4) show "\<exists>r. s' = s\<lparr>cs_ticks := cs_ticks s + 2, cs_rand := r\<rparr>" by auto
qed

lemma leaf_made:
  assumes "x509_laws X" "GenerateLeafCert X subject issuer parent (Ecdsa_private (Some k)) exts s = (Ret (c, key), s')"
    and "x_PublicKey parent = Ecdsa_public (Some (ecdsa_PublicKey k))" "RawSubject parent \<noteq> []"
    and "x_BasicConstraintsValid parent \<and> x_IsCA parent \<and> x_KeyUsage parent AND KeyUsageCertSign \<noteq> 0"
    and "\<not> overridden exts OIDExtKeyUsage" "\<not> overridden exts OIDBasicConstraints"
  shows "issued_by X c parent" "may_sign_code c" "\<not> x_IsCA c" "set (exts @ [issuer_extension issuer]) \<subseteq> set (Extensions c)"
    and "NotBefore c = seconds (cs_readings s (cs_ticks s) - Minute)" "NotAfter c = seconds (cs_readings s (Suc (cs_ticks s)) + Hour)"
    and "names_issued (zero_cert\<lparr>EmailAddresses := [subject], x_ExtraExtensions := exts @ [issuer_extension issuer]\<rparr>) c"
proof -
  from assms(2) have "certify X (zero_cert\<lparr>x_SerialNumber := 1, EmailAddresses := [subject],
      NotBefore := cs_readings s (cs_ticks s) + -1 * Minute, NotAfter := cs_readings s (Suc (cs_ticks s)) + Hour,
      x_KeyUsage := KeyUsageDigitalSignature, x_ExtKeyUsage := [ExtKeyUsageCodeSigning], x_IsCA := False,
      x_ExtraExtensions := exts @ [issuer_extension issuer]\<rparr>) parent (Ecdsa_private (Some k)) (s\<lparr>cs_ticks := Suc (Suc (cs_ticks s))\<rparr>) = (Ret (c, key), s')"
    unfolding GenerateLeafCert_def by (simp add: go_then_def Let_def)
  note c = certify_Ret [OF assms(1) this]
  have o: "\<not> overridden (exts @ [issuer_extension issuer]) OIDExtKeyUsage" "\<not> overridden (exts @ [issuer_extension issuer]) OIDBasicConstraints"
    using assms(6,7) by (auto simp: overridden_def issuer_extension_def oid_defs)
  from c(1) o show "may_sign_code c" "\<not> x_IsCA c" "set (exts @ [issuer_extension issuer]) \<subseteq> set (Extensions c)"
    "NotBefore c = seconds (cs_readings s (cs_ticks s) - Minute)" "NotAfter c = seconds (cs_readings s (Suc (cs_ticks s)) + Hour)"
    by (simp_all add: as_issued_def may_sign_code_def zero_cert_def usage_defs)
  from c(1,3) assms(3,4,5) show "issued_by X c parent" by (simp add: issued_by_def as_issued_def subject_bytes_def)
  from c(2) show "names_issued (zero_cert\<lparr>EmailAddresses := [subject], x_ExtraExtensions := exts @ [issuer_extension issuer]\<rparr>) c"
    by (simp add: names_issued_def zero_cert_def)
qed

section \<open>Properties\<close>

text \<open>C23: the chain that the usage notes of the file build: a root, a subordinate authority made with the root's certificate and
  key, and a leaf made with those of the subordinate.  Unless the caller's extra extensions replace the extended key usage or
  the basic constraints of the leaf, it is a valid chain for code signing, as \<open>chain_ok\<close> has it, at any time from the
  making of the leaf until an hour, less the second that encoding cuts off, after the making of the root,
  if the clock does not run backwards; the leaf has expired an hour after it was made.  The leaf carries the OIDC issuer
  and is no authority, and the reader of the Fulcio roots puts the first certificate into the pool of roots and the second
  into that of the intermediates.\<close>

theorem generated_chain:
  assumes "x509_laws X" "mono (cs_readings s)"
    and "GenerateRootCa X s = (Ret (root, rootKey), s1)"
    and "GenerateSubordinateCa X root (Ecdsa_private (Some rootKey)) s1 = (Ret (sub, subKey), s2)"
    and "GenerateLeafCert X subject issuer sub (Ecdsa_private (Some subKey)) exts s2 = (Ret (leaf, leafKey), s3)"
    and "\<not> overridden exts OIDExtKeyUsage" "\<not> overridden exts OIDBasicConstraints"
  shows "(\<forall>epoch. cs_readings s (cs_ticks s + 5) \<le> epoch \<and> epoch \<le> cs_readings s (cs_ticks s + 1) + Hour - Second \<longrightarrow>
      chain_ok X epoch [leaf, sub, root]) \<and>
    (\<forall>epoch. cs_readings s (cs_ticks s + 5) + Hour < epoch \<longrightarrow> \<not> chain_ok X epoch [leaf, sub, root]) \<and>
    issuer_extension issuer \<in> set (Extensions leaf) \<and> \<not> x_IsCA leaf \<and>
    sort_certs [certificate.truncate root, certificate.truncate sub] ([], []) = ([certificate.truncate root], [certificate.truncate sub])"
proof -
  define reading where "reading i = cs_readings s (cs_ticks s + i)" for i
  note r = root_made [OF assms(1,3)]
  have names: "xl_Name X n \<noteq> []" "CommonName m \<noteq> CommonName n \<Longrightarrow> xl_Name X m \<noteq> xl_Name X n" for m n
    using assms(1) by (simp_all add: x509_laws_def)
  from r(4) names(1) have "RawSubject root \<noteq> []" by simp
  note u = subordinate_made [OF assms(1,4) r(3,1) this]
  from u(4) names(1) have "RawSubject sub \<noteq> []" by simp
  note l = leaf_made [OF assms(1,5) u(3) this u(6) assms(6,7)]
  obtain r1 r2 where s: "s1 = s\<lparr>cs_ticks := cs_ticks s + 2, cs_rand := r1\<rparr>" "s2 = s1\<lparr>cs_ticks := cs_ticks s1 + 2, cs_rand := r2\<rparr>"
    using r(7) u(9) by blast
  have t: "NotBefore root = seconds (reading 0 - 5 * Hour)" "NotAfter root = seconds (reading 1 + 5 * Hour)"
    "NotBefore sub = seconds (reading 2 - 2 * Minute)" "NotAfter sub = seconds (reading 3 + 2 * Hour)"
    "NotBefore leaf = seconds (reading 4 - Minute)" "NotAfter leaf = seconds (reading 5 + Hour)"
    using r(5,6) u(7,8) l(5,6) by (simp_all add: s reading_def eval_nat_numeral)
  have m: "reading i \<le> reading j" if "i \<le> j" for i j
    using assms(2) that by (simp add: reading_def mono_def)
  have valid: "valid_now root epoch" "valid_now sub epoch" "valid_now leaf epoch"
    if "reading 5 \<le> epoch" "epoch \<le> reading 1 + Hour - Second" for epoch
    using that m [of 0 5] m [of 2 5] m [of 4 5] m [of 1 3] m [of 1 5] seconds_bounds [of "reading 0 - 5 * Hour"]
      seconds_bounds [of "reading 1 + 5 * Hour"] seconds_bounds [of "reading 2 - 2 * Minute"] seconds_bounds [of "reading 3 + 2 * Hour"]
      seconds_bounds [of "reading 4 - Minute"] seconds_bounds [of "reading 5 + Hour"]
    by (simp_all add: valid_now_iff t time_defs)
  have "\<not> valid_now leaf epoch" if "reading 5 + Hour < epoch" for epoch
    using that seconds_bounds [of "reading 5 + Hour"] by (simp add: valid_now_iff t)
  moreover have "RawSubject root = RawIssuer root" "RawSubject sub \<noteq> RawIssuer sub"
    using r(1) by (simp_all add: issued_by_def u(4,5) r(4) names(2))
  ultimately show ?thesis using valid r(1,2) u(1,2) l(1,2,3,4) by (auto simp: self_signed_def reading_def)
qed

lemma names_read:
  assumes "\<exists>es. Extensions c = map encode_extension es \<and> list_all wf_extension es \<and> extension_values es = ns"
  shows "UnmarshalOtherNameSAN A (Extensions c) = (case ns of [] \<Rightarrow> Err (Msg ''no OtherName found'') | [n] \<Rightarrow> Ret n
      | _ \<Rightarrow> Err (Msg ''expected only one OtherName''))"
proof -
  from assms obtain es where es: "Extensions c = map encode_extension es" "list_all wf_extension es" "extension_values es = ns" by blast
  then show ?thesis by (simp add: UnmarshalOtherNameSAN_def san_extensions_encoded split: list.splits)
qed

text \<open>The names of a leaf are those it was made with.  With an OtherName among the extra extensions it is the only name:
  the subject is not in the certificate.\<close>

theorem generated_names:
  assumes "x509_laws X"
  shows "GenerateLeafCertWithSubjectAlternateNames X dns emails ips uris issuer parent (Ecdsa_private (Some k)) s = (Ret (c, key), s') \<Longrightarrow>
      GetSubjectAlternateNames A (certificate.truncate c) = Ret (dns @ emails @ ips @ uris)"
    and "MarshalOtherNameSAN name critical = Ret e \<Longrightarrow> utf8_Valid (bytes_of name) \<Longrightarrow> length name < 2 ^ 31 - 256 \<Longrightarrow> name \<noteq> [] \<Longrightarrow>
      GenerateLeafCert X subject issuer parent (Ecdsa_private (Some k)) [e] s = (Ret (c, key), s') \<Longrightarrow>
      GetSubjectAlternateNames A (certificate.truncate c) = Ret [name]"
proof -
  have i: "ext_Id (issuer_extension issuer) \<noteq> SANOID" by (simp add: issuer_extension_def SANOID_def)
  show "GetSubjectAlternateNames A (certificate.truncate c) = Ret (dns @ emails @ ips @ uris)"
    if g: "GenerateLeafCertWithSubjectAlternateNames X dns emails ips uris issuer parent (Ecdsa_private (Some k)) s = (Ret (c, key), s')"
  proof -
    obtain t s1 where "certify X t parent (Ecdsa_private (Some k)) s1 = (Ret (c, key), s')"
      and t: "x_ExtraExtensions t = [issuer_extension issuer]" "DNSNames t = dns" "EmailAddresses t = emails" "IPAddresses t = ips" "URIs t = uris"
      using g unfolding GenerateLeafCertWithSubjectAlternateNames_def by (auto simp: go_then_def Let_def)
    from certify_Ret(2) [OF assms this(1)] i have "\<exists>es. Extensions c = map encode_extension es \<and> list_all wf_extension es \<and> extension_values es = []"
      "DNSNames c = dns" "EmailAddresses c = emails" "IPAddresses c = ips" "URIs c = uris"
      by (simp_all add: names_issued_def t)
    with names_read [OF this(1)] show ?thesis by (simp add: GetSubjectAlternateNames_def)
  qed
  show "GetSubjectAlternateNames A (certificate.truncate c) = Ret [name]"
    if m: "MarshalOtherNameSAN name critical = Ret e" and u: "utf8_Valid (bytes_of name)" "length name < 2 ^ 31 - 256" "name \<noteq> []"
      and g: "GenerateLeafCert X subject issuer parent (Ecdsa_private (Some k)) [e] s = (Ret (c, key), s')"
  proof -
    have e: "e = encode_extension (Names critical [Other name])"
      using m by (simp add: MarshalOtherNameSAN_Ret encode_names_def)
    have "length (other_name name) \<le> length name + 34" using length_other_name_le u(2) by simp
    with length_der [of "other_name name" 0 True TagSequence] u have wf: "wf_extension (Names critical [Other name])"
      by (simp add: encode_names_def)
    obtain t s1 where "certify X t parent (Ecdsa_private (Some k)) s1 = (Ret (c, key), s')"
      and t: "x_ExtraExtensions t = [e, issuer_extension issuer]"
      using g unfolding GenerateLeafCert_def by (auto simp: go_then_def Let_def)
    moreover have "filter (\<lambda>e. ext_Id e = SANOID) (x_ExtraExtensions t) = [encode_extension (Names critical [Other name])]"
      using i by (simp add: t e)
    ultimately have "\<exists>es. Extensions c = map encode_extension es \<and> list_all wf_extension es \<and> extension_values es = [name]"
      "DNSNames c = []" "EmailAddresses c = []" "IPAddresses c = []" "URIs c = []"
      using certify_Ret(2) [OF assms] wf unfolding names_issued_def by blast+
    with names_read [OF this(1)] u(3) show ?thesis by (simp add: GetSubjectAlternateNames_def)
  qed
qed

section \<open>A concrete library\<close>

text \<open>An encoding of the fields of a certificate; keys and signatures are numbers.  An extra extension of basic constraints
  makes an authority, one of key usages allows nothing, one of extended key usages everything.\<close>

definition c_extension :: "pkix_Extension codec" where
  "c_extension = c_map (\<lambda>e. (ext_Id e, ext_Critical e, ext_Value e)) (\<lambda>(a, b, c). \<lparr>ext_Id = a, ext_Critical = b, ext_Value = c\<rparr>)
     (c_pair (c_list c_nat) (c_pair c_bool c_bytes))"

definition c_name :: "pkix_Name codec" where
  "c_name = c_map (\<lambda>n. (CommonName n, Organization n)) (\<lambda>(a, b). \<lparr>CommonName = a, Organization = b\<rparr>)
     (c_pair c_string (c_list c_string))"

type_synonym cert_fields = "(bytes \<times> bytes \<times> int \<times> int) \<times> (string list \<times> string list \<times> string list \<times> string list) \<times>
  (pkix_Extension list \<times> int \<times> int list \<times> bool \<times> bool) \<times> (int \<times> int) \<times> int"

definition c_fields :: "cert_fields codec" where
  "c_fields = c_pair (c_pair c_bytes (c_pair c_bytes (c_pair c_int c_int)))
     (c_pair (c_pair (c_list c_string) (c_pair (c_list c_string) (c_pair (c_list c_string) (c_list c_string))))
     (c_pair (c_pair (c_list c_extension) (c_pair c_int (c_pair (c_list c_int) (c_pair c_bool c_bool))))
     (c_pair (c_pair c_int c_int) c_int)))"

lemma codec_extension [simp]: "codec c_extension" "codec c_name"
  unfolding c_extension_def c_name_def by (rule codec_map; simp)+

lemma codec_fields: "codec c_fields"
  by (simp add: c_fields_def)

definition fields_of :: "bytes \<Rightarrow> bytes \<Rightarrow> x509_cert \<Rightarrow> ecdsa_pub \<Rightarrow> int \<Rightarrow> cert_fields" where
  "fields_of subject issuer t p sg =
     (let own = (\<lambda>names. if \<forall>e \<in> set (x_ExtraExtensions t). ext_Id e \<noteq> SANOID then names else [])
      in ((subject, issuer, seconds (NotBefore t), seconds (NotAfter t)),
          (own (DNSNames t), own (EmailAddresses t), own (IPAddresses t), own (URIs t)),
          (x_ExtraExtensions t, if overridden (x_ExtraExtensions t) OIDKeyUsage then 0 else x_KeyUsage t mod 512,
             if overridden (x_ExtraExtensions t) OIDExtKeyUsage then [] else x_ExtKeyUsage t,
             overridden (x_ExtraExtensions t) OIDBasicConstraints \<or> x_BasicConstraintsValid t,
             overridden (x_ExtraExtensions t) OIDBasicConstraints \<or> x_BasicConstraintsValid t \<and> x_IsCA t),
          (ecdsa_X p, ecdsa_Y p), sg))"

fun cert_of :: "bytes \<Rightarrow> cert_fields \<Rightarrow> x509_cert" where
  "cert_of raw ((subject, issuer, notBefore, notAfter), (dns, emails, ips, uris), (exts, usage, extUsage, valid, ca), (x, y), sg) =
     \<lparr>cert_Raw = raw, RawSubject = subject, RawIssuer = issuer, NotBefore = notBefore, NotAfter = notAfter, DNSNames = dns,
      EmailAddresses = emails, IPAddresses = ips, URIs = uris, Extensions = exts, x_SerialNumber = 1, x_Subject = no_name,
      x_KeyUsage = usage, x_ExtKeyUsage = extUsage, x_BasicConstraintsValid = valid, x_IsCA = ca, x_ExtraExtensions = [],
      x_PublicKey = Ecdsa_public (Some \<lparr>ecdsa_Curve = P256, ecdsa_X = x, ecdsa_Y = y\<rparr>), x_Signature = bytes_of (to_text c_int sg)\<rparr>"

definition ref_name :: "pkix_Name \<Rightarrow> bytes" where "ref_name n = bytes_of (to_text c_name n)"

definition ref_key :: "nat \<Rightarrow> ecdsa_priv" where
  "ref_key r = \<lparr>ecdsa_PublicKey = \<lparr>ecdsa_Curve = P256, ecdsa_X = int r, ecdsa_Y = 1\<rparr>, ecdsa_D = int r\<rparr>"

definition ref_create :: "x509_cert \<Rightarrow> x509_cert \<Rightarrow> public_key \<Rightarrow> private_key \<Rightarrow> (nat, bytes) step" where
  "ref_create t parent pub priv r = (case (pub, priv) of
       (Ecdsa_public (Some p), Ecdsa_private (Some k)) \<Rightarrow>
         (let name = (\<lambda>c. if RawSubject c = [] then ref_name (x_Subject c) else RawSubject c)
          in (if ecdsa_Curve p \<noteq> P256 then Err (Msg ''unsupported curve'')
              else Ret (bytes_of (to_text c_fields (fields_of (name t) (name parent) t p (ecdsa_X (ecdsa_PublicKey k))))), Suc r))
     | _ \<Rightarrow> (Err (Msg ''unsupported key''), r))"

definition ref_x509 :: "nat x509_lib" where
  "ref_x509 = \<lparr>xl_GenerateKey = (\<lambda>c r. (Ret (ref_key r), Suc r)), xl_CreateCertificate = ref_create,
     xl_ParseCertificate = (\<lambda>b. and_then (from_text c_fields (string_of b)) (\<lambda>x. Ret (cert_of b x))),
     xl_CheckSignature = (\<lambda>pub c. case pub of
        Ecdsa_public (Some p) \<Rightarrow> x_Signature c = bytes_of (to_text c_int (ecdsa_X p)) | _ \<Rightarrow> False),
     xl_Name = ref_name\<rparr>"

lemma only_other_name:
  assumes "\<forall>e \<in> set es. ext_Id e = SANOID \<longrightarrow> e = encode_extension (Names critical [Other n])" "wf_extension (Names critical [Other n])"
  defines "f \<equiv> \<lambda>e. if ext_Id e = SANOID then Names critical [Other n] else Foreign e"
  shows "map (encode_extension \<circ> f) es = es \<and> list_all wf_extension (map f es) \<and>
    extension_values (map f es) = replicate (length (filter (\<lambda>e. ext_Id e = SANOID) es)) n"
  using assms(1) by (induction es) (use assms(2) in \<open>auto simp: f_def\<close>)

lemma ref_names_issued: "names_issued t (cert_of raw (fields_of subject issuer t p sg))"
proof -
  let ?x = "x_ExtraExtensions t"
  have "\<exists>es. ?x = map encode_extension es \<and> list_all wf_extension es \<and> extension_values es = []"
    if "\<forall>e \<in> set ?x. ext_Id e \<noteq> SANOID"
  proof -
    have "extension_values (map Foreign es) = []" for es by (induction es) simp_all
    moreover have "?x = map encode_extension (map Foreign ?x)" by (simp add: comp_def)
    moreover have "list_all wf_extension (map Foreign ?x)" using that by (simp add: list_all_iff)
    ultimately show ?thesis by blast
  qed
  moreover have "(\<exists>es. ?x = map encode_extension es \<and> list_all wf_extension es \<and> extension_values es = [n]) \<and>
      \<not> (\<forall>e \<in> set ?x. ext_Id e \<noteq> SANOID)"
    if f: "filter (\<lambda>e. ext_Id e = SANOID) ?x = [encode_extension (Names critical [Other n])]"
      and wf: "wf_extension (Names critical [Other n])" for critical n
  proof -
    have "e = encode_extension (Names critical [Other n])" if "e \<in> set ?x" "ext_Id e = SANOID" for e
    proof -
      from that have "e \<in> set (filter (\<lambda>e. ext_Id e = SANOID) ?x)" by simp
      then show ?thesis unfolding f by simp
    qed
    with only_other_name [OF _ wf, of ?x] f have "?x = map encode_extension (map (\<lambda>e. if ext_Id e = SANOID then Names critical [Other n] else Foreign e) ?x) \<and>
      list_all wf_extension (map (\<lambda>e. if ext_Id e = SANOID then Names critical [Other n] else Foreign e) ?x) \<and>
      extension_values (map (\<lambda>e. if ext_Id e = SANOID then Names critical [Other n] else Foreign e) ?x) = [n]" by simp
    moreover have "\<exists>e \<in> set ?x. ext_Id e = SANOID" using f by (metis (mono_tags) filter_False list.distinct(1))
    ultimately show ?thesis by blast
  qed
  ultimately show ?thesis by (simp add: names_issued_def fields_of_def Let_def)
qed

lemma to_text_inj: "codec c \<Longrightarrow> to_text c x = to_text c y \<longleftrightarrow> x = y"
  by (metis from_to_text outcome.inject(1))

lemma to_text_not_Nil: "codec c \<Longrightarrow> to_text c x \<noteq> []"
  by (metis from_to_text from_text_empty outcome.distinct(1))

lemma ref_x509_laws: "x509_laws ref_x509"
proof -
  have "as_issued ref_x509 t parent pub c \<and> names_issued t c \<and> xl_CheckSignature ref_x509 (Ecdsa_public (Some (ecdsa_PublicKey k))) c"
    if m: "xl_CreateCertificate ref_x509 t parent pub (Ecdsa_private (Some k)) r = (Ret b, r')" and p: "xl_ParseCertificate ref_x509 b = Ret c"
    for t parent pub k r b r' c
  proof -
    from m obtain q where q: "pub = Ecdsa_public (Some q)" "ecdsa_Curve q = P256"
      and b: "b = bytes_of (to_text c_fields (fields_of (subject_bytes ref_x509 t) (subject_bytes ref_x509 parent) t q (ecdsa_X (ecdsa_PublicKey k))))"
      by (auto simp: ref_x509_def ref_create_def subject_bytes_def Let_def split: public_key.splits option.splits if_splits)
    from p have c: "c = cert_of b (fields_of (subject_bytes ref_x509 t) (subject_bytes ref_x509 parent) t q (ecdsa_X (ecdsa_PublicKey k)))"
      by (simp add: ref_x509_def b from_to_text codec_fields)
    have "\<lparr>ecdsa_Curve = P256, ecdsa_X = ecdsa_X q, ecdsa_Y = ecdsa_Y q\<rparr> = q" using q(2) by (cases q) simp
    then show ?thesis by (simp add: c ref_names_issued) (simp add: as_issued_def fields_of_def Let_def q(1) ref_x509_def)
  qed
  moreover have "xl_Name ref_x509 n \<noteq> []" for n
    using to_text_not_Nil [of c_name n] by (simp add: ref_x509_def ref_name_def bytes_of_def)
  moreover have "xl_Name ref_x509 m \<noteq> xl_Name ref_x509 n" if "CommonName m \<noteq> CommonName n" for m n
    using that to_text_inj [of c_name m n] by (auto simp: ref_x509_def ref_name_def)
  ultimately show ?thesis unfolding x509_laws_def by blast
qed

definition ref_certs :: "nat cert_state" where
  "ref_certs = \<lparr>cs_readings = int, cs_ticks = 0, cs_rand = 0\<rparr>"

lemma ref_create_runs:
  assumes "ecdsa_Curve p = P256"
  shows "\<exists>c s'. createCertificate ref_x509 t parent (Ecdsa_public (Some p)) (Ecdsa_private (Some k)) s = (Ret c, s')"
  using assms by (simp add: createCertificate_def go_then_def on_rand_def ref_x509_def ref_create_def Let_def from_to_text codec_fields)

lemma ref_key_runs: "on_rand (xl_GenerateKey ref_x509 P256) s = (Ret (ref_key (cs_rand s)), s\<lparr>cs_rand := Suc (cs_rand s)\<rparr>)"
  by (simp add: on_rand_def ref_x509_def)

lemma ref_curve: "ecdsa_Curve (ecdsa_PublicKey (ref_key r)) = P256"
  by (simp add: ref_key_def)

lemma ref_certify_runs: "\<exists>c key s'. certify ref_x509 t parent (Ecdsa_private (Some k)) s = (Ret (c, key), s')"
proof -
  obtain c s' where "createCertificate ref_x509 t parent (Ecdsa_public (Some (ecdsa_PublicKey (ref_key (cs_rand s))))) (Ecdsa_private (Some k))
      (s\<lparr>cs_rand := Suc (cs_rand s)\<rparr>) = (Ret c, s')"
    using ref_create_runs [OF ref_curve] by metis
  then show ?thesis by (simp add: certify_def go_then_def ref_key_runs)
qed

lemma ref_root_runs: "\<exists>c key s'. GenerateRootCa ref_x509 s = (Ret (c, key), s')"
proof -
  let ?t = "zero_cert\<lparr>x_SerialNumber := 1, x_Subject := \<lparr>CommonName = ''sigstore'', Organization = [''sigstore.dev'']\<rparr>,
    NotBefore := cs_readings s (cs_ticks s) + -5 * Hour, NotAfter := cs_readings s (Suc (cs_ticks s)) + 5 * Hour,
    x_KeyUsage := KeyUsageCertSign OR KeyUsageCRLSign, x_BasicConstraintsValid := True, x_IsCA := True\<rparr>"
  obtain c s' where "createCertificate ref_x509 ?t ?t (Ecdsa_public (Some (ecdsa_PublicKey (ref_key (cs_rand s))))) (Ecdsa_private (Some (ref_key (cs_rand s))))
      (s\<lparr>cs_ticks := Suc (Suc (cs_ticks s)), cs_rand := Suc (cs_rand s)\<rparr>) = (Ret c, s')"
    using ref_create_runs [OF ref_curve] by metis
  then show ?thesis by (simp add: GenerateRootCa_def go_then_def ref_key_runs Let_def)
qed

lemma ref_chain_runs:
  "\<exists>c key s'. GenerateSubordinateCa ref_x509 parent (Ecdsa_private (Some k)) s = (Ret (c, key), s')"
  "\<exists>c key s'. GenerateLeafCert ref_x509 subject issuer parent (Ecdsa_private (Some k)) exts s = (Ret (c, key), s')"
  "\<exists>c key s'. GenerateLeafCertWithSubjectAlternateNames ref_x509 dns emails ips uris issuer parent (Ecdsa_private (Some k)) s = (Ret (c, key), s')"
  by (simp_all add: GenerateSubordinateCa_def GenerateLeafCert_def GenerateLeafCertWithSubjectAlternateNames_def go_then_def Let_def ref_certify_runs)

theorem generated_chain_witness:
  "\<exists>root sub leaf. chain_ok ref_x509 5 [leaf, sub, root] \<and> \<not> chain_ok ref_x509 (6 + Hour) [leaf, sub, root] \<and> \<not> x_IsCA leaf"
proof -
  obtain root rk s1 where r: "GenerateRootCa ref_x509 ref_certs = (Ret (root, rk), s1)" using ref_root_runs by blast
  obtain sub sk s2 where u: "GenerateSubordinateCa ref_x509 root (Ecdsa_private (Some rk)) s1 = (Ret (sub, sk), s2)" using ref_chain_runs(1) by blast
  obtain leaf lk s3 where l: "GenerateLeafCert ref_x509 ''someone@example.test'' ''https://issuer.test'' sub (Ecdsa_private (Some sk)) [] s2 = (Ret (leaf, lk), s3)"
    using ref_chain_runs(2) by blast
  have "mono (cs_readings ref_certs)" by (simp add: ref_certs_def mono_def)
  from generated_chain [OF ref_x509_laws this r u l]
  have "chain_ok ref_x509 5 [leaf, sub, root]" "\<not> chain_ok ref_x509 (6 + Hour) [leaf, sub, root]" "\<not> x_IsCA leaf"
    by (simp_all add: ref_certs_def time_defs overridden_def del: chain_ok.simps)
  then show ?thesis by blast
qed

theorem generated_names_witness:
  "\<exists>c key s'. GenerateLeafCertWithSubjectAlternateNames ref_x509 [''a.test''] [''b@a.test''] [] [] ''https://issuer.test'' zero_cert
      (Ecdsa_private (Some (ref_key 7))) ref_certs = (Ret (c, key), s') \<and>
    GetSubjectAlternateNames no_legacy (certificate.truncate c) = Ret [''a.test'', ''b@a.test'']"
proof -
  obtain c key s' where "GenerateLeafCertWithSubjectAlternateNames ref_x509 [''a.test''] [''b@a.test''] [] [] ''https://issuer.test'' zero_cert
      (Ecdsa_private (Some (ref_key 7))) ref_certs = (Ret (c, key), s')"
    using ref_chain_runs(3) by blast
  with generated_names(1) [OF ref_x509_laws this] show ?thesis by auto
qed

end
