(* ===== verification/Spec2Isabelle.thy ===== *)
theory Spec2Isabelle
  imports Dsse Payload Tuf Azure Gcp Aws Vault Providers DeviceFlow Redirect Ssh FulcioRoots Sans LocalKms Tink TestCerts
begin

text \<open>
  A verification library for sigstore's Go libraries: signing and verifying, DSSE envelopes, cosign payloads,
  SSH signatures, keys and certificates, the key management providers and their plugins, the TUF client
  and the Fulcio roots, and the OAuth flows.  This theory imports all others; each property is stated in
  the theory of the component it is about, and those that span components in the one that is composed of them.

  \<^bold>\<open>The program.\<close>  Everything turns on two interfaces of \<open>pkg/signature\<close>: a signer, which signs a message read
  from a stream, and a verifier.  Chains of functional options (\<open>pkg/signature/options\<close>) say how.  Implementations
  are keys in memory (ECDSA, RSA, Ed25519), keys held by a service (\<open>pkg/signature/kms\<close>: Azure, Google, AWS, Vault,
  an in-memory one, and programs run as plugins) and keys of other systems (\<open>ssh\<close>, \<open>tink\<close>).  Loaders choose
  an implementation for a key; \<open>dsse\<close> and \<open>payload\<close> are built from signers and verifiers again.
  \<open>pkg/cryptoutils\<close> turns keys and certificates into PEM and back, \<open>pkg/tuf\<close> fetches trusted files with the
  go-tuf client and caches them, \<open>pkg/fulcioroots\<close> makes certificate pools of them, and \<open>pkg/oauth\<close> and
  \<open>pkg/oauthflow\<close> obtain the identity tokens a signer is certified with.

  \<^bold>\<open>How it is modelled.\<close>  A Go call is a function to an \<open>outcome\<close>: a result, an error or a panic
  (\<open>Prelude\<close>).  A stateful call is a step, a function from a state to an outcome and the next state,
  and \<open>go_then\<close> is sequencing with the early return on an error.  A nil pointer is \<open>None\<close>, and
  following it is the panic it is in Go.  \<open>World\<close> is the state that calls share: streams, which are drained as
  they are read, and the cells behind shared pointers.  Machine integers are words where they can
  wrap (\<open>OAuthToken\<close>, \<open>DeviceFlow\<close>, \<open>Gcp\<close>), natural numbers and integers elsewhere.  A string is its bytes.  Errors keep the
  constant part of their text and what they wrap.

  Code outside the repository is a parameter: a record of functions, with the documented contract it is
  relied on for as a predicate (\<open>lib_laws\<close>, \<open>pem_laws\<close>, \<open>der_laws\<close>, \<open>tuf_laws\<close>, \<open>dsse_laws\<close>, \<open>json_laws\<close>, \<open>ssh_laws\<close>,
  \<open>ttl_laws\<close>, \<open>pkcs1_laws\<close> and others).  Each such record has a concrete instance, named \<open>ref_\<close>, that satisfies its
  contract; the witnesses of the properties are evaluated on these.  What the code uses of Go's standard
  library is modelled where it matters: numbers (\<open>BigInt\<close>, \<open>Decimal\<close>), base64 (\<open>Base64\<close>), paths
  (\<open>Paths\<close>), regular expressions (\<open>Regex\<close>), DER elements and UTF-8 (\<open>Asn1\<close>).

  \<^bold>\<open>Theories.\<close>
  \<^item> \<open>Prelude\<close>, \<open>CryptoLib\<close>, \<open>World\<close>, \<open>Pki\<close>, \<open>Codec\<close> and the theories of the standard library above: the shared
    vocabulary, lemmas and parameters.
  \<^item> \<open>Options\<close> (\<open>options.go\<close>, \<open>options/*.go\<close>): every option and every \<open>Apply\<close> method; the locale \<open>setter_option\<close>
    says that in a chain the last setter wins.  \<open>Message\<close> (\<open>message.go\<close>): which digest is signed and verified.
  \<^item> \<open>Signing\<close>: the contracts of verifiers and of pairs of a signer and a verifier as locales
    (\<open>verifier_contract\<close>, \<open>signature_scheme\<close>, \<open>digest_scheme\<close>), with what follows for readers, byte
    strings and options.  \<open>SignerECDSA\<close>, \<open>SignerRSA\<close>, \<open>SignerEd25519\<close> (\<open>ecdsa.go\<close>, \<open>rsapss.go\<close>, \<open>rsapkcs1v15.go\<close>,
    \<open>ed25519.go\<close>, \<open>ed25519ph.go\<close>) interpret them; \<open>Loaders\<close> (\<open>signer.go\<close>, \<open>verifier.go\<close>, \<open>signerverifier.go\<close>, \<open>util.go\<close>) has the
    sum of all five and interprets them again.  \<open>AlgorithmRegistry\<close> (\<open>algorithm_registry.go\<close>) is the table of algorithms.
  \<^item> \<open>Dsse\<close>, \<open>Payload\<close>, \<open>Ssh\<close>, \<open>Tink\<close>: the packages of these names.
  \<^item> \<open>CryptoUtils\<close>, \<open>Sans\<close> (\<open>pkg/cryptoutils\<close>): PEM, key equality, expiration and passwords; the OtherName of
    subject alternative names.
  \<^item> \<open>TufTypes\<close>, \<open>Tuf\<close> (\<open>pkg/tuf\<close>): enumerations and the client.  The state has the process-wide singleton, its
    \<open>sync.Once\<close>, the environment, the disk and the metadata databases.  \<open>target_cache\<close> is the locale of the two
    caches; \<open>tuf_step\<close> is the relation of all calls, over which the invariants are proved.
    \<open>FulcioRoots\<close> (\<open>pkg/fulcioroots\<close>) stands on it.
  \<^item> \<open>TestCerts\<close> (\<open>test/cert_utils.go\<close>): the certificate chains tests are made with, over a clock and a source of
    randomness; the chain they form is valid, and \<open>FulcioRoots\<close>, \<open>CryptoUtils\<close> and \<open>Sans\<close> read it as intended.
  \<^item> \<open>Kms\<close> (\<open>kms.go\<close>, \<open>fake\<close>): the registry and the in-memory provider; the locale \<open>caching_client\<close> is the contract of the
    clients that cache a key for five minutes.  \<open>Azure\<close>, \<open>Gcp\<close>, \<open>Aws\<close> and \<open>Vault\<close> interpret it.
    \<open>Providers\<close> (the \<open>init\<close> functions, \<open>gcp/option.go\<close>) is a program that links them all: what \<open>kms.Get\<close> loads for a
    key reference, from a registered provider or a plugin.
  \<^item> \<open>CliPlugin\<close> and \<open>PluginHandler\<close> (\<open>cliplugin\<close>): the two ends of the plugin protocol.  A run of the
    program is a function on the state of its process; \<open>plugin_scheme\<close> is the locale of implementations that
    accept what they sign, and gives the same for their clients.  \<open>LocalKms\<close> (\<open>test/cliplugin/localkms\<close>) is the
    plugin of the repository.
  \<^item> \<open>OAuthToken\<close> (\<open>pkg/oauth/internal\<close>), \<open>Oidc\<close> (\<open>pkg/oauth/oidc\<close>), \<open>OAuthFlow\<close> and \<open>DeviceFlow\<close> (\<open>pkg/oauthflow\<close>):
    token responses, proof keys, the interactive flows, and the device and client credentials grants.
    \<open>SuccessPage\<close> (\<open>pkg/oauth/interactive.go\<close>) is the page a browser shows at the end, with the template it is made of.
    \<open>Redirect\<close> is the concurrent part of the interactive flow, the goroutines and their channels,
    as a step relation; its runs refine the functional model of \<open>Oidc\<close>, which sees the one event that is received.

  \<^bold>\<open>What is shown.\<close> Round trips: what is signed verifies, for every loaded key whose halves
  belong together, for envelopes, images, SSH keys and plugins, the last through both ends of the protocol and
  the processes in between; keys, certificates and names survive their encodings.  Of the services only what is
  asked of them and what becomes of their answers is stated: what AWS signed is what AWS is asked to verify, and
  its answer is the caller's.  Safety: a verifier that accepts has checked the message, the target handed out or
  the token returned against what it has to.  Invariants of processes: the TUF singleton, the Fulcio roots, the
  key files.  Refinement: a plugin does what it wraps, in each of its six methods, up to errors without a text,
  the default loader what the registry says, and the goroutines what the functional model says.  Termination:
  reading certificates and names ends on every input; the polling of the device grant ends exactly when the
  endpoint gives a final answer.  Errors and bounds: which calls panic, which lifetimes wrap.  Where the code
  does not do what it means to, the property states what it does do.

  \<^bold>\<open>Loops and bounds.\<close>  There is no fuel.  Loops that consume their input are functions with a termination
  proof; those whose end depends on a parameter (reading PEM blocks, polling) are partial functions to an
  option, with a theorem saying when they return.  The five minutes of the key caches are the 300 seconds of the code,
  the 120 seconds of the listener an event, and lengths in DER below two to the 31 the limit of Go's parser.

  \<^bold>\<open>Not modelled.\<close>  Terminal output other than the printer of the device grant, and logs;
  cancellation of contexts in the middle of a call, contexts are looked at where the code does; locks, since
  every call is one step outside \<open>Redirect\<close>; the test repository of \<open>pkg/tuf\<close> (\<open>testutils.go\<close>), which calls
  libraries in sequence, fuzzing and build tools.  Tests are not modelled, except the plugin above, which is the only
  program there is, and the test certificates.
\<close>

end
